(* ===== verification/Rk_Prelude.thy ===== *)
theory Rk_Prelude
  imports Main "HOL-Library.Word"
begin

text \<open>
  Shared vocabulary of the development: the machine integers of the eBPF programs, little-endian
  byte encodings (both supported architectures, x86-64 and arm64, are little-endian, so the ABI's
  "host byte order" is this one), and writes into a byte area at an offset, which is how the
  programs fill the scratch message.  The collections declared here carry the component proofs:
  \<open>byte_simps\<close> for byte areas, \<open>pod_simps\<close> for encoders.
\<close>

unbundle bit_operations_syntax

named_theorems byte_simps \<open>rewriting of byte areas\<close>
named_theorems pod_simps \<open>definitions of the fixed-size encoders\<close>


type_synonym u8 = "8 word"
type_synonym u16 = "16 word"
type_synonym u32 = "32 word"
type_synonym u64 = "64 word"
type_synonym s32 = "32 word"  \<comment> \<open>C \<open>int\<close>, two's complement; \<open>sint\<close> reads it\<close>
type_synonym bytes = "u8 list"

subsection \<open>Little-endian encoding\<close>

primrec le :: "nat \<Rightarrow> 'a::len word \<Rightarrow> bytes" where
  "le 0 w = []"
| "le (Suc n) w = ucast w # le n (drop_bit 8 w)"

primrec unle :: "bytes \<Rightarrow> 'a::len word" where
  "unle [] = 0"
| "unle (b # bs) = ucast b OR push_bit 8 (unle bs)"

lemma le_0: "le n 0 = replicate n 0"
  by (induction n) simp_all

lemma length_le [simp]: "length (le n w) = n"
  by (induction n arbitrary: w) simp_all

lemma le_ucast_drop: "ucast (ucast w :: u8) OR push_bit 8 (take_bit n (drop_bit 8 w))
    = take_bit (8 + n) (w :: 'a::len word)"
  by (rule bit_word_eqI) (auto simp: bit_simps)

lemma unle_le: "unle (le n w) = take_bit (8 * n) (w :: 'a::len word)"
proof (induction n arbitrary: w)
  case (Suc n)
  have "unle (le (Suc n) w) = ucast (ucast w :: u8) OR push_bit 8 (take_bit (8 * n) (drop_bit 8 w))"
    by (simp add: Suc.IH)
  also have "\<dots> = take_bit (8 * Suc n) w"
    by (simp add: le_ucast_drop)
  finally show ?case .
qed simp

lemma unle_le_full [simp]:
  "unle (le 1 (a :: u8)) = a"
  "unle (le 2 (b :: u16)) = b"
  "unle (le 4 (c :: u32)) = c"
  "unle (le 8 (d :: u64)) = d"
  by (simp_all add: unle_le take_bit_word_eq_self)

lemma bit_unle: "bit (unle bs :: 'a::len word) i \<Longrightarrow> i < 8 * length bs"
proof (induction bs arbitrary: i)
  case (Cons b bs)
  show ?case
  proof (cases "i < 8")
    case False
    with Cons.prems have "bit (unle bs :: 'a word) (i - 8)"
      by (auto simp: bit_simps dest: bit_imp_le_length)
    then have "i - 8 < 8 * length bs" by (rule Cons.IH)
    with False show ?thesis by simp
  qed simp
qed simp

lemma le_unle:
  "8 * length bs \<le> LENGTH('a) \<Longrightarrow> le (length bs) (unle bs :: 'a::len word) = bs"
proof (induction bs)
  case (Cons b bs)
  let ?u = "unle bs :: 'a word"
  let ?w = "ucast b OR push_bit 8 ?u"
  have "ucast ?w = b"
    using Cons.prems by (intro bit_word_eqI) (auto simp: bit_simps)
  moreover have "drop_bit 8 ?w = ?u"
    using Cons.prems by (intro bit_word_eqI) (auto simp: bit_simps dest: bit_unle bit_imp_le_length)
  ultimately show ?case
    using Cons by simp
qed simp

text \<open>The bytes \<open>[off, off + n)\<close> of an area, and a little-endian field read from there.\<close>

definition seg :: "nat \<Rightarrow> nat \<Rightarrow> 'a list \<Rightarrow> 'a list" where
  "seg off n bs = take n (drop off bs)"

lemma length_seg [simp]: "off + n \<le> length bs \<Longrightarrow> length (seg off n bs) = n"
  by (simp add: seg_def)

lemma seg_join:
  "k = off + n \<Longrightarrow> seg off n bs @ seg k m bs = seg off (n + m) bs"
  "k = off + n \<Longrightarrow> seg off n bs @ seg k m bs @ r = seg off (n + m) bs @ r"
  by (simp_all add: seg_def take_add add.commute [of off n])

lemma seg_all: "length bs = n \<Longrightarrow> seg 0 n bs = bs"
  by (simp add: seg_def)

lemma seg_append [byte_simps]:
  "seg off n (xs @ ys) = seg off n xs @ seg (off - length xs) (n - (length xs - off)) ys"
  by (simp add: seg_def)

lemma le_unle_seg:
  "off + n \<le> length bs \<Longrightarrow> 8 * n \<le> LENGTH('a) \<Longrightarrow> le n (unle (seg off n bs) :: 'a::len word) = seg off n bs"
  using le_unle [of "seg off n bs", where 'a = 'a] by simp

lemma le_unle_seg_byte: "off < length bs \<Longrightarrow> [unle (seg off (Suc 0) bs) :: u8] = seg off (Suc 0) bs"
  using le_unle_seg [of off 1 bs, where 'a = 8] by simp

lemma seg_Cons: "seg (Suc off) n (x # xs) = seg off n xs" "seg 0 (Suc n) (x # xs) = x # seg 0 n xs"
  by (simp_all add: seg_def)

lemma seg_Cons_numeral: "seg (numeral k) n (x # xs) = seg (pred_numeral k) n xs"
  by (simp add: seg_def numeral_eq_Suc)

lemma seg_beyond: "length xs \<le> off \<Longrightarrow> seg off n xs = []"
  by (simp add: seg_def)

lemma seg_zero: "seg off 0 xs = []"
  by (simp add: seg_def)

lemma le_unle_seg_byte_Cons:
  "off < length bs \<Longrightarrow> (unle (seg off (Suc 0) bs) :: u8) # r = seg off (Suc 0) bs @ r"
  using le_unle_seg_byte [of off bs] by (metis append_Cons append_Nil)

text \<open>What the codec of a fixed-size struct needs, in both directions.\<close>

lemmas seg_codec = seg_append seg_beyond seg_zero seg_Cons seg_Cons_numeral seg_all
lemmas seg_assemble = le_unle_seg le_unle_seg_byte_Cons seg_join seg_all

subsection \<open>Writing into a byte area\<close>

text \<open>
  \<open>splice_at off bs xs\<close> stores the bytes \<open>bs\<close> at offset \<open>off\<close> of the area \<open>xs\<close>; a store the area
  cannot hold would make it longer, so every use carries a bounds lemma.
\<close>

definition splice_at :: "nat \<Rightarrow> 'a list \<Rightarrow> 'a list \<Rightarrow> 'a list" where
  "splice_at off bs xs = take off xs @ bs @ drop (off + length bs) xs"

lemma length_splice_at [byte_simps]:
  "off + length bs \<le> length xs \<Longrightarrow> length (splice_at off bs xs) = length xs"
  by (simp add: splice_at_def)

lemma splice_at_adjacent:
  "off \<le> length xs \<Longrightarrow> splice_at (off + length as) bs (splice_at off as xs) = splice_at off (as @ bs) xs"
  by (simp add: splice_at_def add.commute add.left_commute)

lemma splice_at_inside:
  "off + length bs \<le> length zs \<Longrightarrow>
   splice_at off bs (splice_at 0 zs xs) = splice_at 0 (splice_at off bs zs) xs"
  by (simp add: splice_at_def)

lemma splice_at_inside_append [byte_simps]:
  "off + length bs \<le> length zs \<Longrightarrow> splice_at off bs (zs @ ys) = splice_at off bs zs @ ys"
  by (simp add: splice_at_def)

lemma take_splice_at_prefix [byte_simps]:
  "off \<le> length xs \<Longrightarrow> take off (splice_at off bs xs) = take off xs"
  by (simp add: splice_at_def)

lemma take_splice_at_extend [byte_simps]:
  "off \<le> length xs \<Longrightarrow> take (off + length bs) (splice_at off bs xs) = take off xs @ bs"
  by (simp add: splice_at_def)

lemma take_splice_at_0 [byte_simps]: "n = length bs \<Longrightarrow> take n (splice_at 0 bs xs) = bs"
  by (simp add: splice_at_def)

end
