(* ===== verification/C_Layout.thy ===== *)
theory C_Layout
  imports Rk_Prelude
begin

text \<open>
  C object layout under the LP64 rules that both supported targets share: scalars are aligned to
  their size, pointers take eight bytes, a struct's members are placed in order at their alignment,
  a bit-field never crosses a boundary of its declared type, unions overlay their members, and a
  packed struct has alignment one.  The ABI header \<open>rk_abi.h\<close> and the kernel declarations of
  \<open>vmlinux.h\<close> are described as values of \<open>ctype\<close>, and sizes and offsets are computed from them.
\<close>

datatype ctype =
    CInt nat                          \<comment> \<open>scalar or enum of that many bytes\<close>
  | CPtr string                       \<comment> \<open>pointer; the tag of the pointed-to struct, or empty\<close>
  | CArr nat ctype
  | CBits nat nat                     \<comment> \<open>bit-field: bytes of the declared type, width in bits\<close>
  | CStruct "(string \<times> ctype) list"
  | CPacked "(string \<times> ctype) list"
  | CUnion "(string \<times> ctype) list"

type_synonym cfields = "(string \<times> ctype) list"

definition round_up :: "nat \<Rightarrow> nat \<Rightarrow> nat" where
  "round_up n a = (n + a - 1) div a * a"

lemma round_up_ge: "0 < a \<Longrightarrow> n \<le> round_up n a"
proof -
  assume a: "0 < a"
  have "n + a - 1 = (n + a - 1) div a * a + (n + a - 1) mod a" by simp
  moreover have "(n + a - 1) mod a < a" using a by simp
  ultimately show ?thesis using a unfolding round_up_def by linarith
qed

lemma round_up_dvd: "a dvd round_up n a"
  by (simp add: round_up_def)

definition cmax :: "nat \<Rightarrow> nat \<Rightarrow> nat" where
  "cmax a b = (if a < b then b else a)"

lemma cmax_pos [simp]: "0 < a \<Longrightarrow> 0 < cmax a b" and cmax_ge: "a \<le> cmax a b" "b \<le> cmax a b"
  by (auto simp: cmax_def)

text \<open>The definitions a layout is evaluated with.\<close>

lemmas round_up_code = round_up_def cmax_def

subsection \<open>Alignment and size\<close>

fun calign :: "ctype \<Rightarrow> nat" and calign_fields :: "cfields \<Rightarrow> nat" where
  "calign (CInt n) = cmax 1 n"
| "calign (CPtr _) = 8"
| "calign (CArr _ t) = calign t"
| "calign (CBits c _) = cmax 1 c"
| "calign (CStruct fs) = calign_fields fs"
| "calign (CPacked _) = 1"
| "calign (CUnion fs) = calign_fields fs"
| "calign_fields [] = 1"
| "calign_fields ((n, t) # fs) = cmax (calign t) (calign_fields fs)"

lemma calign_pos [simp]: "0 < calign t" "0 < calign_fields fs"
  by (induction t and fs rule: calign_calign_fields.induct) (auto simp: cmax_def)

text \<open>The bit position at which a member that comes after \<open>p\<close> bits starts.\<close>

definition cplace :: "ctype \<Rightarrow> nat \<Rightarrow> nat" where
  "cplace t p = (case t of
      CBits c w \<Rightarrow> (if 0 < w \<and> p mod (8 * c) + w \<le> 8 * c then p else round_up p (8 * cmax 1 c))
    | _ \<Rightarrow> round_up p (8 * calign t))"

lemma cplace_ge: "p \<le> cplace t p"
  by (simp add: cplace_def round_up_ge split: ctype.split)

fun csize :: "ctype \<Rightarrow> nat" and cbits :: "ctype \<Rightarrow> nat"
  and cend :: "nat \<Rightarrow> cfields \<Rightarrow> nat" and cend_packed :: "nat \<Rightarrow> cfields \<Rightarrow> nat"
  and cend_union :: "cfields \<Rightarrow> nat" where
  "csize (CInt n) = n"
| "csize (CPtr _) = 8"
| "csize (CArr n t) = n * csize t"
| "csize (CBits c _) = c"
| "csize (CStruct fs) = round_up ((cend 0 fs + 7) div 8) (calign_fields fs)"
| "csize (CPacked fs) = (cend_packed 0 fs + 7) div 8"
| "csize (CUnion fs) = round_up ((cend_union fs + 7) div 8) (calign_fields fs)"
| "cbits (CBits c w) = w"
| "cbits (CInt n) = 8 * csize (CInt n)"
| "cbits (CPtr s) = 8 * csize (CPtr s)"
| "cbits (CArr n t) = 8 * csize (CArr n t)"
| "cbits (CStruct fs) = 8 * csize (CStruct fs)"
| "cbits (CPacked fs) = 8 * csize (CPacked fs)"
| "cbits (CUnion fs) = 8 * csize (CUnion fs)"
| "cend p [] = p"
| "cend p ((n, t) # fs) = cend (cplace t p + cbits t) fs"
| "cend_packed p [] = p"
| "cend_packed p ((n, t) # fs) = cend_packed (p + cbits t) fs"
| "cend_union [] = 0"
| "cend_union ((n, t) # fs) = cmax (cbits t) (cend_union fs)"

subsection \<open>Members\<close>

text \<open>
  Looking a member up by name gives its bit offset and its type.  Members of anonymous structs and
  unions are members of the enclosing type, as in C.
\<close>

fun cmember :: "string \<Rightarrow> ctype \<Rightarrow> (nat \<times> ctype) option"
  and cmember_struct :: "string \<Rightarrow> nat \<Rightarrow> cfields \<Rightarrow> (nat \<times> ctype) option"
  and cmember_packed :: "string \<Rightarrow> nat \<Rightarrow> cfields \<Rightarrow> (nat \<times> ctype) option"
  and cmember_union :: "string \<Rightarrow> cfields \<Rightarrow> (nat \<times> ctype) option" where
  "cmember nm (CInt _) = None"
| "cmember nm (CPtr _) = None"
| "cmember nm (CArr _ _) = None"
| "cmember nm (CBits _ _) = None"
| "cmember nm (CStruct fs) = cmember_struct nm 0 fs"
| "cmember nm (CPacked fs) = cmember_packed nm 0 fs"
| "cmember nm (CUnion fs) = cmember_union nm fs"
| "cmember_struct nm p [] = None"
| "cmember_struct nm p ((n, t) # fs) =
     (if n = nm then Some (cplace t p, t)
      else case (if n = [] then cmember nm t else None) of
             Some (q, u) \<Rightarrow> Some (cplace t p + q, u)
           | None \<Rightarrow> cmember_struct nm (cplace t p + cbits t) fs)"
| "cmember_packed nm p [] = None"
| "cmember_packed nm p ((n, t) # fs) =
     (if n = nm then Some (p, t)
      else case (if n = [] then cmember nm t else None) of
             Some (q, u) \<Rightarrow> Some (p + q, u)
           | None \<Rightarrow> cmember_packed nm (p + cbits t) fs)"
| "cmember_union nm [] = None"
| "cmember_union nm ((n, t) # fs) =
     (if n = nm then Some (0, t)
      else case (if n = [] then cmember nm t else None) of
             Some (q, u) \<Rightarrow> Some (q, u)
           | None \<Rightarrow> cmember_union nm fs)"

text \<open>\<open>offsetof\<close> and the size of a member, in bytes (\<open>None\<close> where there is no such member).\<close>

definition coffset :: "string \<Rightarrow> ctype \<Rightarrow> nat option" where
  "coffset nm t = map_option (\<lambda>(q, _). q div 8) (cmember nm t)"

definition cmember_size :: "string \<Rightarrow> ctype \<Rightarrow> nat option" where
  "cmember_size nm t = map_option (\<lambda>(_, u). csize u) (cmember nm t)"

lemma cend_ge: "p \<le> cend p fs"
proof (induction fs arbitrary: p)
  case (Cons f fs)
  obtain n t where f: "f = (n, t)" by fastforce
  have "p \<le> cplace t p + cbits t" using cplace_ge [of p t] by simp
  also have "\<dots> \<le> cend (cplace t p + cbits t) fs" by (rule Cons.IH)
  finally show ?case by (simp add: f)
qed simp

lemma cend_packed_ge: "p \<le> cend_packed p fs"
proof (induction fs arbitrary: p)
  case (Cons f fs)
  obtain n t where f: "f = (n, t)" by fastforce
  have "p + cbits t \<le> cend_packed (p + cbits t) fs" by (rule Cons.IH)
  then show ?case by (simp add: f)
qed simp

lemma csize_struct_covers:
  "cend 0 fs \<le> 8 * csize (CStruct fs)" "cend_union fs \<le> 8 * csize (CUnion fs)"
  "cend_packed 0 fs \<le> 8 * csize (CPacked fs)"
  using round_up_ge [of "calign_fields fs" "(cend 0 fs + 7) div 8"]
    round_up_ge [of "calign_fields fs" "(cend_union fs + 7) div 8"]
  by auto

lemma cmember_cbits: "cmember nm t = Some r \<Longrightarrow> cbits t = 8 * csize t"
  by (cases t) auto

text \<open>Every member lies inside its object.\<close>

lemma cmember_within:
  "cmember nm t = Some (q, u) \<Longrightarrow> q + cbits u \<le> 8 * csize t"
  "cmember_struct nm p fs = Some (q, u) \<Longrightarrow> q + cbits u \<le> cend p fs"
  "cmember_packed nm p fs = Some (q, u) \<Longrightarrow> q + cbits u \<le> cend_packed p fs"
  "cmember_union nm fs = Some (q, u) \<Longrightarrow> q + cbits u \<le> cend_union fs"
proof (induction nm t and nm p fs and nm p fs and nm fs arbitrary: q u and q u and q u and q u
    rule: cmember_cmember_struct_cmember_packed_cmember_union.induct)
  case (5 nm fs)
  then show ?case using csize_struct_covers(1) [of fs] by fastforce
next
  case (6 nm fs)
  then show ?case using csize_struct_covers(3) [of fs] by fastforce
next
  case (7 nm fs)
  then show ?case using csize_struct_covers(2) [of fs] by fastforce
next
  case (9 nm p n t fs)
  show ?case
    using 9 cend_ge [of "cplace t p + cbits t" fs]
    by (auto simp: cmember_cbits split: if_splits option.splits prod.splits)
next
  case (11 nm p n t fs)
  show ?case
    using 11 cend_packed_ge [of "p + cbits t" fs]
    by (auto simp: cmember_cbits split: if_splits option.splits prod.splits)
next
  case (13 nm n t fs)
  then show ?case
    using cmax_ge(1) [of "cbits t" "cend_union fs"] cmax_ge(2) [of "cend_union fs" "cbits t"]
    by (auto simp: cmember_cbits split: if_splits option.splits prod.splits intro: order_trans)
qed auto

text \<open>
  The bytes of a struct's members taken together: a struct whose members' sizes add up to its own
  size has no implicit padding.
\<close>

fun cfield_bytes :: "ctype \<Rightarrow> nat" where
  "cfield_bytes (CStruct fs) = (\<Sum>(_, t) \<leftarrow> fs. csize t)"
| "cfield_bytes t = csize t"

definition no_padding :: "ctype \<Rightarrow> bool" where
  "no_padding t \<longleftrightarrow> cfield_bytes t = csize t"

subsection \<open>Layouts of named types\<close>

text \<open>
  \<open>laid_out t s a\<close>: the named struct or union \<open>t\<close> takes \<open>s\<close> bytes at alignment \<open>a\<close>.  One such fact per
  kernel type, collected in \<open>klayout\<close>, lets the layout of an enclosing type be evaluated without
  opening the types it contains.
\<close>

named_theorems klayout \<open>sizes and alignments of named types\<close>

definition laid_out :: "ctype \<Rightarrow> nat \<Rightarrow> nat \<Rightarrow> bool" where
  "laid_out t s a \<longleftrightarrow> csize t = s \<and> calign t = a \<and> cbits t = 8 * s \<and> (\<forall>p. cplace t p = round_up p (8 * a))"

lemma laid_out_struct: "t = CStruct fs \<Longrightarrow> csize (CStruct fs) = s \<Longrightarrow> calign_fields fs = a \<Longrightarrow> laid_out t s a"
  and laid_out_union: "t = CUnion fs \<Longrightarrow> csize (CUnion fs) = s \<Longrightarrow> calign_fields fs = a \<Longrightarrow> laid_out t s a"
  and laid_out_packed: "t = CPacked fs \<Longrightarrow> csize (CPacked fs) = s \<Longrightarrow> a = 1 \<Longrightarrow> laid_out t s a"
  by (simp_all add: laid_out_def cplace_def)

lemma laid_outD: "laid_out t s a \<Longrightarrow> csize t = s \<and> calign t = a \<and> cbits t = 8 * s \<and> (\<forall>p. cplace t p = round_up p (8 * a))"
  unfolding laid_out_def by assumption

text \<open>The equations by which the placement of a member is evaluated.\<close>

lemma cplace_eval [klayout]:
  "cplace (CInt n) p = round_up p (8 * cmax 1 n)" "cplace (CPtr s) p = round_up p 64"
  "cplace (CArr k t) p = round_up p (8 * calign t)"
  "cplace (CBits c w) p = (if 0 < w \<and> p mod (8 * c) + w \<le> 8 * c then p else round_up p (8 * cmax 1 c))"
  "cplace (CStruct fs) p = round_up p (8 * calign_fields fs)" "cplace (CUnion fs) p = round_up p (8 * calign_fields fs)"
  "cplace (CPacked fs) p = round_up p 8"
  by (simp_all add: cplace_def)

lemmas [klayout] = round_up_code

text \<open>Weak congruences: the members not yet placed are left alone.\<close>

lemma fields_cong:
  "p = q \<Longrightarrow> cend p fs = cend q fs" "calign_fields fs = calign_fields fs"
  by simp_all

lemma cend_append: "cend p (fs @ gs) = cend (cend p fs) gs"
  by (induction fs arbitrary: p) auto

lemma calign_fields_append: "calign_fields (fs @ gs) = cmax (calign_fields fs) (calign_fields gs)"
proof (induction fs)
  case Nil
  show ?case using calign_pos(2) [of gs] by (auto simp: cmax_def simp del: calign_pos)
next
  case (Cons f fs)
  then show ?case by (cases f) (simp add: cmax_def)
qed

end
