(* ===== verification/Rk_Abi.thy ===== *)
theory Rk_Abi
  imports C_Layout
begin

text \<open>
  The kernel/userspace contract of \<open>rk-bpf/include/rk_abi.h\<close>: its macros and enumerators as
  constants of the width they are used at, its structs as records, the C layout of each struct, and
  the byte encoding of the structs that travel on the ring buffer.  The locale \<open>pod\<close> is the
  contract of a fixed-size encoding; every wire struct interprets it, and the decoder and the
  emission path use only its laws.
\<close>

subsection \<open>Macros and enumerators\<close>

abbreviation (input) RK_ABI_VERSION :: u8 where "RK_ABI_VERSION \<equiv> 2"
abbreviation (input) RK_SCRATCH_PAYLOAD_MAX :: u32 where "RK_SCRATCH_PAYLOAD_MAX \<equiv> 2048"

text \<open>\<^verbatim>\<open>enum rk_hook\<close>\<close>

abbreviation (input) RK_HOOK_CONNECT4 :: u32 where "RK_HOOK_CONNECT4 \<equiv> 0"
abbreviation (input) RK_HOOK_CONNECT6 :: u32 where "RK_HOOK_CONNECT6 \<equiv> 1"
abbreviation (input) RK_HOOK_SENDMSG4 :: u32 where "RK_HOOK_SENDMSG4 \<equiv> 2"
abbreviation (input) RK_HOOK_SENDMSG6 :: u32 where "RK_HOOK_SENDMSG6 \<equiv> 3"
abbreviation (input) RK_HOOK_SOCK_CREATE :: u32 where "RK_HOOK_SOCK_CREATE \<equiv> 4"
abbreviation (input) RK_HOOK_EXEC :: u32 where "RK_HOOK_EXEC \<equiv> 5"
abbreviation (input) RK_HOOK_FILE :: u32 where "RK_HOOK_FILE \<equiv> 6"
abbreviation (input) RK_HOOK_GUARD :: u32 where "RK_HOOK_GUARD \<equiv> 7"
abbreviation (input) RK_HOOK_TUN :: u32 where "RK_HOOK_TUN \<equiv> 8"
abbreviation (input) RK_HOOK_MAX :: u32 where "RK_HOOK_MAX \<equiv> 9"
abbreviation (input) RK_VERDICTS :: u32 where "RK_VERDICTS \<equiv> 3"

text \<open>\<^verbatim>\<open>enum rk_counter\<close>\<close>

abbreviation (input) RK_CNT_RINGBUF_DROP :: u32 where "RK_CNT_RINGBUF_DROP \<equiv> 0"
abbreviation (input) RK_CNT_SCRATCH_MISS :: u32 where "RK_CNT_SCRATCH_MISS \<equiv> 1"
abbreviation (input) RK_CNT_DECISION_BASE :: u32 where "RK_CNT_DECISION_BASE \<equiv> 2"
abbreviation (input) RK_CNT_MAX :: u32 where "RK_CNT_MAX \<equiv> 29"

text \<open>\<^verbatim>\<open>enum rk_event_type\<close>\<close>

abbreviation (input) RK_EV_NONE :: u16 where "RK_EV_NONE \<equiv> 0"
abbreviation (input) RK_EV_EXEC :: u16 where "RK_EV_EXEC \<equiv> 1"
abbreviation (input) RK_EV_FILE_OPEN :: u16 where "RK_EV_FILE_OPEN \<equiv> 2"
abbreviation (input) RK_EV_NET_CONNECT :: u16 where "RK_EV_NET_CONNECT \<equiv> 3"
abbreviation (input) RK_EV_UNLINK :: u16 where "RK_EV_UNLINK \<equiv> 4"
abbreviation (input) RK_EV_RENAME :: u16 where "RK_EV_RENAME \<equiv> 5"
abbreviation (input) RK_EV_FORK :: u16 where "RK_EV_FORK \<equiv> 6"
abbreviation (input) RK_EV_EXIT :: u16 where "RK_EV_EXIT \<equiv> 7"
abbreviation (input) RK_EV_TAMPER :: u16 where "RK_EV_TAMPER \<equiv> 8"
abbreviation (input) RK_EV_SENDMSG :: u16 where "RK_EV_SENDMSG \<equiv> 9"
abbreviation (input) RK_EV_SOCK_CREATE :: u16 where "RK_EV_SOCK_CREATE \<equiv> 10"
abbreviation (input) RK_EV_FILE_DENY :: u16 where "RK_EV_FILE_DENY \<equiv> 11"
abbreviation (input) RK_EV_TUN :: u16 where "RK_EV_TUN \<equiv> 12"

text \<open>\<^verbatim>\<open>enum rk_verdict\<close>\<close>

abbreviation (input) RK_VERDICT_ALLOW :: u8 where "RK_VERDICT_ALLOW \<equiv> 0"
abbreviation (input) RK_VERDICT_DENY :: u8 where "RK_VERDICT_DENY \<equiv> 1"
abbreviation (input) RK_VERDICT_AUDIT_WOULD_DENY :: u8 where "RK_VERDICT_AUDIT_WOULD_DENY \<equiv> 2"

text \<open>\<^verbatim>\<open>enum rk_tun_op\<close>\<close>

abbreviation (input) RK_TUN_CREATE :: u32 where "RK_TUN_CREATE \<equiv> 1"
abbreviation (input) RK_TUN_ATTACH :: u32 where "RK_TUN_ATTACH \<equiv> 2"
abbreviation (input) RK_TUN_ATTACH_QUEUE :: u32 where "RK_TUN_ATTACH_QUEUE \<equiv> 3"
abbreviation (input) RK_MAX_PROFILES :: u32 where "RK_MAX_PROFILES \<equiv> 1024"
abbreviation (input) RK_POLICY_SLOTS :: u32 where "RK_POLICY_SLOTS \<equiv> 2"
abbreviation (input) RK_NET_MAX_RANGES :: nat where "RK_NET_MAX_RANGES \<equiv> 8"

text \<open>\<^verbatim>\<open>enum rk_mode\<close>\<close>

abbreviation (input) RK_MODE_AUDIT :: u8 where "RK_MODE_AUDIT \<equiv> 0"
abbreviation (input) RK_MODE_ENFORCE :: u8 where "RK_MODE_ENFORCE \<equiv> 1"

text \<open>\<^verbatim>\<open>enum rk_action\<close>\<close>

abbreviation (input) RK_ACTION_ALLOW :: u8 where "RK_ACTION_ALLOW \<equiv> 0"
abbreviation (input) RK_ACTION_DENY :: u8 where "RK_ACTION_DENY \<equiv> 1"

text \<open>\<^verbatim>\<open>enum rk_proto_bit\<close>\<close>

abbreviation (input) RK_PROTO_TCP :: u8 where "RK_PROTO_TCP \<equiv> 1"
abbreviation (input) RK_PROTO_UDP :: u8 where "RK_PROTO_UDP \<equiv> 2"
abbreviation (input) RK_PROTO_OTHER :: u8 where "RK_PROTO_OTHER \<equiv> 4"
abbreviation (input) RK_PROTO_ANY :: u8 where "RK_PROTO_ANY \<equiv> 7"

text \<open>\<^verbatim>\<open>enum rk_profile_flag\<close>\<close>

abbreviation (input) RK_PROFILE_DENY_RAW_SOCKETS :: u16 where "RK_PROFILE_DENY_RAW_SOCKETS \<equiv> 1"
abbreviation (input) RK_PROFILE_EXEC_DENY_DEFAULT :: u16 where "RK_PROFILE_EXEC_DENY_DEFAULT \<equiv> 2"
abbreviation (input) RK_PROFILE_EXEC_ALLOW_UNLINKED :: u16 where "RK_PROFILE_EXEC_ALLOW_UNLINKED \<equiv> 4"

text \<open>\<^verbatim>\<open>enum rk_exec_flag\<close>\<close>

abbreviation (input) RK_EXEC_ARGV_TRUNCATED :: u32 where "RK_EXEC_ARGV_TRUNCATED \<equiv> 1"
abbreviation (input) RK_EXEC_ARGV_UNAVAILABLE :: u32 where "RK_EXEC_ARGV_UNAVAILABLE \<equiv> 2"
abbreviation (input) RK_EXEC_UNLINKED :: u32 where "RK_EXEC_UNLINKED \<equiv> 4"
abbreviation (input) RK_EXEC_DECISION :: u32 where "RK_EXEC_DECISION \<equiv> 8"
abbreviation (input) RK_FILE_MAX_DEPTH :: nat where "RK_FILE_MAX_DEPTH \<equiv> 32"

text \<open>\<^verbatim>\<open>enum rk_file_access\<close>\<close>

abbreviation (input) RK_FILE_READ :: u32 where "RK_FILE_READ \<equiv> 1"
abbreviation (input) RK_FILE_WRITE :: u32 where "RK_FILE_WRITE \<equiv> 2"
abbreviation (input) RK_FILE_EXEC :: u32 where "RK_FILE_EXEC \<equiv> 4"
abbreviation (input) RK_FILE_CREATE :: u32 where "RK_FILE_CREATE \<equiv> 8"
abbreviation (input) RK_FILE_DELETE :: u32 where "RK_FILE_DELETE \<equiv> 16"
abbreviation (input) RK_FILE_RENAME :: u32 where "RK_FILE_RENAME \<equiv> 32"
abbreviation (input) RK_FILE_TRUNCATE :: u32 where "RK_FILE_TRUNCATE \<equiv> 64"
abbreviation (input) RK_FILE_LINK :: u32 where "RK_FILE_LINK \<equiv> 128"
abbreviation (input) RK_FILE_SETATTR :: u32 where "RK_FILE_SETATTR \<equiv> 256"
abbreviation (input) RK_FILE_ALL :: u32 where "RK_FILE_ALL \<equiv> 511"

text \<open>\<^verbatim>\<open>enum rk_file_rule_flag\<close>\<close>

abbreviation (input) RK_FILE_SUBTREE :: u32 where "RK_FILE_SUBTREE \<equiv> 1"

text \<open>\<^verbatim>\<open>enum rk_file_hook\<close>\<close>

abbreviation (input) RK_FILE_HOOK_OPEN :: u16 where "RK_FILE_HOOK_OPEN \<equiv> 1"
abbreviation (input) RK_FILE_HOOK_UNLINK :: u16 where "RK_FILE_HOOK_UNLINK \<equiv> 2"
abbreviation (input) RK_FILE_HOOK_RENAME :: u16 where "RK_FILE_HOOK_RENAME \<equiv> 3"
abbreviation (input) RK_FILE_HOOK_LINK :: u16 where "RK_FILE_HOOK_LINK \<equiv> 4"
abbreviation (input) RK_FILE_HOOK_CREATE :: u16 where "RK_FILE_HOOK_CREATE \<equiv> 5"
abbreviation (input) RK_FILE_HOOK_SETATTR :: u16 where "RK_FILE_HOOK_SETATTR \<equiv> 6"

text \<open>\<^verbatim>\<open>enum rk_file_event_flag\<close>\<close>

abbreviation (input) RK_FILE_EV_SUBTREE :: u8 where "RK_FILE_EV_SUBTREE \<equiv> 1"
abbreviation (input) RK_FILE_EV_DEPTH_EXCEEDED :: u8 where "RK_FILE_EV_DEPTH_EXCEEDED \<equiv> 2"
abbreviation (input) RK_RULE_HEARTBEAT :: u32 where "RK_RULE_HEARTBEAT \<equiv> 4294967295"
abbreviation (input) RK_NSEC_PER_CLOCK_TICK :: u64 where "RK_NSEC_PER_CLOCK_TICK \<equiv> 10000000"
abbreviation (input) RK_CGROUP_MAX_DEPTH :: nat where "RK_CGROUP_MAX_DEPTH \<equiv> 16"

text \<open>\<^verbatim>\<open>enum rk_tamper_hook\<close>\<close>

abbreviation (input) RK_TAMPER_BPF :: u16 where "RK_TAMPER_BPF \<equiv> 1"
abbreviation (input) RK_TAMPER_SIGNAL :: u16 where "RK_TAMPER_SIGNAL \<equiv> 2"
abbreviation (input) RK_TAMPER_PTRACE :: u16 where "RK_TAMPER_PTRACE \<equiv> 3"
abbreviation (input) RK_TAMPER_PIN_UNLINK :: u16 where "RK_TAMPER_PIN_UNLINK \<equiv> 4"
abbreviation (input) RK_TAMPER_PIN_RENAME :: u16 where "RK_TAMPER_PIN_RENAME \<equiv> 5"
abbreviation (input) RK_TAMPER_PIN_RMDIR :: u16 where "RK_TAMPER_PIN_RMDIR \<equiv> 6"
abbreviation (input) RK_TAMPER_UMOUNT :: u16 where "RK_TAMPER_UMOUNT \<equiv> 7"

subsection \<open>Structs\<close>

record rk_hdr =
  hdr_ts_ns :: u64
  hdr_cgroup_id :: u64
  hdr_policy_gen :: u64
  hdr_pid :: u32
  hdr_tgid :: u32
  hdr_uid :: u32
  hdr_gid :: u32
  hdr_type :: u16
  hdr_verdict :: u8
  hdr_abi :: u8
  hdr_rule_id :: u32

record rk_payload_exec =
  pe_file_dev :: u64
  pe_file_ino :: u64
  pe_flags :: u32
  pe_str_count :: u16
  pe_pad :: u16

record rk_payload_file =
  pf_file_dev :: u64
  pf_file_ino :: u64
  pf_open_flags :: u32
  pf_mode :: u32
  pf_str_count :: u16
  pf_pad :: u16
  pf_pad2 :: u32

text \<open>The two 16-byte addresses are kept as byte lists in network order.\<close>

record rk_payload_net =
  pn_saddr_v6 :: bytes
  pn_daddr_v6 :: bytes
  pn_sport :: u16
  pn_dport :: u16
  pn_family :: u16
  pn_protocol :: u8
  pn_pad :: u8

record rk_payload_sock =
  ps_family :: u16
  ps_pad :: u16
  ps_type :: u32
  ps_protocol :: u32
  ps_pad2 :: u32

record rk_payload_tun =
  pt_op :: u32
  pt_pad :: u32

record rk_payload_file_deny =
  pd_file_dev :: u64
  pd_file_ino :: u64
  pd_access :: u32
  pd_hook :: u16
  pd_flags :: u8
  pd_pad :: u8
  pd_str_count :: u16
  pd_pad2 :: u16
  pd_pad3 :: u32

record rk_payload_tamper =
  px_hook :: u16
  px_pad :: u16
  px_target_tgid :: u32
  px_detail :: u64

text \<open>Map values and keys.\<close>

record rk_binding =
  b_profile :: u32

record rk_profile =
  p_mode :: u8
  p_net_default :: u8
  p_flags :: u16
  p_policy_gen :: u64

record rk_net_key =
  nk_prefixlen :: u32
  nk_scope :: u32
  nk_addr :: bytes

record rk_net_range =
  nr_rule_id :: u32
  nr_port_lo :: u16
  nr_port_hi :: u16
  nr_proto_mask :: u8

record rk_net_rule =
  nr_nranges :: u32
  nr_ranges :: "rk_net_range list"  \<comment> \<open>an array of \<open>RK_NET_MAX_RANGES\<close>\<close>

record rk_exec_key =
  xk_scope :: u32
  xk_pad :: u32
  xk_dev :: u64
  xk_ino :: u64

record rk_exec_rule =
  xr_rule_id :: u32
  xr_flags :: u32

record rk_file_key =
  fk_scope :: u32
  fk_pad :: u32
  fk_dev :: u64
  fk_ino :: u64

record rk_file_rule =
  fr_rule_id :: u32
  fr_deny_mask :: u32
  fr_flags :: u32

record rk_config =
  heartbeat_timeout_ns :: u64
  governed_levels :: u64

record rk_guard_target =
  gt_tgid :: u32
  gt_start_ticks :: u64

record rk_meta =
  meta_abi :: u32
  object_sha256 :: bytes
  epoch :: bytes

subsection \<open>Layouts\<close>

definition rk_hdr_layout :: ctype where
  "rk_hdr_layout = CStruct [(''ts_ns'', CInt 8), (''cgroup_id'', CInt 8), (''policy_gen'', CInt 8),
     (''pid'', CInt 4), (''tgid'', CInt 4), (''uid'', CInt 4), (''gid'', CInt 4), (''type'', CInt 2),
     (''verdict'', CInt 1), (''abi'', CInt 1), (''rule_id'', CInt 4)]"

definition rk_scratch_msg_layout :: ctype where
  "rk_scratch_msg_layout = CStruct [(''hdr'', rk_hdr_layout), (''payload_len'', CInt 4),
     (''_reserved'', CInt 4), (''payload'', CArr 2048 (CInt 1))]"

definition rk_payload_exec_layout :: ctype where
  "rk_payload_exec_layout = CStruct [(''file_dev'', CInt 8), (''file_ino'', CInt 8),
     (''flags'', CInt 4), (''str_count'', CInt 2), (''_pad'', CInt 2)]"

definition rk_payload_file_layout :: ctype where
  "rk_payload_file_layout = CStruct [(''file_dev'', CInt 8), (''file_ino'', CInt 8),
     (''open_flags'', CInt 4), (''mode'', CInt 4), (''str_count'', CInt 2), (''_pad'', CInt 2),
     (''_pad2'', CInt 4)]"

definition rk_payload_net_layout :: ctype where
  "rk_payload_net_layout = CStruct [(''saddr_v6'', CArr 16 (CInt 1)),
     (''daddr_v6'', CArr 16 (CInt 1)), (''sport'', CInt 2), (''dport'', CInt 2), (''family'', CInt 2),
     (''protocol'', CInt 1), (''_pad'', CInt 1)]"

definition rk_payload_sock_layout :: ctype where
  "rk_payload_sock_layout = CStruct [(''family'', CInt 2), (''_pad'', CInt 2), (''type'', CInt 4),
     (''protocol'', CInt 4), (''_pad2'', CInt 4)]"

definition rk_payload_tun_layout :: ctype where
  "rk_payload_tun_layout = CStruct [(''op'', CInt 4), (''_pad'', CInt 4)]"

definition rk_binding_layout :: ctype where
  "rk_binding_layout = CStruct [(''profile'', CInt 4), (''_pad'', CInt 4)]"

definition rk_profile_layout :: ctype where
  "rk_profile_layout = CStruct [(''mode'', CInt 1), (''net_default'', CInt 1), (''flags'', CInt 2),
     (''_pad'', CInt 4), (''policy_gen'', CInt 8)]"

definition rk_net_key_layout :: ctype where
  "rk_net_key_layout = CStruct [(''prefixlen'', CInt 4), (''scope'', CInt 4),
     (''addr'', CArr 16 (CInt 1))]"

definition rk_net_range_layout :: ctype where
  "rk_net_range_layout = CStruct [(''rule_id'', CInt 4), (''port_lo'', CInt 2), (''port_hi'', CInt 2),
     (''proto_mask'', CInt 1), (''_pad'', CArr 3 (CInt 1))]"

definition rk_net_rule_layout :: ctype where
  "rk_net_rule_layout = CStruct [(''nranges'', CInt 4),
     (''ranges'', CArr RK_NET_MAX_RANGES rk_net_range_layout)]"

definition rk_exec_key_layout :: ctype where
  "rk_exec_key_layout = CStruct [(''scope'', CInt 4), (''_pad'', CInt 4), (''dev'', CInt 8),
     (''ino'', CInt 8)]"

definition rk_exec_rule_layout :: ctype where
  "rk_exec_rule_layout = CStruct [(''rule_id'', CInt 4), (''flags'', CInt 4)]"

definition rk_file_key_layout :: ctype where
  "rk_file_key_layout = CStruct [(''scope'', CInt 4), (''_pad'', CInt 4), (''dev'', CInt 8),
     (''ino'', CInt 8)]"

definition rk_file_rule_layout :: ctype where
  "rk_file_rule_layout = CStruct [(''rule_id'', CInt 4), (''deny_mask'', CInt 4), (''flags'', CInt 4),
     (''_pad'', CInt 4)]"

definition rk_payload_file_deny_layout :: ctype where
  "rk_payload_file_deny_layout = CStruct [(''file_dev'', CInt 8), (''file_ino'', CInt 8),
     (''access'', CInt 4), (''hook'', CInt 2), (''flags'', CInt 1), (''_pad'', CInt 1),
     (''str_count'', CInt 2), (''_pad2'', CInt 2), (''_pad3'', CInt 4)]"

definition rk_config_layout :: ctype where
  "rk_config_layout = CStruct [(''heartbeat_timeout_ns'', CInt 8), (''governed_levels'', CInt 8)]"

definition rk_guard_target_layout :: ctype where
  "rk_guard_target_layout = CStruct [(''tgid'', CInt 4), (''_pad'', CInt 4), (''start_ticks'', CInt 8)]"

definition rk_meta_layout :: ctype where
  "rk_meta_layout = CStruct [(''abi'', CInt 4), (''_pad'', CInt 4),
     (''object_sha256'', CArr 32 (CInt 1)), (''epoch'', CArr 16 (CInt 1))]"

definition rk_payload_tamper_layout :: ctype where
  "rk_payload_tamper_layout = CStruct [(''hook'', CInt 2), (''_pad'', CInt 2),
     (''target_tgid'', CInt 4), (''detail'', CInt 8)]"

lemmas rk_layout_defs = rk_hdr_layout_def rk_scratch_msg_layout_def rk_payload_exec_layout_def
  rk_payload_file_layout_def rk_payload_net_layout_def rk_payload_sock_layout_def
  rk_payload_tun_layout_def rk_binding_layout_def rk_profile_layout_def rk_net_key_layout_def
  rk_net_range_layout_def rk_net_rule_layout_def rk_exec_key_layout_def rk_exec_rule_layout_def
  rk_file_key_layout_def rk_file_rule_layout_def rk_payload_file_deny_layout_def
  rk_config_layout_def rk_guard_target_layout_def rk_meta_layout_def rk_payload_tamper_layout_def

text \<open>
  The header's \<open>_Static_assert\<close> blocks, in source order: each left component is what the compiler
  evaluates, each right component the constant it is compared with.
\<close>

definition static_asserts_phase6 :: "(nat option \<times> nat) list" where
  "static_asserts_phase6 =
    [(Some (csize rk_config_layout), 16), (Some (csize rk_guard_target_layout), 16),
     (coffset ''start_ticks'' rk_guard_target_layout, 8), (Some (csize rk_meta_layout), 56),
     (coffset ''epoch'' rk_meta_layout, 40), (Some (csize rk_payload_tamper_layout), 16),
     (coffset ''detail'' rk_payload_tamper_layout, 8)]"

definition static_asserts_policy :: "(nat option \<times> nat) list" where
  "static_asserts_policy =
    [(Some (csize rk_exec_key_layout), 24), (coffset ''dev'' rk_exec_key_layout, 8),
     (Some (csize rk_exec_rule_layout), 8), (Some (csize rk_file_key_layout), 24),
     (Some (csize rk_file_rule_layout), 16), (Some (csize rk_payload_file_deny_layout), 32),
     (coffset ''str_count'' rk_payload_file_deny_layout, 24),
     (Some (csize rk_payload_sock_layout), 16), (Some (csize rk_payload_tun_layout), 8),
     (Some (csize rk_binding_layout), 8), (Some (csize rk_profile_layout), 16),
     (coffset ''policy_gen'' rk_profile_layout, 8), (Some (csize rk_net_key_layout), 24),
     (coffset ''addr'' rk_net_key_layout, 8), (Some (csize rk_net_range_layout), 12),
     (Some (csize rk_net_rule_layout), 4 + 12 * RK_NET_MAX_RANGES)]"

definition static_asserts_wire :: "(nat option \<times> nat) list" where
  "static_asserts_wire =
    [(Some (csize rk_hdr_layout), 48), (coffset ''ts_ns'' rk_hdr_layout, 0),
     (coffset ''cgroup_id'' rk_hdr_layout, 8), (coffset ''policy_gen'' rk_hdr_layout, 16),
     (coffset ''pid'' rk_hdr_layout, 24), (coffset ''tgid'' rk_hdr_layout, 28),
     (coffset ''uid'' rk_hdr_layout, 32), (coffset ''gid'' rk_hdr_layout, 36),
     (coffset ''type'' rk_hdr_layout, 40), (coffset ''verdict'' rk_hdr_layout, 42),
     (coffset ''abi'' rk_hdr_layout, 43), (coffset ''rule_id'' rk_hdr_layout, 44),
     (coffset ''hdr'' rk_scratch_msg_layout, 0), (coffset ''payload_len'' rk_scratch_msg_layout, 48),
     (coffset ''_reserved'' rk_scratch_msg_layout, 52), (coffset ''payload'' rk_scratch_msg_layout, 56),
     (Some (csize rk_scratch_msg_layout), 56 + unat RK_SCRATCH_PAYLOAD_MAX),
     (Some (csize rk_payload_exec_layout), 24), (coffset ''file_dev'' rk_payload_exec_layout, 0),
     (coffset ''file_ino'' rk_payload_exec_layout, 8), (coffset ''flags'' rk_payload_exec_layout, 16),
     (coffset ''str_count'' rk_payload_exec_layout, 20),
     (Some (csize rk_payload_file_layout), 32), (coffset ''file_dev'' rk_payload_file_layout, 0),
     (coffset ''file_ino'' rk_payload_file_layout, 8), (coffset ''open_flags'' rk_payload_file_layout, 16),
     (coffset ''mode'' rk_payload_file_layout, 20), (coffset ''str_count'' rk_payload_file_layout, 24),
     (coffset ''_pad2'' rk_payload_file_layout, 28),
     (Some (csize rk_payload_net_layout), 40), (coffset ''saddr_v6'' rk_payload_net_layout, 0),
     (coffset ''daddr_v6'' rk_payload_net_layout, 16), (coffset ''sport'' rk_payload_net_layout, 32),
     (coffset ''dport'' rk_payload_net_layout, 34), (coffset ''family'' rk_payload_net_layout, 36),
     (coffset ''protocol'' rk_payload_net_layout, 38)]"

lemma static_asserts_phase6_hold: "list_all (\<lambda>(got, want). got = Some want) static_asserts_phase6"
  by (simp add: static_asserts_phase6_def rk_layout_defs coffset_def round_up_code cplace_def)

lemma static_asserts_policy_hold: "list_all (\<lambda>(got, want). got = Some want) static_asserts_policy"
  by (simp add: static_asserts_policy_def rk_layout_defs coffset_def round_up_code cplace_def)

lemma static_asserts_wire_hold: "list_all (\<lambda>(got, want). got = Some want) static_asserts_wire"
  by (simp add: static_asserts_wire_def rk_layout_defs coffset_def round_up_code cplace_def)

subsection \<open>Encodings of the wire structs\<close>

text \<open>
  A fixed-size encoding onto \<open>size\<close> bytes.  The first two laws are what the decoder needs of a
  sender; the third says that every byte string of that size is the encoding of some value, as it is
  for a struct with no padding.  \<open>wf\<close> holds the values the C type has (array members of the
  declared length).
\<close>

locale pod =
  fixes enc :: "'a \<Rightarrow> bytes" and dec :: "bytes \<Rightarrow> 'a" and size :: nat and wf :: "'a \<Rightarrow> bool"
  assumes length_enc: "wf x \<Longrightarrow> length (enc x) = size"
    and dec_enc: "wf x \<Longrightarrow> dec (enc x) = x"
    and enc_dec: "length bs = size \<Longrightarrow> enc (dec bs) = bs"
    and wf_dec: "length bs = size \<Longrightarrow> wf (dec bs)"
begin

lemma split_enc:
  "wf x \<Longrightarrow> take size (enc x @ rest) = enc x" "wf x \<Longrightarrow> drop size (enc x @ rest) = rest"
  by (simp_all add: length_enc)

lemma dec_take: "wf x \<Longrightarrow> dec (take size (enc x @ rest)) = x"
  by (simp only: split_enc dec_enc)

lemma enc_inject: "wf x \<Longrightarrow> wf y \<Longrightarrow> enc x @ r = enc y @ s \<Longrightarrow> x = y \<and> r = s"
  by (metis dec_take split_enc(2))

lemma dec_inject: "length bs = size \<Longrightarrow> length cs = size \<Longrightarrow> dec bs = dec cs \<Longrightarrow> bs = cs"
  by (metis enc_dec)

end

definition enc_hdr :: "rk_hdr \<Rightarrow> bytes" where [pod_simps]:
  "enc_hdr h = le 8 (hdr_ts_ns h) @ le 8 (hdr_cgroup_id h) @ le 8 (hdr_policy_gen h) @ le 4 (hdr_pid h)
     @ le 4 (hdr_tgid h) @ le 4 (hdr_uid h) @ le 4 (hdr_gid h) @ le 2 (hdr_type h)
     @ le 1 (hdr_verdict h) @ le 1 (hdr_abi h) @ le 4 (hdr_rule_id h)"

definition dec_hdr :: "bytes \<Rightarrow> rk_hdr" where [pod_simps]:
  "dec_hdr bs = \<lparr>hdr_ts_ns = unle (seg 0 8 bs), hdr_cgroup_id = unle (seg 8 8 bs),
     hdr_policy_gen = unle (seg 16 8 bs), hdr_pid = unle (seg 24 4 bs),
     hdr_tgid = unle (seg 28 4 bs), hdr_uid = unle (seg 32 4 bs), hdr_gid = unle (seg 36 4 bs),
     hdr_type = unle (seg 40 2 bs), hdr_verdict = unle (seg 42 1 bs),
     hdr_abi = unle (seg 43 1 bs), hdr_rule_id = unle (seg 44 4 bs)\<rparr>"

definition enc_exec :: "rk_payload_exec \<Rightarrow> bytes" where [pod_simps]:
  "enc_exec b = le 8 (pe_file_dev b) @ le 8 (pe_file_ino b) @ le 4 (pe_flags b)
     @ le 2 (pe_str_count b) @ le 2 (pe_pad b)"

definition dec_exec :: "bytes \<Rightarrow> rk_payload_exec" where [pod_simps]:
  "dec_exec bs = \<lparr>pe_file_dev = unle (seg 0 8 bs), pe_file_ino = unle (seg 8 8 bs),
     pe_flags = unle (seg 16 4 bs), pe_str_count = unle (seg 20 2 bs), pe_pad = unle (seg 22 2 bs)\<rparr>"

definition enc_file :: "rk_payload_file \<Rightarrow> bytes" where [pod_simps]:
  "enc_file b = le 8 (pf_file_dev b) @ le 8 (pf_file_ino b) @ le 4 (pf_open_flags b) @ le 4 (pf_mode b)
     @ le 2 (pf_str_count b) @ le 2 (pf_pad b) @ le 4 (pf_pad2 b)"

definition dec_file :: "bytes \<Rightarrow> rk_payload_file" where [pod_simps]:
  "dec_file bs = \<lparr>pf_file_dev = unle (seg 0 8 bs), pf_file_ino = unle (seg 8 8 bs),
     pf_open_flags = unle (seg 16 4 bs), pf_mode = unle (seg 20 4 bs),
     pf_str_count = unle (seg 24 2 bs), pf_pad = unle (seg 26 2 bs), pf_pad2 = unle (seg 28 4 bs)\<rparr>"

definition enc_net :: "rk_payload_net \<Rightarrow> bytes" where [pod_simps]:
  "enc_net b = pn_saddr_v6 b @ pn_daddr_v6 b @ le 2 (pn_sport b) @ le 2 (pn_dport b)
     @ le 2 (pn_family b) @ le 1 (pn_protocol b) @ le 1 (pn_pad b)"

definition dec_net :: "bytes \<Rightarrow> rk_payload_net" where [pod_simps]:
  "dec_net bs = \<lparr>pn_saddr_v6 = seg 0 16 bs, pn_daddr_v6 = seg 16 16 bs,
     pn_sport = unle (seg 32 2 bs), pn_dport = unle (seg 34 2 bs), pn_family = unle (seg 36 2 bs),
     pn_protocol = unle (seg 38 1 bs), pn_pad = unle (seg 39 1 bs)\<rparr>"

definition wf_net :: "rk_payload_net \<Rightarrow> bool" where [pod_simps]:
  "wf_net b \<longleftrightarrow> length (pn_saddr_v6 b) = 16 \<and> length (pn_daddr_v6 b) = 16"

definition enc_sock :: "rk_payload_sock \<Rightarrow> bytes" where [pod_simps]:
  "enc_sock b = le 2 (ps_family b) @ le 2 (ps_pad b) @ le 4 (ps_type b) @ le 4 (ps_protocol b)
     @ le 4 (ps_pad2 b)"

definition dec_sock :: "bytes \<Rightarrow> rk_payload_sock" where [pod_simps]:
  "dec_sock bs = \<lparr>ps_family = unle (seg 0 2 bs), ps_pad = unle (seg 2 2 bs),
     ps_type = unle (seg 4 4 bs), ps_protocol = unle (seg 8 4 bs), ps_pad2 = unle (seg 12 4 bs)\<rparr>"

definition enc_tun :: "rk_payload_tun \<Rightarrow> bytes" where [pod_simps]:
  "enc_tun b = le 4 (pt_op b) @ le 4 (pt_pad b)"

definition dec_tun :: "bytes \<Rightarrow> rk_payload_tun" where [pod_simps]:
  "dec_tun bs = \<lparr>pt_op = unle (seg 0 4 bs), pt_pad = unle (seg 4 4 bs)\<rparr>"

definition enc_file_deny :: "rk_payload_file_deny \<Rightarrow> bytes" where [pod_simps]:
  "enc_file_deny b = le 8 (pd_file_dev b) @ le 8 (pd_file_ino b) @ le 4 (pd_access b) @ le 2 (pd_hook b)
     @ le 1 (pd_flags b) @ le 1 (pd_pad b) @ le 2 (pd_str_count b) @ le 2 (pd_pad2 b) @ le 4 (pd_pad3 b)"

definition dec_file_deny :: "bytes \<Rightarrow> rk_payload_file_deny" where [pod_simps]:
  "dec_file_deny bs = \<lparr>pd_file_dev = unle (seg 0 8 bs), pd_file_ino = unle (seg 8 8 bs),
     pd_access = unle (seg 16 4 bs), pd_hook = unle (seg 20 2 bs), pd_flags = unle (seg 22 1 bs),
     pd_pad = unle (seg 23 1 bs), pd_str_count = unle (seg 24 2 bs), pd_pad2 = unle (seg 26 2 bs),
     pd_pad3 = unle (seg 28 4 bs)\<rparr>"

definition enc_tamper :: "rk_payload_tamper \<Rightarrow> bytes" where [pod_simps]:
  "enc_tamper b = le 2 (px_hook b) @ le 2 (px_pad b) @ le 4 (px_target_tgid b) @ le 8 (px_detail b)"

definition dec_tamper :: "bytes \<Rightarrow> rk_payload_tamper" where [pod_simps]:
  "dec_tamper bs = \<lparr>px_hook = unle (seg 0 2 bs), px_pad = unle (seg 2 2 bs),
     px_target_tgid = unle (seg 4 4 bs), px_detail = unle (seg 8 8 bs)\<rparr>"

interpretation hdr: pod enc_hdr dec_hdr 48 "\<lambda>_. True"
  by unfold_locales (simp_all add: pod_simps seg_codec seg_assemble)

interpretation pexec: pod enc_exec dec_exec 24 "\<lambda>_. True"
  by unfold_locales (simp_all add: pod_simps seg_codec seg_assemble)

interpretation pfile: pod enc_file dec_file 32 "\<lambda>_. True"
  by unfold_locales (simp_all add: pod_simps seg_codec seg_assemble)

interpretation pnet: pod enc_net dec_net 40 wf_net
  by unfold_locales (simp_all add: pod_simps seg_codec seg_assemble)

interpretation psock: pod enc_sock dec_sock 16 "\<lambda>_. True"
  by unfold_locales (simp_all add: pod_simps seg_codec seg_assemble)

interpretation ptun: pod enc_tun dec_tun 8 "\<lambda>_. True"
  by unfold_locales (simp_all add: pod_simps seg_codec seg_assemble)

interpretation pdeny: pod enc_file_deny dec_file_deny 32 "\<lambda>_. True"
  by unfold_locales (simp_all add: pod_simps seg_codec seg_assemble)

interpretation ptamper: pod enc_tamper dec_tamper 16 "\<lambda>_. True"
  by unfold_locales (simp_all add: pod_simps seg_codec seg_assemble)

subsection \<open>Encodings and layouts agree\<close>

text \<open>The bytes a C compiler assigns to each member of a struct, in order of declaration.\<close>

fun members :: "ctype \<Rightarrow> bytes \<Rightarrow> bytes list" where
  "members (CStruct fs) bs =
     map (\<lambda>(n, _). seg (the (coffset n (CStruct fs))) (the (cmember_size n (CStruct fs))) bs) fs"
| "members t bs = [bs]"

lemmas members_eval = rk_layout_defs coffset_def cmember_size_def round_up_code cplace_def

lemma members_at:
  "members rk_hdr_layout bs =
     [seg 0 8 bs, seg 8 8 bs, seg 16 8 bs, seg 24 4 bs, seg 28 4 bs, seg 32 4 bs, seg 36 4 bs, seg 40 2 bs, seg 42 1 bs, seg 43 1 bs, seg 44 4 bs]"
  "members rk_payload_exec_layout bs =
     [seg 0 8 bs, seg 8 8 bs, seg 16 4 bs, seg 20 2 bs, seg 22 2 bs]"
  "members rk_payload_file_layout bs =
     [seg 0 8 bs, seg 8 8 bs, seg 16 4 bs, seg 20 4 bs, seg 24 2 bs, seg 26 2 bs, seg 28 4 bs]"
  "members rk_payload_net_layout bs =
     [seg 0 16 bs, seg 16 16 bs, seg 32 2 bs, seg 34 2 bs, seg 36 2 bs, seg 38 1 bs, seg 39 1 bs]"
  "members rk_payload_sock_layout bs =
     [seg 0 2 bs, seg 2 2 bs, seg 4 4 bs, seg 8 4 bs, seg 12 4 bs]"
  "members rk_payload_tun_layout bs =
     [seg 0 4 bs, seg 4 4 bs]"
  "members rk_payload_file_deny_layout bs =
     [seg 0 8 bs, seg 8 8 bs, seg 16 4 bs, seg 20 2 bs, seg 22 1 bs, seg 23 1 bs, seg 24 2 bs, seg 26 2 bs, seg 28 4 bs]"
  "members rk_payload_tamper_layout bs =
     [seg 0 2 bs, seg 2 2 bs, seg 4 4 bs, seg 8 8 bs]"
  by (simp_all add: members_eval)

lemma hdr_members: "members rk_hdr_layout (enc_hdr h) =
    [le 8 (hdr_ts_ns h), le 8 (hdr_cgroup_id h), le 8 (hdr_policy_gen h), le 4 (hdr_pid h), le 4 (hdr_tgid h), le 4 (hdr_uid h),
     le 4 (hdr_gid h), le 2 (hdr_type h), le 1 (hdr_verdict h), le 1 (hdr_abi h), le 4 (hdr_rule_id h)]"
  by (simp add: members_at enc_hdr_def seg_codec)

lemma payload_members:
  "members rk_payload_exec_layout (enc_exec x) =
     [le 8 (pe_file_dev x), le 8 (pe_file_ino x), le 4 (pe_flags x), le 2 (pe_str_count x), le 2 (pe_pad x)]"
  "members rk_payload_file_layout (enc_file f) =
     [le 8 (pf_file_dev f), le 8 (pf_file_ino f), le 4 (pf_open_flags f), le 4 (pf_mode f), le 2 (pf_str_count f),
      le 2 (pf_pad f), le 4 (pf_pad2 f)]"
  "wf_net n \<Longrightarrow> members rk_payload_net_layout (enc_net n) =
     [pn_saddr_v6 n, pn_daddr_v6 n, le 2 (pn_sport n), le 2 (pn_dport n), le 2 (pn_family n), le 1 (pn_protocol n), le 1 (pn_pad n)]"
  "members rk_payload_sock_layout (enc_sock k) =
     [le 2 (ps_family k), le 2 (ps_pad k), le 4 (ps_type k), le 4 (ps_protocol k), le 4 (ps_pad2 k)]"
  "members rk_payload_tun_layout (enc_tun t) = [le 4 (pt_op t), le 4 (pt_pad t)]"
  "members rk_payload_file_deny_layout (enc_file_deny d) =
     [le 8 (pd_file_dev d), le 8 (pd_file_ino d), le 4 (pd_access d), le 2 (pd_hook d), le 1 (pd_flags d), le 1 (pd_pad d),
      le 2 (pd_str_count d), le 2 (pd_pad2 d), le 4 (pd_pad3 d)]"
  "members rk_payload_tamper_layout (enc_tamper a) = [le 2 (px_hook a), le 2 (px_pad a), le 4 (px_target_tgid a), le 8 (px_detail a)]"
  by (simp_all add: members_at pod_simps seg_codec)



end
