(* ===== verification/Kernel_Env.thy ===== *)
theory Kernel_Env
  imports Rk_Prelude
begin

text \<open>
  What the eBPF programs see of the running kernel.  Kernel objects are records that hold the
  members the programs read, addressed by pointer; \<open>BPF_CORE_READ\<close> of an address that cannot be
  read yields zero, as the helper zeroes its destination on a fault.  The helpers themselves are not
  code of this repository, so they are parameters: the record \<open>kenv\<close> holds what each helper call of
  one program run returns, and \<open>probe_ok\<close> is the documented behaviour of the two copying helpers.
\<close>

subsection \<open>Kernel objects\<close>

record k_super_block =
  s_dev :: u32
  s_magic :: u64

record k_inode =
  i_sb :: u64
  i_ino :: u64
  i_nlink :: u32

record k_dentry =
  d_parent :: u64
  d_inode :: u64
  d_name_name :: u64  \<comment> \<open>\<open>d_name.name\<close>\<close>

record k_file =
  f_inode :: u64
  f_path_dentry :: u64  \<comment> \<open>\<open>f_path.dentry\<close>\<close>
  f_mode :: u32
  f_flags :: u32

record k_linux_binprm =
  bprm_file :: u64
  bprm_filename :: u64

record k_mm_struct =
  mm_arg_start :: u64
  mm_arg_end :: u64

record k_task_struct =
  t_tgid :: u32
  t_mm :: u64
  t_group_leader :: u64
  t_start_boottime :: u64

record k_iattr =
  ia_valid :: u32

record k_vfsmount =
  mnt_sb :: u64

record bpf_sock_addr =
  user_ip4 :: u32
  user_ip6_0 :: u32
  user_ip6_1 :: u32
  user_ip6_2 :: u32
  user_ip6_3 :: u32
  user_port :: u32
  protocol :: u32

record kheap =
  super_blocks :: "u64 \<rightharpoonup> k_super_block"
  inodes :: "u64 \<rightharpoonup> k_inode"
  dentries :: "u64 \<rightharpoonup> k_dentry"
  files :: "u64 \<rightharpoonup> k_file"
  binprms :: "u64 \<rightharpoonup> k_linux_binprm"
  mms :: "u64 \<rightharpoonup> k_mm_struct"
  tasks :: "u64 \<rightharpoonup> k_task_struct"
  iattrs :: "u64 \<rightharpoonup> k_iattr"
  vfsmounts :: "u64 \<rightharpoonup> k_vfsmount"

text \<open>Reads through a pointer; every member of an unreadable object reads as zero.\<close>

definition rd_super_block :: "kheap \<Rightarrow> u64 \<Rightarrow> k_super_block" where
  "rd_super_block h p = (case super_blocks h p of Some x \<Rightarrow> x | None \<Rightarrow> \<lparr>s_dev = 0, s_magic = 0\<rparr>)"

definition rd_inode :: "kheap \<Rightarrow> u64 \<Rightarrow> k_inode" where
  "rd_inode h p = (case inodes h p of Some x \<Rightarrow> x | None \<Rightarrow> \<lparr>i_sb = 0, i_ino = 0, i_nlink = 0\<rparr>)"

definition rd_dentry :: "kheap \<Rightarrow> u64 \<Rightarrow> k_dentry" where
  "rd_dentry h p =
     (case dentries h p of Some x \<Rightarrow> x | None \<Rightarrow> \<lparr>d_parent = 0, d_inode = 0, d_name_name = 0\<rparr>)"

definition rd_file :: "kheap \<Rightarrow> u64 \<Rightarrow> k_file" where
  "rd_file h p = (case files h p of Some x \<Rightarrow> x
     | None \<Rightarrow> \<lparr>f_inode = 0, f_path_dentry = 0, f_mode = 0, f_flags = 0\<rparr>)"

definition rd_binprm :: "kheap \<Rightarrow> u64 \<Rightarrow> k_linux_binprm" where
  "rd_binprm h p = (case binprms h p of Some x \<Rightarrow> x | None \<Rightarrow> \<lparr>bprm_file = 0, bprm_filename = 0\<rparr>)"

definition rd_mm :: "kheap \<Rightarrow> u64 \<Rightarrow> k_mm_struct" where
  "rd_mm h p = (case mms h p of Some x \<Rightarrow> x | None \<Rightarrow> \<lparr>mm_arg_start = 0, mm_arg_end = 0\<rparr>)"

definition rd_task :: "kheap \<Rightarrow> u64 \<Rightarrow> k_task_struct" where
  "rd_task h p = (case tasks h p of Some x \<Rightarrow> x
     | None \<Rightarrow> \<lparr>t_tgid = 0, t_mm = 0, t_group_leader = 0, t_start_boottime = 0\<rparr>)"

definition rd_iattr :: "kheap \<Rightarrow> u64 \<Rightarrow> k_iattr" where
  "rd_iattr h p = (case iattrs h p of Some x \<Rightarrow> x | None \<Rightarrow> \<lparr>ia_valid = 0\<rparr>)"

definition rd_vfsmount :: "kheap \<Rightarrow> u64 \<Rightarrow> k_vfsmount" where
  "rd_vfsmount h p = (case vfsmounts h p of Some x \<Rightarrow> x | None \<Rightarrow> \<lparr>mnt_sb = 0\<rparr>)"

subsection \<open>Helpers\<close>

text \<open>
  One program run.  The members up to \<open>heap\<close> are what a decision may depend on; the rest is
  telemetry: the clock and identity read into the event header, string copies, the ring buffer and
  the test build that makes every emission fail.  A member indexed by \<open>nat\<close> gives the result of the
  call made for the \<open>n\<close>-th event built on this CPU.
\<close>

record kenv =
  current_cgroup_id :: u64            \<comment> \<open>\<open>bpf_get_current_cgroup_id()\<close>\<close>
  ancestor_cgroup_id :: "nat \<Rightarrow> u64"  \<comment> \<open>\<open>bpf_get_current_ancestor_cgroup_id(level)\<close>\<close>
  gov_boot_ns :: u64                  \<comment> \<open>\<open>bpf_ktime_get_boot_ns()\<close> in the heartbeat check\<close>
  heap :: kheap
  current_pid_tgid :: u64             \<comment> \<open>\<open>bpf_get_current_pid_tgid()\<close>\<close>
  hdr_boot_ns :: "nat \<Rightarrow> u64"         \<comment> \<open>\<open>bpf_ktime_get_boot_ns()\<close> in \<open>rk_fill_hdr\<close>\<close>
  current_uid_gid :: u64              \<comment> \<open>\<open>bpf_get_current_uid_gid()\<close>\<close>
  probe_kernel_str :: "u64 \<Rightarrow> u32 \<Rightarrow> int \<times> bytes"
    \<comment> \<open>\<open>bpf_probe_read_kernel_str\<close>: source and size to result and the bytes stored\<close>
  probe_user :: "u64 \<Rightarrow> u32 \<Rightarrow> int \<times> bytes"
    \<comment> \<open>\<open>bpf_probe_read_user\<close>: source and size to result and the bytes stored\<close>
  empty_literal :: u64                \<comment> \<open>address of the string literal \<open>""\<close>\<close>
  ringbuf_avail :: "nat \<Rightarrow> u64"       \<comment> \<open>\<open>bpf_ringbuf_query(_, BPF_RB_AVAIL_DATA)\<close>\<close>
  ringbuf_accepts :: "nat \<Rightarrow> nat \<Rightarrow> bool"
    \<comment> \<open>whether \<open>bpf_ringbuf_output\<close> of so many bytes returns no error\<close>
  lru_inserts :: bool                 \<comment> \<open>whether \<open>bpf_map_update_elem\<close> of the LRU map succeeds\<close>
  lru_keeps :: "u32 \<Rightarrow> bool"          \<comment> \<open>whether another key survives that insertion\<close>
  rk_wakeup_threshold :: u64          \<comment> \<open>read-only constant set by the loader\<close>
  force_emit_fail :: bool             \<comment> \<open>built with \<open>RK_TEST_FORCE_EMIT_FAIL\<close>\<close>

text \<open>
  \<open>bpf_probe_read_kernel_str\<close> stores at most \<open>size\<close> bytes and returns the number of bytes of the
  string it stored, terminator included, or a negative error; \<open>bpf_probe_read_user\<close> returns a
  negative error or has copied exactly \<open>size\<close> bytes.
\<close>

definition probe_ok :: "kenv \<Rightarrow> bool" where
  "probe_ok e \<longleftrightarrow>
     (\<forall>src sz n bs. probe_kernel_str e src sz = (n, bs) \<longrightarrow>
        length bs \<le> unat sz \<and> n \<le> int (length bs)) \<and>
     (\<forall>src sz n bs. probe_user e src sz = (n, bs) \<longrightarrow>
        length bs \<le> unat sz \<and> (0 \<le> n \<longrightarrow> length bs = unat sz))"

lemma probe_ok_kernel_str:
  "probe_ok e \<Longrightarrow> probe_kernel_str e src sz = (n, bs) \<Longrightarrow> length bs \<le> unat sz \<and> n \<le> int (length bs)"
  unfolding probe_ok_def by blast

lemma probe_ok_user:
  "probe_ok e \<Longrightarrow> probe_user e src sz = (n, bs) \<Longrightarrow>
   length bs \<le> unat sz \<and> (0 \<le> n \<longrightarrow> length bs = unat sz)"
  unfolding probe_ok_def by blast

text \<open>Two runs that agree on everything a decision may depend on.\<close>

definition same_inputs :: "kenv \<Rightarrow> kenv \<Rightarrow> bool" where
  "same_inputs e e' \<longleftrightarrow>
     current_cgroup_id e = current_cgroup_id e' \<and> ancestor_cgroup_id e = ancestor_cgroup_id e' \<and>
     gov_boot_ns e = gov_boot_ns e' \<and> heap e = heap e'"

end
