(* ===== verification/Rk_Common.thy ===== *)
theory Rk_Common
  imports Rk_Abi Kernel_Env
begin

text \<open>
  The shared part of the eBPF object, \<open>rk-bpf/src/common.bpf.h\<close>: the policy maps the programs read,
  the per-CPU state they write, the governance context of a decision, and the best-effort emission
  of an event.  Every hook of the other component theories is built from the operations of this one.
\<close>

subsection \<open>Maps and per-CPU state\<close>

text \<open>
  The maps only the sensor writes.  A lookup is a partial function: \<open>None\<close> is a null result of
  \<open>bpf_map_lookup_elem\<close>.  For the two LPM tries the function is the kernel's longest-prefix lookup
  on the trie's current contents.
\<close>

record rk_maps =
  monitored_cgroups :: "u64 \<rightharpoonup> u64"
  rk_cgroup_profile :: "u64 \<rightharpoonup> rk_binding"
  rk_profiles :: "u32 \<rightharpoonup> rk_profile"
  rk_active_slot :: "u32 \<rightharpoonup> u32"
  rk_heartbeat :: "u32 \<rightharpoonup> u64"
  rk_config_map :: "u32 \<rightharpoonup> rk_config"
  rk_guard_map :: "u32 \<rightharpoonup> rk_guard_target"
  rk_net_deny :: "rk_net_key \<rightharpoonup> rk_net_rule"
  rk_net_allow :: "rk_net_key \<rightharpoonup> rk_net_rule"
  rk_exec_allow :: "rk_exec_key \<rightharpoonup> rk_exec_rule"
  rk_file_protect :: "rk_file_key \<rightharpoonup> rk_file_rule"

text \<open>
  The per-CPU scratch buffer: the message (header, lengths and a payload of
  \<open>RK_SCRATCH_PAYLOAD_MAX\<close> bytes) followed by as many slack bytes.
\<close>

record rk_scratch_buf =
  msg_hdr :: rk_hdr
  msg_payload_len :: u32
  msg_reserved :: u32
  msg_payload :: bytes
  msg_slack :: bytes

definition wf_scratch :: "rk_scratch_buf \<Rightarrow> bool" where
  "wf_scratch b \<longleftrightarrow> length (msg_payload b) = 2048 \<and> length (msg_slack b) = 2048"

record rk_exec_decision =
  xd_policy_gen :: u64
  xd_rule_id :: u32

text \<open>
  What the programs write: this CPU's counters and scratch buffer, the records accepted by the ring
  buffer (oldest first, each with its wakeup flags), and the pending exec decisions.  \<open>emit_seq\<close>
  counts the events handed to the ring buffer so far.
\<close>

record rk_cpu =
  rk_counters :: "u32 \<rightharpoonup> u64"
  scratch_map :: "rk_scratch_buf option"
  events_ringbuf :: "(bytes \<times> u64) list"
  emit_seq :: nat
  rk_exec_decided :: "u32 \<rightharpoonup> rk_exec_decision"
  lsm_exec_counter :: "u32 \<rightharpoonup> u64"  \<comment> \<open>selftest object only\<close>

definition rk_count :: "u32 \<Rightarrow> rk_cpu \<Rightarrow> rk_cpu" where
  "rk_count idx s = (case rk_counters s idx of
     Some val \<Rightarrow> s\<lparr>rk_counters := (rk_counters s)(idx \<mapsto> val + 1)\<rparr>
   | None \<Rightarrow> s)"

text \<open>Generation of a monitored cgroup, 0 if it is not governed (used by the selftest object).\<close>

definition rk_governed_gen :: "rk_maps \<Rightarrow> u64 \<Rightarrow> u64" where
  "rk_governed_gen m cgroup_id = (case monitored_cgroups m cgroup_id of Some gen \<Rightarrow> gen | None \<Rightarrow> 0)"

subsection \<open>Governance\<close>

record rk_gov =
  g_cgroup_id :: u64
  g_policy_gen :: u64
  g_scope :: u32
  g_mode :: u8
  g_net_default :: u8
  g_flags :: u16
  g_stale :: bool

definition rk_heartbeat_stale :: "kenv \<Rightarrow> rk_maps \<Rightarrow> bool" where
  "rk_heartbeat_stale e m = (case (rk_heartbeat m 0, rk_config_map m 0) of
     (Some beat, Some cfg) \<Rightarrow>
       (let timeout = heartbeat_timeout_ns cfg; now = gov_boot_ns e in
        if beat = 0 \<or> timeout = 0 then True
        else if beat \<ge> now then False
        else now - beat > timeout)
   | _ \<Rightarrow> True)"

text \<open>
  The walk over the ancestor levels, deepest first: \<open>rk_ancestor_walk\<close> is the body of the loop
  \<open>for (level = RK_CGROUP_MAX_DEPTH; level >= 1; level--)\<close> started at the given level.
\<close>

fun rk_ancestor_walk :: "kenv \<Rightarrow> rk_maps \<Rightarrow> u64 \<Rightarrow> u64 \<Rightarrow> nat \<Rightarrow> (u64 \<times> rk_binding) option" where
  "rk_ancestor_walk e m levels self 0 = None"
| "rk_ancestor_walk e m levels self (Suc l) =
     (if levels AND push_bit (Suc l) 1 = 0 then rk_ancestor_walk e m levels self l
      else let anc = ancestor_cgroup_id e (Suc l) in
        if anc = 0 \<or> anc = self then rk_ancestor_walk e m levels self l
        else case rk_cgroup_profile m anc of
               Some b \<Rightarrow> Some (anc, b)
             | None \<Rightarrow> rk_ancestor_walk e m levels self l)"

text \<open>The governing cgroup with its binding; \<open>None\<close> for an ungoverned task.\<close>

definition rk_governed_binding :: "kenv \<Rightarrow> rk_maps \<Rightarrow> u64 \<Rightarrow> (u64 \<times> rk_binding) option" where
  "rk_governed_binding e m self = (case rk_cgroup_profile m self of
     Some b \<Rightarrow> Some (self, b)
   | None \<Rightarrow>
       (let levels = (case rk_config_map m 0 of Some cfg \<Rightarrow> governed_levels cfg | None \<Rightarrow> 0) in
        if levels = 0 then None else rk_ancestor_walk e m levels self RK_CGROUP_MAX_DEPTH))"

definition rk_scope :: "u32 \<Rightarrow> u32 \<Rightarrow> u32" where
  "rk_scope slot profile = push_bit 31 slot OR profile"

definition gov_fail_closed :: "kenv \<Rightarrow> rk_maps \<Rightarrow> u64 \<Rightarrow> rk_gov" where
  "gov_fail_closed e m governed =
     \<lparr>g_cgroup_id = governed, g_policy_gen = 0, g_scope = 0xffffffff, g_mode = RK_MODE_ENFORCE,
      g_net_default = RK_ACTION_DENY,
      g_flags = RK_PROFILE_DENY_RAW_SOCKETS OR RK_PROFILE_EXEC_DENY_DEFAULT,
      g_stale = rk_heartbeat_stale e m\<rparr>"

definition gov_of_profile :: "kenv \<Rightarrow> rk_maps \<Rightarrow> u64 \<Rightarrow> u32 \<Rightarrow> u32 \<Rightarrow> rk_profile \<Rightarrow> rk_gov" where
  "gov_of_profile e m governed slot profile prof =
     \<lparr>g_cgroup_id = governed, g_policy_gen = p_policy_gen prof, g_scope = rk_scope slot profile,
      g_mode = p_mode prof, g_net_default = p_net_default prof, g_flags = p_flags prof,
      g_stale = (p_mode prof = RK_MODE_ENFORCE \<and> rk_heartbeat_stale e m)\<rparr>"

definition active_slot :: "rk_maps \<Rightarrow> u32" where
  "active_slot m = (case rk_active_slot m 0 of Some a \<Rightarrow> a AND 1 | None \<Rightarrow> 0)"

definition rk_governance :: "kenv \<Rightarrow> rk_maps \<Rightarrow> rk_gov option" where
  "rk_governance e m = (case rk_governed_binding e m (current_cgroup_id e) of
     None \<Rightarrow> None
   | Some (governed, binding) \<Rightarrow>
       (let slot = active_slot m; profile = b_profile binding in
        if profile \<ge> RK_MAX_PROFILES then Some (gov_fail_closed e m governed)
        else case rk_profiles m (slot * RK_MAX_PROFILES + profile) of
               None \<Rightarrow> Some (gov_fail_closed e m governed)
             | Some prof \<Rightarrow>
                 if p_policy_gen prof = 0 then Some (gov_fail_closed e m governed)
                 else Some (gov_of_profile e m governed slot profile prof)))"

subsection \<open>Verdicts and counters\<close>

definition rk_effective_deny :: "rk_gov \<Rightarrow> u8 \<Rightarrow> bool" where
  "rk_effective_deny g action \<longleftrightarrow> action = RK_ACTION_DENY \<or> (g_stale g \<and> g_mode g = RK_MODE_ENFORCE)"

definition rk_reported_verdict :: "rk_gov \<Rightarrow> u8 \<Rightarrow> u8" where
  "rk_reported_verdict g action =
     (if \<not> rk_effective_deny g action then RK_VERDICT_ALLOW
      else if g_mode g = RK_MODE_ENFORCE then RK_VERDICT_DENY else RK_VERDICT_AUDIT_WOULD_DENY)"

definition rk_enforced_deny :: "rk_gov \<Rightarrow> u8 \<Rightarrow> bool" where
  "rk_enforced_deny g action \<longleftrightarrow> rk_effective_deny g action \<and> g_mode g = RK_MODE_ENFORCE"

definition rk_count_decision :: "u32 \<Rightarrow> rk_gov \<Rightarrow> u8 \<Rightarrow> rk_cpu \<Rightarrow> rk_cpu" where
  "rk_count_decision hook g action s =
     (let verdict = ucast (rk_reported_verdict g action) :: u32 in
      if hook \<ge> RK_HOOK_MAX \<or> verdict \<ge> RK_VERDICTS then s
      else rk_count (RK_CNT_DECISION_BASE + hook * RK_VERDICTS + verdict) s)"

definition rk_rule :: "rk_gov \<Rightarrow> u8 \<Rightarrow> u32 \<Rightarrow> u32" where
  "rk_rule g action rule_id =
     (if action \<noteq> RK_ACTION_DENY \<and> g_stale g \<and> g_mode g = RK_MODE_ENFORCE then RK_RULE_HEARTBEAT
      else rule_id)"

subsection \<open>Building and emitting an event\<close>

abbreviation (input) RK_PAYLOAD_MASK :: u32 where "RK_PAYLOAD_MASK \<equiv> 2047"

abbreviation (input) BPF_RB_NO_WAKEUP :: u64 where "BPF_RB_NO_WAKEUP \<equiv> 1"
abbreviation (input) BPF_RB_FORCE_WAKEUP :: u64 where "BPF_RB_FORCE_WAKEUP \<equiv> 2"

text \<open>
  The message pointer the programs hold points into \<open>scratch_map\<close>.  \<open>rk_scratch\<close> returns the
  buffer's contents with the two length fields reset; the hooks work on that value and \<open>rk_emit\<close>
  stores it back, so what one event leaves in the buffer is what the next one starts from.
\<close>

definition rk_scratch :: "kenv \<Rightarrow> rk_cpu \<Rightarrow> rk_scratch_buf option \<times> rk_cpu" where
  "rk_scratch e s =
     (if force_emit_fail e then (None, rk_count RK_CNT_SCRATCH_MISS s)
      else case scratch_map s of
             None \<Rightarrow> (None, rk_count RK_CNT_SCRATCH_MISS s)
           | Some buf \<Rightarrow>
               (let buf' = buf\<lparr>msg_payload_len := 0, msg_reserved := 0\<rparr>
                in (Some buf', s\<lparr>scratch_map := Some buf'\<rparr>)))"

definition rk_fill_hdr :: "kenv \<Rightarrow> nat \<Rightarrow> u64 \<Rightarrow> u64 \<Rightarrow> u16 \<Rightarrow> u8 \<Rightarrow> u32 \<Rightarrow> rk_hdr \<Rightarrow> rk_hdr" where
  "rk_fill_hdr e n cgroup_id policy_gen ty verdict rule_id hdr = hdr
     \<lparr>hdr_ts_ns := hdr_boot_ns e n, hdr_cgroup_id := cgroup_id, hdr_policy_gen := policy_gen,
      hdr_pid := 0, hdr_tgid := 0, hdr_uid := ucast (current_uid_gid e),
      hdr_gid := ucast (drop_bit 32 (current_uid_gid e)), hdr_type := ty, hdr_verdict := verdict,
      hdr_abi := RK_ABI_VERSION, hdr_rule_id := rule_id\<rparr>"

definition rk_fill_task :: "kenv \<Rightarrow> rk_hdr \<Rightarrow> rk_hdr" where
  "rk_fill_task e hdr = hdr
     \<lparr>hdr_pid := ucast (current_pid_tgid e), hdr_tgid := ucast (drop_bit 32 (current_pid_tgid e))\<rparr>"

text \<open>A store of bytes at an offset of the payload; it may run on into the slack.\<close>

definition msg_store :: "nat \<Rightarrow> bytes \<Rightarrow> rk_scratch_buf \<Rightarrow> rk_scratch_buf" where
  "msg_store off bs b =
     (let area = splice_at off bs (msg_payload b @ msg_slack b)
      in b\<lparr>msg_payload := take 2048 area, msg_slack := drop 2048 area\<rparr>)"

definition rk_append_kstr :: "kenv \<Rightarrow> u64 \<Rightarrow> u32 \<Rightarrow> rk_scratch_buf \<Rightarrow> rk_scratch_buf" where
  "rk_append_kstr e src max_len msg =
     (let off = msg_payload_len msg in
      if off > RK_SCRATCH_PAYLOAD_MAX - 3 then msg
      else
        let len_off = off AND RK_PAYLOAD_MASK;
            str_off = (off + 2) AND RK_PAYLOAD_MASK;
            room = RK_SCRATCH_PAYLOAD_MAX - (off + 2);
            max_len = (if max_len > room then room else max_len) AND RK_PAYLOAD_MASK;
            (n, bs) = probe_kernel_str e src max_len;
            msg = msg_store (unat str_off) bs msg
        in if n \<le> 0
           then (msg_store (unat len_off) (le 2 (0 :: u16)) msg)\<lparr>msg_payload_len := off + 2\<rparr>
           else (msg_store (unat len_off) (le 2 (word_of_int (n - 1) :: u16)) msg)
                  \<lparr>msg_payload_len := off + 2 + word_of_int (n - 1)\<rparr>)"

text \<open>Result 0: copied, 1: truncated to fit, -1: the memory could not be read.\<close>

definition rk_append_ublob :: "kenv \<Rightarrow> u64 \<Rightarrow> u64 \<Rightarrow> rk_scratch_buf \<Rightarrow> int \<times> rk_scratch_buf" where
  "rk_append_ublob e src want msg =
     (let off = msg_payload_len msg in
      if off > RK_SCRATCH_PAYLOAD_MAX - 3 then (1, msg)
      else
        let len_off = off AND RK_PAYLOAD_MASK;
            str_off = (off + 2) AND RK_PAYLOAD_MASK;
            room = RK_SCRATCH_PAYLOAD_MAX - (off + 2);
            truncated = (if want > ucast room then 1 else 0);
            n = (if want > ucast room then room else ucast want) AND RK_PAYLOAD_MASK;
            (res, bs) = probe_user e src n;
            msg = msg_store (unat str_off) bs msg
        in if res < 0
           then (- 1, (msg_store (unat len_off) (le 2 (0 :: u16)) msg)\<lparr>msg_payload_len := off + 2\<rparr>)
           else (truncated, (msg_store (unat len_off) (le 2 (ucast n :: u16)) msg)
                              \<lparr>msg_payload_len := off + 2 + n\<rparr>))"

text \<open>The bytes handed to the ring buffer: header, lengths and the payload at its real size.\<close>

definition msg_record :: "rk_scratch_buf \<Rightarrow> u32 \<Rightarrow> bytes" where
  "msg_record msg len = enc_hdr (msg_hdr msg) @ le 4 (msg_payload_len msg) @ le 4 (msg_reserved msg)
     @ take (unat len) (msg_payload msg @ msg_slack msg)"

definition rk_emit :: "kenv \<Rightarrow> rk_scratch_buf \<Rightarrow> rk_cpu \<Rightarrow> rk_cpu" where
  "rk_emit e msg s =
     (let len = (if msg_payload_len msg > RK_SCRATCH_PAYLOAD_MAX then RK_SCRATCH_PAYLOAD_MAX
                 else msg_payload_len msg) AND (2 * RK_SCRATCH_PAYLOAD_MAX - 1);
          flags = (if rk_wakeup_threshold e \<noteq> 0
                   then (if ringbuf_avail e (emit_seq s) \<ge> rk_wakeup_threshold e
                         then BPF_RB_FORCE_WAKEUP else BPF_RB_NO_WAKEUP)
                   else 0);
          s' = s\<lparr>scratch_map := Some msg, emit_seq := Suc (emit_seq s)\<rparr>
      in if ringbuf_accepts e (emit_seq s) (48 + 8 + unat len)
         then s'\<lparr>events_ringbuf := events_ringbuf s' @ [(msg_record msg len, flags)]\<rparr>
         else rk_count RK_CNT_RINGBUF_DROP s')"

subsection \<open>What an append transmits\<close>

text \<open>The transmitted part of the payload, and a length-prefixed string of it.\<close>

definition msg_content :: "rk_scratch_buf \<Rightarrow> bytes" where
  "msg_content b = take (unat (msg_payload_len b)) (msg_payload b)"

definition wire_str :: "bytes \<Rightarrow> bytes" where
  "wire_str t = le 2 (of_nat (length t) :: u16) @ t"

text \<open>The text a string append transmits, and the number of bytes it may copy.\<close>

definition kstr_text :: "kenv \<Rightarrow> u64 \<Rightarrow> u32 \<Rightarrow> bytes" where
  "kstr_text e src n = (case probe_kernel_str e src n of (r, bs) \<Rightarrow> if r \<le> 0 then [] else take (nat (r - 1)) bs)"

definition str_cap :: "u32 \<Rightarrow> u32 \<Rightarrow> u32" where
  "str_cap off max_len = (if max_len > 2046 - off then 2046 - off else max_len)"

text \<open>Room for a length field and one byte is left.\<close>

definition fits :: "rk_scratch_buf \<Rightarrow> bool" where
  "fits b \<longleftrightarrow> wf_scratch b \<and> msg_payload_len b \<le> 2045"

text \<open>The same for a copy from user memory.\<close>

definition blob_cap :: "u32 \<Rightarrow> u64 \<Rightarrow> u32" where
  "blob_cap off want = (if want > ucast (2046 - off) then 2046 - off else ucast want)"

definition ublob_text :: "kenv \<Rightarrow> u64 \<Rightarrow> u32 \<Rightarrow> bytes" where
  "ublob_text e src n = (case probe_user e src n of (r, bs) \<Rightarrow> if r < 0 then [] else bs)"

lemma and_2047: "(x :: u32) < 2048 \<Longrightarrow> x AND 2047 = x"
  using less_mask_eq [of x 11] by (simp add: mask_eq_exp_minus_1)

lemma and_4095: "(x :: u32) < 4096 \<Longrightarrow> x AND 4095 = x"
  using less_mask_eq [of x 12] by (simp add: mask_eq_exp_minus_1)

lemma take_splice_framed:
  "off + length ls + length bs \<le> length xs \<Longrightarrow> k \<le> length bs \<Longrightarrow>
   take (off + length ls + k) (splice_at off ls (splice_at (off + length ls) bs xs)) = take off xs @ ls @ take k bs"
  by (simp add: splice_at_def)

lemma msg_store_inside:
  assumes "wf_scratch b" "off + length bs \<le> 2048"
  shows "msg_payload (msg_store off bs b) = splice_at off bs (msg_payload b)"
    and "msg_slack (msg_store off bs b) = msg_slack b"
    and "wf_scratch (msg_store off bs b)"
  using assms by (simp_all add: msg_store_def wf_scratch_def Let_def splice_at_inside_append length_splice_at)

lemma msg_store_frame [simp]:
  "msg_hdr (msg_store off bs b) = msg_hdr b" "msg_payload_len (msg_store off bs b) = msg_payload_len b"
  "msg_reserved (msg_store off bs b) = msg_reserved b"
  by (simp_all add: msg_store_def Let_def)

lemma str_cap_bound: "off \<le> 2045 \<Longrightarrow> unat (str_cap off n) \<le> 2046 - unat off"
  unfolding str_cap_def by (auto simp: word_le_nat_alt word_less_nat_alt unat_sub)

lemma append_offsets:
  fixes off :: u32
  assumes "off \<le> 2045"
  shows "off AND 2047 = off" "(off + 2) AND 2047 = off + 2" "unat (off + 2) = unat off + 2"
    "2048 - (off + 2) = 2046 - off" "str_cap off n AND 2047 = str_cap off n" "unat off \<le> 2045"
proof -
  show o: "unat off \<le> 2045" using assms by (simp add: word_le_nat_alt)
  show o2: "unat (off + 2) = unat off + 2" using o by (simp add: unat_word_ariths)
  show "off AND 2047 = off" using o by (intro and_2047) (simp add: word_less_nat_alt)
  show "(off + 2) AND 2047 = off + 2" using o o2 by (intro and_2047) (simp add: word_less_nat_alt)
  show "2048 - (off + 2) = 2046 - off" by simp
  show "str_cap off n AND 2047 = str_cap off n"
    using str_cap_bound [OF assms, of n] by (intro and_2047) (simp add: word_less_nat_alt)
qed

lemma rk_append_kstr_eq:
  assumes "msg_payload_len b \<le> 2045"
  shows "rk_append_kstr e src n b =
    (case probe_kernel_str e src (str_cap (msg_payload_len b) n) of (r, bs) \<Rightarrow>
      (msg_store (unat (msg_payload_len b)) (le 2 (if r \<le> 0 then 0 else word_of_int (r - 1) :: u16))
        (msg_store (unat (msg_payload_len b) + 2) bs b))
       \<lparr>msg_payload_len := msg_payload_len b + 2 + (if r \<le> 0 then 0 else word_of_int (r - 1))\<rparr>)"
  using assms append_offsets [OF assms]
  by (simp add: rk_append_kstr_def Let_def str_cap_def [symmetric] not_less [symmetric] split: prod.split)

lemma append_framed:
  assumes "wf_scratch b" "unat (msg_payload_len b) + 2 + length bs \<le> 2048" "k \<le> length bs"
  defines "b' \<equiv> (msg_store (unat (msg_payload_len b)) (le 2 (of_nat k :: u16))
      (msg_store (unat (msg_payload_len b) + 2) bs b))\<lparr>msg_payload_len := msg_payload_len b + 2 + of_nat k\<rparr>"
  shows "msg_content b' = msg_content b @ wire_str (take k bs)"
    and "unat (msg_payload_len b') = unat (msg_payload_len b) + 2 + k"
    and "wf_scratch b'" and "msg_slack b' = msg_slack b"
    and "msg_hdr b' = msg_hdr b" and "msg_reserved b' = msg_reserved b"
proof -
  let ?o = "unat (msg_payload_len b)"
  let ?b1 = "msg_store (?o + 2) bs b"
  let ?b2 = "msg_store ?o (le 2 (of_nat k :: u16)) ?b1"
  note s1 = msg_store_inside [OF assms(1), of "?o + 2" bs]
  have wf1: "wf_scratch ?b1" using s1 assms(2) by simp
  note s2 = msg_store_inside [OF wf1, of ?o "le 2 (of_nat k :: u16)"]
  have len: "unat (msg_payload_len b + 2 + of_nat k) = ?o + 2 + k"
    using assms(2,3) by (simp add: unat_word_ariths unat_of_nat)
  then show "unat (msg_payload_len b') = ?o + 2 + k" by (simp add: b'_def)
  have "msg_payload ?b2 = splice_at ?o (le 2 (of_nat k :: u16)) (splice_at (?o + 2) bs (msg_payload b))"
    using s1 s2 assms(2) by simp
  then show "msg_content b' = msg_content b @ wire_str (take k bs)"
    using len assms take_splice_framed [of ?o "le 2 (of_nat k :: u16)" bs "msg_payload b" k]
    by (simp add: msg_content_def wire_str_def b'_def wf_scratch_def min_def)
  show "wf_scratch b'" "msg_slack b' = msg_slack b"
    using s1 s2 assms(2) by (simp_all add: b'_def wf_scratch_def)
  show "msg_hdr b' = msg_hdr b" "msg_reserved b' = msg_reserved b" by (simp_all add: b'_def)
qed

lemma rk_append_kstr_content:
  fixes src :: u64 and n :: u32
  assumes "fits b" "probe_ok e"
  defines "t \<equiv> kstr_text e src (str_cap (msg_payload_len b) n)" and "b' \<equiv> rk_append_kstr e src n b"
  shows "msg_content b' = msg_content b @ wire_str t"
    and "unat (msg_payload_len b') = unat (msg_payload_len b) + 2 + length t"
    and "length t \<le> unat n" and "unat (msg_payload_len b') \<le> 2047"
    and "wf_scratch b'" and "msg_slack b' = msg_slack b"
    and "msg_hdr b' = msg_hdr b" and "msg_reserved b' = msg_reserved b"
proof -
  have b: "wf_scratch b" "msg_payload_len b \<le> 2045" using assms(1) by (simp_all add: fits_def)
  obtain r bs where p: "probe_kernel_str e src (str_cap (msg_payload_len b) n) = (r, bs)" by fastforce
  define k where "k = (if r \<le> 0 then 0 else nat (r - 1))"
  have cap: "unat (str_cap (msg_payload_len b) n) \<le> 2046 - unat (msg_payload_len b)"
    using b(2) by (rule str_cap_bound)
  have capn: "unat (str_cap (msg_payload_len b) n) \<le> unat n"
    by (auto simp: str_cap_def word_le_nat_alt word_less_nat_alt)
  have bs: "length bs \<le> unat (str_cap (msg_payload_len b) n)" "r \<le> int (length bs)"
    using probe_ok_kernel_str [OF assms(2) p] by auto
  have o: "unat (msg_payload_len b) \<le> 2045" using append_offsets [OF b(2)] by simp
  have k: "k \<le> length bs" "0 < length bs \<longrightarrow> k < length bs" using bs(2) by (auto simp: k_def)
  have sz: "unat (msg_payload_len b) + 2 + length bs \<le> 2048" using bs cap o by simp
  have t: "t = take k bs" by (simp add: t_def kstr_text_def p k_def)
  have eq: "b' = (msg_store (unat (msg_payload_len b)) (le 2 (of_nat k :: u16))
      (msg_store (unat (msg_payload_len b) + 2) bs b))\<lparr>msg_payload_len := msg_payload_len b + 2 + of_nat k\<rparr>"
    unfolding b'_def rk_append_kstr_eq [OF b(2)] p by (simp add: k_def of_nat_nat)
  note f = append_framed [OF b(1) sz k(1), folded eq]
  show "msg_content b' = msg_content b @ wire_str t" using f(1) t by simp
  show len: "unat (msg_payload_len b') = unat (msg_payload_len b) + 2 + length t" using f(2) t k by simp
  show "length t \<le> unat n" using t bs capn by simp
  show "unat (msg_payload_len b') \<le> 2047" using len t k sz o by (cases bs) auto
  show "wf_scratch b'" "msg_slack b' = msg_slack b" "msg_hdr b' = msg_hdr b" "msg_reserved b' = msg_reserved b"
    using f by auto
qed


lemma unat_ucast_small:
  fixes x :: "'a::len word"
  shows "unat x < 2 ^ LENGTH('b::len) \<Longrightarrow> unat (ucast x :: 'b word) = unat x"
  by (simp add: unsigned_ucast_eq take_bit_nat_eq_self)

lemma blob_cap_bound: "off \<le> 2045 \<Longrightarrow> unat (blob_cap off want) \<le> 2046 - unat off"
proof -
  assume off: "off \<le> 2045"
  have room: "unat (2046 - off) = 2046 - unat off"
    using off by (simp add: word_le_nat_alt unat_sub)
  show ?thesis
  proof (cases "want > ucast (2046 - off)")
    case False
    then have "unat want \<le> unat (ucast (2046 - off) :: u64)" by (simp add: word_less_nat_alt)
    then have w: "unat want \<le> 2046 - unat off" by (simp add: room unat_ucast_small)
    then have "unat (ucast want :: u32) = unat want" by (simp add: unat_ucast_small)
    then show ?thesis using False w by (simp add: blob_cap_def)
  qed (simp add: blob_cap_def room)
qed

lemma rk_append_ublob_eq:
  assumes "msg_payload_len b \<le> 2045"
  shows "rk_append_ublob e src want b =
    (case probe_user e src (blob_cap (msg_payload_len b) want) of (r, bs) \<Rightarrow>
      (if r < 0 then - 1 else if want > ucast (2046 - msg_payload_len b) then 1 else 0,
       (msg_store (unat (msg_payload_len b)) (le 2 (if r < 0 then 0 else ucast (blob_cap (msg_payload_len b) want) :: u16))
        (msg_store (unat (msg_payload_len b) + 2) bs b))
       \<lparr>msg_payload_len := msg_payload_len b + 2 + (if r < 0 then 0 else blob_cap (msg_payload_len b) want)\<rparr>))"
proof -
  have "blob_cap (msg_payload_len b) want AND 2047 = blob_cap (msg_payload_len b) want"
    using blob_cap_bound [OF assms, of want] by (intro and_2047) (simp add: word_less_nat_alt)
  moreover have "\<not> 2045 < msg_payload_len b" using assms by simp
  ultimately show ?thesis
    using append_offsets [OF assms]
    by (cases "want > ucast (2046 - msg_payload_len b)")
       (simp_all add: rk_append_ublob_def Let_def blob_cap_def split: prod.split)
qed

lemma rk_append_ublob_content:
  fixes src want :: u64
  assumes "fits b" "probe_ok e"
  defines "t \<equiv> ublob_text e src (blob_cap (msg_payload_len b) want)" and "b' \<equiv> snd (rk_append_ublob e src want b)"
  shows "msg_content b' = msg_content b @ wire_str t"
    and "unat (msg_payload_len b') = unat (msg_payload_len b) + 2 + length t"
    and "unat (msg_payload_len b') \<le> 2048"
    and "wf_scratch b'" and "msg_slack b' = msg_slack b"
    and "msg_hdr b' = msg_hdr b" and "msg_reserved b' = msg_reserved b"
proof -
  have b: "wf_scratch b" "msg_payload_len b \<le> 2045" using assms(1) by (simp_all add: fits_def)
  define c where "c = blob_cap (msg_payload_len b) want"
  obtain r bs where p: "probe_user e src c = (r, bs)" by fastforce
  define k where "k = (if r < 0 then 0 else length bs)"
  have cap: "unat c \<le> 2046 - unat (msg_payload_len b)"
    unfolding c_def using b(2) by (rule blob_cap_bound)
  have bs: "length bs \<le> unat c" "0 \<le> r \<Longrightarrow> length bs = unat c"
    using probe_ok_user [OF assms(2) p] by auto
  have o: "unat (msg_payload_len b) \<le> 2045" using append_offsets [OF b(2)] by simp
  have k: "k \<le> length bs" by (simp add: k_def)
  have sz: "unat (msg_payload_len b) + 2 + length bs \<le> 2048" using bs cap o by simp
  have t: "t = take k bs" using p by (simp add: t_def ublob_text_def k_def flip: c_def)
  have kc: "of_nat k = (if r < 0 then 0 else c)" "(of_nat k :: u16) = (if r < 0 then 0 else ucast c)"
    using bs(2) by (auto simp: k_def)
  have eq: "b' = (msg_store (unat (msg_payload_len b)) (le 2 (of_nat k :: u16))
      (msg_store (unat (msg_payload_len b) + 2) bs b))\<lparr>msg_payload_len := msg_payload_len b + 2 + of_nat k\<rparr>"
    unfolding b'_def rk_append_ublob_eq [OF b(2)] kc using p by (simp flip: c_def)
  note f = append_framed [OF b(1) sz k(1), folded eq]
  show "msg_content b' = msg_content b @ wire_str t" using f(1) t by simp
  show len: "unat (msg_payload_len b') = unat (msg_payload_len b) + 2 + length t" using f(2) t k by simp
  show "unat (msg_payload_len b') \<le> 2048" using len t k sz by auto
  show "wf_scratch b'" "msg_slack b' = msg_slack b" "msg_hdr b' = msg_hdr b" "msg_reserved b' = msg_reserved b"
    using f by auto
qed

lemma rk_count_frame [simp]:
  "scratch_map (rk_count i s) = scratch_map s" "events_ringbuf (rk_count i s) = events_ringbuf s"
  "emit_seq (rk_count i s) = emit_seq s" "rk_exec_decided (rk_count i s) = rk_exec_decided s"
  "lsm_exec_counter (rk_count i s) = lsm_exec_counter s"
  by (simp_all add: rk_count_def split: option.split)

lemma rk_count_decision_frame [simp]:
  "scratch_map (rk_count_decision h g a s) = scratch_map s"
  "events_ringbuf (rk_count_decision h g a s) = events_ringbuf s"
  "emit_seq (rk_count_decision h g a s) = emit_seq s"
  "rk_exec_decided (rk_count_decision h g a s) = rk_exec_decided s"
  "lsm_exec_counter (rk_count_decision h g a s) = lsm_exec_counter s"
  by (simp_all add: rk_count_decision_def Let_def)

end
