(* ===== verification/Rk_Contract.thy ===== *)
theory Rk_Contract
  imports Rk_Common
begin

text \<open>
  What a hook promises, independently of how it builds its events.  An event has an abstract value
  (\<open>rk_event\<close>) and \<open>enc_event\<close> is its wire form; \<open>emit_event\<close> is the abstract emission: one record
  in the ring buffer or one loss counted.  \<open>abs_cpu\<close> forgets the contents of the scratch buffer and
  the pending exec decisions, so a refinement over it shows that nothing left in the buffer by an
  earlier event is ever transmitted.  The locale \<open>decision_hook\<close> is the contract every hook
  of the object is shown to meet, and its lemmas hold of each of them.
\<close>

subsection \<open>Events\<close>

datatype rk_event =
    ExecEvent rk_payload_exec "bytes list"
  | FileEvent rk_payload_file "bytes list"
  | NetEvent rk_payload_net
  | SockEvent rk_payload_sock
  | TunEvent rk_payload_tun
  | FileDenyEvent rk_payload_file_deny "bytes list"
  | TamperEvent rk_payload_tamper

definition wire_strs :: "bytes list \<Rightarrow> bytes" where
  "wire_strs ts = concat (map wire_str ts)"

fun enc_event :: "rk_event \<Rightarrow> bytes" where
  "enc_event (ExecEvent b ts) = enc_exec b @ wire_strs ts"
| "enc_event (FileEvent b ts) = enc_file b @ wire_strs ts"
| "enc_event (NetEvent b) = enc_net b"
| "enc_event (SockEvent b) = enc_sock b"
| "enc_event (TunEvent b) = enc_tun b"
| "enc_event (FileDenyEvent b ts) = enc_file_deny b @ wire_strs ts"
| "enc_event (TamperEvent b) = enc_tamper b"

definition strs_ok :: "u16 \<Rightarrow> bytes list \<Rightarrow> bool" where
  "strs_ok n ts \<longleftrightarrow> unat n = length ts \<and> list_all (\<lambda>t. length t < 65536) ts"

text \<open>The event type of the header fits the body, and the body fits the payload.\<close>

fun event_shape :: "u16 \<Rightarrow> rk_event \<Rightarrow> bool" where
  "event_shape ty (ExecEvent b ts) \<longleftrightarrow> ty = RK_EV_EXEC \<and> strs_ok (pe_str_count b) ts"
| "event_shape ty (FileEvent b ts) \<longleftrightarrow> ty = RK_EV_FILE_OPEN \<and> strs_ok (pf_str_count b) ts"
| "event_shape ty (NetEvent b) \<longleftrightarrow> (ty = RK_EV_NET_CONNECT \<or> ty = RK_EV_SENDMSG) \<and> wf_net b"
| "event_shape ty (SockEvent b) \<longleftrightarrow> ty = RK_EV_SOCK_CREATE"
| "event_shape ty (TunEvent b) \<longleftrightarrow> ty = RK_EV_TUN"
| "event_shape ty (FileDenyEvent b ts) \<longleftrightarrow> ty = RK_EV_FILE_DENY \<and> strs_ok (pd_str_count b) ts"
| "event_shape ty (TamperEvent b) \<longleftrightarrow> ty = RK_EV_TAMPER"

definition wf_event :: "rk_hdr \<Rightarrow> rk_event \<Rightarrow> bool" where
  "wf_event h ev \<longleftrightarrow> event_shape (hdr_type h) ev \<and> hdr_abi h = RK_ABI_VERSION
     \<and> hdr_verdict h \<in> {0, 1, 2} \<and> length (enc_event ev) \<le> 2048"

text \<open>One record of the ring buffer.\<close>

definition wire_record :: "rk_hdr \<Rightarrow> bytes \<Rightarrow> bytes" where
  "wire_record h c = enc_hdr h @ le 4 (of_nat (length c) :: u32) @ le 4 (0 :: u32) @ c"

definition record_ok :: "bytes \<Rightarrow> bool" where
  "record_ok bs \<longleftrightarrow> (\<exists>h ev. bs = wire_record h (enc_event ev) \<and> wf_event h ev)"

definition event_hdr :: "kenv \<Rightarrow> nat \<Rightarrow> u64 \<Rightarrow> u64 \<Rightarrow> u16 \<Rightarrow> u8 \<Rightarrow> u32 \<Rightarrow> rk_hdr" where
  "event_hdr e n cg gen ty verdict rule =
     \<lparr>hdr_ts_ns = hdr_boot_ns e n, hdr_cgroup_id = cg, hdr_policy_gen = gen,
      hdr_pid = ucast (current_pid_tgid e), hdr_tgid = ucast (drop_bit 32 (current_pid_tgid e)),
      hdr_uid = ucast (current_uid_gid e), hdr_gid = ucast (drop_bit 32 (current_uid_gid e)),
      hdr_type = ty, hdr_verdict = verdict, hdr_abi = RK_ABI_VERSION, hdr_rule_id = rule\<rparr>"

subsection \<open>Emission, concretely and abstractly\<close>

text \<open>
  The shape \<open>msg = rk_scratch(); if (msg) { ...; rk_emit(msg); }\<close> the hooks share; the argument
  builds the message, given the sequence number of the event.
\<close>

definition rk_send :: "kenv \<Rightarrow> (nat \<Rightarrow> rk_scratch_buf \<Rightarrow> rk_scratch_buf) \<Rightarrow> rk_cpu \<Rightarrow> rk_cpu" where
  "rk_send e build s = (case rk_scratch e s of
     (None, s') \<Rightarrow> s'
   | (Some msg, s') \<Rightarrow> rk_emit e (build (emit_seq s') msg) s')"

definition wakeup_flags :: "kenv \<Rightarrow> nat \<Rightarrow> u64" where
  "wakeup_flags e n =
     (if rk_wakeup_threshold e = 0 then 0
      else if ringbuf_avail e n \<ge> rk_wakeup_threshold e then BPF_RB_FORCE_WAKEUP else BPF_RB_NO_WAKEUP)"

definition emit_event :: "kenv \<Rightarrow> (nat \<Rightarrow> rk_hdr) \<Rightarrow> bytes \<Rightarrow> rk_cpu \<Rightarrow> rk_cpu" where
  "emit_event e h c s =
     (if force_emit_fail e \<or> scratch_map s = None then rk_count RK_CNT_SCRATCH_MISS s
      else
        let n = emit_seq s; s' = s\<lparr>emit_seq := Suc n\<rparr> in
        if ringbuf_accepts e n (56 + length c)
        then s'\<lparr>events_ringbuf := events_ringbuf s @ [(wire_record (h n) c, wakeup_flags e n)]\<rparr>
        else rk_count RK_CNT_RINGBUF_DROP s')"

definition blank_buf :: rk_scratch_buf where
  "blank_buf = \<lparr>msg_hdr = \<lparr>hdr_ts_ns = 0, hdr_cgroup_id = 0, hdr_policy_gen = 0, hdr_pid = 0, hdr_tgid = 0,
      hdr_uid = 0, hdr_gid = 0, hdr_type = 0, hdr_verdict = 0, hdr_abi = 0, hdr_rule_id = 0\<rparr>,
     msg_payload_len = 0, msg_reserved = 0, msg_payload = [], msg_slack = []\<rparr>"

definition abs_cpu :: "rk_cpu \<Rightarrow> rk_cpu" where
  "abs_cpu s = s\<lparr>scratch_map := map_option (\<lambda>_. blank_buf) (scratch_map s), rk_exec_decided := (\<lambda>_. None)\<rparr>"

text \<open>
  The state between two program runs: the array map of the counters holds an entry for each of its
  keys, and the scratch buffer has its declared size.
\<close>

definition has_counters :: "rk_cpu \<Rightarrow> bool" where
  "has_counters s \<longleftrightarrow> (\<forall>i < RK_CNT_MAX. rk_counters s i \<noteq> None)"

definition wf_cpu :: "rk_cpu \<Rightarrow> bool" where
  "wf_cpu s \<longleftrightarrow> has_counters s \<and>
     (case scratch_map s of Some b \<Rightarrow> wf_scratch b | None \<Rightarrow> True)"

text \<open>A message ready to be emitted: its header, its content and nothing else matters.\<close>

definition built :: "rk_hdr \<Rightarrow> bytes \<Rightarrow> rk_scratch_buf \<Rightarrow> bool" where
  "built h c b \<longleftrightarrow> wf_scratch b \<and> msg_hdr b = h \<and> msg_reserved b = 0 \<and> msg_content b = c
     \<and> unat (msg_payload_len b) = length c \<and> length c \<le> 2048"

lemma fill_hdr_event [simp]:
  "rk_fill_task e (rk_fill_hdr e n cg gen ty v r h) = event_hdr e n cg gen ty v r"
  by (simp add: rk_fill_task_def rk_fill_hdr_def event_hdr_def)

lemma msg_store_eq:
  "length (msg_payload b) = 2048 \<Longrightarrow> off + length bs \<le> 2048 \<Longrightarrow>
   msg_store off bs b = b\<lparr>msg_payload := splice_at off bs (msg_payload b)\<rparr>"
  by (simp add: msg_store_def Let_def splice_at_inside_append length_splice_at)

lemmas body_simps = built_def wf_scratch_def msg_store_eq length_splice_at msg_content_def splice_at_def le_0 Let_def

lemma rk_emit_built:
  assumes "built h c b"
  shows "rk_emit e b s =
     (let n = emit_seq s; s' = s\<lparr>scratch_map := Some b, emit_seq := Suc n\<rparr> in
      if ringbuf_accepts e n (56 + length c)
      then s'\<lparr>events_ringbuf := events_ringbuf s @ [(wire_record h c, wakeup_flags e n)]\<rparr>
      else rk_count RK_CNT_RINGBUF_DROP s')"
proof -
  have b: "wf_scratch b" "msg_hdr b = h" "msg_reserved b = 0" "take (length c) (msg_payload b) = c"
    "unat (msg_payload_len b) = length c" "length c \<le> 2048"
    using assms by (auto simp: built_def msg_content_def)
  have le: "\<not> msg_payload_len b > 2048" using b by (simp add: word_less_nat_alt)
  have m: "msg_payload_len b AND 4095 = msg_payload_len b"
    using b by (intro and_4095) (simp add: word_less_nat_alt)
  have len: "msg_payload_len b = of_nat (length c)" by (simp flip: b(5))
  have "msg_record b (msg_payload_len b) = wire_record h c"
    using b by (simp add: msg_record_def wire_record_def wf_scratch_def flip: len)
  then show ?thesis
    using le m b(5) by (auto simp: rk_emit_def Let_def wakeup_flags_def)
qed

lemma rk_counters_rk_count: "rk_counters (rk_count i s) =
  (rk_counters s)(i := map_option (\<lambda>v. v + 1) (rk_counters s i))"
  by (auto simp: rk_count_def split: option.split)

lemma abs_cpu_simps [simp]:
  "rk_counters (abs_cpu s) = rk_counters s" "events_ringbuf (abs_cpu s) = events_ringbuf s"
  "emit_seq (abs_cpu s) = emit_seq s" "lsm_exec_counter (abs_cpu s) = lsm_exec_counter s"
  "(scratch_map (abs_cpu s) = None) = (scratch_map s = None)"
  "abs_cpu (s\<lparr>rk_exec_decided := d\<rparr>) = abs_cpu s"
  by (simp_all add: abs_cpu_def)

lemma abs_cpu_count [simp]:
  "abs_cpu (rk_count i s) = rk_count i (abs_cpu s)"
  "abs_cpu (rk_count_decision hk g a s) = rk_count_decision hk g a (abs_cpu s)"
  by (simp_all add: abs_cpu_def rk_count_def rk_count_decision_def Let_def split: option.split)

lemma rk_send_refines:
  assumes "wf_cpu s"
    and "\<And>n b. wf_scratch b \<Longrightarrow> msg_payload_len b = 0 \<Longrightarrow> msg_reserved b = 0 \<Longrightarrow> built (h n) c (build n b)"
  shows "abs_cpu (rk_send e build s) = emit_event e h c (abs_cpu s)"
    and "wf_cpu (rk_send e build s)"
proof -
  consider (miss) "force_emit_fail e \<or> scratch_map s = None"
    | (buf) b where "\<not> force_emit_fail e" "scratch_map s = Some b"
    by auto
  then have "abs_cpu (rk_send e build s) = emit_event e h c (abs_cpu s) \<and> wf_cpu (rk_send e build s)"
  proof cases
    case miss
    then show ?thesis using assms(1)
      by (auto simp: rk_send_def rk_scratch_def emit_event_def wf_cpu_def has_counters_def rk_counters_rk_count
          split: option.splits)
  next
    case buf
    let ?b0 = "b\<lparr>msg_payload_len := 0, msg_reserved := 0\<rparr>"
    have wf: "wf_scratch ?b0" using assms(1) buf by (simp add: wf_cpu_def wf_scratch_def)
    have bt: "built (h (emit_seq s)) c (build (emit_seq s) ?b0)" using assms(2) [OF wf] by simp
    then have "wf_scratch (build (emit_seq s) ?b0)" by (simp add: built_def)
    then show ?thesis using buf assms(1)
      by (simp add: rk_send_def rk_scratch_def Let_def rk_emit_built [OF bt] emit_event_def wf_cpu_def
          has_counters_def rk_counters_rk_count) (simp add: abs_cpu_def rk_count_def split: option.split)
  qed
  then show "abs_cpu (rk_send e build s) = emit_event e h c (abs_cpu s)" "wf_cpu (rk_send e build s)" by auto
qed

lemma rk_send_frame [simp]:
  "rk_exec_decided (rk_send e build s) = rk_exec_decided s"
  "lsm_exec_counter (rk_send e build s) = lsm_exec_counter s"
  by (simp_all add: rk_send_def rk_scratch_def rk_emit_def Let_def split: option.split)

lemma wf_cpu_count [simp]:
  "wf_cpu s \<Longrightarrow> wf_cpu (rk_count i s)" "wf_cpu s \<Longrightarrow> wf_cpu (rk_count_decision hk g a s)"
  by (auto simp: wf_cpu_def has_counters_def rk_counters_rk_count rk_count_decision_def Let_def)


subsection \<open>Decisions\<close>

text \<open>
  One decision of a hook: the hook class it is counted under, the action the policy asks for, the
  rule, and the event that reports it, if any.
\<close>

record decision =
  d_hook :: u32
  d_action :: u8
  d_rule :: u32
  d_type :: u16
  d_event :: "rk_event option"

definition enforced :: "rk_gov \<Rightarrow> decision \<Rightarrow> bool" where
  "enforced g d \<longleftrightarrow> rk_enforced_deny g (d_action d)"

definition decision_hdr :: "kenv \<Rightarrow> rk_gov \<Rightarrow> decision \<Rightarrow> nat \<Rightarrow> rk_hdr" where
  "decision_hdr e g d n = event_hdr e n (g_cgroup_id g) (g_policy_gen g) (d_type d)
     (rk_reported_verdict g (d_action d)) (rk_rule g (d_action d) (d_rule d))"

definition report :: "kenv \<Rightarrow> rk_gov \<Rightarrow> decision \<Rightarrow> rk_cpu \<Rightarrow> rk_cpu" where
  "report e g d s =
     (let s' = rk_count_decision (d_hook d) g (d_action d) s in
      case d_event d of
        None \<Rightarrow> s'
      | Some ev \<Rightarrow> emit_event e (decision_hdr e g d) (enc_event ev) s')"

text \<open>A hook that takes several decisions stops at the first one it enforces.\<close>

fun executed :: "rk_gov \<Rightarrow> decision list \<Rightarrow> decision list" where
  "executed g [] = []"
| "executed g (d # ds) = d # (if enforced g d then [] else executed g ds)"

definition settle :: "kenv \<Rightarrow> rk_gov \<Rightarrow> decision list \<Rightarrow> rk_cpu \<Rightarrow> rk_cpu" where
  "settle e g ds s = fold (report e g) (executed g ds) s"

definition wf_decision :: "decision \<Rightarrow> bool" where
  "wf_decision d \<longleftrightarrow> d_hook d < RK_HOOK_MAX \<and> (case d_event d of None \<Rightarrow> True
     | Some ev \<Rightarrow> event_shape (d_type d) ev \<and> length (enc_event ev) \<le> 2048)"

definition decision_index :: "rk_gov \<Rightarrow> decision \<Rightarrow> u32" where
  "decision_index g d = RK_CNT_DECISION_BASE + d_hook d * RK_VERDICTS + ucast (rk_reported_verdict g (d_action d))"

definition reported :: "rk_gov \<Rightarrow> decision list \<Rightarrow> nat" where
  "reported g ds = length (filter (\<lambda>d. d_event d \<noteq> None) (executed g ds))"

text \<open>Events lost so far: dropped by the ring buffer, or never built for want of a buffer.\<close>

definition lost :: "rk_cpu \<Rightarrow> u64" where
  "lost s = the (rk_counters s RK_CNT_RINGBUF_DROP) + the (rk_counters s RK_CNT_SCRATCH_MISS)"

lemma executed_sub: "set (executed g ds) \<subseteq> set ds"
  by (induction ds) auto

lemma reported_verdict_range: "rk_reported_verdict g a \<in> {0, 1, 2}"
  by (simp add: rk_reported_verdict_def)

lemma rk_rule_deny [simp]: "rk_rule g 1 r = r"
  by (simp add: rk_rule_def)

lemma settle_simps [simp]:
  "settle e g [] s = s"
  "settle e g (d # ds) s = (if enforced g d then report e g d s else settle e g ds (report e g d s))"
  by (simp_all add: settle_def)

text \<open>Counting a decision and sending its event implements \<open>report\<close>.\<close>

lemma report_refines:
  assumes "wf_cpu s" "d_event d = Some ev"
    and "\<And>n b. wf_scratch b \<Longrightarrow> msg_payload_len b = 0 \<Longrightarrow> msg_reserved b = 0 \<Longrightarrow>
      built (decision_hdr e g d n) (enc_event ev) (build n b)"
  shows "abs_cpu (rk_send e build (rk_count_decision (d_hook d) g (d_action d) s)) = report e g d (abs_cpu s)"
    and "wf_cpu (rk_send e build (rk_count_decision (d_hook d) g (d_action d) s))"
  using rk_send_refines [where h = "decision_hdr e g d" and c = "enc_event ev", OF wf_cpu_count(2) [OF assms(1)] assms(3)]
  by (simp_all add: report_def assms(2))

text \<open>The same for the hooks that only report what they would deny.\<close>

lemma report_deny_refines:
  assumes "wf_cpu s" "d_event d = (if rk_effective_deny g (d_action d) then Some ev else None)"
    and "\<And>n b. wf_scratch b \<Longrightarrow> msg_payload_len b = 0 \<Longrightarrow> msg_reserved b = 0 \<Longrightarrow>
      built (decision_hdr e g d n) (enc_event ev) (build n b)"
  defines "s' \<equiv> rk_count_decision (d_hook d) g (d_action d) s"
  shows "abs_cpu (if rk_effective_deny g (d_action d) then rk_send e build s' else s') = report e g d (abs_cpu s)"
    and "wf_cpu (if rk_effective_deny g (d_action d) then rk_send e build s' else s')"
  using report_refines [OF assms(1) _ assms(3)] assms(1,2)
  by (auto simp: s'_def report_def)

text \<open>Counter indices of decisions: within the array, above the loss counters, one per (hook, verdict).\<close>

lemma decision_index_range:
  assumes "d_hook d < RK_HOOK_MAX"
  shows "decision_index g d < RK_CNT_MAX" "decision_index g d \<ge> RK_CNT_DECISION_BASE"
    "unat (decision_index g d) = 2 + 3 * unat (d_hook d) + unat (rk_reported_verdict g (d_action d))"
proof -
  have v: "unat (rk_reported_verdict g (d_action d)) \<le> 2"
    using reported_verdict_range [of g "d_action d"] by auto
  have h: "unat (d_hook d) \<le> 8" using assms by (simp add: word_less_nat_alt)
  have "unat (d_hook d * 3) = 3 * unat (d_hook d)" using h by (simp add: unat_word_ariths)
  then show u: "unat (decision_index g d) = 2 + 3 * unat (d_hook d) + unat (rk_reported_verdict g (d_action d))"
    using h v by (simp add: decision_index_def unat_word_ariths unat_ucast_small)
  show "decision_index g d < RK_CNT_MAX" "decision_index g d \<ge> RK_CNT_DECISION_BASE"
    using u h v by (simp_all add: word_less_nat_alt word_le_nat_alt)
qed

lemma rk_count_decision_index:
  assumes "d_hook d < RK_HOOK_MAX"
  shows "rk_count_decision (d_hook d) g (d_action d) s = rk_count (decision_index g d) s"
proof -
  have "\<not> (ucast (rk_reported_verdict g (d_action d)) :: u32) \<ge> 3"
    using reported_verdict_range [of g "d_action d"] by (auto simp: word_le_nat_alt)
  then show ?thesis using assms by (simp add: rk_count_decision_def decision_index_def not_le Let_def)
qed


lemma emit_event_counters:
  "has_counters s \<Longrightarrow> has_counters (emit_event e h c s)"
  "i \<ge> RK_CNT_DECISION_BASE \<Longrightarrow> rk_counters (emit_event e h c s) i = rk_counters s i"
  by (auto simp: emit_event_def has_counters_def rk_counters_rk_count Let_def word_le_nat_alt)

lemma emit_event_conserves:
  assumes "has_counters s"
  shows "of_nat (length (events_ringbuf (emit_event e h c s))) + lost (emit_event e h c s)
    = of_nat (length (events_ringbuf s)) + lost s + 1"
proof -
  obtain a b where "rk_counters s 0 = Some a" "rk_counters s 1 = Some b"
    using assms by (force simp: has_counters_def)
  then show ?thesis by (simp add: emit_event_def lost_def rk_counters_rk_count Let_def)
qed

lemma emit_event_ring:
  "events_ringbuf (emit_event e h c s) = events_ringbuf s \<or>
   events_ringbuf (emit_event e h c s) = events_ringbuf s @ [(wire_record (h (emit_seq s)) c, wakeup_flags e (emit_seq s))]"
  by (simp add: emit_event_def Let_def)

lemma settle_scratch: "scratch_map (settle e g ds s) = scratch_map s"
proof -
  have "scratch_map (report e g d s) = scratch_map s" for d s
    by (simp add: report_def emit_event_def Let_def split: option.split)
  then show ?thesis by (induction ds arbitrary: s) simp_all
qed

lemma emission_appends:
  assumes "abs_cpu s' = emit_event e h (enc_event ev) (abs_cpu s)" "\<And>n. wf_event (h n) ev"
  shows "\<exists>rs. events_ringbuf s' = events_ringbuf s @ rs \<and> list_all (\<lambda>r. record_ok (fst r)) rs"
proof -
  have ok: "record_ok (wire_record (h n) (enc_event ev))" for n
    unfolding record_ok_def using assms(2) by blast
  have "events_ringbuf s' = events_ringbuf (emit_event e h (enc_event ev) (abs_cpu s))"
    using assms(1) by (metis abs_cpu_simps(2))
  then consider "events_ringbuf s' = events_ringbuf s"
    | "events_ringbuf s' = events_ringbuf s @ [(wire_record (h (emit_seq s)) (enc_event ev), wakeup_flags e (emit_seq s))]"
    using emit_event_ring [of e h "enc_event ev" "abs_cpu s"] by auto
  then show ?thesis using ok by cases auto
qed

lemma report_counters:
  assumes "has_counters s" "d_hook d < RK_HOOK_MAX"
  shows "has_counters (report e g d s)"
    and "i \<ge> RK_CNT_DECISION_BASE \<Longrightarrow> i < RK_CNT_MAX \<Longrightarrow>
      the (rk_counters (report e g d s) i) = the (rk_counters s i) + (if decision_index g d = i then 1 else 0)"
    and "of_nat (length (events_ringbuf (report e g d s))) + lost (report e g d s)
      = of_nat (length (events_ringbuf s)) + lost s + (if d_event d = None then 0 else 1)"
proof -
  let ?s = "rk_count (decision_index g d) s"
  note ix = decision_index_range [OF assms(2), of g]
  have r: "report e g d s = (case d_event d of None \<Rightarrow> ?s
      | Some ev \<Rightarrow> emit_event e (decision_hdr e g d) (enc_event ev) ?s)"
    by (simp add: report_def rk_count_decision_index [OF assms(2)] Let_def)
  have hc: "has_counters ?s" using assms(1) by (auto simp: has_counters_def rk_counters_rk_count)
  then show "has_counters (report e g d s)" by (simp add: r emit_event_counters split: option.split)
  have "i \<ge> RK_CNT_DECISION_BASE \<Longrightarrow> rk_counters (report e g d s) i = rk_counters ?s i"
    by (simp add: r emit_event_counters split: option.split)
  then show "i \<ge> RK_CNT_DECISION_BASE \<Longrightarrow> i < RK_CNT_MAX \<Longrightarrow>
      the (rk_counters (report e g d s) i) = the (rk_counters s i) + (if decision_index g d = i then 1 else 0)"
    using assms(1) by (force simp: rk_counters_rk_count has_counters_def)
  have "0 \<noteq> decision_index g d" "1 \<noteq> decision_index g d" using ix(2) by (auto simp: word_le_nat_alt)
  then have "lost ?s = lost s" by (simp add: lost_def rk_counters_rk_count)
  then show "of_nat (length (events_ringbuf (report e g d s))) + lost (report e g d s)
      = of_nat (length (events_ringbuf s)) + lost s + (if d_event d = None then 0 else 1)"
    using emit_event_conserves [OF hc] by (simp add: r split: option.split)
qed

lemma settle_decision_counters:
  assumes "has_counters s" "list_all (\<lambda>d. d_hook d < RK_HOOK_MAX) ds"
    and "i \<ge> RK_CNT_DECISION_BASE" "i < RK_CNT_MAX"
  shows "the (rk_counters (settle e g ds s) i) =
      the (rk_counters s i) + of_nat (length (filter (\<lambda>d. decision_index g d = i) (executed g ds)))"
  using assms
proof (induction ds arbitrary: s)
  case (Cons d ds)
  then have d: "d_hook d < RK_HOOK_MAX" and ds: "list_all (\<lambda>d. d_hook d < RK_HOOK_MAX) ds" by simp_all
  note r = report_counters [OF Cons.prems(1) d]
  show ?case using r(2) [OF Cons.prems(3,4)] Cons.IH [OF r(1) ds Cons.prems(3,4)] by simp
qed simp

lemma settle_conserves:
  assumes "has_counters s" "list_all (\<lambda>d. d_hook d < RK_HOOK_MAX) ds"
  shows "of_nat (length (events_ringbuf (settle e g ds s))) + lost (settle e g ds s)
      = of_nat (length (events_ringbuf s)) + lost s + of_nat (reported g ds)"
  using assms
proof (induction ds arbitrary: s)
  case (Cons d ds)
  then have d: "d_hook d < RK_HOOK_MAX" and ds: "list_all (\<lambda>d. d_hook d < RK_HOOK_MAX) ds" by simp_all
  note r = report_counters [OF Cons.prems(1) d]
  show ?case using r(3) Cons.IH [OF r(1) ds] by (simp add: reported_def)
qed (simp add: reported_def)

lemma wf_decision_event:
  assumes "wf_decision d" "d_event d = Some ev"
  shows "wf_event (decision_hdr e g d n) ev"
  using assms reported_verdict_range [of g "d_action d"]
  by (auto simp: wf_event_def wf_decision_def decision_hdr_def event_hdr_def)

lemma settle_ring:
  assumes "list_all wf_decision ds"
  shows "\<exists>rs. events_ringbuf (settle e g ds s) = events_ringbuf s @ rs \<and> list_all (\<lambda>r. record_ok (fst r)) rs"
  using assms
proof (induction ds arbitrary: s)
  case (Cons d ds)
  have one: "\<exists>rs. events_ringbuf (report e g d s) = events_ringbuf s @ rs \<and> list_all (\<lambda>r. record_ok (fst r)) rs"
  proof (cases "d_event d")
    case (Some ev)
    have "wf_event (decision_hdr e g d n) ev" for n
      using Cons.prems Some by (simp add: wf_decision_event)
    then have "record_ok (wire_record (decision_hdr e g d n) (enc_event ev))" for n
      by (auto simp: record_ok_def)
    then show ?thesis
      using Some emit_event_ring [of e "decision_hdr e g d" "enc_event ev" "rk_count_decision (d_hook d) g (d_action d) s"]
      by (auto simp: report_def)
  qed (simp add: report_def)
  then obtain rs where rs: "events_ringbuf (report e g d s) = events_ringbuf s @ rs" "list_all (\<lambda>r. record_ok (fst r)) rs"
    by blast
  show ?case
  proof (cases "enforced g d")
    case False
    obtain rs' where "events_ringbuf (settle e g ds (report e g d s)) = events_ringbuf (report e g d s) @ rs'"
      "list_all (\<lambda>r. record_ok (fst r)) rs'"
      using Cons.IH Cons.prems by fastforce
    then show ?thesis using rs False by auto
  qed (use rs in auto)
qed simp

text \<open>When nothing is lost, the records are the reported decisions, in order.\<close>

definition delivers :: "kenv \<Rightarrow> rk_cpu \<Rightarrow> bool" where
  "delivers e s \<longleftrightarrow> \<not> force_emit_fail e \<and> scratch_map s \<noteq> None \<and> (\<forall>n k. ringbuf_accepts e n k)"

definition record_of :: "kenv \<Rightarrow> rk_gov \<Rightarrow> bytes \<times> u64 \<Rightarrow> decision \<Rightarrow> bool" where
  "record_of e g r d \<longleftrightarrow> (\<exists>n. fst r = wire_record (decision_hdr e g d n) (enc_event (the (d_event d))))"

lemma settle_delivers:
  assumes "delivers e s"
  shows "\<exists>rs. events_ringbuf (settle e g ds s) = events_ringbuf s @ rs \<and>
    list_all2 (record_of e g) rs (filter (\<lambda>d. d_event d \<noteq> None) (executed g ds))"
  using assms
proof (induction ds arbitrary: s)
  case (Cons d ds)
  have del: "delivers e (report e g d s)"
    using Cons.prems settle_scratch [of e g "[d]" s] by (simp add: delivers_def split: if_splits)
  have one: "\<exists>rs. events_ringbuf (report e g d s) = events_ringbuf s @ rs \<and>
      list_all2 (record_of e g) rs (filter (\<lambda>d. d_event d \<noteq> None) [d])"
    using Cons.prems by (auto simp: report_def emit_event_def delivers_def record_of_def Let_def split: option.split)
  then obtain rs where rs: "events_ringbuf (report e g d s) = events_ringbuf s @ rs"
    "list_all2 (record_of e g) rs (filter (\<lambda>d. d_event d \<noteq> None) [d])" by blast
  show ?case
  proof (cases "enforced g d")
    case False
    obtain rs' where "events_ringbuf (settle e g ds (report e g d s)) = events_ringbuf (report e g d s) @ rs'"
      "list_all2 (record_of e g) rs' (filter (\<lambda>d. d_event d \<noteq> None) (executed g ds))"
      using Cons.IH [OF del] by blast
    then have "events_ringbuf (settle e g (d # ds) s) = events_ringbuf s @ (rs @ rs') \<and>
      list_all2 (record_of e g) (rs @ rs') (filter (\<lambda>d. d_event d \<noteq> None) [d] @ filter (\<lambda>d. d_event d \<noteq> None) (executed g ds))"
      using rs False by (simp add: list_all2_appendI del: filter.simps)
    moreover have "executed g (d # ds) = [d] @ executed g ds" using False by simp
    ultimately show ?thesis unfolding filter_append [symmetric] by metis
  qed (use rs in auto)
qed simp

subsection \<open>The contracts\<close>

text \<open>A program that emits: it keeps the state well formed and only appends well-formed records.\<close>

locale rk_emitter =
  fixes run :: "kenv \<Rightarrow> rk_maps \<Rightarrow> rk_cpu \<Rightarrow> s32 \<times> rk_cpu"
  assumes wf_run: "wf_cpu s \<Longrightarrow> probe_ok e \<Longrightarrow> wf_cpu (snd (run e m s))"
    and ring_run: "wf_cpu s \<Longrightarrow> probe_ok e \<Longrightarrow>
      \<exists>rs. events_ringbuf (snd (run e m s)) = events_ringbuf s @ rs \<and> list_all (\<lambda>r. record_ok (fst r)) rs"

text \<open>
  A hook that decides.  \<open>decisions\<close> is its specification: what it decides for a governed task, from
  the policy maps and the kernel objects; \<open>allow\<close> and \<open>deny\<close> are its return values.
\<close>

locale decision_hook =
  fixes run :: "kenv \<Rightarrow> rk_maps \<Rightarrow> rk_cpu \<Rightarrow> s32 \<times> rk_cpu"
    and decisions :: "kenv \<Rightarrow> rk_maps \<Rightarrow> rk_gov \<Rightarrow> decision list"
    and allow deny :: s32
  assumes ungoverned: "rk_governance e m = None \<Longrightarrow> run e m s = (allow, s)"
    and verdict: "rk_governance e m = Some g \<Longrightarrow>
      fst (run e m s) = (if list_ex (enforced g) (decisions e m g) then deny else allow)"
    and refines: "rk_governance e m = Some g \<Longrightarrow> wf_cpu s \<Longrightarrow> probe_ok e \<Longrightarrow>
      abs_cpu (snd (run e m s)) = settle e g (decisions e m g) (abs_cpu s)"
    and wf_hook: "wf_cpu s \<Longrightarrow> probe_ok e \<Longrightarrow> wf_cpu (snd (run e m s))"
    and stable: "same_inputs e e' \<Longrightarrow> map d_action (decisions e m g) = map d_action (decisions e' m g)"
    and wf_decisions: "probe_ok e \<Longrightarrow> list_all wf_decision (decisions e m g)"

lemma same_inputs_governance:
  assumes "same_inputs e e'"
  shows "rk_governance e m = rk_governance e' m"
proof -
  have eq: "current_cgroup_id e = current_cgroup_id e'" "ancestor_cgroup_id e = ancestor_cgroup_id e'"
    "gov_boot_ns e = gov_boot_ns e'"
    using assms by (simp_all add: same_inputs_def)
  have "rk_ancestor_walk e m levels self l = rk_ancestor_walk e' m levels self l" for m levels self l
    by (induction l) (simp_all add: eq Let_def split: option.split)
  then have w: "rk_ancestor_walk e = rk_ancestor_walk e'" by (intro ext)
  have h: "rk_heartbeat_stale e = rk_heartbeat_stale e'"
    by (intro ext) (simp add: rk_heartbeat_stale_def eq Let_def split: option.split)
  show ?thesis
    unfolding rk_governance_def rk_governed_binding_def gov_fail_closed_def gov_of_profile_def w h eq
    by (rule refl)
qed

context decision_hook
begin

lemma return_range: "fst (run e m s) \<in> {allow, deny}"
  by (cases "rk_governance e m") (simp_all add: ungoverned verdict)

lemma independent:
  assumes "same_inputs e e'"
  shows "fst (run e m s) = fst (run e' m s')"
proof -
  have gov: "rk_governance e m = rk_governance e' m" using assms by (rule same_inputs_governance)
  have "list_ex (enforced g) (decisions e m g) = list_ex (enforced g) (decisions e' m g)" for g
  proof -
    have "list_ex (enforced g) ds = list_ex (rk_enforced_deny g) (map d_action ds)" for ds
      by (induction ds) (simp_all add: enforced_def)
    then show ?thesis using stable [OF assms, of m g] by simp
  qed
  then show ?thesis
    using gov by (cases "rk_governance e' m") (simp_all add: ungoverned verdict)
qed

lemma audit:
  assumes "rk_governance e m = Some g" "g_mode g \<noteq> RK_MODE_ENFORCE"
  shows "fst (run e m s) = allow"
  using assms by (simp add: verdict enforced_def rk_enforced_deny_def list_ex_iff)

lemma stale:
  assumes "rk_governance e m = Some g" "g_mode g = RK_MODE_ENFORCE" "g_stale g" "decisions e m g \<noteq> []"
  shows "fst (run e m s) = deny"
  using assms by (cases "decisions e m g")
    (simp_all add: verdict enforced_def rk_enforced_deny_def rk_effective_deny_def)

lemma fresh:
  assumes "abs_cpu s = abs_cpu s'" "wf_cpu s" "wf_cpu s'" "probe_ok e"
  shows "abs_cpu (snd (run e m s)) = abs_cpu (snd (run e m s'))"
  using assms by (cases "rk_governance e m") (simp_all add: ungoverned refines)

lemma appends:
  assumes "wf_cpu s" "probe_ok e"
  shows "\<exists>rs. events_ringbuf (snd (run e m s)) = events_ringbuf s @ rs \<and> list_all (\<lambda>r. record_ok (fst r)) rs"
proof (cases "rk_governance e m")
  case (Some g)
  then show ?thesis
    using refines [OF Some assms] settle_ring [OF wf_decisions [OF assms(2)], of e g m g "abs_cpu s"]
    by (metis abs_cpu_simps(2))
qed (simp add: ungoverned)

lemma delivered:
  assumes "rk_governance e m = Some g" "wf_cpu s" "probe_ok e" "delivers e s"
  shows "\<exists>rs. events_ringbuf (snd (run e m s)) = events_ringbuf s @ rs \<and>
    list_all2 (record_of e g) rs (filter (\<lambda>d. d_event d \<noteq> None) (executed g (decisions e m g)))"
proof -
  have "delivers e (abs_cpu s)" using assms(4) by (simp add: delivers_def)
  from settle_delivers [OF this, of g "decisions e m g", folded refines [OF assms(1-3)]] show ?thesis by simp
qed

lemma keeps_scratch:
  assumes "wf_cpu s" "probe_ok e"
  shows "scratch_map (snd (run e m s)) = None \<longleftrightarrow> scratch_map s = None"
proof (cases "rk_governance e m")
  case (Some g)
  have "scratch_map (abs_cpu (snd (run e m s))) = scratch_map (abs_cpu s)"
    using refines [OF Some assms] by (simp add: settle_scratch)
  then show ?thesis by (metis abs_cpu_simps(5))
qed (simp add: ungoverned)

lemma counts:
  assumes "rk_governance e m = Some g" "wf_cpu s" "probe_ok e"
  shows "i \<ge> RK_CNT_DECISION_BASE \<Longrightarrow> i < RK_CNT_MAX \<Longrightarrow> the (rk_counters (snd (run e m s)) i) =
      the (rk_counters s i) + of_nat (length (filter (\<lambda>d. decision_index g d = i) (executed g (decisions e m g))))"
    and "of_nat (length (events_ringbuf (snd (run e m s)))) + lost (snd (run e m s))
      = of_nat (length (events_ringbuf s)) + lost s + of_nat (reported g (decisions e m g))"
proof -
  have hc: "has_counters (abs_cpu s)" using assms(2) by (simp add: wf_cpu_def has_counters_def)
  have hk: "list_all (\<lambda>d. d_hook d < RK_HOOK_MAX) (decisions e m g)"
    using wf_decisions [OF assms(3), of m g] by (auto simp: list_all_iff wf_decision_def)
  have ab: "lost (abs_cpu s) = lost s" for s by (simp add: lost_def)
  note st = settle_decision_counters [OF hc hk, of _ e g, folded refines [OF assms]]
    settle_conserves [OF hc hk, of e g, folded refines [OF assms]]
  show "i \<ge> RK_CNT_DECISION_BASE \<Longrightarrow> i < RK_CNT_MAX \<Longrightarrow> the (rk_counters (snd (run e m s)) i) =
      the (rk_counters s i) + of_nat (length (filter (\<lambda>d. decision_index g d = i) (executed g (decisions e m g))))"
    using st(1) by simp
  show "of_nat (length (events_ringbuf (snd (run e m s)))) + lost (snd (run e m s))
      = of_nat (length (events_ringbuf s)) + lost s + of_nat (reported g (decisions e m g))"
    using st(2) by (simp add: ab)
qed

end

sublocale decision_hook \<subseteq> emitter: rk_emitter run
  by unfold_locales (rule wf_hook, assumption+, rule appends)

text \<open>A hook that leaves the pending exec decisions alone: every hook but the two exec programs.\<close>

locale quiet_hook = decision_hook +
  assumes decided_frame: "rk_exec_decided (snd (run e m s)) = rk_exec_decided s"

text \<open>
  Most hooks take one decision, for the calls that concern them (\<open>concerns\<close>), and report every one
  of them; for these the contract reduces to the decision and to how the message is built.
\<close>

lemma single_hook:
  fixes run :: "kenv \<Rightarrow> rk_maps \<Rightarrow> rk_cpu \<Rightarrow> s32 \<times> rk_cpu" and d :: "kenv \<Rightarrow> rk_maps \<Rightarrow> rk_gov \<Rightarrow> decision"
  assumes run: "\<And>e m s. run e m s =
      (if concerns e m then
         case rk_governance e m of
           None \<Rightarrow> (allow, s)
         | Some g \<Rightarrow> (if rk_enforced_deny g (d_action (d e m g)) then deny else allow,
             rk_send e (build e m g) (rk_count_decision (d_hook (d e m g)) g (d_action (d e m g)) s))
       else (allow, s))"
    and ev: "\<And>e m g. d_event (d e m g) = Some (ev e m g)"
    and built: "\<And>e m g n b. wf_scratch b \<Longrightarrow> msg_payload_len b = 0 \<Longrightarrow> msg_reserved b = 0 \<Longrightarrow>
      built (decision_hdr e g (d e m g) n) (enc_event (ev e m g)) (build e m g n b)"
    and wf: "\<And>e m g. wf_decision (d e m g)"
    and stable: "\<And>e e' m g. same_inputs e e' \<Longrightarrow>
      concerns e m = concerns e' m \<and> d_action (d e m g) = d_action (d e' m g)"
  shows "quiet_hook run (\<lambda>e m g. if concerns e m then [d e m g] else []) allow deny"
proof -
  have rep: "abs_cpu (rk_send e (build e m g) (rk_count_decision (d_hook (d e m g)) g (d_action (d e m g)) s))
      = report e g (d e m g) (abs_cpu s)"
    "wf_cpu (rk_send e (build e m g) (rk_count_decision (d_hook (d e m g)) g (d_action (d e m g)) s))"
    if "wf_cpu s" for e m g s
    by (rule report_refines [OF that ev built]; assumption)+
  show ?thesis
  proof
    fix e e' :: kenv and m s g
    show "run e m s = (allow, s)" if "rk_governance e m = None"
      using that by (simp add: run)
    show "fst (run e m s) = (if list_ex (enforced g) (if concerns e m then [d e m g] else []) then deny else allow)"
      if "rk_governance e m = Some g"
      using that by (simp add: run enforced_def)
    show "abs_cpu (snd (run e m s)) = settle e g (if concerns e m then [d e m g] else []) (abs_cpu s)"
      if "rk_governance e m = Some g" "wf_cpu s"
      using that by (simp add: run rep)
    show "wf_cpu (snd (run e m s))" if "wf_cpu s"
      using that by (simp add: run rep split: option.split)
    show "map d_action (if concerns e m then [d e m g] else []) = map d_action (if concerns e' m then [d e' m g] else [])"
      if "same_inputs e e'"
      using stable [OF that, of m g] by simp
    show "list_all wf_decision (if concerns e m then [d e m g] else [])"
      by (simp add: wf)
    show "rk_exec_decided (snd (run e m s)) = rk_exec_decided s"
      by (simp add: run split: option.split)
  qed
qed

end
