(* ===== verification/Rk_Sample.thy ===== *)
theory Rk_Sample
  imports Rk_Contract
begin

text \<open>
  A small concrete host used to instantiate theorems: one governed cgroup (id 7) bound to profile 0,
  in the given mode, with a fresh heartbeat; a helper environment whose string copies return two
  bytes; and a CPU with zeroed counters and an empty ring buffer.
\<close>

definition sample_heap :: kheap where
  "sample_heap = \<lparr>super_blocks = [0x50 \<mapsto> \<lparr>s_dev = 8, s_magic = 0xef53\<rparr>],
     inodes = [0x10 \<mapsto> \<lparr>i_sb = 0x50, i_ino = 100, i_nlink = 1\<rparr>, 0x11 \<mapsto> \<lparr>i_sb = 0x50, i_ino = 2, i_nlink = 2\<rparr>],
     dentries = [0x20 \<mapsto> \<lparr>d_parent = 0x21, d_inode = 0x10, d_name_name = 0x30\<rparr>,
                 0x21 \<mapsto> \<lparr>d_parent = 0x21, d_inode = 0x11, d_name_name = 0x31\<rparr>],
     files = [0x40 \<mapsto> \<lparr>f_inode = 0x10, f_path_dentry = 0x20, f_mode = 1, f_flags = 0\<rparr>],
     binprms = [0x60 \<mapsto> \<lparr>bprm_file = 0x40, bprm_filename = 0x61\<rparr>],
     mms = [0x70 \<mapsto> \<lparr>mm_arg_start = 0x1000, mm_arg_end = 0x1003\<rparr>],
     tasks = [0x80 \<mapsto> \<lparr>t_tgid = 55, t_mm = 0x70, t_group_leader = 0x80, t_start_boottime = 420000000\<rparr>],
     iattrs = Map.empty, vfsmounts = Map.empty\<rparr>"

definition sample_env :: kenv where
  "sample_env = \<lparr>current_cgroup_id = 7, ancestor_cgroup_id = (\<lambda>_. 0), gov_boot_ns = 1000, heap = sample_heap,
     current_pid_tgid = 0x0000000900000009, hdr_boot_ns = (\<lambda>n. 1000 + of_nat n), current_uid_gid = 0,
     probe_kernel_str = (\<lambda>_ n. if n < 3 then (- 14, []) else (3, [0x6c, 0x73, 0])),
     probe_user = (\<lambda>_ n. (0, replicate (unat n) 0x61)), empty_literal = 0x99, ringbuf_avail = (\<lambda>_. 0),
     ringbuf_accepts = (\<lambda>_ _. True), lru_inserts = True, lru_keeps = (\<lambda>_. True), rk_wakeup_threshold = 0,
     force_emit_fail = False\<rparr>"

definition sample_profile :: "u8 \<Rightarrow> rk_profile" where
  "sample_profile mode = \<lparr>p_mode = mode, p_net_default = 1, p_flags = 3, p_policy_gen = 12\<rparr>"

definition sample_maps :: "u8 \<Rightarrow> u64 \<Rightarrow> rk_maps" where
  "sample_maps mode beat = \<lparr>monitored_cgroups = [7 \<mapsto> 12], rk_cgroup_profile = [7 \<mapsto> \<lparr>b_profile = 0\<rparr>],
     rk_profiles = [0 \<mapsto> sample_profile mode], rk_active_slot = [0 \<mapsto> 0], rk_heartbeat = [0 \<mapsto> beat],
     rk_config_map = [0 \<mapsto> \<lparr>heartbeat_timeout_ns = 500, governed_levels = 0\<rparr>],
     rk_guard_map = [0 \<mapsto> \<lparr>gt_tgid = 55, gt_start_ticks = 42\<rparr>],
     rk_net_deny = Map.empty, rk_net_allow = Map.empty, rk_exec_allow = Map.empty,
     rk_file_protect = [\<lparr>fk_scope = 0, fk_pad = 0, fk_dev = 8, fk_ino = 2\<rparr> \<mapsto>
       \<lparr>fr_rule_id = 77, fr_deny_mask = 1, fr_flags = 1\<rparr>]\<rparr>"

definition sample_buf :: rk_scratch_buf where
  "sample_buf = blank_buf\<lparr>msg_payload := replicate 2048 0xee, msg_slack := replicate 2048 0xdd\<rparr>"

definition sample_cpu :: rk_cpu where
  "sample_cpu = \<lparr>rk_counters = (\<lambda>i. if i < 29 then Some 0 else None),
     scratch_map = Some sample_buf,
     events_ringbuf = [], emit_seq = 0, rk_exec_decided = Map.empty, lsm_exec_counter = Map.empty\<rparr>"

definition sample_gov :: "u8 \<Rightarrow> bool \<Rightarrow> rk_gov" where
  "sample_gov mode stale = \<lparr>g_cgroup_id = 7, g_policy_gen = 12, g_scope = 0, g_mode = mode, g_net_default = 1,
     g_flags = 3, g_stale = stale\<rparr>"

lemma sample_probe_ok [simp]: "probe_ok sample_env"
  by (auto simp: probe_ok_def sample_env_def word_less_nat_alt split: if_splits)

lemma sample_wf_cpu [simp]: "wf_cpu sample_cpu"
  by (simp add: wf_cpu_def has_counters_def sample_cpu_def sample_buf_def wf_scratch_def)

lemma sample_governance:
  "rk_governance sample_env (sample_maps 1 900) = Some (sample_gov 1 False)"
  "rk_governance sample_env (sample_maps 1 100) = Some (sample_gov 1 True)"
  "rk_governance sample_env (sample_maps 0 900) = Some (sample_gov 0 False)"
  by (simp_all add: rk_governance_def rk_governed_binding_def sample_env_def sample_maps_def active_slot_def
      sample_profile_def gov_of_profile_def sample_gov_def rk_heartbeat_stale_def rk_scope_def Let_def)

end
