(* ===== verification/Rk_Governance.thy ===== *)
theory Rk_Governance
  imports Rk_Sample
begin

text \<open>
  Which profile governs a task, and when: properties of \<open>rk_governed_binding\<close>, \<open>rk_governance\<close>,
  \<open>rk_heartbeat_stale\<close> and \<open>rk_scope\<close> of \<open>rk-bpf/src/common.bpf.h\<close>.
\<close>

subsection \<open>The ancestor walk\<close>

text \<open>The ancestor at a level that the walk consults.\<close>

definition candidate :: "kenv \<Rightarrow> u64 \<Rightarrow> u64 \<Rightarrow> nat \<Rightarrow> bool" where
  "candidate e levels self l \<longleftrightarrow> bit levels l \<and> ancestor_cgroup_id e l \<noteq> 0 \<and> ancestor_cgroup_id e l \<noteq> self"

definition bound_at :: "kenv \<Rightarrow> rk_maps \<Rightarrow> u64 \<Rightarrow> u64 \<Rightarrow> nat \<Rightarrow> bool" where
  "bound_at e m levels self l \<longleftrightarrow> candidate e levels self l \<and> rk_cgroup_profile m (ancestor_cgroup_id e l) \<noteq> None"

definition config_levels :: "rk_maps \<Rightarrow> u64" where
  "config_levels m = (case rk_config_map m 0 of Some cfg \<Rightarrow> governed_levels cfg | None \<Rightarrow> 0)"

lemma rk_ancestor_walk_find:
  "rk_ancestor_walk e m levels self n =
     map_option (\<lambda>l. (ancestor_cgroup_id e l, the (rk_cgroup_profile m (ancestor_cgroup_id e l))))
       (find (bound_at e m levels self) (rev [1..<Suc n]))"
proof (induction n)
  case (Suc n)
  have b: "(levels AND push_bit (Suc n) 1 = 0) = (\<not> bit levels (Suc n))"
    by (simp only: bit_iff_and_push_bit_not_eq_0 not_not)
  show ?case
    using Suc.IH unfolding rk_ancestor_walk.simps b Let_def
    by (auto simp: bound_at_def candidate_def split: option.split)
qed simp

lemma find_rev_upt:
  "find P (rev [1..<Suc n]) = Some l \<longleftrightarrow> 1 \<le> l \<and> l \<le> n \<and> P l \<and> (\<forall>k. l < k \<and> k \<le> n \<longrightarrow> \<not> P k)"
proof (induction n)
  case (Suc n)
  show ?case
  proof (cases "P (Suc n)")
    case True
    then show ?thesis by (auto simp: le_Suc_eq)
  next
    case False
    then have "find P (rev [1..<Suc (Suc n)]) = find P (rev [1..<Suc n])" by simp
    then show ?thesis using Suc.IH False by (auto simp: le_Suc_eq)
  qed
qed simp

lemma rk_governed_binding_walk:
  assumes "rk_cgroup_profile m self = None"
  shows "rk_governed_binding e m self = rk_ancestor_walk e m (config_levels m) self 16"
proof -
  have "rk_ancestor_walk e m 0 self n = None" for n by (induction n) simp_all
  then show ?thesis using assms by (auto simp: rk_governed_binding_def config_levels_def Let_def split: option.split)
qed

text \<open>
  C23: the cgroup that governs a task is its own if that is bound, and otherwise the bound ancestor at
  the deepest published level, the nearest one: no deeper published level holds a bound ancestor.
  Conversely, without such a binding the task is ungoverned.
\<close>

theorem governed_by_nearest:
  "rk_governed_binding e m self = Some (c, b) \<longleftrightarrow>
     rk_cgroup_profile m c = Some b \<and>
     (c = self \<or>
      rk_cgroup_profile m self = None \<and>
      (\<exists>l \<in> {1..16}. c = ancestor_cgroup_id e l \<and> candidate e (config_levels m) self l \<and>
         (\<forall>k \<in> {l<..16}. candidate e (config_levels m) self k \<longrightarrow> rk_cgroup_profile m (ancestor_cgroup_id e k) = None)))"
proof (cases "rk_cgroup_profile m self")
  case None
  show ?thesis
    unfolding rk_governed_binding_walk [OF None] rk_ancestor_walk_find
    using None by (auto simp: find_rev_upt [where n = 16, simplified] bound_at_def Bex_def Ball_def)
next
  case (Some b')
  then show ?thesis by (auto simp: rk_governed_binding_def)
qed


theorem governed_by_nearest_witness:
  "rk_governed_binding (sample_env\<lparr>ancestor_cgroup_id := (\<lambda>l. if l = 3 then 7 else 0)\<rparr>)
     ((sample_maps 1 900)\<lparr>rk_config_map := [0 \<mapsto> \<lparr>heartbeat_timeout_ns = 500, governed_levels = 8\<rparr>]\<rparr>) 99
   = Some (7, \<lparr>b_profile = 0\<rparr>)"
proof -
  have "bit (8 :: u64) 3" by code_simp
  then show ?thesis
    unfolding governed_by_nearest
    by (auto simp: sample_maps_def candidate_def config_levels_def intro!: bexI [of _ 3])
qed

text \<open>
  C24: moving into a descendant cgroup does not escape governance: if a cgroup is bound, its level is
  published and it is the task's ancestor at that level, the task is governed, by that cgroup or by one
  at a deeper level.
\<close>

theorem descendant_stays_governed:
  assumes "rk_cgroup_profile m (ancestor_cgroup_id e l) \<noteq> None" "l \<in> {1..16}" "bit (config_levels m) l"
    and "ancestor_cgroup_id e l \<noteq> 0"
  shows "\<exists>g. rk_governance e m = Some g \<and>
    (g_cgroup_id g = current_cgroup_id e \<or> (\<exists>k \<in> {l..16}. g_cgroup_id g = ancestor_cgroup_id e k))"
proof -
  let ?self = "current_cgroup_id e"
  have "\<exists>c b. rk_governed_binding e m ?self = Some (c, b) \<and> (c = ?self \<or> (\<exists>k \<in> {l..16}. c = ancestor_cgroup_id e k))"
  proof (cases "rk_cgroup_profile m ?self")
    case None
    then have "bound_at e m (config_levels m) ?self l"
      using assms by (auto simp: bound_at_def candidate_def)
    have "find (bound_at e m (config_levels m) ?self) (rev [1..<Suc 16]) \<noteq> None"
    proof -
      have "l \<in> set (rev [1..<Suc 16])" using assms(2) by auto
      then show ?thesis using \<open>bound_at e m (config_levels m) ?self l\<close> by (metis find_None_iff)
    qed
    then obtain k where k: "find (bound_at e m (config_levels m) ?self) (rev [1..<Suc 16]) = Some k" by blast
    then have "l \<le> k" "k \<le> 16"
      using \<open>bound_at e m (config_levels m) ?self l\<close> assms(2) unfolding find_rev_upt by (auto simp: not_less [symmetric])
    then show ?thesis
      unfolding rk_governed_binding_walk [OF None] rk_ancestor_walk_find k by auto
  qed (auto simp: rk_governed_binding_def)
  then show ?thesis
    by (auto simp: rk_governance_def gov_fail_closed_def gov_of_profile_def Let_def split: option.split)
qed

theorem descendant_stays_governed_witness:
  "let e = sample_env\<lparr>current_cgroup_id := 99, ancestor_cgroup_id := (\<lambda>l. if l = 3 then 7 else 0)\<rparr>;
       m = (sample_maps 1 900)\<lparr>rk_config_map := [0 \<mapsto> \<lparr>heartbeat_timeout_ns = 500, governed_levels = 8\<rparr>]\<rparr>
   in rk_governance e m \<noteq> None"
  using descendant_stays_governed [of "(sample_maps 1 900)\<lparr>rk_config_map := [0 \<mapsto> \<lparr>heartbeat_timeout_ns = 500, governed_levels = 8\<rparr>]\<rparr>"
      "sample_env\<lparr>current_cgroup_id := 99, ancestor_cgroup_id := (\<lambda>l. if l = 3 then 7 else 0)\<rparr>" 3]
  by (auto simp: sample_maps_def config_levels_def)

subsection \<open>The heartbeat\<close>

text \<open>
  C25: the heartbeat check never wraps: it reports a stale sensor exactly when the maps are missing, no
  timeout is configured, no heartbeat was ever written, or the last heartbeat plus the timeout lies
  before the current boot time, with the sum taken as integers.
\<close>

theorem heartbeat_stale_iff:
  "rk_heartbeat_stale e m \<longleftrightarrow>
     (case (rk_heartbeat m 0, rk_config_map m 0) of
        (Some beat, Some cfg) \<Rightarrow>
          beat = 0 \<or> heartbeat_timeout_ns cfg = 0 \<or> uint beat + uint (heartbeat_timeout_ns cfg) < uint (gov_boot_ns e)
      | _ \<Rightarrow> True)"
proof (cases "rk_heartbeat m 0"; cases "rk_config_map m 0")
  fix beat cfg
  assume s: "rk_heartbeat m 0 = Some beat" "rk_config_map m 0 = Some cfg"
  have "beat < now \<Longrightarrow> uint (now - beat) = uint now - uint beat" for now :: u64
    by (simp add: uint_minus_simple_alt [symmetric])
  moreover have "\<not> uint beat + uint (heartbeat_timeout_ns cfg) < uint now" if "uint now \<le> uint beat" for now :: u64
    using that uint_ge_0 [of "heartbeat_timeout_ns cfg"] by linarith
  ultimately show ?thesis
    using s by (auto simp: rk_heartbeat_stale_def Let_def word_less_def word_le_def not_le)
qed (simp_all add: rk_heartbeat_stale_def)

lemma governance_stale:
  assumes "rk_governance e m = Some g" "g_mode g = RK_MODE_ENFORCE"
  shows "g_stale g = rk_heartbeat_stale e m"
  using assms by (auto simp: rk_governance_def gov_fail_closed_def gov_of_profile_def Let_def split: option.splits if_splits)

subsection \<open>Profiles and scopes\<close>

text \<open>The profile the active slot holds for a binding, if it was ever written.\<close>

definition active_profile :: "rk_maps \<Rightarrow> rk_binding \<Rightarrow> rk_profile option" where
  "active_profile m b =
     (if b_profile b \<ge> RK_MAX_PROFILES then None
      else case rk_profiles m (active_slot m * RK_MAX_PROFILES + b_profile b) of
             Some prof \<Rightarrow> if p_policy_gen prof = 0 then None else Some prof
           | None \<Rightarrow> None)"

text \<open>A bound cgroup always gets a policy: the active slot's profile, or the fail-closed one.\<close>

lemma rk_governance_bound:
  assumes "rk_governed_binding e m (current_cgroup_id e) = Some (c, b)"
  shows "rk_governance e m = Some (case active_profile m b of
      Some prof \<Rightarrow> gov_of_profile e m c (active_slot m) (b_profile b) prof
    | None \<Rightarrow> gov_fail_closed e m c)"
  using assms by (simp add: rk_governance_def active_profile_def Let_def split: option.split)

lemma small_bits:
  assumes "p < 1024" "bit (p :: u32) n"
  shows "n < 10"
proof -
  have "take_bit 10 p = p" using less_mask_eq [of p 10] assms(1) by (simp add: take_bit_eq_mask)
  then show ?thesis using assms(2) by (metis bit_take_bit_iff)
qed

lemma rk_scope_value:
  assumes "slot < 2" "p < RK_MAX_PROFILES"
  shows "unat (rk_scope slot p) = unat slot * 2 ^ 31 + unat p"
proof -
  have slot: "slot = 0 \<or> slot = 1" using assms(1) by (auto simp: word_less_nat_alt word_unat_eq_iff)
  have p: "unat p < 1024" using assms(2) by (simp add: word_less_nat_alt)
  have "\<not> bit (2 ^ 31 :: u32) n \<or> \<not> bit p n" for n
    using small_bits [OF assms(2), of n] by (auto simp: bit_exp_iff simp del: power_numeral)
  then have "2 ^ 31 OR p = 2 ^ 31 + p" by (intro disjunctive_add [symmetric]) blast
  then have "push_bit 31 1 OR p = 2 ^ 31 + p" by simp
  then show ?thesis using slot p by (auto simp: rk_scope_def unat_word_ariths)
qed

text \<open>
  The scope that prefixes every rule key identifies the slot and the profile: distinct (slot,
  profile) pairs have distinct scopes, and none of them is the scope of the fail-closed context.
\<close>

lemma scope_identifies_profile:
  assumes "slot < RK_POLICY_SLOTS" "slot' < RK_POLICY_SLOTS" "p < RK_MAX_PROFILES" "p' < RK_MAX_PROFILES"
  shows "(rk_scope slot p = rk_scope slot' p' \<longleftrightarrow> slot = slot' \<and> p = p') \<and> rk_scope slot p \<noteq> g_scope (gov_fail_closed e m c)"
proof -
  have b: "unat slot < 2" "unat slot' < 2" "unat p < 1024" "unat p' < 1024"
    using assms by (simp_all add: word_less_nat_alt)
  note v = rk_scope_value [OF assms(1,3)] rk_scope_value [OF assms(2,4)]
  have "rk_scope slot p = rk_scope slot' p' \<longleftrightarrow> unat slot * 2 ^ 31 + unat p = unat slot' * 2 ^ 31 + unat p'"
    unfolding v [symmetric] by (simp add: word_unat_eq_iff)
  also have "\<dots> \<longleftrightarrow> unat slot = unat slot' \<and> unat p = unat p'"
  proof -
    have "x * 2 ^ 31 + y = x' * 2 ^ 31 + y' \<longleftrightarrow> x = x' \<and> y = y'"
      if r: "x < 2" "x' < 2" "y < 1024" "y' < 1024" for x x' y y' :: nat
    proof -
      consider "x = x'" | "x = 0" "x' = 1" | "x = 1" "x' = 0" using r by linarith
      then show ?thesis using r by cases auto
    qed
    then show ?thesis using b by blast
  qed
  finally have "rk_scope slot p = rk_scope slot' p' \<longleftrightarrow> slot = slot' \<and> p = p'" by (simp add: word_unat_eq_iff)
  moreover have "rk_scope slot p \<noteq> 0xffffffff"
  proof
    assume "rk_scope slot p = 0xffffffff"
    then have "unat (rk_scope slot p) = 4294967295" by simp
    then show False using v(1) b by simp
  qed
  ultimately show ?thesis by (simp add: gov_fail_closed_def)
qed

end
