(* ===== verification/Rk_Net.thy ===== *)
theory Rk_Net
  imports Rk_Sample
begin

text \<open>
  The network egress policy, \<open>rk-bpf/src/net.bpf.c\<close>: the four \<open>sock_addr\<close> hooks share
  \<open>rk_net_sock_addr\<close>, socket creation classifies the transport first, and the three TUN hooks share
  \<open>rk_net_tun\<close>.  The cgroup programs return 1 to allow and 0 to deny; the LSM programs return 0 or
  \<open>-EPERM\<close> and pass on an earlier module's \<open>ret\<close>.
\<close>

subsection \<open>Matching an address and port\<close>

abbreviation (input) RK_AF_INET :: "'a::len word" where "RK_AF_INET \<equiv> 2"
abbreviation (input) RK_AF_INET6 :: "'a::len word" where "RK_AF_INET6 \<equiv> 10"
abbreviation (input) RK_AF_PACKET :: "'a::len word" where "RK_AF_PACKET \<equiv> 17"
abbreviation (input) RK_SOCK_STREAM :: s32 where "RK_SOCK_STREAM \<equiv> 1"
abbreviation (input) RK_SOCK_DGRAM :: s32 where "RK_SOCK_DGRAM \<equiv> 2"
abbreviation (input) RK_SOCK_TYPE_MASK :: s32 where "RK_SOCK_TYPE_MASK \<equiv> 0xf"
abbreviation (input) RK_IPPROTO_IP :: "'a::len word" where "RK_IPPROTO_IP \<equiv> 0"
abbreviation (input) RK_IPPROTO_TCP :: "'a::len word" where "RK_IPPROTO_TCP \<equiv> 6"
abbreviation (input) RK_IPPROTO_UDP :: "'a::len word" where "RK_IPPROTO_UDP \<equiv> 17"
abbreviation (input) RK_EPERM :: s32 where "RK_EPERM \<equiv> 1"

definition rk_proto_bit :: "u32 \<Rightarrow> u8" where
  "rk_proto_bit proto =
     (if proto = RK_IPPROTO_TCP then RK_PROTO_TCP
      else if proto = RK_IPPROTO_UDP then RK_PROTO_UDP
      else RK_PROTO_OTHER)"

definition range_matches :: "u16 \<Rightarrow> u8 \<Rightarrow> rk_net_range \<Rightarrow> bool" where
  "range_matches port proto r \<longleftrightarrow>
     nr_proto_mask r AND proto \<noteq> 0 \<and> port \<ge> nr_port_lo r \<and> port \<le> nr_port_hi r"

text \<open>The loop over \<open>rule->ranges\<close>, from index \<open>i\<close>.\<close>

function rk_net_scan :: "rk_net_rule \<Rightarrow> u16 \<Rightarrow> u8 \<Rightarrow> nat \<Rightarrow> u32 option" where
  "rk_net_scan rule port proto i =
     (if i \<ge> RK_NET_MAX_RANGES then None
      else if of_nat i \<ge> nr_nranges rule then None
      else if range_matches port proto (nr_ranges rule ! i) then Some (nr_rule_id (nr_ranges rule ! i))
      else rk_net_scan rule port proto (Suc i))"
  by pat_completeness auto
termination by (relation "measure (\<lambda>(_, _, _, i). 8 - i)") auto

declare rk_net_scan.simps [simp del]

text \<open>\<open>Some r\<close>: the C function returns 1 and has stored \<open>r\<close> in \<open>*rule_id\<close>.\<close>

definition rk_net_match :: "(rk_net_key \<rightharpoonup> rk_net_rule) \<Rightarrow> rk_net_key \<Rightarrow> u16 \<Rightarrow> u8 \<Rightarrow> u32 option" where
  "rk_net_match trie key port proto = (case trie key of
     None \<Rightarrow> None
   | Some rule \<Rightarrow> rk_net_scan rule port proto 0)"

definition net_key :: "rk_gov \<Rightarrow> bytes \<Rightarrow> rk_net_key" where
  "net_key g addr = \<lparr>nk_prefixlen = 32 + 128, nk_scope = g_scope g, nk_addr = addr\<rparr>"

text \<open>The action and the rule id.\<close>

definition rk_net_verdict :: "rk_maps \<Rightarrow> rk_gov \<Rightarrow> bytes \<Rightarrow> u16 \<Rightarrow> u8 \<Rightarrow> u8 \<times> u32" where
  "rk_net_verdict m g addr port proto =
     (case rk_net_match (rk_net_deny m) (net_key g addr) port proto of
        Some r \<Rightarrow> (RK_ACTION_DENY, r)
      | None \<Rightarrow>
         (case rk_net_match (rk_net_allow m) (net_key g addr) port proto of
            Some r \<Rightarrow> (RK_ACTION_ALLOW, r)
          | None \<Rightarrow> (if g_net_default g = RK_ACTION_DENY then RK_ACTION_DENY else RK_ACTION_ALLOW, 0)))"

subsection \<open>The sock_addr hooks\<close>

text \<open>Host byte order is little endian on both supported architectures.\<close>

definition bpf_ntohs :: "u16 \<Rightarrow> u16" where
  "bpf_ntohs x = push_bit 8 x OR drop_bit 8 x"

definition sock_addr_bytes :: "bpf_sock_addr \<Rightarrow> bool \<Rightarrow> bytes" where
  "sock_addr_bytes ctx v6 =
     (if v6 then le 4 (user_ip6_0 ctx) @ le 4 (user_ip6_1 ctx) @ le 4 (user_ip6_2 ctx) @ le 4 (user_ip6_3 ctx)
      else splice_at 12 (le 4 (user_ip4 ctx)) ((replicate 16 0)[10 := 0xff, 11 := 0xff]))"

definition sock_addr_hook :: "bool \<Rightarrow> u16 \<Rightarrow> u32" where
  "sock_addr_hook v6 ty =
     (if ty = RK_EV_NET_CONNECT then (if v6 then RK_HOOK_CONNECT6 else RK_HOOK_CONNECT4)
      else (if v6 then RK_HOOK_SENDMSG6 else RK_HOOK_SENDMSG4))"

definition net_body :: "bytes \<Rightarrow> u16 \<Rightarrow> u16 \<Rightarrow> u32 \<Rightarrow> rk_scratch_buf \<Rightarrow> rk_scratch_buf" where
  "net_body addr port family proto msg =
     (let msg = msg_store 0 (replicate 40 0) msg;
          msg = msg_store 16 addr msg;
          msg = msg_store 34 (le 2 port) msg;
          msg = msg_store 36 (le 2 family) msg;
          msg = msg_store 38 (le 1 (ucast proto :: u8)) msg
      in msg\<lparr>msg_payload_len := 40\<rparr>)"

definition rk_net_emit ::
  "kenv \<Rightarrow> rk_gov \<Rightarrow> u16 \<Rightarrow> u8 \<Rightarrow> u32 \<Rightarrow> bytes \<Rightarrow> u16 \<Rightarrow> u16 \<Rightarrow> u32 \<Rightarrow> rk_cpu \<Rightarrow> rk_cpu" where
  "rk_net_emit e g ty action rule_id addr port family proto s =
     rk_send e (\<lambda>n msg.
       net_body addr port family proto
         (msg\<lparr>msg_hdr := rk_fill_task e (rk_fill_hdr e n (g_cgroup_id g) (g_policy_gen g) ty
            (rk_reported_verdict g action) (rk_rule g action rule_id) (msg_hdr msg))\<rparr>)) s"

definition rk_net_sock_addr ::
  "kenv \<Rightarrow> rk_maps \<Rightarrow> bpf_sock_addr \<Rightarrow> bool \<Rightarrow> u16 \<Rightarrow> rk_cpu \<Rightarrow> s32 \<times> rk_cpu" where
  "rk_net_sock_addr e m ctx v6 ty s = (case rk_governance e m of
     None \<Rightarrow> (1, s)
   | Some g \<Rightarrow>
       (let port = bpf_ntohs (ucast (user_port ctx));
            addr = sock_addr_bytes ctx v6;
            (action, rule_id) = rk_net_verdict m g addr port (rk_proto_bit (protocol ctx));
            s = rk_count_decision (sock_addr_hook v6 ty) g action s;
            s = rk_net_emit e g ty action rule_id addr port (if v6 then RK_AF_INET6 else RK_AF_INET)
                  (protocol ctx) s
        in (if rk_enforced_deny g action then 0 else 1, s)))"

definition rk_net_connect4 :: "kenv \<Rightarrow> rk_maps \<Rightarrow> bpf_sock_addr \<Rightarrow> rk_cpu \<Rightarrow> s32 \<times> rk_cpu" where
  "rk_net_connect4 e m ctx = rk_net_sock_addr e m ctx False RK_EV_NET_CONNECT"

definition rk_net_connect6 :: "kenv \<Rightarrow> rk_maps \<Rightarrow> bpf_sock_addr \<Rightarrow> rk_cpu \<Rightarrow> s32 \<times> rk_cpu" where
  "rk_net_connect6 e m ctx = rk_net_sock_addr e m ctx True RK_EV_NET_CONNECT"

definition rk_net_sendmsg4 :: "kenv \<Rightarrow> rk_maps \<Rightarrow> bpf_sock_addr \<Rightarrow> rk_cpu \<Rightarrow> s32 \<times> rk_cpu" where
  "rk_net_sendmsg4 e m ctx = rk_net_sock_addr e m ctx False RK_EV_SENDMSG"

definition rk_net_sendmsg6 :: "kenv \<Rightarrow> rk_maps \<Rightarrow> bpf_sock_addr \<Rightarrow> rk_cpu \<Rightarrow> s32 \<times> rk_cpu" where
  "rk_net_sendmsg6 e m ctx = rk_net_sock_addr e m ctx True RK_EV_SENDMSG"

subsection \<open>Socket creation and TUN\<close>

definition rk_sock_observed :: "s32 \<Rightarrow> s32 \<Rightarrow> s32 \<Rightarrow> bool" where
  "rk_sock_observed family ty proto =
     (if family = RK_AF_PACKET then False
      else if family \<noteq> RK_AF_INET \<and> family \<noteq> RK_AF_INET6 then True
      else
        let ty = ty AND RK_SOCK_TYPE_MASK in
        if ty = RK_SOCK_STREAM then proto = RK_IPPROTO_IP \<or> proto = RK_IPPROTO_TCP
        else if ty = RK_SOCK_DGRAM then proto = RK_IPPROTO_IP \<or> proto = RK_IPPROTO_UDP
        else False)"

definition raw_action :: "rk_gov \<Rightarrow> u8" where
  "raw_action g = (if g_flags g AND RK_PROFILE_DENY_RAW_SOCKETS \<noteq> 0 then RK_ACTION_DENY else RK_ACTION_ALLOW)"

definition sock_body :: "s32 \<Rightarrow> s32 \<Rightarrow> s32 \<Rightarrow> rk_scratch_buf \<Rightarrow> rk_scratch_buf" where
  "sock_body family ty proto msg =
     (let msg = msg_store 0 (replicate 16 0) msg;
          msg = msg_store 0 (le 2 (ucast family :: u16)) msg;
          msg = msg_store 4 (le 4 ty) msg;
          msg = msg_store 8 (le 4 proto) msg
      in msg\<lparr>msg_payload_len := 16\<rparr>)"

definition rk_net_socket_create ::
  "kenv \<Rightarrow> rk_maps \<Rightarrow> s32 \<Rightarrow> s32 \<Rightarrow> s32 \<Rightarrow> s32 \<Rightarrow> s32 \<Rightarrow> rk_cpu \<Rightarrow> s32 \<times> rk_cpu" where
  "rk_net_socket_create e m family ty proto kern ret s =
     (if ret \<noteq> 0 then (ret, s)
      else if kern \<noteq> 0 then (0, s)
      else if rk_sock_observed family ty proto then (0, s)
      else case rk_governance e m of
        None \<Rightarrow> (0, s)
      | Some g \<Rightarrow>
         (let action = raw_action g;
              s = rk_count_decision RK_HOOK_SOCK_CREATE g action s;
              s = rk_send e (\<lambda>n msg.
                    sock_body family ty proto
                      (msg\<lparr>msg_hdr := rk_fill_task e (rk_fill_hdr e n (g_cgroup_id g) (g_policy_gen g)
                         RK_EV_SOCK_CREATE (rk_reported_verdict g action) (rk_rule g action 0) (msg_hdr msg))\<rparr>)) s
          in (if rk_enforced_deny g action then - RK_EPERM else 0, s)))"

definition tun_body :: "u32 \<Rightarrow> rk_scratch_buf \<Rightarrow> rk_scratch_buf" where
  "tun_body oper msg =
     (let msg = msg_store 0 (le 4 oper) msg;
          msg = msg_store 4 (le 4 (0 :: u32)) msg
      in msg\<lparr>msg_payload_len := 8\<rparr>)"

definition rk_net_tun :: "kenv \<Rightarrow> rk_maps \<Rightarrow> u32 \<Rightarrow> rk_cpu \<Rightarrow> s32 \<times> rk_cpu" where
  "rk_net_tun e m oper s = (case rk_governance e m of
     None \<Rightarrow> (0, s)
   | Some g \<Rightarrow>
       (let action = raw_action g;
            s = rk_count_decision RK_HOOK_TUN g action s;
            s = rk_send e (\<lambda>n msg.
                  tun_body oper
                    (msg\<lparr>msg_hdr := rk_fill_task e (rk_fill_hdr e n (g_cgroup_id g) (g_policy_gen g)
                       RK_EV_TUN (rk_reported_verdict g action) (rk_rule g action 0) (msg_hdr msg))\<rparr>)) s
        in (if rk_enforced_deny g action then - RK_EPERM else 0, s)))"

definition rk_net_tun_create :: "kenv \<Rightarrow> rk_maps \<Rightarrow> s32 \<Rightarrow> rk_cpu \<Rightarrow> s32 \<times> rk_cpu" where
  "rk_net_tun_create e m ret s = (if ret \<noteq> 0 then (ret, s) else rk_net_tun e m RK_TUN_CREATE s)"

definition rk_net_tun_open :: "kenv \<Rightarrow> rk_maps \<Rightarrow> s32 \<Rightarrow> rk_cpu \<Rightarrow> s32 \<times> rk_cpu" where
  "rk_net_tun_open e m ret s = (if ret \<noteq> 0 then (ret, s) else rk_net_tun e m RK_TUN_ATTACH s)"

definition rk_net_tun_attach_queue :: "kenv \<Rightarrow> rk_maps \<Rightarrow> s32 \<Rightarrow> rk_cpu \<Rightarrow> s32 \<times> rk_cpu" where
  "rk_net_tun_attach_queue e m ret s = (if ret \<noteq> 0 then (ret, s) else rk_net_tun e m RK_TUN_ATTACH_QUEUE s)"

subsection \<open>Specification\<close>

text \<open>What each hook decides and reports.\<close>

definition net_event :: "bytes \<Rightarrow> u16 \<Rightarrow> u16 \<Rightarrow> u32 \<Rightarrow> rk_payload_net" where
  "net_event addr port family proto =
     \<lparr>pn_saddr_v6 = replicate 16 0, pn_daddr_v6 = addr, pn_sport = 0, pn_dport = port, pn_family = family,
      pn_protocol = ucast proto, pn_pad = 0\<rparr>"

definition sock_addr_decision ::
  "bpf_sock_addr \<Rightarrow> bool \<Rightarrow> u16 \<Rightarrow> rk_maps \<Rightarrow> rk_gov \<Rightarrow> decision" where
  "sock_addr_decision ctx v6 ty m g =
     (let port = bpf_ntohs (ucast (user_port ctx));
          addr = sock_addr_bytes ctx v6;
          (action, rule_id) = rk_net_verdict m g addr port (rk_proto_bit (protocol ctx))
      in \<lparr>d_hook = sock_addr_hook v6 ty, d_action = action, d_rule = rule_id, d_type = ty,
          d_event = Some (NetEvent (net_event addr port (if v6 then 10 else 2) (protocol ctx)))\<rparr>)"

definition sock_event :: "s32 \<Rightarrow> s32 \<Rightarrow> s32 \<Rightarrow> rk_payload_sock" where
  "sock_event family ty proto =
     \<lparr>ps_family = ucast family, ps_pad = 0, ps_type = ty, ps_protocol = proto, ps_pad2 = 0\<rparr>"

definition socket_create_decision :: "s32 \<Rightarrow> s32 \<Rightarrow> s32 \<Rightarrow> rk_gov \<Rightarrow> decision" where
  "socket_create_decision family ty proto g =
     \<lparr>d_hook = 4, d_action = raw_action g, d_rule = 0, d_type = 10, d_event = Some (SockEvent (sock_event family ty proto))\<rparr>"

definition tun_decision :: "u32 \<Rightarrow> rk_gov \<Rightarrow> decision" where
  "tun_decision oper g =
     \<lparr>d_hook = 8, d_action = raw_action g, d_rule = 0, d_type = 12,
      d_event = Some (TunEvent \<lparr>pt_op = oper, pt_pad = 0\<rparr>)\<rparr>"

text \<open>The first of the declared ranges that matches; the array has \<open>RK_NET_MAX_RANGES\<close> entries.\<close>

definition first_range :: "(rk_net_key \<rightharpoonup> rk_net_rule) \<Rightarrow> rk_net_key \<Rightarrow> u16 \<Rightarrow> u8 \<Rightarrow> rk_net_range option" where
  "first_range trie key port proto = (case trie key of
     None \<Rightarrow> None
   | Some rule \<Rightarrow> find (range_matches port proto) (take (unat (nr_nranges rule)) (nr_ranges rule)))"

text \<open>Governed in ENFORCE mode, with raw sockets denied or the heartbeat stale.\<close>

definition raw_blocked :: "kenv \<Rightarrow> rk_maps \<Rightarrow> bool" where
  "raw_blocked e m = (case rk_governance e m of
     None \<Rightarrow> False
   | Some g \<Rightarrow> g_mode g = RK_MODE_ENFORCE \<and> (g_flags g AND RK_PROFILE_DENY_RAW_SOCKETS \<noteq> 0 \<or> g_stale g))"

definition rules_wf :: "(rk_net_key \<rightharpoonup> rk_net_rule) \<Rightarrow> bool" where
  "rules_wf trie \<longleftrightarrow> (\<forall>r \<in> ran trie. length (nr_ranges r) = 8)"

lemma length_sock_addr_bytes [simp]: "length (sock_addr_bytes ctx v6) = 16"
  by (simp add: sock_addr_bytes_def length_splice_at)

lemma net_body_built:
  assumes "wf_scratch b" "msg_reserved b = 0" "msg_hdr b = h" "length addr = 16"
  shows "built h (enc_net (net_event addr port family proto)) (net_body addr port family proto b)"
  using assms by (simp add: body_simps net_body_def enc_net_def net_event_def)

lemma sock_body_built:
  assumes "wf_scratch b" "msg_reserved b = 0" "msg_hdr b = h"
  shows "built h (enc_sock (sock_event family ty proto)) (sock_body family ty proto b)"
  using assms by (simp add: body_simps sock_body_def enc_sock_def sock_event_def)

lemma tun_body_built:
  assumes "wf_scratch b" "msg_reserved b = 0" "msg_hdr b = h"
  shows "built h (enc_tun \<lparr>pt_op = oper, pt_pad = 0\<rparr>) (tun_body oper b)"
  using assms by (simp add: body_simps tun_body_def enc_tun_def)

lemma wf_net_event: "length addr = 16 \<Longrightarrow> wf_net (net_event addr port family proto)"
  by (simp add: wf_net_def net_event_def)

subsection \<open>The hooks meet the contract\<close>

lemma sock_addr_contract:
  assumes "ty = RK_EV_NET_CONNECT \<or> ty = RK_EV_SENDMSG"
  shows "quiet_hook (\<lambda>e m. rk_net_sock_addr e m ctx v6 ty) (\<lambda>e m g. [sock_addr_decision ctx v6 ty m g]) 1 0"
proof (rule single_hook [where concerns = "\<lambda>_ _. True", simplified if_True,
    where d = "\<lambda>e m g. sock_addr_decision ctx v6 ty m g"
    and ev = "\<lambda>e m g. NetEvent (net_event (sock_addr_bytes ctx v6) (bpf_ntohs (ucast (user_port ctx)))
      (if v6 then 10 else 2) (protocol ctx))"
    and build = "\<lambda>e m g n msg. net_body (sock_addr_bytes ctx v6) (bpf_ntohs (ucast (user_port ctx)))
      (if v6 then 10 else 2) (protocol ctx) (msg\<lparr>msg_hdr := decision_hdr e g (sock_addr_decision ctx v6 ty m g) n\<rparr>)"],
    goal_cases)
  case (1 e m s)
  then show ?case
    by (simp add: rk_net_sock_addr_def rk_net_emit_def sock_addr_decision_def decision_hdr_def Let_def
        split: option.split prod.split)
next
  case (2 e m g)
  then show ?case by (simp add: sock_addr_decision_def Let_def split: prod.split)
next
  case (3 e m g n b)
  then show ?case by (simp add: net_body_built wf_scratch_def)
next
  case (4 e m g)
  then show ?case
    using assms by (auto simp: sock_addr_decision_def wf_decision_def wf_net_def sock_addr_hook_def enc_net_def
        net_event_def Let_def split: prod.split)
qed simp

lemma socket_create_contract:
  "quiet_hook (\<lambda>e m. rk_net_socket_create e m family ty proto kern 0)
     (\<lambda>e m g. if kern = 0 \<and> \<not> rk_sock_observed family ty proto then [socket_create_decision family ty proto g] else []) 0 (- 1)"
proof (rule single_hook [where ev = "\<lambda>e m g. SockEvent (sock_event family ty proto)"
    and build = "\<lambda>e m g n msg. sock_body family ty proto
      (msg\<lparr>msg_hdr := decision_hdr e g (socket_create_decision family ty proto g) n\<rparr>)"],
    goal_cases)
  case (1 e m s)
  then show ?case
    by (simp add: rk_net_socket_create_def socket_create_decision_def decision_hdr_def Let_def split: option.split)
next
  case (3 e m g n b)
  then show ?case by (simp add: sock_body_built wf_scratch_def)
qed (simp_all add: socket_create_decision_def wf_decision_def enc_sock_def)

lemma tun_contract: "quiet_hook (\<lambda>e m. rk_net_tun e m oper) (\<lambda>e m g. [tun_decision oper g]) 0 (- 1)"
proof (rule single_hook [where concerns = "\<lambda>_ _. True", simplified if_True,
    where d = "\<lambda>e m g. tun_decision oper g" and ev = "\<lambda>e m g. TunEvent \<lparr>pt_op = oper, pt_pad = 0\<rparr>"
    and build = "\<lambda>e m g n msg. tun_body oper (msg\<lparr>msg_hdr := decision_hdr e g (tun_decision oper g) n\<rparr>)"],
    goal_cases)
  case (1 e m s)
  then show ?case
    by (simp add: rk_net_tun_def tun_decision_def decision_hdr_def Let_def split: option.split)
next
  case (3 e m g n b)
  then show ?case by (simp add: tun_body_built wf_scratch_def)
qed (simp_all add: tun_decision_def wf_decision_def enc_tun_def)

interpretation connect4: quiet_hook "\<lambda>e m. rk_net_connect4 e m ctx" "\<lambda>e m g. [sock_addr_decision ctx False 3 m g]" 1 0 for ctx
  unfolding rk_net_connect4_def by (rule sock_addr_contract) simp

interpretation connect6: quiet_hook "\<lambda>e m. rk_net_connect6 e m ctx" "\<lambda>e m g. [sock_addr_decision ctx True 3 m g]" 1 0 for ctx
  unfolding rk_net_connect6_def by (rule sock_addr_contract) simp

interpretation sendmsg4: quiet_hook "\<lambda>e m. rk_net_sendmsg4 e m ctx" "\<lambda>e m g. [sock_addr_decision ctx False 9 m g]" 1 0 for ctx
  unfolding rk_net_sendmsg4_def by (rule sock_addr_contract) simp

interpretation sendmsg6: quiet_hook "\<lambda>e m. rk_net_sendmsg6 e m ctx" "\<lambda>e m g. [sock_addr_decision ctx True 9 m g]" 1 0 for ctx
  unfolding rk_net_sendmsg6_def by (rule sock_addr_contract) simp

interpretation socket_create: quiet_hook "\<lambda>e m. rk_net_socket_create e m family ty proto kern 0"
  "\<lambda>e m g. if kern = 0 \<and> \<not> rk_sock_observed family ty proto then [socket_create_decision family ty proto g] else []"
  0 "- 1" for family ty proto kern
  by (rule socket_create_contract)

interpretation tun_create: quiet_hook "\<lambda>e m. rk_net_tun_create e m 0" "\<lambda>e m g. [tun_decision 1 g]" 0 "- 1"
  unfolding rk_net_tun_create_def by (simp add: tun_contract)

interpretation tun_open: quiet_hook "\<lambda>e m. rk_net_tun_open e m 0" "\<lambda>e m g. [tun_decision 2 g]" 0 "- 1"
  unfolding rk_net_tun_open_def by (simp add: tun_contract)

interpretation tun_attach: quiet_hook "\<lambda>e m. rk_net_tun_attach_queue e m 0" "\<lambda>e m g. [tun_decision 3 g]" 0 "- 1"
  unfolding rk_net_tun_attach_queue_def by (simp add: tun_contract)


subsection \<open>Properties\<close>

lemma rk_net_scan_find:
  assumes "length (nr_ranges rule) = 8" "i \<le> 8"
  shows "rk_net_scan rule port proto i =
    map_option nr_rule_id (find (range_matches port proto) (drop i (take (unat (nr_nranges rule)) (nr_ranges rule))))"
  using assms
proof (induction rule port proto i rule: rk_net_scan.induct)
  case (1 rule port proto i)
  let ?rs = "take (unat (nr_nranges rule)) (nr_ranges rule)"
  show ?case
  proof (cases "i < 8 \<and> of_nat i < nr_nranges rule")
    case True
    then have "i < length ?rs" using 1(2) by (auto simp: word_less_nat_alt unat_of_nat)
    then have d: "drop i ?rs = nr_ranges rule ! i # drop (Suc i) ?rs"
      by (simp add: Cons_nth_drop_Suc [symmetric])
    show ?thesis
      unfolding rk_net_scan.simps [of rule port proto i] d
      using True 1 by (auto simp: not_le)
  next
    case False
    then have "length ?rs \<le> i" using 1(2,3) by (auto simp: word_less_nat_alt unat_of_nat not_less)
    then show ?thesis using False by (auto simp: rk_net_scan.simps [of rule port proto i] not_less)
  qed
qed

lemma rk_net_match_first:
  assumes "rules_wf trie"
  shows "rk_net_match trie key port proto = map_option nr_rule_id (first_range trie key port proto)"
proof (cases "trie key")
  case (Some r)
  then have "length (nr_ranges r) = 8" using assms by (auto simp: rules_wf_def ran_def)
  then show ?thesis using Some rk_net_scan_find [of r 0 port proto] by (simp add: rk_net_match_def first_range_def)
qed (simp add: rk_net_match_def first_range_def)

text \<open>
  C21: the network verdict is deny-first: the first matching range of the longest matching deny prefix
  denies, else the first matching range of the longest matching allow prefix allows, else the
  profile's default decides; the rule id is that of the range, or 0 for the default.  Ranges past the
  declared count, and past the eighth, are never consulted.
\<close>

theorem net_verdict_spec:
  assumes "rules_wf (rk_net_deny m)" "rules_wf (rk_net_allow m)"
  shows "rk_net_verdict m g addr port proto =
    (case first_range (rk_net_deny m) (net_key g addr) port proto of
       Some r \<Rightarrow> (RK_ACTION_DENY, nr_rule_id r)
     | None \<Rightarrow>
        (case first_range (rk_net_allow m) (net_key g addr) port proto of
           Some r \<Rightarrow> (RK_ACTION_ALLOW, nr_rule_id r)
         | None \<Rightarrow> (if g_net_default g = RK_ACTION_DENY then RK_ACTION_DENY else RK_ACTION_ALLOW, 0)))"
  by (simp add: rk_net_verdict_def rk_net_match_first assms split: option.split)

definition sample_rule :: rk_net_rule where
  "sample_rule = \<lparr>nr_nranges = 2,
     nr_ranges = \<lparr>nr_rule_id = 5, nr_port_lo = 80, nr_port_hi = 80, nr_proto_mask = 2\<rparr>
       # \<lparr>nr_rule_id = 6, nr_port_lo = 1, nr_port_hi = 1023, nr_proto_mask = 1\<rparr>
       # replicate 6 \<lparr>nr_rule_id = 9, nr_port_lo = 0, nr_port_hi = 65535, nr_proto_mask = 7\<rparr>\<rparr>"

theorem net_verdict_spec_witness:
  "rules_wf (rk_net_deny ((sample_maps 1 900)\<lparr>rk_net_deny := \<lambda>_. Some sample_rule\<rparr>)) \<and>
   rk_net_verdict ((sample_maps 1 900)\<lparr>rk_net_deny := \<lambda>_. Some sample_rule\<rparr>) (sample_gov 1 False)
     (replicate 16 0) 80 (rk_proto_bit 6) = (1, 6)"
proof -
  have wf: "rules_wf (rk_net_deny ((sample_maps 1 900)\<lparr>rk_net_deny := \<lambda>_. Some sample_rule\<rparr>))"
    "rules_wf (rk_net_allow ((sample_maps 1 900)\<lparr>rk_net_deny := \<lambda>_. Some sample_rule\<rparr>))"
    by (auto simp: rules_wf_def sample_rule_def sample_maps_def ran_def)
  show ?thesis
    unfolding net_verdict_spec [OF wf, of "sample_gov 1 False" "replicate 16 0" 80 "rk_proto_bit 6"]
    using wf(1) by (simp add: first_range_def sample_rule_def range_matches_def rk_proto_bit_def)
qed

lemma mapped_prefix: "le 4 (0 :: u32) @ le 4 (0 :: u32) @ le 4 (0xffff0000 :: u32) = take 12 ((replicate 16 0)[10 := 0xff, 11 := 0xff])"
  by code_simp

lemma sock_addr_bytes_mapped:
  assumes "user_ip6_0 ctx' = 0" "user_ip6_1 ctx' = 0" "user_ip6_2 ctx' = 0xffff0000" "user_ip6_3 ctx' = user_ip4 ctx"
  shows "sock_addr_bytes ctx' True = sock_addr_bytes ctx False"
  using mapped_prefix by (simp add: sock_addr_bytes_def assms splice_at_def)

text \<open>
  C33: an IPv4 destination and its IPv4-mapped IPv6 form get the same verdict, at connect and at
  sendmsg: a task cannot evade or trip a rule by choosing the address family.
\<close>

theorem v4_mapped_same_verdict:
  assumes "user_ip6_0 ctx' = 0" "user_ip6_1 ctx' = 0" "user_ip6_2 ctx' = 0xffff0000" "user_ip6_3 ctx' = user_ip4 ctx"
    and "user_port ctx' = user_port ctx" "protocol ctx' = protocol ctx"
  shows "fst (rk_net_connect6 e m ctx' s') = fst (rk_net_connect4 e m ctx s)
    \<and> fst (rk_net_sendmsg6 e m ctx' s') = fst (rk_net_sendmsg4 e m ctx s)"
  unfolding rk_net_connect6_def rk_net_connect4_def rk_net_sendmsg6_def rk_net_sendmsg4_def rk_net_sock_addr_def
  by (simp add: assms(5,6) sock_addr_bytes_mapped [OF assms(1-4)] Let_def split: option.split prod.split)

theorem v4_mapped_same_verdict_witness:
  "let c4 = \<lparr>user_ip4 = 0x0100007f, user_ip6_0 = 0, user_ip6_1 = 0, user_ip6_2 = 0, user_ip6_3 = 0, user_port = 0x5000,
      protocol = 6\<rparr>;
       c6 = c4\<lparr>user_ip4 := 0, user_ip6_2 := 0xffff0000, user_ip6_3 := 0x0100007f\<rparr>
   in fst (rk_net_connect6 sample_env (sample_maps 1 900) c6 sample_cpu)
      = fst (rk_net_connect4 sample_env (sample_maps 1 900) c4 sample_cpu)"
  using v4_mapped_same_verdict [of "\<lparr>user_ip4 = 0, user_ip6_0 = 0, user_ip6_1 = 0, user_ip6_2 = 0xffff0000,
      user_ip6_3 = 0x0100007f, user_port = 0x5000, protocol = 6\<rparr>"
    "\<lparr>user_ip4 = 0x0100007f, user_ip6_0 = 0, user_ip6_1 = 0, user_ip6_2 = 0, user_ip6_3 = 0, user_port = 0x5000,
      protocol = 6\<rparr>" sample_env "sample_maps 1 900" sample_cpu sample_cpu]
  by simp

text \<open>
  Socket creation returns -EPERM for exactly these calls: a task-created packet socket, or an
  inet/inet6 socket that is not plain TCP or plain UDP, by a task governed in ENFORCE mode whose
  profile denies raw sockets or whose sensor heartbeat is stale.
\<close>

theorem socket_create_denied_iff:
  "fst (rk_net_socket_create e m family ty proto kern 0 s) = - 1 \<longleftrightarrow>
     kern = 0 \<and>
     (family = RK_AF_PACKET \<or>
      family \<in> {RK_AF_INET, RK_AF_INET6} \<and>
      (ty AND 15, proto) \<notin> {(RK_SOCK_STREAM, 0), (RK_SOCK_STREAM, 6), (RK_SOCK_DGRAM, 0), (RK_SOCK_DGRAM, 17)}) \<and>
     raw_blocked e m"
  by (auto simp: rk_net_socket_create_def rk_sock_observed_def raw_blocked_def raw_action_def rk_enforced_deny_def
      rk_effective_deny_def Let_def split: option.splits)

text \<open>
  The three TUN/TAP hooks follow the same profile flag: they return -EPERM for exactly the tasks
  governed in ENFORCE mode whose profile denies raw sockets or whose heartbeat is stale.
\<close>

theorem tun_denied_iff:
  "(fst (rk_net_tun_create e m 0 s) = - 1 \<longleftrightarrow> raw_blocked e m) \<and>
   (fst (rk_net_tun_open e m 0 s) = - 1 \<longleftrightarrow> raw_blocked e m) \<and>
   (fst (rk_net_tun_attach_queue e m 0 s) = - 1 \<longleftrightarrow> raw_blocked e m)"
  by (auto simp: rk_net_tun_create_def rk_net_tun_open_def rk_net_tun_attach_queue_def rk_net_tun_def raw_blocked_def
      raw_action_def rk_enforced_deny_def rk_effective_deny_def Let_def split: option.splits)

end
