(* ===== verification/Rk_Exec.thy ===== *)
theory Rk_Exec
  imports Rk_Sample
begin

text \<open>
  The execution policy, \<open>rk-bpf/src/exec.bpf.c\<close>.  \<open>rk_exec_check\<close> decides on the identity of the file
  being executed and remembers its decision under the calling thread's id; \<open>rk_exec_record\<close> runs when
  the exec has committed and reports the file name and the argument area.
\<close>

abbreviation (input) RK_EXEC_EPERM :: s32 where "RK_EXEC_EPERM \<equiv> 1"

subsection \<open>The check\<close>

definition rk_exec_key_of :: "kheap \<Rightarrow> rk_gov \<Rightarrow> u64 \<Rightarrow> rk_exec_key" where
  "rk_exec_key_of h g inode =
     \<lparr>xk_scope = g_scope g, xk_pad = 0,
      xk_dev = ucast (s_dev (rd_super_block h (i_sb (rd_inode h inode)))), xk_ino = i_ino (rd_inode h inode)\<rparr>"

definition bprm_inode :: "kheap \<Rightarrow> u64 \<Rightarrow> u64" where
  "bprm_inode h bprm = f_inode (rd_file h (bprm_file (rd_binprm h bprm)))"

text \<open>The event flags of the check, and its action and rule id.\<close>

definition exec_check_flags :: "kheap \<Rightarrow> u64 \<Rightarrow> u32" where
  "exec_check_flags h inode =
     (if i_nlink (rd_inode h inode) = 0 then RK_EXEC_DECISION OR RK_EXEC_UNLINKED else RK_EXEC_DECISION)"

definition exec_action :: "rk_maps \<Rightarrow> rk_gov \<Rightarrow> u32 \<Rightarrow> rk_exec_key \<Rightarrow> u8 \<times> u32" where
  "exec_action m g flags key =
     (if flags AND RK_EXEC_UNLINKED \<noteq> 0 \<and> g_flags g AND RK_PROFILE_EXEC_ALLOW_UNLINKED = 0
      then (RK_ACTION_DENY, 0)
      else case rk_exec_allow m key of
             Some rule \<Rightarrow> (RK_ACTION_ALLOW, xr_rule_id rule)
           | None \<Rightarrow> (if g_flags g AND RK_PROFILE_EXEC_DENY_DEFAULT \<noteq> 0 then RK_ACTION_DENY else RK_ACTION_ALLOW, 0))"

text \<open>\<open>bpf_map_update_elem\<close> on the LRU map: it may fail, and it may evict other keys.\<close>

definition decided_update :: "kenv \<Rightarrow> u32 \<Rightarrow> rk_exec_decision \<Rightarrow> (u32 \<rightharpoonup> rk_exec_decision) \<Rightarrow> (u32 \<rightharpoonup> rk_exec_decision)" where
  "decided_update e tid d dm =
     (if lru_inserts e then (\<lambda>k. if k = tid then Some d else if lru_keeps e k then dm k else None) else dm)"

text \<open>The stores of the body; the string append follows.\<close>

definition exec_check_body :: "rk_exec_key \<Rightarrow> u32 \<Rightarrow> rk_scratch_buf \<Rightarrow> rk_scratch_buf" where
  "exec_check_body key flags msg =
     (let msg = msg_store 0 (le 8 (xk_dev key)) msg;
          msg = msg_store 8 (le 8 (xk_ino key)) msg;
          msg = msg_store 16 (le 4 flags) msg;
          msg = msg_store 20 (le 2 (1 :: u16)) msg;
          msg = msg_store 22 (le 2 (0 :: u16)) msg
      in msg\<lparr>msg_payload_len := 24\<rparr>)"

definition rk_exec_check :: "kenv \<Rightarrow> rk_maps \<Rightarrow> u64 \<Rightarrow> s32 \<Rightarrow> rk_cpu \<Rightarrow> s32 \<times> rk_cpu" where
  "rk_exec_check e m bprm ret s =
     (if ret \<noteq> 0 then (ret, s)
      else case rk_governance e m of
        None \<Rightarrow> (0, s)
      | Some g \<Rightarrow>
         (let h = heap e;
              inode = bprm_inode h bprm;
              key = rk_exec_key_of h g inode;
              flags = exec_check_flags h inode;
              (action, rule_id) = exec_action m g flags key;
              tid = ucast (current_pid_tgid e);
              s = s\<lparr>rk_exec_decided :=
                     decided_update e tid \<lparr>xd_policy_gen = g_policy_gen g, xd_rule_id = rule_id\<rparr> (rk_exec_decided s)\<rparr>;
              s = rk_count_decision RK_HOOK_EXEC g action s;
              s = (if rk_effective_deny g action
                   then rk_send e (\<lambda>n msg.
                     rk_append_kstr e (bprm_filename (rd_binprm h bprm)) 256
                       (exec_check_body key flags
                         (msg\<lparr>msg_hdr := rk_fill_task e (rk_fill_hdr e n (g_cgroup_id g) (g_policy_gen g) RK_EV_EXEC
                            (rk_reported_verdict g action) (rk_rule g action rule_id) (msg_hdr msg))\<rparr>))) s
                   else s)
          in (if rk_enforced_deny g action then - RK_EXEC_EPERM else 0, s)))"

subsection \<open>The record\<close>

definition exec_record_body :: "rk_exec_key \<Rightarrow> rk_scratch_buf \<Rightarrow> rk_scratch_buf" where
  "exec_record_body key msg =
     (let msg = msg_store 0 (le 8 (xk_dev key)) msg;
          msg = msg_store 8 (le 8 (xk_ino key)) msg;
          msg = msg_store 20 (le 2 (2 :: u16)) msg;
          msg = msg_store 22 (le 2 (0 :: u16)) msg
      in msg\<lparr>msg_payload_len := 24\<rparr>)"

text \<open>The two strings, then the flags, which depend on how the argument copy went.\<close>

definition exec_record_tail :: "kenv \<Rightarrow> u64 \<Rightarrow> u64 \<Rightarrow> u32 \<Rightarrow> rk_scratch_buf \<Rightarrow> rk_scratch_buf" where
  "exec_record_tail e p bprm flags msg =
     (let h = heap e;
          msg = rk_append_kstr e (bprm_filename (rd_binprm h bprm)) 256 msg;
          mm = t_mm (rd_task h p);
          arg_start = mm_arg_start (rd_mm h mm);
          arg_end = mm_arg_end (rd_mm h mm);
          (copied, msg) = rk_append_ublob e arg_start (if arg_end > arg_start then arg_end - arg_start else 0) msg;
          flags = (if copied > 0 then flags OR RK_EXEC_ARGV_TRUNCATED
                   else if copied < 0 then flags OR RK_EXEC_ARGV_UNAVAILABLE else flags)
      in msg_store 16 (le 4 flags) msg)"

definition rk_exec_record :: "kenv \<Rightarrow> rk_maps \<Rightarrow> u64 \<Rightarrow> u32 \<Rightarrow> u64 \<Rightarrow> rk_cpu \<Rightarrow> s32 \<times> rk_cpu" where
  "rk_exec_record e m p old_pid bprm s = (case rk_governance e m of
     None \<Rightarrow> (0, s)
   | Some g \<Rightarrow>
       (case rk_scratch e s of
          (None, s) \<Rightarrow> (0, s)
        | (Some msg, s) \<Rightarrow>
           (let h = heap e;
                inode = bprm_inode h bprm;
                key = rk_exec_key_of h g inode;
                flags = (if i_nlink (rd_inode h inode) = 0 then RK_EXEC_UNLINKED else 0);
                (policy_gen, rule_id, s) =
                  (case rk_exec_decided s old_pid of
                     Some d \<Rightarrow> (xd_policy_gen d, xd_rule_id d, s\<lparr>rk_exec_decided := (rk_exec_decided s)(old_pid := None)\<rparr>)
                   | None \<Rightarrow> (g_policy_gen g,
                       (case rk_exec_allow m key of Some rule \<Rightarrow> xr_rule_id rule | None \<Rightarrow> 0), s));
                msg = msg\<lparr>msg_hdr := rk_fill_task e (rk_fill_hdr e (emit_seq s) (g_cgroup_id g) policy_gen RK_EV_EXEC
                        RK_VERDICT_ALLOW rule_id (msg_hdr msg))\<rparr>;
                msg = exec_record_tail e p bprm flags (exec_record_body key msg)
            in (0, rk_emit e msg s))))"

subsection \<open>Specification\<close>

definition exec_event :: "rk_exec_key \<Rightarrow> u32 \<Rightarrow> bytes list \<Rightarrow> rk_event" where
  "exec_event key flags strs = ExecEvent
     \<lparr>pe_file_dev = xk_dev key, pe_file_ino = xk_ino key, pe_flags = flags, pe_str_count = of_nat (length strs),
      pe_pad = 0\<rparr> strs"

definition exec_filename :: "kenv \<Rightarrow> u64 \<Rightarrow> bytes" where
  "exec_filename e bprm = kstr_text e (bprm_filename (rd_binprm (heap e) bprm)) 256"

definition exec_decision :: "u64 \<Rightarrow> kenv \<Rightarrow> rk_maps \<Rightarrow> rk_gov \<Rightarrow> decision" where
  "exec_decision bprm e m g =
     (let inode = bprm_inode (heap e) bprm;
          key = rk_exec_key_of (heap e) g inode;
          flags = exec_check_flags (heap e) inode;
          (action, rule_id) = exec_action m g flags key
      in \<lparr>d_hook = 5, d_action = action, d_rule = rule_id, d_type = 1,
          d_event = (if rk_effective_deny g action then Some (exec_event key flags [exec_filename e bprm]) else None)\<rparr>)"

text \<open>The argument area as the record transmits it, and the flags that say so.\<close>

definition arg_area :: "kheap \<Rightarrow> u64 \<Rightarrow> u64 \<times> u64" where
  "arg_area h p =
     (let mm = rd_mm h (t_mm (rd_task h p))
      in (mm_arg_start mm, if mm_arg_end mm > mm_arg_start mm then mm_arg_end mm - mm_arg_start mm else 0))"

definition exec_args :: "kenv \<Rightarrow> u64 \<Rightarrow> u64 \<Rightarrow> bytes" where
  "exec_args e p bprm = (case arg_area (heap e) p of (start, want) \<Rightarrow>
     ublob_text e start (blob_cap (26 + of_nat (length (exec_filename e bprm))) want))"

definition exec_args_flags :: "kenv \<Rightarrow> u64 \<Rightarrow> u64 \<Rightarrow> u32" where
  "exec_args_flags e p bprm = (case arg_area (heap e) p of (start, want) \<Rightarrow>
     let off = 26 + of_nat (length (exec_filename e bprm)) in
     if fst (probe_user e start (blob_cap off want)) < 0 then RK_EXEC_ARGV_UNAVAILABLE
     else if want > ucast (2046 - off) then RK_EXEC_ARGV_TRUNCATED else 0)"

lemma str_cap_256: "str_cap 24 256 = 256"
  by (simp add: str_cap_def)

lemma exec_check_body_built:
  assumes "wf_scratch b" "msg_reserved b = 0" "msg_hdr b = h"
  shows "fits (exec_check_body key flags b)" "msg_content (exec_check_body key flags b)
      = le 8 (xk_dev key) @ le 8 (xk_ino key) @ le 4 flags @ le 2 (1 :: u16) @ le 2 (0 :: u16)"
    "msg_payload_len (exec_check_body key flags b) = 24"
    "msg_hdr (exec_check_body key flags b) = h" "msg_reserved (exec_check_body key flags b) = 0"
  using assms by (simp_all add: body_simps exec_check_body_def fits_def)

lemma exec_check_built:
  assumes "wf_scratch b" "msg_reserved b = 0" "msg_hdr b = h" "probe_ok e"
  shows "built h (enc_event (exec_event key flags [kstr_text e src 256])) (rk_append_kstr e src 256 (exec_check_body key flags b))"
proof -
  note body = exec_check_body_built [OF assms(1-3), of key flags]
  note app = rk_append_kstr_content [OF body(1) assms(4), of src 256, unfolded body(3) str_cap_256]
  show ?thesis
    unfolding built_def using app body
    by (simp add: exec_event_def enc_exec_def wire_strs_def wire_str_def)
qed


lemma msg_content_store:
  assumes "wf_scratch b" "off + length bs \<le> unat (msg_payload_len b)" "unat (msg_payload_len b) \<le> 2048"
  shows "msg_content (msg_store off bs b) = splice_at off bs (msg_content b)"
proof -
  have "unat (msg_payload_len b) \<le> off \<longrightarrow> off = unat (msg_payload_len b) \<and> bs = []" using assms(2) by (cases bs) auto
  then show ?thesis
    using assms by (auto simp: msg_content_def msg_store_inside splice_at_def wf_scratch_def min_def drop_take)
qed

lemma exec_record_body_built:
  assumes "wf_scratch b" "msg_reserved b = 0" "msg_hdr b = h"
  shows "fits (exec_record_body key b)" "msg_payload_len (exec_record_body key b) = 24"
    "msg_hdr (exec_record_body key b) = h" "msg_reserved (exec_record_body key b) = 0"
    "\<exists>x. length x = 4 \<and> msg_content (exec_record_body key b)
      = le 8 (xk_dev key) @ le 8 (xk_ino key) @ x @ le 2 (2 :: u16) @ le 2 (0 :: u16)"
  using assms by (simp_all add: body_simps exec_record_body_def fits_def)

lemma exec_record_tail_eq:
  "exec_record_tail e p bprm flags msg = (case arg_area (heap e) p of (start, want) \<Rightarrow>
     case rk_append_ublob e start want (rk_append_kstr e (bprm_filename (rd_binprm (heap e) bprm)) 256 msg) of (c, msg) \<Rightarrow>
       msg_store 16 (le 4 (flags OR (if c > 0 then 1 else if c < 0 then 2 else 0))) msg)"
  by (auto simp: exec_record_tail_def arg_area_def Let_def split: prod.split)

lemma exec_record_built:
  assumes "wf_scratch b" "msg_reserved b = 0" "msg_hdr b = h" "probe_ok e"
  shows "built h (enc_event (exec_event key (flags OR exec_args_flags e p bprm) [exec_filename e bprm, exec_args e p bprm]))
    (exec_record_tail e p bprm flags (exec_record_body key b))"
proof -
  obtain start want where area: "arg_area (heap e) p = (start, want)" by fastforce
  obtain x where body: "fits (exec_record_body key b)" "msg_payload_len (exec_record_body key b) = 24"
    "msg_hdr (exec_record_body key b) = h" "msg_reserved (exec_record_body key b) = 0" "length x = 4"
    "msg_content (exec_record_body key b) = le 8 (xk_dev key) @ le 8 (xk_ino key) @ x @ le 2 (2 :: u16) @ le 2 (0 :: u16)"
    using exec_record_body_built [OF assms(1-3), of key] by blast
  define src where "src = bprm_filename (rd_binprm (heap e) bprm)"
  define t where "t = kstr_text e src 256"
  define b1 where "b1 = rk_append_kstr e src 256 (exec_record_body key b)"
  note k = rk_append_kstr_content [OF body(1) assms(4), of src 256, unfolded body(2) str_cap_256, folded t_def b1_def]
  have len1: "unat (msg_payload_len b1) = 26 + length t" "length t \<le> 256" using k(2,3) by simp_all
  have l1: "msg_payload_len b1 = 26 + of_nat (length t)"
    using len1 by (simp add: word_unat_eq_iff unat_word_ariths unat_of_nat)
  have fit1: "fits b1" using k(5) len1 by (simp add: fits_def word_le_nat_alt)
  obtain c b2 where ub: "rk_append_ublob e start want b1 = (c, b2)" by fastforce
  define a where "a = exec_args e p bprm"
  have a: "ublob_text e start (blob_cap (msg_payload_len b1) want) = a"
    by (simp add: a_def exec_args_def area l1 t_def exec_filename_def src_def)
  note u = rk_append_ublob_content [OF fit1 assms(4), of start want, unfolded ub snd_conv a]
  have fl: "exec_args_flags e p bprm = (if c > 0 then 1 else if c < 0 then 2 else 0)"
    using ub fit1 unfolding fits_def
    by (auto simp: exec_args_flags_def area Let_def rk_append_ublob_eq l1 t_def exec_filename_def src_def split: prod.splits)
  have tail: "exec_record_tail e p bprm flags (exec_record_body key b)
      = msg_store 16 (le 4 (flags OR exec_args_flags e p bprm)) b2"
    unfolding exec_record_tail_eq fl using area ub by (simp add: b1_def src_def)
  have "msg_content (msg_store 16 (le 4 (flags OR exec_args_flags e p bprm)) b2)
      = splice_at 16 (le 4 (flags OR exec_args_flags e p bprm)) (msg_content b2)"
    using u(2,3,4) len1 by (intro msg_content_store) simp_all
  also have "\<dots> = enc_event (exec_event key (flags OR exec_args_flags e p bprm) [exec_filename e bprm, a])"
    using u(1) k(1) body(5,6)
    by (simp add: splice_at_def exec_event_def enc_exec_def wire_strs_def t_def exec_filename_def src_def)
  finally have content: "msg_content (msg_store 16 (le 4 (flags OR exec_args_flags e p bprm)) b2)
      = enc_event (exec_event key (flags OR exec_args_flags e p bprm) [exec_filename e bprm, a])" .
  have "wf_scratch (msg_store 16 (le 4 (flags OR exec_args_flags e p bprm)) b2)"
    using u(4) by (intro msg_store_inside) simp_all
  moreover have "unat (msg_payload_len b2) = length (enc_event (exec_event key (flags OR exec_args_flags e p bprm) [exec_filename e bprm, a]))"
    using u(2) len1 by (simp add: exec_event_def enc_exec_def wire_strs_def wire_str_def t_def exec_filename_def src_def)
  ultimately show ?thesis
    unfolding tail built_def using content u(3,6,7) k(7,8) body(3,4) by (simp add: a_def)
qed


subsection \<open>The programs meet their contracts\<close>

lemma wf_exec_decision:
  assumes "probe_ok e"
  shows "wf_decision (exec_decision bprm e m g)"
proof -
  have "length (exec_filename e bprm) \<le> 256"
    using assms by (auto simp: exec_filename_def kstr_text_def dest: probe_ok_kernel_str split: prod.split)
  then show ?thesis
    by (auto simp: exec_decision_def Let_def wf_decision_def exec_event_def strs_ok_def enc_exec_def wire_strs_def wire_str_def
        split: prod.split)
qed

lemma exec_check_refines:
  assumes "rk_governance e m = Some g" "wf_cpu s" "probe_ok e"
  shows "abs_cpu (snd (rk_exec_check e m bprm 0 s)) = settle e g [exec_decision bprm e m g] (abs_cpu s)"
    and "wf_cpu (snd (rk_exec_check e m bprm 0 s))"
proof -
  let ?key = "rk_exec_key_of (heap e) g (bprm_inode (heap e) bprm)"
  let ?flags = "exec_check_flags (heap e) (bprm_inode (heap e) bprm)"
  let ?d = "exec_decision bprm e m g"
  obtain action rule_id where a: "exec_action m g ?flags ?key = (action, rule_id)" by fastforce
  define s1 where "s1 = s\<lparr>rk_exec_decided := decided_update e (ucast (current_pid_tgid e))
      \<lparr>xd_policy_gen = g_policy_gen g, xd_rule_id = rule_id\<rparr> (rk_exec_decided s)\<rparr>"
  have wf: "wf_cpu s1" using assms(2) by (simp add: s1_def wf_cpu_def has_counters_def)
  have d: "d_event ?d = (if rk_effective_deny g (d_action ?d) then Some (exec_event ?key ?flags [exec_filename e bprm]) else None)"
    "d_action ?d = action" "d_hook ?d = 5"
    by (simp_all add: exec_decision_def Let_def a)
  let ?build = "\<lambda>n msg. rk_append_kstr e (bprm_filename (rd_binprm (heap e) bprm)) 256
      (exec_check_body ?key ?flags (msg\<lparr>msg_hdr := decision_hdr e g ?d n\<rparr>))"
  have bt: "built (decision_hdr e g ?d n) (enc_event (exec_event ?key ?flags [exec_filename e bprm])) (?build n b)"
    if "wf_scratch b" "msg_payload_len b = 0" "msg_reserved b = 0" for n b
    unfolding exec_filename_def using that assms(3) by (intro exec_check_built) (simp_all add: wf_scratch_def)
  have run: "snd (rk_exec_check e m bprm 0 s) =
      (let s' = rk_count_decision 5 g action s1 in if rk_effective_deny g action then rk_send e ?build s' else s')"
    using assms(1) by (simp add: rk_exec_check_def Let_def a s1_def decision_hdr_def exec_decision_def)
  note r = report_deny_refines [OF wf d(1) bt, unfolded d(2,3)]
  have "abs_cpu (snd (rk_exec_check e m bprm 0 s)) = report e g ?d (abs_cpu s1)"
    unfolding run Let_def by (rule r(1))
  then show "abs_cpu (snd (rk_exec_check e m bprm 0 s)) = settle e g [?d] (abs_cpu s)"
    by (simp add: s1_def)
  show "wf_cpu (snd (rk_exec_check e m bprm 0 s))"
    unfolding run Let_def by (rule r(2))
qed

interpretation exec_check: decision_hook "\<lambda>e m. rk_exec_check e m bprm 0" "\<lambda>e m g. [exec_decision bprm e m g]" 0 "- 1" for bprm
proof
  fix e e' :: kenv and m s g
  show "rk_exec_check e m bprm 0 s = (0, s)" if "rk_governance e m = None"
    using that by (simp add: rk_exec_check_def)
  show "fst (rk_exec_check e m bprm 0 s) = (if list_ex (enforced g) [exec_decision bprm e m g] then - 1 else 0)"
    if "rk_governance e m = Some g"
    using that by (simp add: rk_exec_check_def exec_decision_def enforced_def Let_def split: prod.split)
  show "abs_cpu (snd (rk_exec_check e m bprm 0 s)) = settle e g [exec_decision bprm e m g] (abs_cpu s)"
    if "rk_governance e m = Some g" "wf_cpu s" "probe_ok e"
    using that by (rule exec_check_refines)
  show "wf_cpu (snd (rk_exec_check e m bprm 0 s))" if "wf_cpu s" "probe_ok e"
  proof (cases "rk_governance e m")
    case (Some g) then show ?thesis using that by (rule exec_check_refines)
  qed (simp add: rk_exec_check_def that)
  show "map d_action [exec_decision bprm e m g] = map d_action [exec_decision bprm e' m g]" if "same_inputs e e'"
    using that by (simp add: exec_decision_def same_inputs_def Let_def split: prod.split)
  show "list_all wf_decision [exec_decision bprm e m g]" if "probe_ok e"
    using that by (simp add: wf_exec_decision)
qed

text \<open>The label of a record: the remembered decision, or a fresh lookup if there is none.\<close>

definition record_label :: "kenv \<Rightarrow> rk_maps \<Rightarrow> rk_gov \<Rightarrow> u64 \<Rightarrow> rk_exec_decision option \<Rightarrow> u64 \<times> u32" where
  "record_label e m g bprm dec = (case dec of
     Some d \<Rightarrow> (xd_policy_gen d, xd_rule_id d)
   | None \<Rightarrow> (g_policy_gen g,
       (case rk_exec_allow m (rk_exec_key_of (heap e) g (bprm_inode (heap e) bprm)) of
          Some rule \<Rightarrow> xr_rule_id rule | None \<Rightarrow> 0)))"

definition record_event :: "kenv \<Rightarrow> rk_gov \<Rightarrow> u64 \<Rightarrow> u64 \<Rightarrow> rk_event" where
  "record_event e g p bprm =
     (let inode = bprm_inode (heap e) bprm in
      exec_event (rk_exec_key_of (heap e) g inode)
        ((if i_nlink (rd_inode (heap e) inode) = 0 then RK_EXEC_UNLINKED else 0) OR exec_args_flags e p bprm)
        [exec_filename e bprm, exec_args e p bprm])"

definition scratch_ok :: "kenv \<Rightarrow> rk_cpu \<Rightarrow> bool" where
  "scratch_ok e s \<longleftrightarrow> \<not> force_emit_fail e \<and> scratch_map s \<noteq> None"

lemma exec_record_refines:
  fixes bprm p :: u64 and old_pid :: u32
  assumes "rk_governance e m = Some g" "wf_cpu s" "probe_ok e"
  defines "lab \<equiv> record_label e m g bprm (rk_exec_decided s old_pid)"
  shows "abs_cpu (snd (rk_exec_record e m p old_pid bprm s)) =
      emit_event e (\<lambda>n. event_hdr e n (g_cgroup_id g) (fst lab) 1 0 (snd lab)) (enc_event (record_event e g p bprm)) (abs_cpu s)"
    and "wf_cpu (snd (rk_exec_record e m p old_pid bprm s))"
    and "rk_exec_decided (snd (rk_exec_record e m p old_pid bprm s)) =
      (if scratch_ok e s then (rk_exec_decided s)(old_pid := None) else rk_exec_decided s)"
proof -
  let ?key = "rk_exec_key_of (heap e) g (bprm_inode (heap e) bprm)"
  define fl :: u32 where "fl = (if i_nlink (rd_inode (heap e) (bprm_inode (heap e) bprm)) = 0 then 4 else 0)"
  let ?h = "\<lambda>n. event_hdr e n (g_cgroup_id g) (fst lab) 1 0 (snd lab)"
  let ?build = "\<lambda>n msg. exec_record_tail e p bprm fl (exec_record_body ?key (msg\<lparr>msg_hdr := ?h n\<rparr>))"
  define s1 where "s1 = s\<lparr>rk_exec_decided := (rk_exec_decided s)(old_pid := None)\<rparr>"
  have wf: "wf_cpu s1" using assms(2) by (simp add: s1_def wf_cpu_def has_counters_def)
  have bt: "built (?h n) (enc_event (record_event e g p bprm)) (?build n b)"
    if "wf_scratch b" "msg_payload_len b = 0" "msg_reserved b = 0" for n b
    unfolding record_event_def Let_def fl_def [symmetric] using that assms(3)
    by (intro exec_record_built) (simp_all add: wf_scratch_def)
  have r: "abs_cpu (rk_send e ?build s1) = emit_event e ?h (enc_event (record_event e g p bprm)) (abs_cpu s1)"
    "wf_cpu (rk_send e ?build s1)"
    by (rule rk_send_refines [OF wf bt]; assumption)+
  have run: "rk_exec_record e m p old_pid bprm s = (0, if scratch_ok e s then rk_send e ?build s1 else rk_count 1 s)"
  proof (cases "scratch_ok e s")
    case True
    then obtain b where b: "scratch_map s = Some b" "\<not> force_emit_fail e" by (auto simp: scratch_ok_def)
    let ?b0 = "b\<lparr>msg_payload_len := 0, msg_reserved := 0\<rparr>"
    have sc: "rk_scratch e s = (Some ?b0, s\<lparr>scratch_map := Some ?b0\<rparr>)" using b by (simp add: rk_scratch_def Let_def)
    have send: "rk_send e ?build s1 = rk_emit e (?build (emit_seq s) ?b0) (s1\<lparr>scratch_map := Some ?b0\<rparr>)"
      using b by (simp add: rk_send_def rk_scratch_def Let_def s1_def)
    show ?thesis
    proof (cases "rk_exec_decided s old_pid")
      case None
      then have "s1 = s" by (simp add: s1_def fun_upd_idem)
      then show ?thesis using True send sc assms(1) None
        by (simp add: rk_exec_record_def Let_def lab_def record_label_def fl_def)
    next
      case (Some d)
      have "s1\<lparr>scratch_map := Some ?b0\<rparr> = s\<lparr>scratch_map := Some ?b0, rk_exec_decided := (rk_exec_decided s)(old_pid := None)\<rparr>"
        by (simp add: s1_def)
      with Some show ?thesis using True send sc assms(1)
        by (simp add: rk_exec_record_def Let_def lab_def record_label_def fl_def)
    qed
  next
    case False
    then show ?thesis using assms(1)
      by (auto simp: rk_exec_record_def rk_scratch_def scratch_ok_def)
  qed
  show "abs_cpu (snd (rk_exec_record e m p old_pid bprm s)) =
      emit_event e ?h (enc_event (record_event e g p bprm)) (abs_cpu s)"
    unfolding run using r(1) by (auto simp: s1_def scratch_ok_def emit_event_def)
  show "wf_cpu (snd (rk_exec_record e m p old_pid bprm s))" unfolding run using r(2) assms(2) by simp
  show "rk_exec_decided (snd (rk_exec_record e m p old_pid bprm s)) =
      (if scratch_ok e s then (rk_exec_decided s)(old_pid := None) else rk_exec_decided s)"
    unfolding run by (simp add: s1_def)
qed


lemma wf_record_event:
  assumes "probe_ok e"
  shows "wf_event (event_hdr e n cg gen 1 0 rule) (record_event e g p bprm)"
proof -
  obtain key fl where ev: "record_event e g p bprm = exec_event key (fl OR exec_args_flags e p bprm) [exec_filename e bprm, exec_args e p bprm]"
    by (metis record_event_def)
  let ?b = "blank_buf\<lparr>msg_payload := replicate 2048 0, msg_slack := replicate 2048 0\<rparr>"
  have "built (msg_hdr ?b) (enc_event (record_event e g p bprm)) (exec_record_tail e p bprm fl (exec_record_body key ?b))"
    unfolding ev using assms by (intro exec_record_built) (simp_all add: wf_scratch_def blank_buf_def)
  then have "length (enc_event (record_event e g p bprm)) \<le> 2048" by (simp add: built_def)
  then show ?thesis
    unfolding ev by (simp add: wf_event_def event_hdr_def exec_event_def strs_ok_def enc_exec_def wire_strs_def wire_str_def)
qed

interpretation exec_record: rk_emitter "\<lambda>e m. rk_exec_record e m p old_pid bprm" for p old_pid bprm
proof
  fix s e m
  assume a: "wf_cpu s" "probe_ok e"
  show "wf_cpu (snd (rk_exec_record e m p old_pid bprm s))"
  proof (cases "rk_governance e m")
    case (Some g) then show ?thesis using a by (rule exec_record_refines)
  qed (simp add: rk_exec_record_def a)
  show "\<exists>rs. events_ringbuf (snd (rk_exec_record e m p old_pid bprm s)) = events_ringbuf s @ rs
      \<and> list_all (\<lambda>r. record_ok (fst r)) rs"
  proof (cases "rk_governance e m")
    case (Some g)
    show ?thesis
      using exec_record_refines(1) [OF Some a] wf_record_event [OF a(2)] by (rule emission_appends)
  qed (simp add: rk_exec_record_def)
qed

subsection \<open>Properties\<close>

lemma exec_denied_cases:
  "fst (rk_exec_check e m bprm 0 s) = - 1 \<longleftrightarrow>
     (\<exists>g. rk_governance e m = Some g \<and> g_mode g = RK_MODE_ENFORCE \<and>
       (let inode = bprm_inode (heap e) bprm;
            unlinked = (i_nlink (rd_inode (heap e) inode) = 0);
            refused = (unlinked \<and> g_flags g AND RK_PROFILE_EXEC_ALLOW_UNLINKED = 0)
        in g_stale g \<or> refused \<or>
           rk_exec_allow m (rk_exec_key_of (heap e) g inode) = None \<and> g_flags g AND RK_PROFILE_EXEC_DENY_DEFAULT \<noteq> 0))"
proof (cases "rk_governance e m")
  case (Some g)
  then show ?thesis
    by (auto simp: exec_check.verdict [OF Some] enforced_def exec_decision_def exec_action_def exec_check_flags_def
        rk_enforced_deny_def rk_effective_deny_def Let_def split: option.splits)
qed (simp add: exec_check.ungoverned)

text \<open>
  C22: an exec is blocked for exactly these reasons: the task is governed in ENFORCE mode and the
  sensor's heartbeat is stale, or the file has no link left and the profile does not allow that, or
  the file's (device, inode) is not in the profile's allowlist and the profile denies by default.
\<close>

theorem exec_denied_iff:
  "fst (rk_exec_check e m bprm 0 s) = - 1 \<longleftrightarrow>
     (\<exists>g. rk_governance e m = Some g \<and> g_mode g = RK_MODE_ENFORCE \<and>
       (let inode = bprm_inode (heap e) bprm;
            unlinked = (i_nlink (rd_inode (heap e) inode) = 0);
            refused = (unlinked \<and> g_flags g AND RK_PROFILE_EXEC_ALLOW_UNLINKED = 0)
        in g_stale g \<or> refused \<or>
           rk_exec_allow m (rk_exec_key_of (heap e) g inode) = None \<and> g_flags g AND RK_PROFILE_EXEC_DENY_DEFAULT \<noteq> 0))"
  by (rule exec_denied_cases)

lemma exec_check_decided:
  assumes "rk_governance e m = Some g" "lru_inserts e"
  shows "rk_exec_decided (snd (rk_exec_check e m bprm 0 s)) (ucast (current_pid_tgid e))
    = Some \<lparr>xd_policy_gen = g_policy_gen g, xd_rule_id = d_rule (exec_decision bprm e m g)\<rparr>"
  using assms by (simp add: rk_exec_check_def exec_decision_def decided_update_def Let_def split: prod.split)

text \<open>
  C27: the record of an exec carries the generation and the rule that decided it, even when the policy,
  the profile or the heartbeat changed between the check and the record: whatever ran in between, if
  the decision is still pending for the thread, the record is labelled with it and consumes it.
\<close>

theorem exec_record_keeps_decision:
  fixes p bprm :: u64
  assumes "rk_governance e m = Some g" "lru_inserts e"
    and "rk_exec_decided s2 (ucast (current_pid_tgid e))
      = rk_exec_decided (snd (rk_exec_check e m bprm 0 s)) (ucast (current_pid_tgid e))"
    and "rk_governance e' m' = Some g'" "wf_cpu s2" "probe_ok e'" "scratch_ok e' s2"
    and "\<And>k. ringbuf_accepts e' (emit_seq s2) k"
  defines "s3 \<equiv> snd (rk_exec_record e' m' p (ucast (current_pid_tgid e)) bprm s2)"
  shows "\<exists>h fl. events_ringbuf s3 = events_ringbuf s2 @ [(wire_record h (enc_event (record_event e' g' p bprm)), fl)]
      \<and> hdr_policy_gen h = g_policy_gen g \<and> hdr_rule_id h = d_rule (exec_decision bprm e m g)
      \<and> hdr_verdict h = RK_VERDICT_ALLOW \<and> hdr_cgroup_id h = g_cgroup_id g'
      \<and> rk_exec_decided s3 (ucast (current_pid_tgid e)) = None"
proof -
  have dec: "rk_exec_decided s2 (ucast (current_pid_tgid e))
      = Some \<lparr>xd_policy_gen = g_policy_gen g, xd_rule_id = d_rule (exec_decision bprm e m g)\<rparr>"
    using assms(3) exec_check_decided [OF assms(1,2)] by simp
  have "events_ringbuf s3 = events_ringbuf (abs_cpu s3)" by simp
  also have "\<dots> = events_ringbuf s2 @
    [(wire_record (event_hdr e' (emit_seq s2) (g_cgroup_id g') (g_policy_gen g) 1 0 (d_rule (exec_decision bprm e m g)))
        (enc_event (record_event e' g' p bprm)), wakeup_flags e' (emit_seq s2))]"
    unfolding s3_def exec_record_refines(1) [OF assms(4-6)] using assms(7,8)
    by (simp add: emit_event_def scratch_ok_def record_label_def dec Let_def)
  finally show ?thesis
    using exec_record_refines(3) [OF assms(4-6)] assms(7) by (auto simp: event_hdr_def s3_def)
qed

theorem exec_record_keeps_decision_witness:
  "let s1 = snd (rk_exec_check sample_env (sample_maps 0 900) 0x60 0 sample_cpu);
       s3 = snd (rk_exec_record sample_env (sample_maps 1 900) 0x80 9 0x60 s1)
   in rk_exec_decided s1 9 = Some \<lparr>xd_policy_gen = 12, xd_rule_id = 0\<rparr> \<and> rk_exec_decided s3 9 = None"
proof -
  have tid: "(ucast (current_pid_tgid sample_env) :: u32) = 9" by (simp add: sample_env_def)
  have lru: "lru_inserts sample_env" by (simp add: sample_env_def)
  have wf: "wf_cpu (snd (rk_exec_check sample_env (sample_maps 0 900) 0x60 0 sample_cpu))"
    by (rule exec_check.wf_hook) simp_all
  have sc: "scratch_ok sample_env (snd (rk_exec_check sample_env (sample_maps 0 900) 0x60 0 sample_cpu))"
    using exec_check.keeps_scratch [OF sample_wf_cpu sample_probe_ok]
    by (simp add: scratch_ok_def) (simp add: sample_env_def sample_cpu_def)
  have acc: "ringbuf_accepts sample_env n k" for n k by (simp add: sample_env_def)
  note k = exec_record_keeps_decision [OF sample_governance(3) lru refl sample_governance(1) wf sample_probe_ok sc acc,
      of "0x80", unfolded tid]
  note d = exec_check_decided [OF sample_governance(3) lru, of "0x60" sample_cpu, unfolded tid]
  show ?thesis using k d
    by (auto simp: Let_def sample_gov_def exec_decision_def exec_action_def sample_maps_def split: prod.splits)
qed


text \<open>
  C29: in AUDIT mode an exec that policy would deny is not stopped and is reported twice: the check
  emits a record with verdict audit-would-deny and returns 0, and when the exec commits the record
  program emits one with verdict allow.
\<close>

theorem audit_exec_reported_twice:
  fixes p bprm :: u64
  assumes "rk_governance e m = Some g" "g_mode g \<noteq> RK_MODE_ENFORCE"
    and "d_action (exec_decision bprm e m g) = RK_ACTION_DENY"
    and "rk_governance e' m' = Some g'" "wf_cpu s" "probe_ok e" "probe_ok e'" "scratch_ok e s" "\<not> force_emit_fail e'"
    and "\<And>n k. ringbuf_accepts e n k" "\<And>n k. ringbuf_accepts e' n k"
  defines "s1 \<equiv> snd (rk_exec_check e m bprm 0 s)"
  defines "s2 \<equiv> snd (rk_exec_record e' m' p (ucast (current_pid_tgid e)) bprm s1)"
  shows "fst (rk_exec_check e m bprm 0 s) = 0 \<and>
    (\<exists>h1 c1 f1 h2 c2 f2. events_ringbuf s2 = events_ringbuf s @ [(wire_record h1 c1, f1), (wire_record h2 c2, f2)]
       \<and> hdr_type h1 = RK_EV_EXEC \<and> hdr_verdict h1 = RK_VERDICT_AUDIT_WOULD_DENY
       \<and> hdr_type h2 = RK_EV_EXEC \<and> hdr_verdict h2 = RK_VERDICT_ALLOW)"
proof -
  have eff: "rk_effective_deny g 1" by (simp add: rk_effective_deny_def)
  obtain ev where ev: "d_event (exec_decision bprm e m g) = Some ev" "d_type (exec_decision bprm e m g) = 1"
    using assms(3) by (auto simp: exec_decision_def eff Let_def split: prod.splits)
  have "events_ringbuf s1 = events_ringbuf (settle e g [exec_decision bprm e m g] (abs_cpu s))"
    using exec_check_refines(1) [OF assms(1,5,6)] unfolding s1_def by (metis abs_cpu_simps(2))
  then have r1: "events_ringbuf s1 = events_ringbuf s
      @ [(wire_record (decision_hdr e g (exec_decision bprm e m g) (emit_seq s)) (enc_event ev), wakeup_flags e (emit_seq s))]"
    using assms(8,10) by (simp add: report_def ev emit_event_def scratch_ok_def Let_def)
  have wf1: "wf_cpu s1" unfolding s1_def using assms(1,5,6) by (rule exec_check_refines)
  have sc1: "scratch_map s1 \<noteq> None"
    unfolding s1_def using exec_check.keeps_scratch [OF assms(5,6)] assms(8) by (auto simp: scratch_ok_def)
  define lab where "lab = record_label e' m' g' bprm (rk_exec_decided s1 (ucast (current_pid_tgid e)))"
  have "events_ringbuf s2 = events_ringbuf (emit_event e' (\<lambda>n. event_hdr e' n (g_cgroup_id g') (fst lab) 1 0 (snd lab))
      (enc_event (record_event e' g' p bprm)) (abs_cpu s1))"
    using exec_record_refines(1) [OF assms(4) wf1 assms(7)] unfolding s2_def lab_def by (metis abs_cpu_simps(2))
  then have r2: "events_ringbuf s2 = events_ringbuf s1 @ [(wire_record
      (event_hdr e' (emit_seq s1) (g_cgroup_id g') (fst lab) 1 0 (snd lab)) (enc_event (record_event e' g' p bprm)),
      wakeup_flags e' (emit_seq s1))]"
    using sc1 assms(9,11) by (simp add: emit_event_def Let_def)
  have "hdr_verdict (decision_hdr e g (exec_decision bprm e m g) n) = 2" "hdr_type (decision_hdr e g (exec_decision bprm e m g) n) = 1" for n
    using assms(2,3) ev(2) by (simp_all add: decision_hdr_def event_hdr_def rk_reported_verdict_def eff)
  moreover have "fst (rk_exec_check e m bprm 0 s) = 0" using assms(1,2) by (rule exec_check.audit)
  moreover have "hdr_verdict (event_hdr e' n cg gen 1 0 rl) = 0" "hdr_type (event_hdr e' n cg gen 1 0 rl) = 1" for n cg gen rl
    by (simp_all add: event_hdr_def)
  ultimately show ?thesis unfolding r2 r1 append_assoc append_Cons append_Nil by blast
qed

theorem audit_exec_reported_twice_witness:
  "fst (rk_exec_check sample_env (sample_maps 0 900) 0x60 0 sample_cpu) = 0 \<and>
   length (events_ringbuf (snd (rk_exec_record sample_env (sample_maps 0 900) 0x80 9 0x60
     (snd (rk_exec_check sample_env (sample_maps 0 900) 0x60 0 sample_cpu))))) = 2"
proof -
  have tid: "(ucast (current_pid_tgid sample_env) :: u32) = 9" by (simp add: sample_env_def)
  have act: "d_action (exec_decision 0x60 sample_env (sample_maps 0 900) (sample_gov 0 False)) = 1"
    by (simp add: exec_decision_def exec_action_def Let_def) (simp add: sample_gov_def sample_maps_def)
  have mode: "g_mode (sample_gov 0 False) \<noteq> 1" by (simp add: sample_gov_def)
  have sc: "scratch_ok sample_env sample_cpu" "\<not> force_emit_fail sample_env" "ringbuf_accepts sample_env n k" for n k
    by (simp_all add: scratch_ok_def sample_env_def sample_cpu_def)
  have "events_ringbuf sample_cpu = []" by (simp add: sample_cpu_def)
  then show ?thesis
    using audit_exec_reported_twice [OF sample_governance(3) mode act sample_governance(3) sample_wf_cpu sample_probe_ok
        sample_probe_ok sc sc(3), of "0x80"]
    by (auto simp: tid)
qed

end
