(* ===== verification/Rk_File.thy ===== *)
theory Rk_File
  imports Rk_Sample
begin

text \<open>
  The file policy, \<open>rk-bpf/src/file.bpf.c\<close>.  \<open>rk_file_check\<close> decides one access: a rule on the object
  itself, then a subtree rule on one of its ancestors, then the depth limit.  The LSM hooks translate
  their operation into one or more such checks; \<open>rename\<close> and \<open>link\<close> stop at the first one that blocks.
\<close>

abbreviation (input) RK_FILE_EPERM :: s32 where "RK_FILE_EPERM \<equiv> 1"
abbreviation (input) RK_ATTR_SIZE :: u32 where "RK_ATTR_SIZE \<equiv> 8"
abbreviation (input) RK_O_TRUNC :: u32 where "RK_O_TRUNC \<equiv> 512"
abbreviation (input) RK_FMODE_READ :: u32 where "RK_FMODE_READ \<equiv> 1"
abbreviation (input) RK_FMODE_WRITE :: u32 where "RK_FMODE_WRITE \<equiv> 2"
abbreviation (input) RK_FMODE_EXEC :: u32 where "RK_FMODE_EXEC \<equiv> 0x20"

subsection \<open>One access check\<close>

definition rk_file_key_of :: "kheap \<Rightarrow> rk_gov \<Rightarrow> u64 \<Rightarrow> rk_file_key" where
  "rk_file_key_of h g inode =
     \<lparr>fk_scope = g_scope g, fk_pad = 0,
      fk_dev = ucast (s_dev (rd_super_block h (i_sb (rd_inode h inode)))), fk_ino = i_ino (rd_inode h inode)\<rparr>"

text \<open>How the ancestor walk ends: a subtree rule, the root, or the depth limit.\<close>

datatype walk_end = WalkRule u32 | WalkRoot | WalkDepth

text \<open>The loop over the ancestors, with the number of iterations left.\<close>

fun rk_file_walk :: "kheap \<Rightarrow> rk_maps \<Rightarrow> rk_gov \<Rightarrow> u32 \<Rightarrow> u64 \<Rightarrow> nat \<Rightarrow> walk_end" where
  "rk_file_walk h m g acc cur 0 = WalkDepth"
| "rk_file_walk h m g acc cur (Suc n) =
     (let parent = d_parent (rd_dentry h cur) in
      if parent = 0 \<or> parent = cur then WalkRoot
      else
        let p_inode = d_inode (rd_dentry h parent) in
        if p_inode = 0 then WalkRoot
        else case rk_file_protect m (rk_file_key_of h g p_inode) of
               Some p_rule \<Rightarrow>
                 if fr_flags p_rule AND RK_FILE_SUBTREE \<noteq> 0 \<and> fr_deny_mask p_rule AND acc \<noteq> 0
                 then WalkRule (fr_rule_id p_rule)
                 else rk_file_walk h m g acc parent n
             | None \<Rightarrow> rk_file_walk h m g acc parent n)"

text \<open>Action, rule id and event flags, up to the label \<open>decided\<close>.\<close>

definition file_action :: "kheap \<Rightarrow> rk_maps \<Rightarrow> rk_gov \<Rightarrow> u64 \<Rightarrow> u64 \<Rightarrow> u32 \<Rightarrow> u8 \<times> u32 \<times> u8" where
  "file_action h m g inode start_dentry acc =
     (let ancestors =
        (if start_dentry \<noteq> 0 then
           case rk_file_walk h m g acc start_dentry RK_FILE_MAX_DEPTH of
             WalkRule r \<Rightarrow> (RK_ACTION_DENY, r, RK_FILE_EV_SUBTREE)
           | WalkRoot \<Rightarrow> (RK_ACTION_ALLOW, 0, 0)
           | WalkDepth \<Rightarrow> (RK_ACTION_DENY, 0, RK_FILE_EV_DEPTH_EXCEEDED)
         else (RK_ACTION_ALLOW, 0, 0))
      in case rk_file_protect m (rk_file_key_of h g inode) of
           Some rule \<Rightarrow>
             if fr_deny_mask rule AND acc \<noteq> 0
             then (RK_ACTION_DENY, fr_rule_id rule,
                   if fr_flags rule AND RK_FILE_SUBTREE \<noteq> 0 then RK_FILE_EV_SUBTREE else 0)
             else ancestors
         | None \<Rightarrow> ancestors)"

definition file_deny_body :: "rk_file_key \<Rightarrow> u32 \<Rightarrow> u16 \<Rightarrow> u8 \<Rightarrow> rk_scratch_buf \<Rightarrow> rk_scratch_buf" where
  "file_deny_body key acc hook event_flags msg =
     (let msg = msg_store 0 (replicate 32 0) msg;
          msg = msg_store 0 (le 8 (fk_dev key)) msg;
          msg = msg_store 8 (le 8 (fk_ino key)) msg;
          msg = msg_store 16 (le 4 acc) msg;
          msg = msg_store 20 (le 2 hook) msg;
          msg = msg_store 22 (le 1 event_flags) msg;
          msg = msg_store 24 (le 2 (1 :: u16)) msg
      in msg\<lparr>msg_payload_len := 32\<rparr>)"

definition file_name_append :: "kenv \<Rightarrow> u64 \<Rightarrow> rk_scratch_buf \<Rightarrow> rk_scratch_buf" where
  "file_name_append e name_dentry msg =
     (if name_dentry \<noteq> 0 then rk_append_kstr e (d_name_name (rd_dentry (heap e) name_dentry)) 256 msg
      else rk_append_kstr e (empty_literal e) 1 msg)"

text \<open>The arguments of one check: object, where the walk starts, whose name to report, access and hook.\<close>

record file_req =
  q_inode :: u64
  q_start :: u64
  q_name :: u64
  q_access :: u32
  q_hook :: u16

definition rk_file_check :: "kenv \<Rightarrow> rk_maps \<Rightarrow> rk_gov \<Rightarrow> file_req \<Rightarrow> rk_cpu \<Rightarrow> s32 \<times> rk_cpu" where
  "rk_file_check e m g q s =
     (let key = rk_file_key_of (heap e) g (q_inode q);
          (action, rule_id, event_flags) = file_action (heap e) m g (q_inode q) (q_start q) (q_access q);
          s = rk_count_decision RK_HOOK_FILE g action s;
          s = (if rk_effective_deny g action
               then rk_send e (\<lambda>n msg.
                 file_name_append e (q_name q)
                   (file_deny_body key (q_access q) (q_hook q) event_flags
                     (msg\<lparr>msg_hdr := rk_fill_task e (rk_fill_hdr e n (g_cgroup_id g) (g_policy_gen g) RK_EV_FILE_DENY
                        (rk_reported_verdict g action) (rk_rule g action rule_id) (msg_hdr msg))\<rparr>))) s
               else s)
      in (if rk_enforced_deny g action then - RK_FILE_EPERM else 0, s))"

subsection \<open>The hooks\<close>

definition open_access :: "k_file \<Rightarrow> u32" where
  "open_access f =
     (let acc = 0;
          acc = (if f_mode f AND RK_FMODE_READ \<noteq> 0 then acc OR RK_FILE_READ else acc);
          acc = (if f_mode f AND RK_FMODE_WRITE \<noteq> 0 then acc OR RK_FILE_WRITE else acc);
          acc = (if f_mode f AND RK_FMODE_EXEC \<noteq> 0 then acc OR RK_FILE_EXEC else acc)
      in if f_flags f AND RK_O_TRUNC \<noteq> 0 then acc OR RK_FILE_TRUNCATE else acc)"

definition rk_file_open :: "kenv \<Rightarrow> rk_maps \<Rightarrow> u64 \<Rightarrow> s32 \<Rightarrow> rk_cpu \<Rightarrow> s32 \<times> rk_cpu" where
  "rk_file_open e m file ret s =
     (if ret \<noteq> 0 then (ret, s)
      else case rk_governance e m of
        None \<Rightarrow> (0, s)
      | Some g \<Rightarrow>
         (let f = rd_file (heap e) file in
          if f_inode f = 0 then (0, s)
          else
            let dentry = f_path_dentry f; acc = open_access f in
            if acc = 0 then (0, s)
            else rk_file_check e m g \<lparr>q_inode = f_inode f, q_start = dentry, q_name = dentry, q_access = acc,
                   q_hook = RK_FILE_HOOK_OPEN\<rparr> s))"

definition rk_file_unlink :: "kenv \<Rightarrow> rk_maps \<Rightarrow> u64 \<Rightarrow> u64 \<Rightarrow> s32 \<Rightarrow> rk_cpu \<Rightarrow> s32 \<times> rk_cpu" where
  "rk_file_unlink e m dir dentry ret s =
     (if ret \<noteq> 0 then (ret, s)
      else case rk_governance e m of
        None \<Rightarrow> (0, s)
      | Some g \<Rightarrow>
         (let inode = d_inode (rd_dentry (heap e) dentry) in
          if inode = 0 then (0, s)
          else rk_file_check e m g \<lparr>q_inode = inode, q_start = dentry, q_name = dentry, q_access = RK_FILE_DELETE,
                 q_hook = RK_FILE_HOOK_UNLINK\<rparr> s))"

definition rk_file_rmdir :: "kenv \<Rightarrow> rk_maps \<Rightarrow> u64 \<Rightarrow> u64 \<Rightarrow> s32 \<Rightarrow> rk_cpu \<Rightarrow> s32 \<times> rk_cpu" where
  "rk_file_rmdir e m dir dentry ret s =
     (if ret \<noteq> 0 then (ret, s)
      else case rk_governance e m of
        None \<Rightarrow> (0, s)
      | Some g \<Rightarrow>
         (let inode = d_inode (rd_dentry (heap e) dentry) in
          if inode = 0 then (0, s)
          else rk_file_check e m g \<lparr>q_inode = inode, q_start = dentry, q_name = dentry, q_access = RK_FILE_DELETE,
                 q_hook = RK_FILE_HOOK_UNLINK\<rparr> s))"

definition rk_dir_create_check ::
  "kenv \<Rightarrow> rk_maps \<Rightarrow> rk_gov \<Rightarrow> u64 \<Rightarrow> u64 \<Rightarrow> u16 \<Rightarrow> rk_cpu \<Rightarrow> s32 \<times> rk_cpu" where
  "rk_dir_create_check e m g dir dentry hook s =
     (if dir = 0 then (0, s)
      else rk_file_check e m g
        \<lparr>q_inode = dir, q_start = (if dentry \<noteq> 0 then d_parent (rd_dentry (heap e) dentry) else 0),
         q_name = dentry, q_access = RK_FILE_CREATE, q_hook = hook\<rparr> s)"

definition rk_file_rename :: "kenv \<Rightarrow> rk_maps \<Rightarrow> u64 \<Rightarrow> u64 \<Rightarrow> u64 \<Rightarrow> u64 \<Rightarrow> s32 \<Rightarrow> rk_cpu \<Rightarrow> s32 \<times> rk_cpu" where
  "rk_file_rename e m old_dir old_dentry new_dir new_dentry ret s =
     (if ret \<noteq> 0 then (ret, s)
      else case rk_governance e m of
        None \<Rightarrow> (0, s)
      | Some g \<Rightarrow>
         (let old_inode = d_inode (rd_dentry (heap e) old_dentry);
              (err, s) = (if old_inode \<noteq> 0
                then rk_file_check e m g \<lparr>q_inode = old_inode, q_start = old_dentry, q_name = old_dentry,
                       q_access = RK_FILE_RENAME, q_hook = RK_FILE_HOOK_RENAME\<rparr> s
                else (0, s))
          in if err \<noteq> 0 then (err, s)
             else
               let new_inode = d_inode (rd_dentry (heap e) new_dentry);
                   (err, s) = (if new_inode \<noteq> 0
                     then rk_file_check e m g \<lparr>q_inode = new_inode, q_start = new_dentry, q_name = new_dentry,
                            q_access = RK_FILE_DELETE OR RK_FILE_RENAME, q_hook = RK_FILE_HOOK_RENAME\<rparr> s
                     else (0, s))
               in if err \<noteq> 0 then (err, s)
                  else rk_dir_create_check e m g new_dir new_dentry RK_FILE_HOOK_RENAME s))"

definition rk_file_link :: "kenv \<Rightarrow> rk_maps \<Rightarrow> u64 \<Rightarrow> u64 \<Rightarrow> u64 \<Rightarrow> s32 \<Rightarrow> rk_cpu \<Rightarrow> s32 \<times> rk_cpu" where
  "rk_file_link e m old_dentry dir new_dentry ret s =
     (if ret \<noteq> 0 then (ret, s)
      else case rk_governance e m of
        None \<Rightarrow> (0, s)
      | Some g \<Rightarrow>
         (let inode = d_inode (rd_dentry (heap e) old_dentry);
              (err, s) = (if inode \<noteq> 0
                then rk_file_check e m g \<lparr>q_inode = inode, q_start = old_dentry, q_name = old_dentry,
                       q_access = RK_FILE_LINK, q_hook = RK_FILE_HOOK_LINK\<rparr> s
                else (0, s))
          in if err \<noteq> 0 then (err, s)
             else rk_dir_create_check e m g dir new_dentry RK_FILE_HOOK_LINK s))"

definition rk_create_check :: "kenv \<Rightarrow> rk_maps \<Rightarrow> u64 \<Rightarrow> u64 \<Rightarrow> s32 \<Rightarrow> rk_cpu \<Rightarrow> s32 \<times> rk_cpu" where
  "rk_create_check e m dir dentry ret s =
     (if ret \<noteq> 0 then (ret, s)
      else case rk_governance e m of
        None \<Rightarrow> (0, s)
      | Some g \<Rightarrow> rk_dir_create_check e m g dir dentry RK_FILE_HOOK_CREATE s)"

definition rk_file_create :: "kenv \<Rightarrow> rk_maps \<Rightarrow> u64 \<Rightarrow> u64 \<Rightarrow> s32 \<Rightarrow> rk_cpu \<Rightarrow> s32 \<times> rk_cpu" where
  "rk_file_create e m dir dentry ret = rk_create_check e m dir dentry ret"

definition rk_file_mkdir :: "kenv \<Rightarrow> rk_maps \<Rightarrow> u64 \<Rightarrow> u64 \<Rightarrow> s32 \<Rightarrow> rk_cpu \<Rightarrow> s32 \<times> rk_cpu" where
  "rk_file_mkdir e m dir dentry ret = rk_create_check e m dir dentry ret"

definition rk_file_symlink :: "kenv \<Rightarrow> rk_maps \<Rightarrow> u64 \<Rightarrow> u64 \<Rightarrow> s32 \<Rightarrow> rk_cpu \<Rightarrow> s32 \<times> rk_cpu" where
  "rk_file_symlink e m dir dentry ret = rk_create_check e m dir dentry ret"

definition rk_file_mknod :: "kenv \<Rightarrow> rk_maps \<Rightarrow> u64 \<Rightarrow> u64 \<Rightarrow> s32 \<Rightarrow> rk_cpu \<Rightarrow> s32 \<times> rk_cpu" where
  "rk_file_mknod e m dir dentry ret = rk_create_check e m dir dentry ret"

definition setattr_access :: "u32 \<Rightarrow> u32" where
  "setattr_access ia =
     (let acc = 0;
          acc = (if ia AND RK_ATTR_SIZE \<noteq> 0 then acc OR RK_FILE_TRUNCATE else acc)
      in if ia AND RK_ATTR_SIZE = 0 \<or> ia AND 0x187 \<noteq> 0 then acc OR RK_FILE_SETATTR else acc)"

definition rk_setattr_check :: "kenv \<Rightarrow> rk_maps \<Rightarrow> rk_gov \<Rightarrow> u64 \<Rightarrow> u64 \<Rightarrow> rk_cpu \<Rightarrow> s32 \<times> rk_cpu" where
  "rk_setattr_check e m g dentry attr s =
     (let inode = d_inode (rd_dentry (heap e) dentry) in
      if inode = 0 then (0, s)
      else rk_file_check e m g \<lparr>q_inode = inode, q_start = dentry, q_name = dentry,
             q_access = setattr_access (ia_valid (rd_iattr (heap e) attr)), q_hook = RK_FILE_HOOK_SETATTR\<rparr> s)"

definition rk_file_setattr_v1 :: "kenv \<Rightarrow> rk_maps \<Rightarrow> u64 \<Rightarrow> u64 \<Rightarrow> s32 \<Rightarrow> rk_cpu \<Rightarrow> s32 \<times> rk_cpu" where
  "rk_file_setattr_v1 e m dentry attr ret s =
     (if ret \<noteq> 0 then (ret, s)
      else case rk_governance e m of None \<Rightarrow> (0, s) | Some g \<Rightarrow> rk_setattr_check e m g dentry attr s)"

definition rk_file_setattr_v2 :: "kenv \<Rightarrow> rk_maps \<Rightarrow> u64 \<Rightarrow> u64 \<Rightarrow> u64 \<Rightarrow> s32 \<Rightarrow> rk_cpu \<Rightarrow> s32 \<times> rk_cpu" where
  "rk_file_setattr_v2 e m idmap dentry attr ret s =
     (if ret \<noteq> 0 then (ret, s)
      else case rk_governance e m of None \<Rightarrow> (0, s) | Some g \<Rightarrow> rk_setattr_check e m g dentry attr s)"

subsection \<open>Specification\<close>

definition req_name :: "kenv \<Rightarrow> u64 \<Rightarrow> bytes" where
  "req_name e name_dentry =
     (if name_dentry \<noteq> 0 then kstr_text e (d_name_name (rd_dentry (heap e) name_dentry)) 256
      else kstr_text e (empty_literal e) 1)"

definition file_deny_event :: "rk_file_key \<Rightarrow> u32 \<Rightarrow> u16 \<Rightarrow> u8 \<Rightarrow> bytes \<Rightarrow> rk_event" where
  "file_deny_event key acc hook event_flags name = FileDenyEvent
     \<lparr>pd_file_dev = fk_dev key, pd_file_ino = fk_ino key, pd_access = acc, pd_hook = hook, pd_flags = event_flags,
      pd_pad = 0, pd_str_count = 1, pd_pad2 = 0, pd_pad3 = 0\<rparr> [name]"

definition file_decision :: "kenv \<Rightarrow> rk_maps \<Rightarrow> rk_gov \<Rightarrow> file_req \<Rightarrow> decision" where
  "file_decision e m g q =
     (let (action, rule_id, event_flags) = file_action (heap e) m g (q_inode q) (q_start q) (q_access q)
      in \<lparr>d_hook = 6, d_action = action, d_rule = rule_id, d_type = 11,
          d_event = (if rk_effective_deny g action
            then Some (file_deny_event (rk_file_key_of (heap e) g (q_inode q)) (q_access q) (q_hook q) event_flags
                        (req_name e (q_name q)))
            else None)\<rparr>)"

text \<open>The checks each hook makes, in order.\<close>

definition dentry_req :: "kheap \<Rightarrow> u64 \<Rightarrow> u32 \<Rightarrow> u16 \<Rightarrow> file_req list" where
  "dentry_req h dentry acc hook =
     (let inode = d_inode (rd_dentry h dentry) in
      if inode = 0 then []
      else [\<lparr>q_inode = inode, q_start = dentry, q_name = dentry, q_access = acc, q_hook = hook\<rparr>])"

definition create_req :: "kheap \<Rightarrow> u64 \<Rightarrow> u64 \<Rightarrow> u16 \<Rightarrow> file_req list" where
  "create_req h dir dentry hook =
     (if dir = 0 then []
      else [\<lparr>q_inode = dir, q_start = (if dentry \<noteq> 0 then d_parent (rd_dentry h dentry) else 0), q_name = dentry,
             q_access = RK_FILE_CREATE, q_hook = hook\<rparr>])"

definition open_req :: "kheap \<Rightarrow> u64 \<Rightarrow> file_req list" where
  "open_req h file =
     (let f = rd_file h file in
      if f_inode f = 0 \<or> open_access f = 0 then []
      else [\<lparr>q_inode = f_inode f, q_start = f_path_dentry f, q_name = f_path_dentry f, q_access = open_access f,
             q_hook = RK_FILE_HOOK_OPEN\<rparr>])"

definition rename_req :: "kheap \<Rightarrow> u64 \<Rightarrow> u64 \<Rightarrow> u64 \<Rightarrow> file_req list" where
  "rename_req h old_dentry new_dir new_dentry =
     dentry_req h old_dentry RK_FILE_RENAME RK_FILE_HOOK_RENAME
     @ dentry_req h new_dentry (RK_FILE_DELETE OR RK_FILE_RENAME) RK_FILE_HOOK_RENAME
     @ create_req h new_dir new_dentry RK_FILE_HOOK_RENAME"

definition link_req :: "kheap \<Rightarrow> u64 \<Rightarrow> u64 \<Rightarrow> u64 \<Rightarrow> file_req list" where
  "link_req h old_dentry dir new_dentry =
     dentry_req h old_dentry RK_FILE_LINK RK_FILE_HOOK_LINK @ create_req h dir new_dentry RK_FILE_HOOK_LINK"

definition setattr_req :: "kheap \<Rightarrow> u64 \<Rightarrow> u64 \<Rightarrow> file_req list" where
  "setattr_req h dentry attr = dentry_req h dentry (setattr_access (ia_valid (rd_iattr h attr))) RK_FILE_HOOK_SETATTR"

text \<open>
  The ancestors of a dentry, nearest first, at most \<open>n\<close>: the chain ends at a root (a dentry that is its
  own parent), at an unreadable parent or at one without an inode.
\<close>

definition parent_of :: "kheap \<Rightarrow> u64 \<Rightarrow> u64 option" where
  "parent_of h d =
     (let p = d_parent (rd_dentry h d) in
      if p = 0 \<or> p = d \<or> d_inode (rd_dentry h p) = 0 then None else Some p)"

fun ancestors :: "kheap \<Rightarrow> u64 \<Rightarrow> nat \<Rightarrow> u64 list" where
  "ancestors h d 0 = []"
| "ancestors h d (Suc n) = (case parent_of h d of None \<Rightarrow> [] | Some p \<Rightarrow> p # ancestors h p n)"

definition dentry_rule :: "kheap \<Rightarrow> rk_maps \<Rightarrow> rk_gov \<Rightarrow> u64 \<Rightarrow> rk_file_rule option" where
  "dentry_rule h m g d = rk_file_protect m (rk_file_key_of h g (d_inode (rd_dentry h d)))"

definition inherits :: "u32 \<Rightarrow> rk_file_rule \<Rightarrow> bool" where
  "inherits acc r \<longleftrightarrow> fr_flags r AND RK_FILE_SUBTREE \<noteq> 0 \<and> fr_deny_mask r AND acc \<noteq> 0"

definition inherited_rule :: "kheap \<Rightarrow> rk_maps \<Rightarrow> rk_gov \<Rightarrow> u32 \<Rightarrow> u64 \<Rightarrow> rk_file_rule option" where
  "inherited_rule h m g acc d = find (inherits acc) (List.map_filter (dentry_rule h m g) (ancestors h d 32))"

definition direct_rule :: "kheap \<Rightarrow> rk_maps \<Rightarrow> rk_gov \<Rightarrow> u32 \<Rightarrow> u64 \<Rightarrow> rk_file_rule option" where
  "direct_rule h m g acc inode = (case rk_file_protect m (rk_file_key_of h g inode) of
     Some r \<Rightarrow> if fr_deny_mask r AND acc \<noteq> 0 then Some r else None
   | None \<Rightarrow> None)"

definition too_deep :: "kheap \<Rightarrow> u64 \<Rightarrow> bool" where
  "too_deep h d \<longleftrightarrow> length (ancestors h d 32) = 32"

text \<open>Checks in sequence, up to the first that returns an error.\<close>

fun check_seq :: "kenv \<Rightarrow> rk_maps \<Rightarrow> rk_gov \<Rightarrow> file_req list \<Rightarrow> rk_cpu \<Rightarrow> s32 \<times> rk_cpu" where
  "check_seq e m g [] s = (0, s)"
| "check_seq e m g (q # qs) s =
     (let (err, s) = rk_file_check e m g q s in if err \<noteq> 0 then (err, s) else check_seq e m g qs s)"

lemma file_deny_body_built:
  assumes "wf_scratch b" "msg_reserved b = 0" "msg_hdr b = h"
  shows "fits (file_deny_body key acc hook fl b)" "msg_payload_len (file_deny_body key acc hook fl b) = 32"
    "msg_hdr (file_deny_body key acc hook fl b) = h" "msg_reserved (file_deny_body key acc hook fl b) = 0"
    "msg_content (file_deny_body key acc hook fl b) = le 8 (fk_dev key) @ le 8 (fk_ino key) @ le 4 acc @ le 2 hook @ le 1 fl
      @ le 1 (0 :: u8) @ le 2 (1 :: u16) @ le 2 (0 :: u16) @ le 4 (0 :: u32)"
  using assms by (simp_all add: body_simps file_deny_body_def fits_def flip: replicate_add)

lemma length_req_name:
  assumes "probe_ok e"
  shows "length (req_name e d) \<le> 256"
  using assms probe_ok_kernel_str [OF assms]
  by (fastforce simp: req_name_def kstr_text_def split: prod.split)

lemma file_check_built:
  assumes "wf_scratch b" "msg_reserved b = 0" "msg_hdr b = h" "probe_ok e"
  shows "built h (enc_event (file_deny_event key acc hook fl (req_name e d)))
    (file_name_append e d (file_deny_body key acc hook fl b))"
proof -
  note body = file_deny_body_built [OF assms(1-3), of key acc hook fl]
  define src where "src = (if d \<noteq> 0 then d_name_name (rd_dentry (heap e) d) else empty_literal e)"
  define n :: u32 where "n = (if d \<noteq> 0 then 256 else 1)"
  have app: "file_name_append e d msg = rk_append_kstr e src n msg" for msg
    by (simp add: file_name_append_def src_def n_def)
  have cap: "str_cap 32 n = n" by (simp add: str_cap_def n_def)
  have name: "req_name e d = kstr_text e src n" by (simp add: req_name_def src_def n_def)
  note k = rk_append_kstr_content [OF body(1) assms(4), of src n, unfolded body(2) cap, folded name app]
  show ?thesis
    unfolding built_def using k body
    by (simp add: file_deny_event_def enc_file_deny_def wire_strs_def wire_str_def)
qed


lemma wf_file_decision: "probe_ok e \<Longrightarrow> wf_decision (file_decision e m g q)"
  using length_req_name [of e "q_name q"]
  by (auto simp: file_decision_def wf_decision_def file_deny_event_def strs_ok_def enc_file_deny_def wire_strs_def wire_str_def
      split: prod.split)

lemma file_check_verdict: "fst (rk_file_check e m g q s) = (if enforced g (file_decision e m g q) then - 1 else 0)"
  by (simp add: rk_file_check_def file_decision_def enforced_def Let_def split: prod.split)

lemma file_check_frame [simp]: "rk_exec_decided (snd (rk_file_check e m g q s)) = rk_exec_decided s"
  by (simp add: rk_file_check_def Let_def split: prod.split)

lemma file_check_refines:
  assumes "wf_cpu s" "probe_ok e"
  shows "abs_cpu (snd (rk_file_check e m g q s)) = report e g (file_decision e m g q) (abs_cpu s)"
    and "wf_cpu (snd (rk_file_check e m g q s))"
proof -
  let ?d = "file_decision e m g q"
  obtain action rule_id fl where a: "file_action (heap e) m g (q_inode q) (q_start q) (q_access q) = (action, rule_id, fl)"
    by (metis prod_cases3)
  let ?ev = "file_deny_event (rk_file_key_of (heap e) g (q_inode q)) (q_access q) (q_hook q) fl (req_name e (q_name q))"
  have d: "d_event ?d = (if rk_effective_deny g (d_action ?d) then Some ?ev else None)" "d_action ?d = action" "d_hook ?d = 6"
    by (simp_all add: file_decision_def a)
  let ?build = "\<lambda>n msg. file_name_append e (q_name q) (file_deny_body (rk_file_key_of (heap e) g (q_inode q)) (q_access q)
      (q_hook q) fl (msg\<lparr>msg_hdr := decision_hdr e g ?d n\<rparr>))"
  have bt: "built (decision_hdr e g ?d n) (enc_event ?ev) (?build n b)"
    if "wf_scratch b" "msg_payload_len b = 0" "msg_reserved b = 0" for n b
    using that assms(2) by (intro file_check_built) (simp_all add: wf_scratch_def)
  have run: "snd (rk_file_check e m g q s) =
      (let s' = rk_count_decision 6 g action s in if rk_effective_deny g action then rk_send e ?build s' else s')"
    by (simp add: rk_file_check_def Let_def a decision_hdr_def file_decision_def)
  note r = report_deny_refines [OF assms(1) d(1) bt, unfolded d(2,3)]
  show "abs_cpu (snd (rk_file_check e m g q s)) = report e g ?d (abs_cpu s)"
    unfolding run Let_def by (rule r(1))
  show "wf_cpu (snd (rk_file_check e m g q s))"
    unfolding run Let_def by (rule r(2))
qed

lemma check_seq_verdict: "fst (check_seq e m g qs s) = (if list_ex (enforced g) (map (file_decision e m g) qs) then - 1 else 0)"
proof (induction qs arbitrary: s)
  case (Cons q qs)
  show ?case using file_check_verdict [of e m g q s] Cons.IH
    by (auto simp: Let_def split: prod.split if_splits)
qed simp

lemma check_seq_frame: "rk_exec_decided (snd (check_seq e m g qs s)) = rk_exec_decided s"
proof (induction qs arbitrary: s)
  case (Cons q qs)
  show ?case using file_check_frame [of e m g q s] Cons.IH
    by (auto simp: Let_def simp del: file_check_frame split: prod.split)
qed simp

lemma check_seq_refines:
  assumes "wf_cpu s" "probe_ok e"
  shows "abs_cpu (snd (check_seq e m g qs s)) = settle e g (map (file_decision e m g) qs) (abs_cpu s)
    \<and> wf_cpu (snd (check_seq e m g qs s))"
  using assms(1)
proof (induction qs arbitrary: s)
  case (Cons q qs)
  obtain err s' where c: "rk_file_check e m g q s = (err, s')" by fastforce
  have "err = (if enforced g (file_decision e m g q) then - 1 else 0)"
    "abs_cpu s' = report e g (file_decision e m g q) (abs_cpu s)" "wf_cpu s'"
    using file_check_verdict [of e m g q s] file_check_refines [OF Cons.prems assms(2), of m g q] by (simp_all add: c)
  then show ?case using Cons.IH [of s'] by (auto simp: c)
qed simp

subsection \<open>The hooks meet the contract\<close>

lemma file_hook:
  assumes run: "\<And>e m s. run e m s = (case rk_governance e m of None \<Rightarrow> (0, s) | Some g \<Rightarrow> check_seq e m g (reqs (heap e)) s)"
  shows "quiet_hook run (\<lambda>e m g. map (file_decision e m g) (reqs (heap e))) 0 (- 1)"
proof
  fix e e' :: kenv and m s g
  let ?ds = "\<lambda>e. map (file_decision e m g) (reqs (heap e))"
  show "run e m s = (0, s)" if "rk_governance e m = None"
    using that by (simp add: run)
  show "fst (run e m s) = (if list_ex (enforced g) (?ds e) then - 1 else 0)" if "rk_governance e m = Some g"
    using that by (simp only: run option.case check_seq_verdict)
  show "abs_cpu (snd (run e m s)) = settle e g (?ds e) (abs_cpu s)"
    if "rk_governance e m = Some g" "wf_cpu s" "probe_ok e"
    using that check_seq_refines by (simp add: run)
  show "wf_cpu (snd (run e m s))" if "wf_cpu s" "probe_ok e"
    using that check_seq_refines by (simp add: run split: option.split)
  show "map d_action (?ds e) = map d_action (?ds e')" if "same_inputs e e'"
    using that by (auto simp: same_inputs_def file_decision_def split: prod.split)
  show "list_all wf_decision (?ds e)" if "probe_ok e"
    using that by (simp add: list_all_iff wf_file_decision)
  show "rk_exec_decided (snd (run e m s)) = rk_exec_decided s"
    by (simp add: run check_seq_frame split: option.split)
qed

lemma check_seq_1: "check_seq e m g [q] s = rk_file_check e m g q s"
  using file_check_verdict [of e m g q s] by (auto simp: Let_def split: prod.split)

lemma check_seq_dentry: "check_seq e m g (dentry_req (heap e) dentry acc hook) s =
  (let inode = d_inode (rd_dentry (heap e) dentry) in
   if inode = 0 then (0, s)
   else rk_file_check e m g \<lparr>q_inode = inode, q_start = dentry, q_name = dentry, q_access = acc, q_hook = hook\<rparr> s)"
  unfolding dentry_req_def Let_def by (simp add: check_seq_1 del: check_seq.simps(2))

lemma check_seq_create: "check_seq e m g (create_req (heap e) dir dentry hook) s = rk_dir_create_check e m g dir dentry hook s"
  unfolding create_req_def rk_dir_create_check_def by (simp add: check_seq_1 del: check_seq.simps(2))

lemma check_seq_append: "check_seq e m g (qs @ rs) s =
  (let (err, s) = check_seq e m g qs s in if err \<noteq> 0 then (err, s) else check_seq e m g rs s)"
  by (induction qs arbitrary: s) (auto simp: Let_def split: prod.split)

lemmas check_seq_hooks = check_seq_append check_seq_dentry check_seq_create rename_req_def link_req_def setattr_req_def

interpretation file_open: quiet_hook "\<lambda>e m. rk_file_open e m fil 0"
  "\<lambda>e m g. map (file_decision e m g) (open_req (heap e) fil)" 0 "- 1" for fil
  by (rule file_hook) (auto simp: rk_file_open_def open_req_def check_seq_1 Let_def simp del: check_seq.simps(2) split: option.split)

interpretation file_unlink: quiet_hook "\<lambda>e m. rk_file_unlink e m dir dentry 0"
  "\<lambda>e m g. map (file_decision e m g) (dentry_req (heap e) dentry RK_FILE_DELETE RK_FILE_HOOK_UNLINK)" 0 "- 1" for dir dentry
  by (rule file_hook) (simp add: rk_file_unlink_def check_seq_hooks split: option.split)

interpretation file_rmdir: quiet_hook "\<lambda>e m. rk_file_rmdir e m dir dentry 0"
  "\<lambda>e m g. map (file_decision e m g) (dentry_req (heap e) dentry RK_FILE_DELETE RK_FILE_HOOK_UNLINK)" 0 "- 1" for dir dentry
  by (rule file_hook) (simp add: rk_file_rmdir_def check_seq_hooks split: option.split)

interpretation file_rename: quiet_hook "\<lambda>e m. rk_file_rename e m old_dir old_dentry new_dir new_dentry 0"
  "\<lambda>e m g. map (file_decision e m g) (rename_req (heap e) old_dentry new_dir new_dentry)" 0 "- 1"
  for old_dir old_dentry new_dir new_dentry
  by (rule file_hook) (auto simp: rk_file_rename_def check_seq_hooks Let_def split: option.split prod.split)

interpretation file_link: quiet_hook "\<lambda>e m. rk_file_link e m old_dentry dir new_dentry 0"
  "\<lambda>e m g. map (file_decision e m g) (link_req (heap e) old_dentry dir new_dentry)" 0 "- 1" for old_dentry dir new_dentry
  by (rule file_hook) (auto simp: rk_file_link_def check_seq_hooks Let_def split: option.split prod.split)

interpretation file_create: quiet_hook "\<lambda>e m. rk_file_create e m dir dentry 0"
  "\<lambda>e m g. map (file_decision e m g) (create_req (heap e) dir dentry RK_FILE_HOOK_CREATE)" 0 "- 1" for dir dentry
  by (rule file_hook) (simp add: rk_file_create_def rk_create_check_def check_seq_hooks split: option.split)

interpretation file_mkdir: quiet_hook "\<lambda>e m. rk_file_mkdir e m dir dentry 0"
  "\<lambda>e m g. map (file_decision e m g) (create_req (heap e) dir dentry RK_FILE_HOOK_CREATE)" 0 "- 1" for dir dentry
  by (rule file_hook) (simp add: rk_file_mkdir_def rk_create_check_def check_seq_hooks split: option.split)

interpretation file_symlink: quiet_hook "\<lambda>e m. rk_file_symlink e m dir dentry 0"
  "\<lambda>e m g. map (file_decision e m g) (create_req (heap e) dir dentry RK_FILE_HOOK_CREATE)" 0 "- 1" for dir dentry
  by (rule file_hook) (simp add: rk_file_symlink_def rk_create_check_def check_seq_hooks split: option.split)

interpretation file_mknod: quiet_hook "\<lambda>e m. rk_file_mknod e m dir dentry 0"
  "\<lambda>e m g. map (file_decision e m g) (create_req (heap e) dir dentry RK_FILE_HOOK_CREATE)" 0 "- 1" for dir dentry
  by (rule file_hook) (simp add: rk_file_mknod_def rk_create_check_def check_seq_hooks split: option.split)

interpretation file_setattr_v1: quiet_hook "\<lambda>e m. rk_file_setattr_v1 e m dentry attr 0"
  "\<lambda>e m g. map (file_decision e m g) (setattr_req (heap e) dentry attr)" 0 "- 1" for dentry attr
  by (rule file_hook) (simp add: rk_file_setattr_v1_def rk_setattr_check_def check_seq_hooks split: option.split)

interpretation file_setattr_v2: quiet_hook "\<lambda>e m. rk_file_setattr_v2 e m idmap dentry attr 0"
  "\<lambda>e m g. map (file_decision e m g) (setattr_req (heap e) dentry attr)" 0 "- 1" for idmap dentry attr
  by (rule file_hook) (simp add: rk_file_setattr_v2_def rk_setattr_check_def check_seq_hooks split: option.split)


subsection \<open>Properties\<close>

lemma rk_file_walk_spec:
  "rk_file_walk h m g acc d n =
     (case find (inherits acc) (List.map_filter (dentry_rule h m g) (ancestors h d n)) of
        Some r \<Rightarrow> WalkRule (fr_rule_id r)
      | None \<Rightarrow> if length (ancestors h d n) = n then WalkDepth else WalkRoot)"
proof (induction n arbitrary: d)
  case (Suc n)
  show ?case
  proof (cases "parent_of h d")
    case None
    then show ?thesis by (auto simp: parent_of_def Let_def List.map_filter_simps split: if_splits)
  next
    case (Some p)
    then have p: "p = d_parent (rd_dentry h d)" "p \<noteq> 0" "p \<noteq> d" "d_inode (rd_dentry h p) \<noteq> 0"
      by (auto simp: parent_of_def Let_def split: if_splits)
    show ?thesis using Some p Suc.IH [of p]
      by (auto simp: List.map_filter_simps dentry_rule_def inherits_def split: option.split)
  qed
qed (simp add: List.map_filter_simps)

text \<open>
  C19: one file access is denied by the rule on the object itself if it covers the access, else by the
  nearest ancestor (within 32) with a subtree rule that covers it, else if there are 32 ancestors or
  more; otherwise it is allowed.  The reported rule and flags say which.
\<close>

theorem file_action_spec:
  "file_action h m g inode d acc =
     (case direct_rule h m g acc inode of
        Some r \<Rightarrow> (RK_ACTION_DENY, fr_rule_id r, if fr_flags r AND RK_FILE_SUBTREE \<noteq> 0 then RK_FILE_EV_SUBTREE else 0)
      | None \<Rightarrow>
         if d = 0 then (RK_ACTION_ALLOW, 0, 0)
         else case inherited_rule h m g acc d of
                Some r \<Rightarrow> (RK_ACTION_DENY, fr_rule_id r, RK_FILE_EV_SUBTREE)
              | None \<Rightarrow> if too_deep h d then (RK_ACTION_DENY, 0, RK_FILE_EV_DEPTH_EXCEEDED) else (RK_ACTION_ALLOW, 0, 0))"
  unfolding file_action_def direct_rule_def inherited_rule_def too_deep_def rk_file_walk_spec Let_def
  by (cases "rk_file_protect m (rk_file_key_of h g inode)") (auto split: option.split)

lemma file_action_denies:
  "fst (file_action h m g inode d acc) = RK_ACTION_DENY \<longleftrightarrow>
     direct_rule h m g acc inode \<noteq> None \<or> d \<noteq> 0 \<and> (inherited_rule h m g acc d \<noteq> None \<or> too_deep h d)"
  unfolding file_action_def direct_rule_def inherited_rule_def too_deep_def rk_file_walk_spec Let_def
  by (cases "rk_file_protect m (rk_file_key_of h g inode)") (auto split: option.split)

lemma enforced_file_decision:
  "enforced g (file_decision e m g q) \<longleftrightarrow> g_mode g = RK_MODE_ENFORCE \<and>
     (g_stale g \<or> fst (file_action (heap e) m g (q_inode q) (q_start q) (q_access q)) = RK_ACTION_DENY)"
  by (auto simp: file_decision_def enforced_def rk_enforced_deny_def rk_effective_deny_def split: prod.split)

text \<open>
  C20: an open is blocked for exactly these reasons: the task is governed in ENFORCE mode, the file has
  an inode and asks for at least one right, and the heartbeat is stale, or a rule on the file or a
  subtree rule on an ancestor covers a right asked for, or the file lies 32 or more levels deep.
\<close>

theorem file_open_denied_iff:
  "fst (rk_file_open e m fil 0 s) = - 1 \<longleftrightarrow>
     (\<exists>g. rk_governance e m = Some g \<and> g_mode g = RK_MODE_ENFORCE \<and>
       (let h = heap e; f = rd_file h fil; acc = open_access f; d = f_path_dentry f in
        f_inode f \<noteq> 0 \<and> acc \<noteq> 0 \<and>
        (g_stale g \<or> (\<exists>r. direct_rule h m g acc (f_inode f) = Some r) \<or>
         d \<noteq> 0 \<and> ((\<exists>r. inherited_rule h m g acc d = Some r) \<or> too_deep h d))))"
proof (cases "rk_governance e m")
  case (Some g)
  then show ?thesis
    by (auto simp: file_open.verdict [OF Some] open_req_def enforced_file_decision file_action_denies Let_def)
qed (simp add: file_open.ungoverned)


lemma ancestors_prefix: "n \<le> k \<Longrightarrow> ancestors h d n = take n (ancestors h d k)"
proof (induction n arbitrary: d k)
  case (Suc n)
  then obtain k' where "k = Suc k'" "n \<le> k'" by (cases k) auto
  then show ?case using Suc.IH [of k'] by (simp split: option.split)
qed simp

text \<open>
  C32: the depth limit denies even a profile with no file rule at all, and it already denies a file
  whose root is its 32nd ancestor, although the walk has visited every ancestor of it by then.
\<close>

theorem depth_limit_without_rules:
  assumes "rk_file_protect m = Map.empty" "d \<noteq> 0" "length (ancestors h d 33) = 32"
  shows "file_action h m g inode d acc = (RK_ACTION_DENY, 0, RK_FILE_EV_DEPTH_EXCEEDED)
    \<and> ancestors h d 32 = ancestors h d 33"
proof -
  have "ancestors h d 32 = ancestors h d 33"
    using ancestors_prefix [of 32 33 h d] assms(3) by simp
  moreover have "List.map_filter (dentry_rule h m g) ds = []" for ds
    by (induction ds) (simp_all add: List.map_filter_simps dentry_rule_def assms(1))
  ultimately show ?thesis
    using assms by (simp add: file_action_def rk_file_walk_spec)
qed

definition deep_heap :: kheap where
  "deep_heap = sample_heap\<lparr>dentries := (\<lambda>p. if 1 \<le> p \<and> p \<le> 33
     then Some \<lparr>d_parent = (if p = 33 then p else p + 1), d_inode = p, d_name_name = 0\<rparr> else None)\<rparr>"

theorem depth_limit_without_rules_witness:
  "length (ancestors deep_heap 1 33) = 32 \<and>
   file_action deep_heap ((sample_maps 1 900)\<lparr>rk_file_protect := Map.empty\<rparr>) (sample_gov 1 False) 1 1 RK_FILE_READ
     = (RK_ACTION_DENY, 0, RK_FILE_EV_DEPTH_EXCEEDED)"
proof -
  have len: "length (ancestors deep_heap 1 33) = 32"
    by code_simp
  show ?thesis
    using depth_limit_without_rules [of "(sample_maps 1 900)\<lparr>rk_file_protect := Map.empty\<rparr>" 1 deep_heap "sample_gov 1 False" 1 1] len
    by simp
qed


lemma set_map_filter: "set (List.map_filter f xs) = {y. \<exists>x \<in> set xs. f x = Some y}"
  by (induction xs) (auto simp: List.map_filter_simps split: option.splits)

lemma inherited_rule_exists:
  "inherited_rule h m g acc d \<noteq> None \<longleftrightarrow>
     (\<exists>p \<in> set (ancestors h d 32). \<exists>r. dentry_rule h m g p = Some r \<and> inherits acc r)"
  unfolding inherited_rule_def find_None_iff set_map_filter by blast

text \<open>
  C31: protecting more never opens anything: if every rule of one policy is also in another, whatever
  the first denies the second denies too.
\<close>

theorem file_rules_monotone:
  assumes "rk_file_protect m \<subseteq>\<^sub>m rk_file_protect m'"
    and "fst (file_action h m g inode d acc) = RK_ACTION_DENY"
  shows "fst (file_action h m' g inode d acc) = RK_ACTION_DENY"
proof -
  have le: "rk_file_protect m' k = Some r" if "rk_file_protect m k = Some r" for k r
    using assms(1) that by (metis domI map_le_def)
  have "direct_rule h m g acc inode \<noteq> None \<Longrightarrow> direct_rule h m' g acc inode \<noteq> None"
    by (auto simp: direct_rule_def le split: option.splits if_splits)
  moreover have "inherited_rule h m g acc d \<noteq> None \<Longrightarrow> inherited_rule h m' g acc d \<noteq> None"
    unfolding inherited_rule_exists dentry_rule_def using le by blast
  ultimately show ?thesis using assms(2) unfolding file_action_denies by blast
qed

theorem file_rules_monotone_witness:
  "fst (file_action sample_heap ((sample_maps 1 900)\<lparr>rk_file_protect := (rk_file_protect (sample_maps 1 900))
      (\<lparr>fk_scope = 0, fk_pad = 0, fk_dev = 8, fk_ino = 100\<rparr> \<mapsto> \<lparr>fr_rule_id = 5, fr_deny_mask = 2, fr_flags = 0\<rparr>)\<rparr>)
     (sample_gov 1 False) 0x10 0x20 RK_FILE_READ) = RK_ACTION_DENY"
proof (rule file_rules_monotone [of "sample_maps 1 900"])
  show "fst (file_action sample_heap (sample_maps 1 900) (sample_gov 1 False) 0x10 0x20 RK_FILE_READ) = RK_ACTION_DENY"
    by code_simp
qed (simp add: map_le_def sample_maps_def)

end
