(* ===== verification/Rk_Guard.thy ===== *)
theory Rk_Guard
  imports Rk_Sample
begin

text \<open>
  Self-protection, \<open>rk-bpf/src/guard.bpf.c\<close>: governed tasks may not use \<open>bpf()\<close>, signal or trace the
  sensor, or remove pins from a bpf file system.  Every attempt is an \<open>RK_EV_TAMPER\<close> event.
\<close>

abbreviation (input) RK_GUARD_EPERM :: s32 where "RK_GUARD_EPERM \<equiv> 1"
abbreviation (input) RK_BPF_FS_MAGIC :: u64 where "RK_BPF_FS_MAGIC \<equiv> 0xcafe4a11"

subsection \<open>The hooks\<close>

definition rk_is_sensor :: "kheap \<Rightarrow> rk_maps \<Rightarrow> u64 \<Rightarrow> bool" where
  "rk_is_sensor h m task = (case rk_guard_map m 0 of
     None \<Rightarrow> False
   | Some sensor \<Rightarrow>
       if gt_tgid sensor = 0 then False
       else if t_tgid (rd_task h task) \<noteq> gt_tgid sensor then False
       else
         let start = t_start_boottime (rd_task h (t_group_leader (rd_task h task)))
         in start div RK_NSEC_PER_CLOCK_TICK = gt_start_ticks sensor)"

definition tamper_body :: "u16 \<Rightarrow> u32 \<Rightarrow> u64 \<Rightarrow> rk_scratch_buf \<Rightarrow> rk_scratch_buf" where
  "tamper_body hook target_tgid detail msg =
     (let msg = msg_store 0 (replicate 16 0) msg;
          msg = msg_store 0 (le 2 hook) msg;
          msg = msg_store 4 (le 4 target_tgid) msg;
          msg = msg_store 8 (le 8 detail) msg
      in msg\<lparr>msg_payload_len := 16\<rparr>)"

text \<open>The scratch buffer is taken before the decision is counted.\<close>

definition rk_guard_decide :: "kenv \<Rightarrow> rk_gov \<Rightarrow> u16 \<Rightarrow> u32 \<Rightarrow> u64 \<Rightarrow> rk_cpu \<Rightarrow> s32 \<times> rk_cpu" where
  "rk_guard_decide e g hook target_tgid detail s =
     (let (msg, s) = rk_scratch e s;
          s = rk_count_decision RK_HOOK_GUARD g RK_ACTION_DENY s;
          s = (case msg of
                 None \<Rightarrow> s
               | Some msg \<Rightarrow>
                   rk_emit e (tamper_body hook target_tgid detail
                     (msg\<lparr>msg_hdr := rk_fill_task e (rk_fill_hdr e (emit_seq s) (g_cgroup_id g) (g_policy_gen g)
                        RK_EV_TAMPER (rk_reported_verdict g RK_ACTION_DENY) 0 (msg_hdr msg))\<rparr>)) s)
      in (if rk_enforced_deny g RK_ACTION_DENY then - RK_GUARD_EPERM else 0, s))"

definition rk_is_bpffs :: "kheap \<Rightarrow> u64 \<Rightarrow> bool" where
  "rk_is_bpffs h sb \<longleftrightarrow> s_magic (rd_super_block h sb) = RK_BPF_FS_MAGIC"

definition rk_guard_bpf :: "kenv \<Rightarrow> rk_maps \<Rightarrow> s32 \<Rightarrow> rk_cpu \<Rightarrow> s32 \<times> rk_cpu" where
  "rk_guard_bpf e m cmd s = (case rk_governance e m of
     None \<Rightarrow> (0, s)
   | Some g \<Rightarrow> rk_guard_decide e g RK_TAMPER_BPF 0 (scast cmd) s)"

definition rk_guard_task_kill :: "kenv \<Rightarrow> rk_maps \<Rightarrow> u64 \<Rightarrow> s32 \<Rightarrow> s32 \<Rightarrow> rk_cpu \<Rightarrow> s32 \<times> rk_cpu" where
  "rk_guard_task_kill e m p sig ret s =
     (if ret \<noteq> 0 then (ret, s)
      else if \<not> rk_is_sensor (heap e) m p then (0, s)
      else case rk_governance e m of
        None \<Rightarrow> (0, s)
      | Some g \<Rightarrow> rk_guard_decide e g RK_TAMPER_SIGNAL (t_tgid (rd_task (heap e) p)) (scast sig) s)"

definition rk_guard_ptrace :: "kenv \<Rightarrow> rk_maps \<Rightarrow> u64 \<Rightarrow> u32 \<Rightarrow> s32 \<Rightarrow> rk_cpu \<Rightarrow> s32 \<times> rk_cpu" where
  "rk_guard_ptrace e m child mode ret s =
     (if ret \<noteq> 0 then (ret, s)
      else if \<not> rk_is_sensor (heap e) m child then (0, s)
      else case rk_governance e m of
        None \<Rightarrow> (0, s)
      | Some g \<Rightarrow> rk_guard_decide e g RK_TAMPER_PTRACE (t_tgid (rd_task (heap e) child)) (ucast mode) s)"

definition rk_guard_pin_unlink :: "kenv \<Rightarrow> rk_maps \<Rightarrow> u64 \<Rightarrow> u64 \<Rightarrow> s32 \<Rightarrow> rk_cpu \<Rightarrow> s32 \<times> rk_cpu" where
  "rk_guard_pin_unlink e m dir dentry ret s =
     (if ret \<noteq> 0 then (ret, s)
      else if \<not> rk_is_bpffs (heap e) (i_sb (rd_inode (heap e) dir)) then (0, s)
      else case rk_governance e m of
        None \<Rightarrow> (0, s)
      | Some g \<Rightarrow> rk_guard_decide e g RK_TAMPER_PIN_UNLINK 0 0 s)"

definition rk_guard_pin_rename ::
  "kenv \<Rightarrow> rk_maps \<Rightarrow> u64 \<Rightarrow> u64 \<Rightarrow> u64 \<Rightarrow> u64 \<Rightarrow> s32 \<Rightarrow> rk_cpu \<Rightarrow> s32 \<times> rk_cpu" where
  "rk_guard_pin_rename e m old_dir old_dentry new_dir new_dentry ret s =
     (if ret \<noteq> 0 then (ret, s)
      else if \<not> rk_is_bpffs (heap e) (i_sb (rd_inode (heap e) old_dir)) \<and>
              \<not> rk_is_bpffs (heap e) (i_sb (rd_inode (heap e) new_dir)) then (0, s)
      else case rk_governance e m of
        None \<Rightarrow> (0, s)
      | Some g \<Rightarrow> rk_guard_decide e g RK_TAMPER_PIN_RENAME 0 0 s)"

definition rk_guard_pin_rmdir :: "kenv \<Rightarrow> rk_maps \<Rightarrow> u64 \<Rightarrow> u64 \<Rightarrow> s32 \<Rightarrow> rk_cpu \<Rightarrow> s32 \<times> rk_cpu" where
  "rk_guard_pin_rmdir e m dir dentry ret s =
     (if ret \<noteq> 0 then (ret, s)
      else if \<not> rk_is_bpffs (heap e) (i_sb (rd_inode (heap e) dir)) then (0, s)
      else case rk_governance e m of
        None \<Rightarrow> (0, s)
      | Some g \<Rightarrow> rk_guard_decide e g RK_TAMPER_PIN_RMDIR 0 0 s)"

definition rk_guard_umount :: "kenv \<Rightarrow> rk_maps \<Rightarrow> u64 \<Rightarrow> s32 \<Rightarrow> s32 \<Rightarrow> rk_cpu \<Rightarrow> s32 \<times> rk_cpu" where
  "rk_guard_umount e m mnt flags ret s =
     (if ret \<noteq> 0 then (ret, s)
      else if \<not> rk_is_bpffs (heap e) (mnt_sb (rd_vfsmount (heap e) mnt)) then (0, s)
      else case rk_governance e m of
        None \<Rightarrow> (0, s)
      | Some g \<Rightarrow> rk_guard_decide e g RK_TAMPER_UMOUNT 0 (scast flags) s)"

subsection \<open>Specification\<close>

definition tamper_event :: "u16 \<Rightarrow> u32 \<Rightarrow> u64 \<Rightarrow> rk_payload_tamper" where
  "tamper_event hook target_tgid detail =
     \<lparr>px_hook = hook, px_pad = 0, px_target_tgid = target_tgid, px_detail = detail\<rparr>"

definition guard_decision :: "u16 \<Rightarrow> u32 \<Rightarrow> u64 \<Rightarrow> decision" where
  "guard_decision hook target_tgid detail =
     \<lparr>d_hook = 7, d_action = RK_ACTION_DENY, d_rule = 0, d_type = 8,
      d_event = Some (TamperEvent (tamper_event hook target_tgid detail))\<rparr>"

lemma tamper_body_built:
  assumes "wf_scratch b" "msg_reserved b = 0" "msg_hdr b = h"
  shows "built h (enc_tamper (tamper_event hook tgid detail)) (tamper_body hook tgid detail b)"
  using assms by (simp add: body_simps tamper_body_def enc_tamper_def tamper_event_def)

text \<open>Counting before or after taking the buffer makes no difference.\<close>

lemma rk_count_commute: "rk_count i (rk_count j s) = rk_count j (rk_count i s)"
  by (cases "i = j") (auto simp: rk_count_def fun_upd_twist split: option.split)

lemma rk_count_scratch_update: "rk_count i (s\<lparr>scratch_map := b\<rparr>) = (rk_count i s)\<lparr>scratch_map := b\<rparr>"
  by (simp add: rk_count_def split: option.split)

lemma rk_count_decision_scratch:
  "rk_scratch e (rk_count_decision hk g a s) = (case rk_scratch e s of (msg, s') \<Rightarrow> (msg, rk_count_decision hk g a s'))"
proof -
  have "rk_scratch e (rk_count i s) = (case rk_scratch e s of (msg, s') \<Rightarrow> (msg, rk_count i s'))" for i
    by (simp add: rk_scratch_def rk_count_commute [of 1] rk_count_scratch_update Let_def split: option.split)
  then show ?thesis by (simp add: rk_count_decision_def Let_def split: prod.split)
qed

lemma guard_decide_send:
  "rk_guard_decide e g hook tgid detail s =
     (if rk_enforced_deny g 1 then - 1 else 0,
      rk_send e (\<lambda>n msg. tamper_body hook tgid detail (msg\<lparr>msg_hdr := decision_hdr e g (guard_decision hook tgid detail) n\<rparr>))
        (rk_count_decision 7 g 1 s))"
  by (simp add: rk_guard_decide_def rk_send_def rk_count_decision_scratch decision_hdr_def guard_decision_def Let_def
      split: prod.split option.split)

subsection \<open>The hooks meet the contract\<close>

lemma guard_contract:
  assumes run: "\<And>e m s. run e m s = (if concerns e m then
      case rk_governance e m of None \<Rightarrow> (0, s) | Some g \<Rightarrow> rk_guard_decide e g hook (tgid e) detail s else (0, s))"
    and "\<And>e e' m. same_inputs e e' \<Longrightarrow> concerns e m = concerns e' m"
  shows "quiet_hook run (\<lambda>e m g. if concerns e m then [guard_decision hook (tgid e) detail] else []) 0 (- 1)"
proof (rule single_hook [where d = "\<lambda>e m g. guard_decision hook (tgid e) detail"
    and ev = "\<lambda>e m g. TamperEvent (tamper_event hook (tgid e) detail)"
    and build = "\<lambda>e m g n msg. tamper_body hook (tgid e) detail
      (msg\<lparr>msg_hdr := decision_hdr e g (guard_decision hook (tgid e) detail) n\<rparr>)"], goal_cases)
  case (1 e m s)
  show ?case by (simp add: run guard_decide_send split: option.split) (simp add: guard_decision_def)
next
  case (3 e m g n b)
  then show ?case by (simp add: tamper_body_built wf_scratch_def)
next
  case (5 e e' m g)
  then show ?case using assms(2) by (simp add: guard_decision_def)
qed (simp_all add: guard_decision_def wf_decision_def enc_tamper_def)


lemmas guard_hook_defs = rk_guard_bpf_def rk_guard_task_kill_def rk_guard_ptrace_def rk_guard_pin_unlink_def
  rk_guard_pin_rename_def rk_guard_pin_rmdir_def rk_guard_umount_def

interpretation guard_bpf: quiet_hook "\<lambda>e m. rk_guard_bpf e m cmd"
  "\<lambda>e m g. [guard_decision RK_TAMPER_BPF 0 (scast cmd)]" 0 "- 1" for cmd
  by (rule guard_contract [where concerns = "\<lambda>_ _. True", simplified if_True]) (simp_all add: guard_hook_defs)

interpretation guard_task_kill: quiet_hook "\<lambda>e m. rk_guard_task_kill e m p sig 0"
  "\<lambda>e m g. if rk_is_sensor (heap e) m p then [guard_decision RK_TAMPER_SIGNAL (t_tgid (rd_task (heap e) p)) (scast sig)] else []"
  0 "- 1" for p sig
  by (rule guard_contract) (simp_all add: guard_hook_defs same_inputs_def)

interpretation guard_ptrace: quiet_hook "\<lambda>e m. rk_guard_ptrace e m child mode 0"
  "\<lambda>e m g. if rk_is_sensor (heap e) m child then [guard_decision RK_TAMPER_PTRACE (t_tgid (rd_task (heap e) child)) (ucast mode)] else []"
  0 "- 1" for child mode
  by (rule guard_contract) (simp_all add: guard_hook_defs same_inputs_def)

interpretation guard_pin_unlink: quiet_hook "\<lambda>e m. rk_guard_pin_unlink e m dir dentry 0"
  "\<lambda>e m g. if rk_is_bpffs (heap e) (i_sb (rd_inode (heap e) dir)) then [guard_decision RK_TAMPER_PIN_UNLINK 0 0] else []"
  0 "- 1" for dir dentry
  by (rule guard_contract) (simp_all add: guard_hook_defs same_inputs_def)

interpretation guard_pin_rename: quiet_hook "\<lambda>e m. rk_guard_pin_rename e m old_dir old_dentry new_dir new_dentry 0"
  "\<lambda>e m g. if rk_is_bpffs (heap e) (i_sb (rd_inode (heap e) old_dir)) \<or> rk_is_bpffs (heap e) (i_sb (rd_inode (heap e) new_dir))
     then [guard_decision RK_TAMPER_PIN_RENAME 0 0] else []" 0 "- 1" for old_dir old_dentry new_dir new_dentry
  by (rule guard_contract) (auto simp: guard_hook_defs same_inputs_def)

interpretation guard_pin_rmdir: quiet_hook "\<lambda>e m. rk_guard_pin_rmdir e m dir dentry 0"
  "\<lambda>e m g. if rk_is_bpffs (heap e) (i_sb (rd_inode (heap e) dir)) then [guard_decision RK_TAMPER_PIN_RMDIR 0 0] else []"
  0 "- 1" for dir dentry
  by (rule guard_contract) (simp_all add: guard_hook_defs same_inputs_def)

interpretation guard_umount: quiet_hook "\<lambda>e m. rk_guard_umount e m mnt flags 0"
  "\<lambda>e m g. if rk_is_bpffs (heap e) (mnt_sb (rd_vfsmount (heap e) mnt)) then [guard_decision RK_TAMPER_UMOUNT 0 (scast flags)] else []"
  0 "- 1" for mnt flags
  by (rule guard_contract) (simp_all add: guard_hook_defs same_inputs_def)

subsection \<open>Properties\<close>

text \<open>The task is governed in ENFORCE mode.\<close>

definition enforcing :: "kenv \<Rightarrow> rk_maps \<Rightarrow> bool" where
  "enforcing e m = (case rk_governance e m of None \<Rightarrow> False | Some g \<Rightarrow> g_mode g = RK_MODE_ENFORCE)"

lemma guard_decide_verdict: "fst (rk_guard_decide e g hook tgid detail s) = (if g_mode g = RK_MODE_ENFORCE then - 1 else 0)"
  by (simp add: guard_decide_send rk_enforced_deny_def rk_effective_deny_def)

text \<open>
  C34: a governed ENFORCE task can neither signal nor trace the sensor, and nobody else is protected:
  the target must have the published, non-zero tgid and a group leader whose start time, in clock
  ticks, is the published one, so a process that reuses the sensor's pid later is not the sensor.
\<close>

theorem sensor_protected_iff:
  "(fst (rk_guard_task_kill e m p sig 0 s) = - 1 \<longleftrightarrow> enforcing e m \<and> rk_is_sensor (heap e) m p) \<and>
   (fst (rk_guard_ptrace e m p mode 0 s) = - 1 \<longleftrightarrow> enforcing e m \<and> rk_is_sensor (heap e) m p) \<and>
   (rk_is_sensor (heap e) m p \<longleftrightarrow>
      (\<exists>t. rk_guard_map m 0 = Some t \<and> gt_tgid t \<noteq> 0 \<and> t_tgid (rd_task (heap e) p) = gt_tgid t \<and>
           t_start_boottime (rd_task (heap e) (t_group_leader (rd_task (heap e) p))) div RK_NSEC_PER_CLOCK_TICK = gt_start_ticks t))"
  by (auto simp: guard_hook_defs enforcing_def guard_decide_verdict rk_is_sensor_def Let_def split: option.splits)

text \<open>
  C35: a governed ENFORCE task cannot use bpf() at all, and cannot unlink, rename or remove a directory
  on a bpf file system or unmount one; a rename is stopped if either directory is on one.  The same
  calls on other file systems are not affected by these hooks.
\<close>

theorem pins_protected_iff:
  "(fst (rk_guard_bpf e m cmd s) = - 1 \<longleftrightarrow> enforcing e m) \<and>
   (fst (rk_guard_pin_unlink e m dir dentry 0 s) = - 1 \<longleftrightarrow> enforcing e m \<and> rk_is_bpffs (heap e) (i_sb (rd_inode (heap e) dir))) \<and>
   (fst (rk_guard_pin_rmdir e m dir dentry 0 s) = - 1 \<longleftrightarrow> enforcing e m \<and> rk_is_bpffs (heap e) (i_sb (rd_inode (heap e) dir))) \<and>
   (fst (rk_guard_pin_rename e m dir dentry dir' dentry' 0 s) = - 1 \<longleftrightarrow>
      enforcing e m \<and> (rk_is_bpffs (heap e) (i_sb (rd_inode (heap e) dir)) \<or> rk_is_bpffs (heap e) (i_sb (rd_inode (heap e) dir')))) \<and>
   (fst (rk_guard_umount e m mnt flags 0 s) = - 1 \<longleftrightarrow> enforcing e m \<and> rk_is_bpffs (heap e) (mnt_sb (rd_vfsmount (heap e) mnt)))"
  by (auto simp: guard_hook_defs enforcing_def guard_decide_verdict split: option.splits)

end
