(* ===== verification/Decoder.thy ===== *)
theory Decoder
  imports Rk_Contract
begin

text \<open>
  The validating decoder of the sensor, \<open>rk-sensor/src/decoder.rs\<close>: what userspace makes of the bytes
  read from the ring buffer.  Errors are values of \<open>decode_error\<close>; the native byte order of the Rust
  code is little endian on both architectures.
\<close>

subsection \<open>The decoder\<close>

datatype decode_error =
    TooShort nat nat
  | AbiMismatch u32 u8
  | ReservedNonZero u32
  | PayloadTooLarge nat
  | LengthMismatch nat nat
  | UnknownType u16
  | UnknownVerdict u8
  | BodyTooShort nat nat
  | MalformedStrings
  | TrailingBytes nat

fun kind_index :: "decode_error \<Rightarrow> nat" where
  "kind_index (TooShort _ _) = 0"
| "kind_index (AbiMismatch _ _) = 1"
| "kind_index (ReservedNonZero _) = 2"
| "kind_index (PayloadTooLarge _) = 3"
| "kind_index (LengthMismatch _ _) = 4"
| "kind_index (UnknownType _) = 5"
| "kind_index (UnknownVerdict _) = 6"
| "kind_index (BodyTooShort _ _) = 7"
| "kind_index MalformedStrings = 8"
| "kind_index (TrailingBytes _) = 9"

record strings =
  str_data :: bytes
  str_remaining :: u16

datatype payload =
    Exec rk_payload_exec strings
  | File rk_payload_file strings
  | Net rk_payload_net
  | Sock rk_payload_sock
  | Tun rk_payload_tun
  | FileDeny rk_payload_file_deny strings
  | Tamper rk_payload_tamper
  | Raw bytes

record event =
  ev_hdr :: rk_hdr
  ev_payload :: payload

definition split_str :: "bytes \<Rightarrow> (bytes \<times> bytes) option" where
  "split_str data =
     (if length data < 2 then None
      else
        let len = unat (unle (take 2 data) :: u16); rest = drop 2 data in
        if len > length rest then None else Some (take len rest, drop len rest))"

text \<open>The loop of \<open>Strings::validate\<close>; \<open>strings_next\<close> is its iterator.\<close>

fun validate_loop :: "bytes \<Rightarrow> nat \<Rightarrow> decode_error + bytes" where
  "validate_loop rest 0 = Inr rest"
| "validate_loop rest (Suc n) = (case split_str rest of
     None \<Rightarrow> Inl MalformedStrings
   | Some (_, tail) \<Rightarrow> validate_loop tail n)"

definition validate :: "bytes \<Rightarrow> u16 \<Rightarrow> decode_error + strings" where
  "validate data count = (case validate_loop data (unat count) of
     Inl err \<Rightarrow> Inl err
   | Inr rest \<Rightarrow>
       if rest \<noteq> [] then Inl (TrailingBytes (length rest))
       else Inr \<lparr>str_data = data, str_remaining = count\<rparr>)"

definition strings_next :: "strings \<Rightarrow> (bytes \<times> strings) option" where
  "strings_next st =
     (if str_remaining st = 0 then None
      else case split_str (str_data st) of
        None \<Rightarrow> None
      | Some (s, rest) \<Rightarrow> Some (s, \<lparr>str_data = rest, str_remaining = str_remaining st - 1\<rparr>))"

text \<open>Exhausting the iterator.\<close>

fun strings_collect :: "nat \<Rightarrow> strings \<Rightarrow> bytes list" where
  "strings_collect 0 st = []"
| "strings_collect (Suc n) st = (case strings_next st of None \<Rightarrow> [] | Some (s, st') \<Rightarrow> s # strings_collect n st')"

definition read_u32 :: "bytes \<Rightarrow> nat \<Rightarrow> u32 option" where
  "read_u32 bs off = (if off + 4 \<le> length bs then Some (unle (take 4 (drop off bs))) else None)"

definition read_body :: "(bytes \<Rightarrow> 'a) \<Rightarrow> nat \<Rightarrow> bytes \<Rightarrow> decode_error + ('a \<times> bytes)" where
  "read_body dec sz payload =
     (if length payload < sz then Inl (BodyTooShort sz (length payload))
      else Inr (dec (take sz payload), drop sz payload))"

text \<open>Bodies without strings end the payload.\<close>

definition fixed_body :: "(bytes \<Rightarrow> 'a) \<Rightarrow> nat \<Rightarrow> ('a \<Rightarrow> payload) \<Rightarrow> bytes \<Rightarrow> decode_error + payload" where
  "fixed_body dec sz mk payload = (case read_body dec sz payload of
     Inl err \<Rightarrow> Inl err
   | Inr (body, tail) \<Rightarrow> if tail \<noteq> [] then Inl (TrailingBytes (length tail)) else Inr (mk body))"

definition string_body ::
  "(bytes \<Rightarrow> 'a) \<Rightarrow> nat \<Rightarrow> ('a \<Rightarrow> u16) \<Rightarrow> ('a \<Rightarrow> strings \<Rightarrow> payload) \<Rightarrow> bytes \<Rightarrow> decode_error + payload" where
  "string_body dec sz count mk payload = (case read_body dec sz payload of
     Inl err \<Rightarrow> Inl err
   | Inr (body, tail) \<Rightarrow>
       (case validate tail (count body) of
          Inl err \<Rightarrow> Inl err
        | Inr strs \<Rightarrow> Inr (mk body strs)))"

definition decode_payload :: "u16 \<Rightarrow> bytes \<Rightarrow> decode_error + payload" where
  "decode_payload ty payload =
     (if ty = RK_EV_EXEC then string_body dec_exec 24 pe_str_count Exec payload
      else if ty = RK_EV_FILE_OPEN then string_body dec_file 32 pf_str_count File payload
      else if ty = RK_EV_NET_CONNECT \<or> ty = RK_EV_SENDMSG then fixed_body dec_net 40 Net payload
      else if ty = RK_EV_SOCK_CREATE then fixed_body dec_sock 16 Sock payload
      else if ty = RK_EV_TUN then fixed_body dec_tun 8 Tun payload
      else if ty = RK_EV_TAMPER then fixed_body dec_tamper 16 Tamper payload
      else if ty = RK_EV_FILE_DENY then string_body dec_file_deny 32 pd_str_count FileDeny payload
      else if ty \<in> {RK_EV_UNLINK, RK_EV_RENAME, RK_EV_FORK, RK_EV_EXIT} then Inr (Raw payload)
      else Inl (UnknownType ty))"

definition decode :: "bytes \<Rightarrow> decode_error + event" where
  "decode bs =
     (if length bs < 56 then Inl (TooShort 56 (length bs))
      else
        let hdr = dec_hdr (take 48 bs) in
        if hdr_abi hdr \<noteq> RK_ABI_VERSION then Inl (AbiMismatch (ucast (RK_ABI_VERSION :: u8)) (hdr_abi hdr))
        else
          let too_short = TooShort 56 (length bs) in
          case read_u32 bs 48 of
            None \<Rightarrow> Inl too_short
          | Some payload_len \<Rightarrow>
             (case read_u32 bs 52 of
                None \<Rightarrow> Inl too_short
              | Some reserved \<Rightarrow>
                 if reserved \<noteq> 0 then Inl (ReservedNonZero reserved)
                 else if unat payload_len > 2048 then Inl (PayloadTooLarge (unat payload_len))
                 else if 56 + unat payload_len \<noteq> length bs then Inl (LengthMismatch (56 + unat payload_len) (length bs))
                 else if hdr_verdict hdr \<notin> {0, 1, 2} then Inl (UnknownVerdict (hdr_verdict hdr))
                 else case decode_payload (hdr_type hdr) (drop 56 bs) of
                        Inl err \<Rightarrow> Inl err
                      | Inr p \<Rightarrow> Inr \<lparr>ev_hdr = hdr, ev_payload = p\<rparr>))"

subsection \<open>Decode statistics\<close>

text \<open>One counter for decoded records and one per error kind.\<close>

record decode_stats =
  st_decoded :: u64
  st_errors :: "u64 list"

definition stats_default :: decode_stats where
  "stats_default = \<lparr>st_decoded = 0, st_errors = replicate 10 0\<rparr>"

definition stats_record :: "decode_error + 'a \<Rightarrow> decode_stats \<Rightarrow> decode_stats" where
  "stats_record res st = (case res of
     Inr _ \<Rightarrow> st\<lparr>st_decoded := st_decoded st + 1\<rparr>
   | Inl err \<Rightarrow> st\<lparr>st_errors := (st_errors st)[kind_index err := st_errors st ! kind_index err + 1]\<rparr>)"

definition stats_rejected :: "decode_stats \<Rightarrow> u64" where
  "stats_rejected st = sum_list (st_errors st)"

subsection \<open>Strings\<close>

text \<open>The decoded form of an event.\<close>

fun payload_of :: "rk_event \<Rightarrow> payload" where
  "payload_of (ExecEvent b ts) = Exec b \<lparr>str_data = wire_strs ts, str_remaining = pe_str_count b\<rparr>"
| "payload_of (FileEvent b ts) = File b \<lparr>str_data = wire_strs ts, str_remaining = pf_str_count b\<rparr>"
| "payload_of (NetEvent b) = Net b"
| "payload_of (SockEvent b) = Sock b"
| "payload_of (TunEvent b) = Tun b"
| "payload_of (FileDenyEvent b ts) = FileDeny b \<lparr>str_data = wire_strs ts, str_remaining = pd_str_count b\<rparr>"
| "payload_of (TamperEvent b) = Tamper b"

lemma split_str_wire: "length t < 65536 \<Longrightarrow> split_str (wire_str t @ r) = Some (t, r)"
  by (simp add: split_str_def wire_str_def unle_le_full unat_of_nat Let_def)

lemma split_str_inv:
  assumes "split_str d = Some (t, r)"
  shows "d = wire_str t @ r" "length t < 65536"
proof -
  let ?n = "unle (take 2 d) :: u16"
  have s: "length d \<ge> 2" "unat ?n \<le> length (drop 2 d)" "t = take (unat ?n) (drop 2 d)" "r = drop (unat ?n) (drop 2 d)"
    using assms by (auto simp: split_str_def Let_def split: if_splits)
  have len: "length t = unat ?n" using s by simp
  then show "length t < 65536" using unsigned_less [of ?n] by simp
  have "le 2 ?n = take 2 d" using s(1) le_unle [of "take 2 d", where 'a = 16] by simp
  then have "wire_str t = take 2 d @ t" by (simp add: wire_str_def len)
  then show "d = wire_str t @ r" using s by (metis append.assoc append_take_drop_id)
qed

lemma validate_loop_wire: "list_all (\<lambda>t. length t < 65536) ts \<Longrightarrow> validate_loop (wire_strs ts @ r) (length ts) = Inr r"
  by (induction ts) (simp_all add: wire_strs_def split_str_wire)

lemma validate_loop_inv:
  assumes "validate_loop d n = Inr r"
  shows "\<exists>ts. d = wire_strs ts @ r \<and> length ts = n \<and> list_all (\<lambda>t. length t < 65536) ts"
  using assms
proof (induction n arbitrary: d)
  case (Suc n)
  then obtain t d' where s: "split_str d = Some (t, d')" "validate_loop d' n = Inr r"
    by (auto split: option.splits)
  obtain ts where "d' = wire_strs ts @ r" "length ts = n" "list_all (\<lambda>t. length t < 65536) ts"
    using Suc.IH [OF s(2)] by blast
  then have "d = wire_strs (t # ts) @ r \<and> length (t # ts) = Suc n \<and> list_all (\<lambda>t. length t < 65536) (t # ts)"
    using split_str_inv [OF s(1)] by (simp add: wire_strs_def)
  then show ?case by blast
qed (auto simp: wire_strs_def)

lemma validate_iff: "validate d n = Inr st \<longleftrightarrow>
  (\<exists>ts. d = wire_strs ts \<and> strs_ok n ts) \<and> st = \<lparr>str_data = d, str_remaining = n\<rparr>"
proof
  assume "validate d n = Inr st"
  then have "validate_loop d (unat n) = Inr []" "st = \<lparr>str_data = d, str_remaining = n\<rparr>"
    by (auto simp: validate_def split: sum.splits if_splits)
  then show "(\<exists>ts. d = wire_strs ts \<and> strs_ok n ts) \<and> st = \<lparr>str_data = d, str_remaining = n\<rparr>"
    using validate_loop_inv by (fastforce simp: strs_ok_def)
next
  assume "(\<exists>ts. d = wire_strs ts \<and> strs_ok n ts) \<and> st = \<lparr>str_data = d, str_remaining = n\<rparr>"
  then show "validate d n = Inr st"
    using validate_loop_wire [of _ "[]"] by (auto simp: validate_def strs_ok_def)
qed

lemma collect_wire:
  assumes "strs_ok n ts"
  shows "strings_collect (unat n + k) \<lparr>str_data = wire_strs ts, str_remaining = n\<rparr> = ts"
  using assms
proof (induction ts arbitrary: n)
  case (Cons t ts)
  have n: "unat n = Suc (length ts)" and t: "length t < 65536" "list_all (\<lambda>t. length t < 65536) ts"
    using Cons.prems by (simp_all add: strs_ok_def)
  have "n \<noteq> 0" using n by auto
  moreover from this have "unat (n - 1) = length ts" using n by (simp add: unat_minus_one)
  ultimately show ?case
    using Cons.IH [of "n - 1"] t n by (simp add: strings_next_def wire_strs_def split_str_wire strs_ok_def)
next
  case Nil
  then have "n = 0" by (simp add: strs_ok_def unsigned_eq_0_iff)
  then show ?case by (cases k) (simp_all add: strings_next_def)
qed

subsection \<open>Bodies\<close>

context pod
begin

lemma read_body_enc: "wf x \<Longrightarrow> read_body dec size (enc x @ r) = Inr (x, r)"
  by (simp add: read_body_def length_enc dec_enc)

lemma read_body_inv: "read_body dec size p = Inr (x, r) \<Longrightarrow> p = enc x @ r \<and> wf x"
  by (auto simp: read_body_def enc_dec wf_dec split: if_splits)

lemma fixed_body_iff: "fixed_body dec size mk p = Inr pl \<longleftrightarrow> (\<exists>x. wf x \<and> p = enc x \<and> pl = mk x)"
proof
  assume "fixed_body dec size mk p = Inr pl"
  then obtain x where "read_body dec size p = Inr (x, [])" "pl = mk x"
    by (auto simp: fixed_body_def split: sum.splits prod.splits if_splits)
  then show "\<exists>x. wf x \<and> p = enc x \<and> pl = mk x" using read_body_inv by fastforce
next
  assume "\<exists>x. wf x \<and> p = enc x \<and> pl = mk x"
  then show "fixed_body dec size mk p = Inr pl"
    using read_body_enc [of _ "[]"] by (auto simp: fixed_body_def)
qed

lemma string_body_iff: "string_body dec size count mk p = Inr pl \<longleftrightarrow>
  (\<exists>x ts. wf x \<and> p = enc x @ wire_strs ts \<and> strs_ok (count x) ts \<and>
     pl = mk x \<lparr>str_data = wire_strs ts, str_remaining = count x\<rparr>)"
proof
  assume "string_body dec size count mk p = Inr pl"
  then obtain x r st where "read_body dec size p = Inr (x, r)" "validate r (count x) = Inr st" "pl = mk x st"
    by (auto simp: string_body_def split: sum.splits prod.splits)
  then show "\<exists>x ts. wf x \<and> p = enc x @ wire_strs ts \<and> strs_ok (count x) ts \<and>
     pl = mk x \<lparr>str_data = wire_strs ts, str_remaining = count x\<rparr>"
    using read_body_inv unfolding validate_iff by blast
next
  assume "\<exists>x ts. wf x \<and> p = enc x @ wire_strs ts \<and> strs_ok (count x) ts \<and>
     pl = mk x \<lparr>str_data = wire_strs ts, str_remaining = count x\<rparr>"
  then obtain x ts where x: "wf x" "p = enc x @ wire_strs ts" "strs_ok (count x) ts"
    "pl = mk x \<lparr>str_data = wire_strs ts, str_remaining = count x\<rparr>" by blast
  have "validate (wire_strs ts) (count x) = Inr \<lparr>str_data = wire_strs ts, str_remaining = count x\<rparr>"
    unfolding validate_iff using x(3) by blast
  then show "string_body dec size count mk p = Inr pl"
    using x by (simp add: string_body_def read_body_enc)
qed

end

lemmas body_iffs = pexec.string_body_iff pfile.string_body_iff pdeny.string_body_iff pnet.fixed_body_iff psock.fixed_body_iff
  ptun.fixed_body_iff ptamper.fixed_body_iff

text \<open>A payload is accepted exactly when it is the encoding of a body that fits the type.\<close>

lemma decode_payload_iff:
  "decode_payload ty p = Inr pl \<longleftrightarrow>
     (\<exists>ev. event_shape ty ev \<and> p = enc_event ev \<and> pl = payload_of ev) \<or>
     ty \<in> {RK_EV_UNLINK, RK_EV_RENAME, RK_EV_FORK, RK_EV_EXIT} \<and> pl = Raw p" (is "_ \<longleftrightarrow> ?R")
proof
  assume "decode_payload ty p = Inr pl"
  then consider
      (exec) b ts where "ty = RK_EV_EXEC" "p = enc_exec b @ wire_strs ts" "strs_ok (pe_str_count b) ts"
        "pl = payload_of (ExecEvent b ts)"
    | (file_open) b ts where "ty = RK_EV_FILE_OPEN" "p = enc_file b @ wire_strs ts" "strs_ok (pf_str_count b) ts"
        "pl = payload_of (FileEvent b ts)"
    | (net) b where "ty = RK_EV_NET_CONNECT \<or> ty = RK_EV_SENDMSG" "wf_net b" "p = enc_net b" "pl = Net b"
    | (sock) b where "ty = RK_EV_SOCK_CREATE" "p = enc_sock b" "pl = Sock b"
    | (tun) b where "ty = RK_EV_TUN" "p = enc_tun b" "pl = Tun b"
    | (tamper) b where "ty = RK_EV_TAMPER" "p = enc_tamper b" "pl = Tamper b"
    | (file_deny) b ts where "ty = RK_EV_FILE_DENY" "p = enc_file_deny b @ wire_strs ts" "strs_ok (pd_str_count b) ts"
        "pl = payload_of (FileDenyEvent b ts)"
    | (raw) "ty \<in> {RK_EV_UNLINK, RK_EV_RENAME, RK_EV_FORK, RK_EV_EXIT}" "pl = Raw p"
    by (simp only: decode_payload_def body_iffs split: if_splits) auto
  then show ?R
  proof cases
    case exec then show ?thesis by (intro disjI1 exI [of _ "ExecEvent b ts"]) simp
  next
    case file_open then show ?thesis by (intro disjI1 exI [of _ "FileEvent b ts"]) simp
  next
    case net then show ?thesis by (intro disjI1 exI [of _ "NetEvent b"]) simp
  next
    case sock then show ?thesis by (intro disjI1 exI [of _ "SockEvent b"]) simp
  next
    case tun then show ?thesis by (intro disjI1 exI [of _ "TunEvent b"]) simp
  next
    case tamper then show ?thesis by (intro disjI1 exI [of _ "TamperEvent b"]) simp
  next
    case file_deny then show ?thesis by (intro disjI1 exI [of _ "FileDenyEvent b ts"]) simp
  qed simp
next
  assume ?R
  then consider (ev) ev where "event_shape ty ev" "p = enc_event ev" "pl = payload_of ev"
    | (raw) "ty \<in> {RK_EV_UNLINK, RK_EV_RENAME, RK_EV_FORK, RK_EV_EXIT}" "pl = Raw p" by blast
  then show "decode_payload ty p = Inr pl"
  proof cases
    case ev
    then show ?thesis by (cases ev) (auto simp: decode_payload_def body_iffs)
  next
    case raw
    then show ?thesis by (auto simp: decode_payload_def)
  qed
qed


subsection \<open>Records\<close>

lemma decode_wire_record:
  assumes "hdr_abi h = RK_ABI_VERSION" "hdr_verdict h \<in> {0, 1, 2}" "length c \<le> 2048"
  shows "decode (wire_record h c) = (case decode_payload (hdr_type h) c of
    Inl err \<Rightarrow> Inl err | Inr p \<Rightarrow> Inr \<lparr>ev_hdr = h, ev_payload = p\<rparr>)"
proof -
  have h: "length (enc_hdr h) = 48" "dec_hdr (enc_hdr h) = h" by (simp_all add: hdr.length_enc hdr.dec_enc)
  have len: "unat (of_nat (length c) :: u32) = length c" using assms(3) by (simp add: unat_of_nat)
  have "read_u32 (wire_record h c) 48 = Some (of_nat (length c))" "read_u32 (wire_record h c) 52 = Some 0"
    by (simp_all add: read_u32_def wire_record_def h unle_le_full)
  moreover have "take 48 (wire_record h c) = enc_hdr h" "drop 56 (wire_record h c) = c" "length (wire_record h c) = 56 + length c"
    by (simp_all add: wire_record_def h)
  ultimately show ?thesis
    using assms h len by (simp add: decode_def Let_def del: insert_iff)
qed

lemma if_Inl_eq_Inr: "(if P then Inl a else Q) = Inr x \<longleftrightarrow> \<not> P \<and> Q = Inr x"
  by simp

lemma case_Inl_eq_Inr: "(case X of Inl a \<Rightarrow> Inl a | Inr y \<Rightarrow> Inr (f y)) = Inr x \<longleftrightarrow> (\<exists>y. X = Inr y \<and> x = f y)"
  by (auto split: sum.split)

lemma decode_eq_Inr:
  "decode bs = Inr ev \<longleftrightarrow> 56 \<le> length bs \<and> ev_hdr ev = dec_hdr (take 48 bs) \<and> hdr_abi (ev_hdr ev) = RK_ABI_VERSION
     \<and> (unle (take 4 (drop 52 bs)) :: u32) = 0 \<and> unat (unle (take 4 (drop 48 bs)) :: u32) \<le> 2048
     \<and> 56 + unat (unle (take 4 (drop 48 bs)) :: u32) = length bs \<and> hdr_verdict (ev_hdr ev) \<in> {0, 1, 2}
     \<and> decode_payload (hdr_type (ev_hdr ev)) (drop 56 bs) = Inr (ev_payload ev)"
proof (cases "56 \<le> length bs")
  case True
  then have r: "read_u32 bs 48 = Some (unle (take 4 (drop 48 bs)))" "read_u32 bs 52 = Some (unle (take 4 (drop 52 bs)))"
    by (simp_all add: read_u32_def)
  have ev: "ev = \<lparr>ev_hdr = h, ev_payload = p\<rparr> \<longleftrightarrow> ev_hdr ev = h \<and> ev_payload ev = p" for h p
    by (cases ev) simp
  show ?thesis
    unfolding decode_def Let_def r option.case if_Inl_eq_Inr case_Inl_eq_Inr ev using True by auto
qed (simp add: decode_def)

lemma decode_envelope:
  assumes "decode bs = Inr ev"
  shows "bs = wire_record (ev_hdr ev) (drop 56 bs)" "hdr_abi (ev_hdr ev) = RK_ABI_VERSION"
    "hdr_verdict (ev_hdr ev) \<in> {0, 1, 2}" "length (drop 56 bs) \<le> 2048"
    "decode_payload (hdr_type (ev_hdr ev)) (drop 56 bs) = Inr (ev_payload ev)"
proof -
  let ?n = "unle (take 4 (drop 48 bs)) :: u32" and ?r = "unle (take 4 (drop 52 bs)) :: u32"
  note d = assms [unfolded decode_eq_Inr]
  then have len: "56 \<le> length bs" "56 + unat ?n = length bs" "?r = 0" "unat ?n \<le> 2048" by simp_all
  have "enc_hdr (ev_hdr ev) = take 48 bs" using d by (simp add: hdr.enc_dec)
  moreover have "le 4 ?n = take 4 (drop 48 bs)" "le 4 ?r = take 4 (drop 52 bs)"
    using len le_unle [of "take 4 (drop 48 bs)", where 'a = 32] le_unle [of "take 4 (drop 52 bs)", where 'a = 32] by simp_all
  moreover have "of_nat (length (drop 56 bs)) = ?n" proof -
    have "length (drop 56 bs) = unat ?n" using len(2) by simp
    then show ?thesis by simp
  qed
  moreover have "take 48 bs @ take 4 (drop 48 bs) @ take 4 (drop 52 bs) @ drop 56 bs = bs"
  proof -
    have "drop 4 (drop 48 bs) = drop 52 bs" "drop 4 (drop 52 bs) = drop 56 bs" by simp_all
    then show ?thesis by (metis append_take_drop_id)
  qed
  ultimately show "bs = wire_record (ev_hdr ev) (drop 56 bs)" using len(3) by (simp add: wire_record_def)
  show "length (drop 56 bs) \<le> 2048" using len(2,4) by simp
  show "hdr_abi (ev_hdr ev) = RK_ABI_VERSION" "hdr_verdict (ev_hdr ev) \<in> {0, 1, 2}"
    "decode_payload (hdr_type (ev_hdr ev)) (drop 56 bs) = Inr (ev_payload ev)"
    using d by blast+
qed

text \<open>
  C12: the decoder accepts exactly the encodings of well-formed events, and returns the event: bytes
  decode to a header and payload if and only if they are the record of some event whose type, ABI
  version, verdict, string count and size are right, or carry one of the four reserved types, whose
  payload is passed through.  In particular decoding inverts encoding, and no two events share a record.
\<close>

theorem decode_exact:
  "decode bs = Inr ev \<longleftrightarrow>
     (\<exists>x. wf_event (ev_hdr ev) x \<and> bs = wire_record (ev_hdr ev) (enc_event x) \<and> ev_payload ev = payload_of x) \<or>
     (\<exists>data. bs = wire_record (ev_hdr ev) data \<and> ev_payload ev = Raw data \<and> length data \<le> 2048 \<and>
        hdr_type (ev_hdr ev) \<in> {RK_EV_UNLINK, RK_EV_RENAME, RK_EV_FORK, RK_EV_EXIT} \<and>
        hdr_abi (ev_hdr ev) = RK_ABI_VERSION \<and> hdr_verdict (ev_hdr ev) \<in> {0, 1, 2})" (is "_ \<longleftrightarrow> ?R")
proof
  assume a: "decode bs = Inr ev"
  note e = decode_envelope [OF a]
  consider x where "event_shape (hdr_type (ev_hdr ev)) x" "drop 56 bs = enc_event x" "ev_payload ev = payload_of x"
    | "hdr_type (ev_hdr ev) \<in> {RK_EV_UNLINK, RK_EV_RENAME, RK_EV_FORK, RK_EV_EXIT}" "ev_payload ev = Raw (drop 56 bs)"
    using e(5) unfolding decode_payload_iff by blast
  then show ?R
  proof cases
    case 1
    moreover have "length (enc_event x) \<le> 2048" using e(4) unfolding 1(2) .
    ultimately have "wf_event (ev_hdr ev) x \<and> bs = wire_record (ev_hdr ev) (enc_event x) \<and> ev_payload ev = payload_of x"
      using e(1-3) by (simp add: wf_event_def)
    then show ?thesis by blast
  next
    case 2
    then show ?thesis using e(1-4) by blast
  qed
next
  assume ?R
  then obtain c where c: "bs = wire_record (ev_hdr ev) c" "hdr_abi (ev_hdr ev) = RK_ABI_VERSION"
    "hdr_verdict (ev_hdr ev) \<in> {0, 1, 2}" "length c \<le> 2048" "decode_payload (hdr_type (ev_hdr ev)) c = Inr (ev_payload ev)"
    unfolding decode_payload_iff wf_event_def by blast
  show "decode bs = Inr ev" unfolding c(1) decode_wire_record [OF c(2-4)] by (simp add: c(5))
qed

lemma decode_event:
  assumes "wf_event h x"
  shows "decode (wire_record h (enc_event x)) = Inr \<lparr>ev_hdr = h, ev_payload = payload_of x\<rparr>"
proof -
  have "decode_payload (hdr_type h) (enc_event x) = Inr (payload_of x)"
    using assms unfolding decode_payload_iff wf_event_def by blast
  then show ?thesis using assms by (simp add: decode_wire_record wf_event_def)
qed

lemma record_ok_decodes: "record_ok bs \<Longrightarrow> \<exists>ev. decode bs = Inr ev"
  unfolding record_ok_def using decode_event by blast

text \<open>
  C37: iterating validated strings never fails: once \<open>Strings::validate\<close> accepted a tail of \<open>n\<close> strings,
  the iterator yields exactly \<open>n\<close> strings, and they are the tail.
\<close>

theorem strings_iterate:
  assumes "validate data n = Inr st"
  shows "length (strings_collect (unat n) st) = unat n \<and> wire_strs (strings_collect (unat n) st) = data
    \<and> strings_collect (Suc (unat n)) st = strings_collect (unat n) st"
proof -
  obtain ts where ts: "data = wire_strs ts" "strs_ok n ts" "st = \<lparr>str_data = data, str_remaining = n\<rparr>"
    using assms unfolding validate_iff by blast
  then show ?thesis
    using collect_wire [OF ts(2), of 0] collect_wire [OF ts(2), of 1] by (simp add: strs_ok_def del: strings_collect.simps)
qed

theorem strings_iterate_witness:
  "validate [2, 0, 0x6c, 0x73, 1, 0, 0x61] 2 = Inr \<lparr>str_data = [2, 0, 0x6c, 0x73, 1, 0, 0x61], str_remaining = 2\<rparr> \<and>
   length (strings_collect 2 \<lparr>str_data = [2, 0, 0x6c, 0x73, 1, 0, 0x61], str_remaining = 2\<rparr>) = 2"
proof -
  have v: "validate [2, 0, 0x6c, 0x73, 1, 0, 0x61] 2 = Inr \<lparr>str_data = [2, 0, 0x6c, 0x73, 1, 0, 0x61], str_remaining = 2\<rparr>"
    by code_simp
  show ?thesis using v strings_iterate [OF v] by simp
qed

text \<open>
  The statistics account for every record exactly once: after any sequence of results the decoded
  count and the rejections of all kinds together have grown by the number of results.
\<close>

theorem stats_account:
  assumes "length (st_errors st) = 10"
  shows "st_decoded (fold stats_record rs st) + stats_rejected (fold stats_record rs st)
    = st_decoded st + stats_rejected st + of_nat (length rs)"
  using assms
proof (induction rs arbitrary: st)
  case (Cons r rs)
  have k: "kind_index e < 10" for e by (cases e) simp_all
  have up: "sum_list (xs[i := xs ! i + 1]) = sum_list xs + (1 :: u64)" if "i < length xs" for xs i
    using that by (induction xs arbitrary: i) (auto split: nat.split)
  have "st_decoded (stats_record r st) + stats_rejected (stats_record r st) = st_decoded st + stats_rejected st + 1"
    using Cons.prems k up by (simp add: stats_record_def stats_rejected_def split: sum.split)
  moreover have "length (st_errors (stats_record r st)) = 10" using Cons.prems by (simp add: stats_record_def split: sum.split)
  ultimately show ?case using Cons.IH [of "stats_record r st"] by simp
qed simp


theorem stats_account_witness:
  "st_decoded (fold stats_record [Inl MalformedStrings, Inr (), Inl (UnknownType 99)] stats_default) +
   stats_rejected (fold stats_record [Inl MalformedStrings, Inr (), Inl (UnknownType 99)] stats_default) = 3"
  using stats_account [of stats_default "[Inl MalformedStrings, Inr (), Inl (UnknownType 99)]"]
  by (simp add: stats_default_def stats_rejected_def sum_list_replicate)

end
