(* ===== verification/Rk_Object.thy ===== *)
theory Rk_Object
  imports Rk_Governance Rk_Net Rk_Exec Rk_File Rk_Guard Decoder
begin

text \<open>
  The production object, \<open>rk-bpf/src/rk.bpf.c\<close>, which includes the four policy domains: its decision
  programs as one datatype of calls, run by \<open>run_hook\<close>.  The contract of \<open>Rk_Contract\<close> is interpreted
  once for every call, and the properties of this theory hold of every program of the object.  The
  step relation \<open>rk_step\<close> interleaves program runs with policy updates and with the consumer.
\<close>

subsection \<open>The programs\<close>

datatype hook_call =
    Connect4 bpf_sock_addr
  | Connect6 bpf_sock_addr
  | Sendmsg4 bpf_sock_addr
  | Sendmsg6 bpf_sock_addr
  | SocketCreate s32 s32 s32 s32
  | TunCreate
  | TunOpen
  | TunAttachQueue
  | ExecCheck u64
  | FileOpen u64
  | FileUnlink u64 u64
  | FileRmdir u64 u64
  | FileRename u64 u64 u64 u64
  | FileLink u64 u64 u64
  | FileCreate u64 u64
  | FileMkdir u64 u64
  | FileSymlink u64 u64
  | FileMknod u64 u64
  | FileSetattrV1 u64 u64
  | FileSetattrV2 u64 u64 u64
  | GuardBpf s32
  | GuardTaskKill u64 s32
  | GuardPtrace u64 u32
  | GuardPinUnlink u64 u64
  | GuardPinRename u64 u64 u64 u64
  | GuardPinRmdir u64 u64
  | GuardUmount u64 s32

fun run_hook :: "hook_call \<Rightarrow> s32 \<Rightarrow> kenv \<Rightarrow> rk_maps \<Rightarrow> rk_cpu \<Rightarrow> s32 \<times> rk_cpu" where
  "run_hook (Connect4 ctx) ret = (\<lambda>e m. rk_net_connect4 e m ctx)"
| "run_hook (Connect6 ctx) ret = (\<lambda>e m. rk_net_connect6 e m ctx)"
| "run_hook (Sendmsg4 ctx) ret = (\<lambda>e m. rk_net_sendmsg4 e m ctx)"
| "run_hook (Sendmsg6 ctx) ret = (\<lambda>e m. rk_net_sendmsg6 e m ctx)"
| "run_hook (SocketCreate family ty proto kern) ret = (\<lambda>e m. rk_net_socket_create e m family ty proto kern ret)"
| "run_hook TunCreate ret = (\<lambda>e m. rk_net_tun_create e m ret)"
| "run_hook TunOpen ret = (\<lambda>e m. rk_net_tun_open e m ret)"
| "run_hook TunAttachQueue ret = (\<lambda>e m. rk_net_tun_attach_queue e m ret)"
| "run_hook (ExecCheck bprm) ret = (\<lambda>e m. rk_exec_check e m bprm ret)"
| "run_hook (FileOpen file) ret = (\<lambda>e m. rk_file_open e m file ret)"
| "run_hook (FileUnlink dir dentry) ret = (\<lambda>e m. rk_file_unlink e m dir dentry ret)"
| "run_hook (FileRmdir dir dentry) ret = (\<lambda>e m. rk_file_rmdir e m dir dentry ret)"
| "run_hook (FileRename old_dir old_dentry new_dir new_dentry) ret =
     (\<lambda>e m. rk_file_rename e m old_dir old_dentry new_dir new_dentry ret)"
| "run_hook (FileLink old_dentry dir new_dentry) ret = (\<lambda>e m. rk_file_link e m old_dentry dir new_dentry ret)"
| "run_hook (FileCreate dir dentry) ret = (\<lambda>e m. rk_file_create e m dir dentry ret)"
| "run_hook (FileMkdir dir dentry) ret = (\<lambda>e m. rk_file_mkdir e m dir dentry ret)"
| "run_hook (FileSymlink dir dentry) ret = (\<lambda>e m. rk_file_symlink e m dir dentry ret)"
| "run_hook (FileMknod dir dentry) ret = (\<lambda>e m. rk_file_mknod e m dir dentry ret)"
| "run_hook (FileSetattrV1 dentry attr) ret = (\<lambda>e m. rk_file_setattr_v1 e m dentry attr ret)"
| "run_hook (FileSetattrV2 idmap dentry attr) ret = (\<lambda>e m. rk_file_setattr_v2 e m idmap dentry attr ret)"
| "run_hook (GuardBpf cmd) ret = (\<lambda>e m. rk_guard_bpf e m cmd)"
| "run_hook (GuardTaskKill p sig) ret = (\<lambda>e m. rk_guard_task_kill e m p sig ret)"
| "run_hook (GuardPtrace child mode) ret = (\<lambda>e m. rk_guard_ptrace e m child mode ret)"
| "run_hook (GuardPinUnlink dir dentry) ret = (\<lambda>e m. rk_guard_pin_unlink e m dir dentry ret)"
| "run_hook (GuardPinRename old_dir old_dentry new_dir new_dentry) ret =
     (\<lambda>e m. rk_guard_pin_rename e m old_dir old_dentry new_dir new_dentry ret)"
| "run_hook (GuardPinRmdir dir dentry) ret = (\<lambda>e m. rk_guard_pin_rmdir e m dir dentry ret)"
| "run_hook (GuardUmount mnt flags) ret = (\<lambda>e m. rk_guard_umount e m mnt flags ret)"

text \<open>The cgroup programs return 1 and 0, the LSM programs 0 and \<open>-EPERM\<close>.\<close>

fun is_cgroup_hook :: "hook_call \<Rightarrow> bool" where
  "is_cgroup_hook (Connect4 _) = True"
| "is_cgroup_hook (Connect6 _) = True"
| "is_cgroup_hook (Sendmsg4 _) = True"
| "is_cgroup_hook (Sendmsg6 _) = True"
| "is_cgroup_hook _ = False"

definition allowed :: "hook_call \<Rightarrow> s32" where
  "allowed c = (if is_cgroup_hook c then 1 else 0)"

definition denied :: "hook_call \<Rightarrow> s32" where
  "denied c = (if is_cgroup_hook c then 0 else - 1)"

subsection \<open>What each program decides\<close>

fun hook_decisions :: "hook_call \<Rightarrow> kenv \<Rightarrow> rk_maps \<Rightarrow> rk_gov \<Rightarrow> decision list" where
  "hook_decisions (Connect4 ctx) = (\<lambda>e m g. [sock_addr_decision ctx False 3 m g])"
| "hook_decisions (Connect6 ctx) = (\<lambda>e m g. [sock_addr_decision ctx True 3 m g])"
| "hook_decisions (Sendmsg4 ctx) = (\<lambda>e m g. [sock_addr_decision ctx False 9 m g])"
| "hook_decisions (Sendmsg6 ctx) = (\<lambda>e m g. [sock_addr_decision ctx True 9 m g])"
| "hook_decisions (SocketCreate family ty proto kern) = (\<lambda>e m g.
     if kern = 0 \<and> \<not> rk_sock_observed family ty proto then [socket_create_decision family ty proto g] else [])"
| "hook_decisions TunCreate = (\<lambda>e m g. [tun_decision 1 g])"
| "hook_decisions TunOpen = (\<lambda>e m g. [tun_decision 2 g])"
| "hook_decisions TunAttachQueue = (\<lambda>e m g. [tun_decision 3 g])"
| "hook_decisions (ExecCheck bprm) = (\<lambda>e m g. [exec_decision bprm e m g])"
| "hook_decisions (FileOpen file) = (\<lambda>e m g. map (file_decision e m g) (open_req (heap e) file))"
| "hook_decisions (FileUnlink dir dentry) = (\<lambda>e m g. map (file_decision e m g) (dentry_req (heap e) dentry 16 2))"
| "hook_decisions (FileRmdir dir dentry) = (\<lambda>e m g. map (file_decision e m g) (dentry_req (heap e) dentry 16 2))"
| "hook_decisions (FileRename old_dir old_dentry new_dir new_dentry) =
     (\<lambda>e m g. map (file_decision e m g) (rename_req (heap e) old_dentry new_dir new_dentry))"
| "hook_decisions (FileLink old_dentry dir new_dentry) =
     (\<lambda>e m g. map (file_decision e m g) (link_req (heap e) old_dentry dir new_dentry))"
| "hook_decisions (FileCreate dir dentry) = (\<lambda>e m g. map (file_decision e m g) (create_req (heap e) dir dentry 5))"
| "hook_decisions (FileMkdir dir dentry) = (\<lambda>e m g. map (file_decision e m g) (create_req (heap e) dir dentry 5))"
| "hook_decisions (FileSymlink dir dentry) = (\<lambda>e m g. map (file_decision e m g) (create_req (heap e) dir dentry 5))"
| "hook_decisions (FileMknod dir dentry) = (\<lambda>e m g. map (file_decision e m g) (create_req (heap e) dir dentry 5))"
| "hook_decisions (FileSetattrV1 dentry attr) = (\<lambda>e m g. map (file_decision e m g) (setattr_req (heap e) dentry attr))"
| "hook_decisions (FileSetattrV2 idmap dentry attr) = (\<lambda>e m g. map (file_decision e m g) (setattr_req (heap e) dentry attr))"
| "hook_decisions (GuardBpf cmd) = (\<lambda>e m g. [guard_decision 1 0 (scast cmd)])"
| "hook_decisions (GuardTaskKill p sig) = (\<lambda>e m g.
     if rk_is_sensor (heap e) m p then [guard_decision 2 (t_tgid (rd_task (heap e) p)) (scast sig)] else [])"
| "hook_decisions (GuardPtrace child mode) = (\<lambda>e m g.
     if rk_is_sensor (heap e) m child then [guard_decision 3 (t_tgid (rd_task (heap e) child)) (ucast mode)] else [])"
| "hook_decisions (GuardPinUnlink dir dentry) = (\<lambda>e m g.
     if rk_is_bpffs (heap e) (i_sb (rd_inode (heap e) dir)) then [guard_decision 4 0 0] else [])"
| "hook_decisions (GuardPinRename old_dir old_dentry new_dir new_dentry) = (\<lambda>e m g.
     if rk_is_bpffs (heap e) (i_sb (rd_inode (heap e) old_dir)) \<or> rk_is_bpffs (heap e) (i_sb (rd_inode (heap e) new_dir))
     then [guard_decision RK_TAMPER_PIN_RENAME 0 0] else [])"
| "hook_decisions (GuardPinRmdir dir dentry) = (\<lambda>e m g.
     if rk_is_bpffs (heap e) (i_sb (rd_inode (heap e) dir)) then [guard_decision RK_TAMPER_PIN_RMDIR 0 0] else [])"
| "hook_decisions (GuardUmount mnt flags) = (\<lambda>e m g.
     if rk_is_bpffs (heap e) (mnt_sb (rd_vfsmount (heap e) mnt)) then [guard_decision RK_TAMPER_UMOUNT 0 (scast flags)] else [])"

lemmas hook_contracts =
  connect4.decision_hook_axioms connect6.decision_hook_axioms sendmsg4.decision_hook_axioms sendmsg6.decision_hook_axioms
  socket_create.decision_hook_axioms tun_create.decision_hook_axioms tun_open.decision_hook_axioms tun_attach.decision_hook_axioms
  exec_check.decision_hook_axioms file_open.decision_hook_axioms file_unlink.decision_hook_axioms file_rmdir.decision_hook_axioms
  file_rename.decision_hook_axioms file_link.decision_hook_axioms file_create.decision_hook_axioms file_mkdir.decision_hook_axioms
  file_symlink.decision_hook_axioms file_mknod.decision_hook_axioms file_setattr_v1.decision_hook_axioms
  file_setattr_v2.decision_hook_axioms guard_bpf.decision_hook_axioms guard_task_kill.decision_hook_axioms
  guard_ptrace.decision_hook_axioms guard_pin_unlink.decision_hook_axioms guard_pin_rename.decision_hook_axioms
  guard_pin_rmdir.decision_hook_axioms guard_umount.decision_hook_axioms

lemmas hook_frames =
  connect4.decided_frame connect6.decided_frame sendmsg4.decided_frame sendmsg6.decided_frame
  socket_create.decided_frame tun_create.decided_frame tun_open.decided_frame tun_attach.decided_frame
  file_open.decided_frame file_unlink.decided_frame file_rmdir.decided_frame
  file_rename.decided_frame file_link.decided_frame file_create.decided_frame file_mkdir.decided_frame
  file_symlink.decided_frame file_mknod.decided_frame file_setattr_v1.decided_frame
  file_setattr_v2.decided_frame guard_bpf.decided_frame guard_task_kill.decided_frame
  guard_ptrace.decided_frame guard_pin_unlink.decided_frame guard_pin_rename.decided_frame
  guard_pin_rmdir.decided_frame guard_umount.decided_frame

interpretation hook: decision_hook "run_hook c 0" "hook_decisions c" "allowed c" "denied c" for c
proof -
  show "decision_hook (run_hook c 0) (hook_decisions c) (allowed c) (denied c)"
    by (cases c) (simp_all only: run_hook.simps hook_decisions.simps allowed_def denied_def is_cgroup_hook.simps if_True if_False hook_contracts)
qed

subsection \<open>Policies that agree on the active slot\<close>

text \<open>Two policies whose network, exec and file rules under one scope are the same.\<close>

definition same_rules :: "u32 \<Rightarrow> rk_maps \<Rightarrow> rk_maps \<Rightarrow> bool" where
  "same_rules sc m m' \<longleftrightarrow>
     (\<forall>k. nk_scope k = sc \<longrightarrow> rk_net_deny m k = rk_net_deny m' k \<and> rk_net_allow m k = rk_net_allow m' k) \<and>
     (\<forall>k. xk_scope k = sc \<longrightarrow> rk_exec_allow m k = rk_exec_allow m' k) \<and>
     (\<forall>k. fk_scope k = sc \<longrightarrow> rk_file_protect m k = rk_file_protect m' k)"

text \<open>
  Two policies that agree on everything but the inactive slot: bindings, the single entries of the
  one-element arrays, the active slot's profiles, and the rules under the active slot's scopes and
  under the reserved scope.
\<close>

definition same_active :: "rk_maps \<Rightarrow> rk_maps \<Rightarrow> bool" where
  "same_active m m' \<longleftrightarrow>
     rk_cgroup_profile m = rk_cgroup_profile m' \<and> rk_active_slot m 0 = rk_active_slot m' 0 \<and>
     rk_heartbeat m 0 = rk_heartbeat m' 0 \<and> rk_config_map m 0 = rk_config_map m' 0 \<and> rk_guard_map m 0 = rk_guard_map m' 0 \<and>
     (\<forall>p < RK_MAX_PROFILES. rk_profiles m (active_slot m * RK_MAX_PROFILES + p) = rk_profiles m' (active_slot m * RK_MAX_PROFILES + p) \<and>
        same_rules (rk_scope (active_slot m) p) m m') \<and>
     same_rules 0xffffffff m m'"

lemma same_active_governance:
  assumes "same_active m m'"
  shows "rk_governance e m = rk_governance e m'"
    and "rk_governance e m = Some g \<Longrightarrow> same_rules (g_scope g) m m'"
proof -
  have eq: "rk_cgroup_profile m = rk_cgroup_profile m'" "rk_active_slot m 0 = rk_active_slot m' 0"
    "rk_heartbeat m 0 = rk_heartbeat m' 0" "rk_config_map m 0 = rk_config_map m' 0" using assms by (simp_all add: same_active_def)
  have walk: "rk_ancestor_walk e m levels self l = rk_ancestor_walk e m' levels self l" for levels self l
    by (induction l) (simp_all add: eq Let_def split: option.split)
  have b: "rk_governed_binding e m self = rk_governed_binding e m' self" for self
    unfolding rk_governed_binding_def walk eq by (rule refl)
  have slot: "active_slot m = active_slot m'" by (simp add: active_slot_def eq)
  have st: "rk_heartbeat_stale e m = rk_heartbeat_stale e m'" by (simp add: rk_heartbeat_stale_def eq)
  have prof: "active_profile m x = active_profile m' x" for x
    using assms by (auto simp: active_profile_def same_active_def slot not_le)
  have fc: "gov_fail_closed e m c = gov_fail_closed e m' c" "gov_of_profile e m c sl p pr = gov_of_profile e m' c sl p pr" for c sl p pr
    by (simp_all add: gov_fail_closed_def gov_of_profile_def st)
  show "rk_governance e m = rk_governance e m'"
  proof (cases "rk_governed_binding e m (current_cgroup_id e)")
    case (Some cb)
    then obtain c x where x: "rk_governed_binding e m (current_cgroup_id e) = Some (c, x)" by (cases cb) simp
    have x': "rk_governed_binding e m' (current_cgroup_id e) = Some (c, x)" using x by (simp add: b)
    show ?thesis
      unfolding rk_governance_bound [OF x] rk_governance_bound [OF x'] prof slot fc by (rule refl)
  qed (simp add: rk_governance_def b [symmetric])
  show "rk_governance e m = Some g \<Longrightarrow> same_rules (g_scope g) m m'"
    using assms by (auto simp: rk_governance_def same_active_def gov_fail_closed_def gov_of_profile_def Let_def not_le
        split: option.splits if_splits)
qed


lemma same_rules_lookup:
  assumes "same_rules (g_scope g) m m'"
  shows "rk_net_verdict m g addr port proto = rk_net_verdict m' g addr port proto"
    and "exec_action m g flags (rk_exec_key_of h g inode) = exec_action m' g flags (rk_exec_key_of h g inode)"
    and "rk_exec_allow m (rk_exec_key_of h g inode) = rk_exec_allow m' (rk_exec_key_of h g inode)"
    and "file_action h m g inode d acc = file_action h m' g inode d acc"
proof -
  have k: "rk_net_deny m (net_key g addr) = rk_net_deny m' (net_key g addr)"
    "rk_net_allow m (net_key g addr) = rk_net_allow m' (net_key g addr)"
    using assms by (simp_all add: same_rules_def net_key_def)
  then show "rk_net_verdict m g addr port proto = rk_net_verdict m' g addr port proto"
    unfolding rk_net_verdict_def rk_net_match_def by (simp only:)
  show x: "rk_exec_allow m (rk_exec_key_of h g inode) = rk_exec_allow m' (rk_exec_key_of h g inode)"
    using assms by (simp add: same_rules_def rk_exec_key_of_def)
  then show "exec_action m g flags (rk_exec_key_of h g inode) = exec_action m' g flags (rk_exec_key_of h g inode)"
    by (simp add: exec_action_def)
  have f: "rk_file_protect m (rk_file_key_of h g i) = rk_file_protect m' (rk_file_key_of h g i)" for i
    using assms by (simp add: same_rules_def rk_file_key_of_def)
  have "rk_file_walk h m g acc cur n = rk_file_walk h m' g acc cur n" for cur n
    by (induction n arbitrary: cur) (simp_all add: f Let_def split: option.split)
  then show "file_action h m g inode d acc = file_action h m' g inode d acc"
    unfolding file_action_def f by simp
qed

lemma same_rules_file_check:
  assumes "same_rules (g_scope g) m m'"
  shows "rk_file_check e m g q s = rk_file_check e m' g q s"
    "rk_dir_create_check e m g dir dentry hk s = rk_dir_create_check e m' g dir dentry hk s"
    "rk_setattr_check e m g dentry attr s = rk_setattr_check e m' g dentry attr s"
  unfolding rk_file_check_def rk_dir_create_check_def rk_setattr_check_def same_rules_lookup(4) [OF assms] by (rule refl)+

lemmas hook_defs = rk_net_connect4_def rk_net_connect6_def rk_net_sendmsg4_def rk_net_sendmsg6_def rk_net_sock_addr_def
  rk_net_socket_create_def rk_net_tun_create_def rk_net_tun_open_def rk_net_tun_attach_queue_def rk_net_tun_def
  rk_exec_check_def rk_file_open_def rk_file_unlink_def rk_file_rmdir_def rk_file_rename_def rk_file_link_def
  rk_file_create_def rk_file_mkdir_def rk_file_symlink_def rk_file_mknod_def rk_create_check_def rk_file_setattr_v1_def
  rk_file_setattr_v2_def guard_hook_defs

text \<open>Policies that agree on the active slot make every program behave identically.\<close>

lemma same_active_runs:
  assumes "same_active m m'"
  shows "run_hook c ret e m s = run_hook c ret e m' s \<and> rk_exec_record e m p old_pid bprm s = rk_exec_record e m' p old_pid bprm s"
proof -
  note gov = same_active_governance(1) [OF assms, of e]
  have sens: "rk_is_sensor h m = rk_is_sensor h m'" for h
    using assms by (intro ext) (simp add: rk_is_sensor_def same_active_def)
  have rules: "same_rules (g_scope g) m m'" if "rk_governance e m' = Some g" for g
    using same_active_governance(2) [OF assms, of e g] gov that by simp
  have hooks: "run_hook c ret e m s = run_hook c ret e m' s"
  proof (cases "rk_governance e m'")
    case None
    show ?thesis
      by (cases c, simp_all only: run_hook.simps, unfold hook_defs gov sens None option.case, (rule refl)+)
  next
    case (Some g)
    note eqs = same_rules_lookup [OF rules [OF Some]] same_rules_file_check [OF rules [OF Some]]
    show ?thesis
      by (cases c, simp_all only: run_hook.simps, unfold hook_defs gov sens Some option.case Let_def eqs, (rule refl)+)
  qed
  have "rk_exec_record e m p old_pid bprm s = rk_exec_record e m' p old_pid bprm s"
  proof (cases "rk_governance e m'")
    case None
    then show ?thesis using gov by (simp add: rk_exec_record_def)
  next
    case (Some g)
    show ?thesis
      unfolding rk_exec_record_def gov Some option.case Let_def same_rules_lookup(3) [OF rules [OF Some]] by (rule refl)
  qed
  with hooks show ?thesis by blast
qed

subsection \<open>Programs that see an earlier verdict\<close>

text \<open>The LSM programs that see the verdict of the modules before them.\<close>

fun sees_ret :: "hook_call \<Rightarrow> bool" where
  "sees_ret (GuardBpf _) = False"
| "sees_ret c = (\<not> is_cgroup_hook c)"

lemma run_hook_ret: "run_hook c ret e m s = (if ret \<noteq> 0 \<and> sees_ret c then (ret, s) else run_hook c 0 e m s)"
  by (cases c) (simp_all add: rk_net_socket_create_def rk_net_tun_create_def rk_net_tun_open_def
      rk_net_tun_attach_queue_def rk_exec_check_def rk_file_open_def rk_file_unlink_def rk_file_rmdir_def rk_file_rename_def
      rk_file_link_def rk_file_create_def rk_file_mkdir_def rk_file_symlink_def rk_file_mknod_def rk_create_check_def
      rk_file_setattr_v1_def rk_file_setattr_v2_def guard_hook_defs)

lemma exec_check_other:
  assumes "lru_keeps e k" "k \<noteq> ucast (current_pid_tgid e)"
  shows "rk_exec_decided (snd (rk_exec_check e m bprm 0 s)) k = rk_exec_decided s k"
  using assms by (auto simp: rk_exec_check_def decided_update_def Let_def split: option.split prod.split)

lemma exec_record_other:
  assumes "k \<noteq> old_pid"
  shows "rk_exec_decided (snd (rk_exec_record e m p old_pid bprm s)) k = rk_exec_decided s k"
proof -
  have "rk_exec_decided (rk_emit e msg s) = rk_exec_decided s" for msg s
    by (simp add: rk_emit_def Let_def)
  then show ?thesis
    using assms by (auto simp: rk_exec_record_def rk_scratch_def Let_def split: option.split)
qed

subsection \<open>Interleavings\<close>

text \<open>
  The system on one CPU: a program of the object runs, the sensor rewrites the policy maps, or the
  consumer takes the oldest records off the ring buffer.
\<close>

inductive rk_step :: "rk_maps \<times> rk_cpu \<Rightarrow> rk_maps \<times> rk_cpu \<Rightarrow> bool" where
  step_hook: "probe_ok e \<Longrightarrow> rk_step (m, s) (m, snd (run_hook c ret e m s))"
| step_record: "probe_ok e \<Longrightarrow> rk_step (m, s) (m, snd (rk_exec_record e m p old_pid bprm s))"
| step_policy: "rk_step (m, s) (m', s)"
| step_consume: "rk_step (m, s) (m, s\<lparr>events_ringbuf := drop n (events_ringbuf s)\<rparr>)"

inductive_cases rk_stepE: "rk_step (m, s) (m', s')"

definition cpu_inv :: "rk_cpu \<Rightarrow> bool" where
  "cpu_inv s \<longleftrightarrow> wf_cpu s \<and> list_all (\<lambda>r. record_ok (fst r)) (events_ringbuf s)"

context rk_emitter
begin

lemma keeps_inv:
  assumes "cpu_inv s" "probe_ok e"
  shows "cpu_inv (snd (run e m s))"
proof -
  have s: "wf_cpu s" "list_all (\<lambda>r. record_ok (fst r)) (events_ringbuf s)" using assms(1) by (simp_all add: cpu_inv_def)
  obtain rs where "events_ringbuf (snd (run e m s)) = events_ringbuf s @ rs" "list_all (\<lambda>r. record_ok (fst r)) rs"
    using ring_run [OF s(1) assms(2)] by blast
  then show ?thesis using s(2) wf_run [OF s(1) assms(2)] by (simp add: cpu_inv_def)
qed

end

lemma rk_step_inv:
  assumes "rk_step x y" "cpu_inv (snd x)"
  shows "cpu_inv (snd y)"
  using assms
proof cases
  case (step_hook e m s c ret)
  then show ?thesis
    using assms(2) hook.emitter.keeps_inv by (subst step_hook(2), subst run_hook_ret) auto
next
  case (step_record e m s p old_pid bprm)
  then show ?thesis using assms(2) exec_record.keeps_inv by simp
next
  case (step_policy m s m')
  then show ?thesis using assms(2) by simp
next
  case (step_consume m s n)
  then show ?thesis using assms(2)
    by (auto simp: cpu_inv_def wf_cpu_def has_counters_def list_all_iff dest: in_set_dropD)
qed

end
