(* ===== verification/Rk_Selftest.thy ===== *)
theory Rk_Selftest
  imports Rk_Net
begin

text \<open>
  The programs loaded only by \<open>rk-sensor --selftest\<close>: \<open>rk-bpf/src/rk_selftest.bpf.c\<close>, which emits
  real records through the production helpers, and the feature probes of \<open>rk-bpf/src/rk_probes.bpf.c\<close>.
\<close>

subsection \<open>The selftest programs\<close>

abbreviation (input) RK_TEST_NET_1 :: u32 where "RK_TEST_NET_1 \<equiv> 0xC0000201"
abbreviation (input) RK_TEST_RULE_ID :: u32 where "RK_TEST_RULE_ID \<equiv> 1"

definition test_open_body :: "kheap \<Rightarrow> u64 \<Rightarrow> rk_scratch_buf \<Rightarrow> rk_scratch_buf" where
  "test_open_body h file msg =
     (let f = rd_file h file; inode = rd_inode h (f_inode f);
          msg = msg_store 0 (le 8 (ucast (s_dev (rd_super_block h (i_sb inode))) :: u64)) msg;
          msg = msg_store 8 (le 8 (i_ino inode)) msg;
          msg = msg_store 16 (le 4 (f_flags f)) msg;
          msg = msg_store 20 (le 4 (f_mode f)) msg;
          msg = msg_store 24 (le 2 (1 :: u16)) msg;
          msg = msg_store 26 (le 2 (0 :: u16)) msg;
          msg = msg_store 28 (le 4 (0 :: u32)) msg
      in msg\<lparr>msg_payload_len := 32\<rparr>)"

definition open_name :: "kheap \<Rightarrow> u64 \<Rightarrow> u64" where
  "open_name h file = d_name_name (rd_dentry h (f_path_dentry (rd_file h file)))"

definition rk_test_lsm_open :: "kenv \<Rightarrow> rk_maps \<Rightarrow> u64 \<Rightarrow> s32 \<Rightarrow> rk_cpu \<Rightarrow> s32 \<times> rk_cpu" where
  "rk_test_lsm_open e m file ret s =
     (if ret \<noteq> 0 then (ret, s)
      else
        let s = (case lsm_exec_counter s 0 of
                   Some c \<Rightarrow> s\<lparr>lsm_exec_counter := (lsm_exec_counter s)(0 \<mapsto> c + 1)\<rparr>
                 | None \<Rightarrow> s);
            cg = current_cgroup_id e;
            gen = rk_governed_gen m cg
        in if gen = 0 then (0, s)
           else (0, rk_send e (\<lambda>n msg.
                  rk_append_kstr e (open_name (heap e) file) 256
                    (test_open_body (heap e) file
                      (msg\<lparr>msg_hdr := rk_fill_task e (rk_fill_hdr e n cg gen RK_EV_FILE_OPEN RK_VERDICT_ALLOW 0 (msg_hdr msg))\<rparr>))) s))"

definition bpf_htonl :: "u32 \<Rightarrow> u32" where
  "bpf_htonl x = push_bit 24 x OR (push_bit 8 x AND 0xff0000) OR (drop_bit 8 x AND 0xff00) OR drop_bit 24 x"

definition test_connect_body :: "u32 \<Rightarrow> u32 \<Rightarrow> u32 \<Rightarrow> rk_scratch_buf \<Rightarrow> rk_scratch_buf" where
  "test_connect_body addr port proto msg =
     (let msg = msg_store 0 (replicate 40 0) msg;
          msg = msg_store 26 [0xff] msg;
          msg = msg_store 27 [0xff] msg;
          msg = msg_store 28 (le 4 addr) msg;
          msg = msg_store 34 (le 2 (bpf_ntohs (ucast port))) msg;
          msg = msg_store 36 (le 2 (RK_AF_INET :: u16)) msg;
          msg = msg_store 38 (le 1 (ucast proto :: u8)) msg
      in msg\<lparr>msg_payload_len := 40\<rparr>)"

definition rk_test_connect4 :: "kenv \<Rightarrow> rk_maps \<Rightarrow> bpf_sock_addr \<Rightarrow> rk_cpu \<Rightarrow> s32 \<times> rk_cpu" where
  "rk_test_connect4 e m ctx s =
     (let addr = user_ip4 ctx;
          deny = (addr = bpf_htonl RK_TEST_NET_1);
          s = rk_send e (\<lambda>n msg.
                test_connect_body addr (user_port ctx) (protocol ctx)
                  (msg\<lparr>msg_hdr := rk_fill_hdr e n 0 0 RK_EV_NET_CONNECT
                     (if deny then RK_VERDICT_DENY else RK_VERDICT_ALLOW) (if deny then RK_TEST_RULE_ID else 0) (msg_hdr msg)\<rparr>)) s
      in (if deny then 0 else 1, s))"

text \<open>The probes only exercise a helper; both allow.\<close>

definition rk_probe_sockaddr_cgroup_id :: "kenv \<Rightarrow> bpf_sock_addr \<Rightarrow> s32" where
  "rk_probe_sockaddr_cgroup_id e ctx = (if current_cgroup_id e \<noteq> 0 then 1 else 1)"

definition rk_probe_sockaddr_pid_tgid :: "kenv \<Rightarrow> bpf_sock_addr \<Rightarrow> s32" where
  "rk_probe_sockaddr_pid_tgid e ctx = (if current_pid_tgid e \<noteq> 0 then 1 else 1)"

subsection \<open>What they emit\<close>

definition test_open_event :: "kenv \<Rightarrow> u64 \<Rightarrow> rk_event" where
  "test_open_event e file =
     (let h = heap e; f = rd_file h file; inode = rd_inode h (f_inode f)
      in FileEvent \<lparr>pf_file_dev = ucast (s_dev (rd_super_block h (i_sb inode))), pf_file_ino = i_ino inode,
           pf_open_flags = f_flags f, pf_mode = f_mode f, pf_str_count = 1, pf_pad = 0, pf_pad2 = 0\<rparr>
           [kstr_text e (open_name h file) 256])"

definition test_connect_event :: "bpf_sock_addr \<Rightarrow> rk_payload_net" where
  "test_connect_event ctx = net_event (sock_addr_bytes ctx False) (bpf_ntohs (ucast (user_port ctx))) RK_AF_INET (protocol ctx)"

definition test_connect_hdr :: "kenv \<Rightarrow> nat \<Rightarrow> bool \<Rightarrow> rk_hdr" where
  "test_connect_hdr e n deny =
     (event_hdr e n 0 0 RK_EV_NET_CONNECT (if deny then RK_VERDICT_DENY else RK_VERDICT_ALLOW) (if deny then RK_TEST_RULE_ID else 0))
       \<lparr>hdr_pid := 0, hdr_tgid := 0\<rparr>"

lemma test_connect_built:
  assumes "wf_scratch b" "msg_reserved b = 0" "msg_hdr b = h"
  shows "built h (enc_net (test_connect_event ctx)) (test_connect_body (user_ip4 ctx) (user_port ctx) (protocol ctx) b)"
proof -
  have m: "(replicate 16 (0 :: u8))[10 := 0xff, 11 := 0xff] = replicate 10 0 @ [0xff, 0xff] @ replicate 4 0" by code_simp
  show ?thesis
    using assms by (simp add: body_simps test_connect_body_def enc_net_def test_connect_event_def net_event_def sock_addr_bytes_def m
        flip: replicate_add)
qed

lemma test_open_built:
  assumes "wf_scratch b" "msg_reserved b = 0" "msg_hdr b = h" "probe_ok e"
  shows "built h (enc_event (test_open_event e file)) (rk_append_kstr e (open_name (heap e) file) 256 (test_open_body (heap e) file b))"
proof -
  have body: "fits (test_open_body (heap e) file b)" "msg_payload_len (test_open_body (heap e) file b) = 32"
    "msg_hdr (test_open_body (heap e) file b) = h" "msg_reserved (test_open_body (heap e) file b) = 0"
    using assms by (simp_all add: body_simps test_open_body_def fits_def)
  have content: "msg_content (test_open_body (heap e) file b) @ wire_str t = enc_event (FileEvent \<lparr>
      pf_file_dev = ucast (s_dev (rd_super_block (heap e) (i_sb (rd_inode (heap e) (f_inode (rd_file (heap e) file)))))),
      pf_file_ino = i_ino (rd_inode (heap e) (f_inode (rd_file (heap e) file))),
      pf_open_flags = f_flags (rd_file (heap e) file), pf_mode = f_mode (rd_file (heap e) file), pf_str_count = 1, pf_pad = 0, pf_pad2 = 0\<rparr> [t])" for t
    using assms by (simp add: body_simps test_open_body_def enc_file_def wire_strs_def)
  have cap: "str_cap 32 256 = 256" by (simp add: str_cap_def)
  note k = rk_append_kstr_content [OF body(1) assms(4), of "open_name (heap e) file" 256, unfolded body(2) cap]
  show ?thesis
    unfolding built_def test_open_event_def Let_def content [symmetric] using k body by (simp add: msg_content_def wf_scratch_def fits_def wire_str_def)
qed


lemma wf_test_connect: "wf_event (test_connect_hdr e n deny) (NetEvent (test_connect_event ctx))"
  by (simp add: wf_event_def test_connect_hdr_def event_hdr_def test_connect_event_def wf_net_event enc_net_def net_event_def)
    (simp add: wf_net_def)

lemma wf_test_open:
  assumes "probe_ok e"
  shows "wf_event (event_hdr e n cg gen 2 0 0) (test_open_event e fil)"
proof -
  have "length (kstr_text e (open_name (heap e) fil) 256) \<le> 256"
    using assms by (auto simp: kstr_text_def dest: probe_ok_kernel_str split: prod.split)
  then show ?thesis
    by (simp add: wf_event_def event_hdr_def test_open_event_def Let_def strs_ok_def enc_file_def wire_strs_def wire_str_def)
qed

lemma test_connect_refines:
  assumes "wf_cpu s"
  shows "abs_cpu (snd (rk_test_connect4 e m ctx s)) =
      emit_event e (\<lambda>n. test_connect_hdr e n (user_ip4 ctx = bpf_htonl RK_TEST_NET_1)) (enc_event (NetEvent (test_connect_event ctx))) (abs_cpu s)"
    and "wf_cpu (snd (rk_test_connect4 e m ctx s))"
proof -
  let ?h = "\<lambda>n. test_connect_hdr e n (user_ip4 ctx = bpf_htonl RK_TEST_NET_1)"
  let ?build = "\<lambda>n msg. test_connect_body (user_ip4 ctx) (user_port ctx) (protocol ctx) (msg\<lparr>msg_hdr := ?h n\<rparr>)"
  have bt: "built (?h n) (enc_event (NetEvent (test_connect_event ctx))) (?build n b)"
    if "wf_scratch b" "msg_payload_len b = 0" "msg_reserved b = 0" for n b
    using that test_connect_built [of "b\<lparr>msg_hdr := ?h n\<rparr>" "?h n" ctx] by (simp add: wf_scratch_def)
  have hdr: "rk_fill_hdr e n 0 0 3 v r h = (event_hdr e n 0 0 3 v r)\<lparr>hdr_pid := 0, hdr_tgid := 0\<rparr>" for n v r h
    by (simp add: rk_fill_hdr_def event_hdr_def)
  have run: "snd (rk_test_connect4 e m ctx s) = rk_send e ?build s"
    by (simp add: rk_test_connect4_def Let_def test_connect_hdr_def hdr)
  show "abs_cpu (snd (rk_test_connect4 e m ctx s)) = emit_event e ?h (enc_event (NetEvent (test_connect_event ctx))) (abs_cpu s)"
    "wf_cpu (snd (rk_test_connect4 e m ctx s))"
    unfolding run by (rule rk_send_refines [OF assms bt]; assumption)+
qed

interpretation test_connect4: rk_emitter "\<lambda>e m. rk_test_connect4 e m ctx" for ctx
proof
  fix s e m
  assume s: "wf_cpu s"
  show "wf_cpu (snd (rk_test_connect4 e m ctx s))" using s by (rule test_connect_refines)
  show "\<exists>rs. events_ringbuf (snd (rk_test_connect4 e m ctx s)) = events_ringbuf s @ rs \<and> list_all (\<lambda>r. record_ok (fst r)) rs"
    using test_connect_refines(1) [OF s] wf_test_connect by (rule emission_appends)
qed

text \<open>The state after the counter of \<open>rk_test_lsm_open\<close> was bumped.\<close>

definition count_open :: "rk_cpu \<Rightarrow> rk_cpu" where
  "count_open s = (case lsm_exec_counter s 0 of
     Some c \<Rightarrow> s\<lparr>lsm_exec_counter := (lsm_exec_counter s)(0 \<mapsto> c + 1)\<rparr> | None \<Rightarrow> s)"

lemma count_open_frame [simp]:
  "events_ringbuf (count_open s) = events_ringbuf s" "wf_cpu (count_open s) = wf_cpu s"
  by (simp_all add: count_open_def wf_cpu_def has_counters_def split: option.split)

lemma test_open_refines:
  assumes "wf_cpu s" "probe_ok e" "rk_governed_gen m (current_cgroup_id e) \<noteq> 0"
  shows "abs_cpu (snd (rk_test_lsm_open e m fil 0 s)) =
      emit_event e (\<lambda>n. event_hdr e n (current_cgroup_id e) (rk_governed_gen m (current_cgroup_id e)) 2 0 0)
        (enc_event (test_open_event e fil)) (abs_cpu (count_open s))"
    and "wf_cpu (snd (rk_test_lsm_open e m fil 0 s))"
proof -
  let ?h = "\<lambda>n. event_hdr e n (current_cgroup_id e) (rk_governed_gen m (current_cgroup_id e)) 2 0 0"
  let ?build = "\<lambda>n msg. rk_append_kstr e (open_name (heap e) fil) 256 (test_open_body (heap e) fil (msg\<lparr>msg_hdr := ?h n\<rparr>))"
  have bt: "built (?h n) (enc_event (test_open_event e fil)) (?build n b)"
    if "wf_scratch b" "msg_payload_len b = 0" "msg_reserved b = 0" for n b
    using that assms(2) by (intro test_open_built) (simp_all add: wf_scratch_def)
  have run: "snd (rk_test_lsm_open e m fil 0 s) = rk_send e ?build (count_open s)"
    using assms(3) by (simp add: rk_test_lsm_open_def count_open_def Let_def)
  have wf: "wf_cpu (count_open s)" using assms(1) by simp
  show "abs_cpu (snd (rk_test_lsm_open e m fil 0 s)) = emit_event e ?h (enc_event (test_open_event e fil)) (abs_cpu (count_open s))"
    "wf_cpu (snd (rk_test_lsm_open e m fil 0 s))"
    unfolding run by (rule rk_send_refines [OF wf bt]; assumption)+
qed

lemma test_open_idle: "rk_governed_gen m (current_cgroup_id e) = 0 \<Longrightarrow> rk_test_lsm_open e m fil 0 s = (0, count_open s)"
  by (simp add: rk_test_lsm_open_def count_open_def Let_def)

interpretation test_lsm_open: rk_emitter "\<lambda>e m. rk_test_lsm_open e m fil 0" for fil
proof
  fix s e m
  assume s: "wf_cpu s" "probe_ok e"
  show "wf_cpu (snd (rk_test_lsm_open e m fil 0 s))"
    using s test_open_refines(2) [OF s] test_open_idle by (cases "rk_governed_gen m (current_cgroup_id e) = 0") simp_all
  show "\<exists>rs. events_ringbuf (snd (rk_test_lsm_open e m fil 0 s)) = events_ringbuf s @ rs \<and> list_all (\<lambda>r. record_ok (fst r)) rs"
  proof (cases "rk_governed_gen m (current_cgroup_id e) = 0")
    case False
    have "\<exists>rs. events_ringbuf (snd (rk_test_lsm_open e m fil 0 s)) = events_ringbuf (count_open s) @ rs
        \<and> list_all (\<lambda>r. record_ok (fst r)) rs"
      using test_open_refines(1) [OF s False] wf_test_open [OF s(2)] by (rule emission_appends)
    then show ?thesis by simp
  qed (simp add: test_open_idle)
qed

subsection \<open>Properties\<close>

text \<open>
  The selftest's connect program denies exactly 192.0.2.1, whatever happens to its event and
  whatever the policy maps hold, and the two probes always allow.
\<close>

theorem test_connect4_denies_iff:
  "(fst (rk_test_connect4 e m ctx s) = 0 \<longleftrightarrow> le 4 (user_ip4 ctx) = [192, 0, 2, 1]) \<and>
   fst (rk_test_connect4 e m ctx s) \<in> {0, 1} \<and>
   rk_probe_sockaddr_cgroup_id e ctx = 1 \<and> rk_probe_sockaddr_pid_tgid e ctx = 1"
proof -
  have "le 4 (bpf_htonl 0xC0000201) = [192, 0, 2, 1]" by code_simp
  moreover have "le 4 x = le 4 y \<Longrightarrow> x = y" for x y :: u32
    by (metis unle_le_full(3))
  ultimately have "user_ip4 ctx = bpf_htonl 0xC0000201 \<longleftrightarrow> le 4 (user_ip4 ctx) = [192, 0, 2, 1]" by metis
  then show ?thesis
    by (simp add: rk_test_connect4_def rk_probe_sockaddr_cgroup_id_def rk_probe_sockaddr_pid_tgid_def Let_def)
qed

text \<open>
  The selftest's open program never blocks and counts every call, which is what shows that the
  LSM hook runs.
\<close>

theorem test_lsm_open_counts:
  "fst (rk_test_lsm_open e m fil 0 s) = 0 \<and>
   lsm_exec_counter (snd (rk_test_lsm_open e m fil 0 s)) 0 = map_option (\<lambda>c. c + 1) (lsm_exec_counter s 0)"
  by (auto simp: rk_test_lsm_open_def Let_def split: option.split)

end
