(* ===== verification/Kernel_X86.thy ===== *)
theory Kernel_X86
  imports C_Layout
begin

text \<open>
  The kernel types the programs read through, as \<open>rk-bpf/include/vmlinux/x86/vmlinux.h\<close> declares them for
  x86-64: every struct a program dereferences, and every struct and union those contain by value, in
  the order of the closure.  Scalars and enums are given by their size, pointers to structs keep the
  tag, bit-fields keep the declared type's size.  Each type is followed at the end by its size and
  alignment.
\<close>

subsection \<open>Declarations\<close>

definition x86_kuid_t :: ctype where
  "x86_kuid_t = CStruct [(''val'', CInt 4)]"

definition x86_kgid_t :: ctype where
  "x86_kgid_t = CStruct [(''val'', CInt 4)]"

definition x86_atomic_t :: ctype where
  "x86_atomic_t = CStruct [(''counter'', CInt 4)]"

definition x86_qspinlock :: ctype where
  "x86_qspinlock = CStruct [('''', CUnion [(''val'', x86_atomic_t), ('''', CStruct [(''locked'', CInt 1), (''pending'', CInt 1)]),
     ('''', CStruct [(''locked_pending'', CInt 2), (''tail'', CInt 2)])])]"

definition x86_raw_spinlock :: ctype where
  "x86_raw_spinlock = CStruct [(''raw_lock'', x86_qspinlock)]"

definition x86_spinlock :: ctype where
  "x86_spinlock = CStruct [('''', CUnion [(''rlock'', x86_raw_spinlock)])]"

definition x86_inode_state_flags :: ctype where
  "x86_inode_state_flags = CStruct [(''__state'', CInt 4)]"

definition x86_atomic64_t :: ctype where
  "x86_atomic64_t = CStruct [(''counter'', CInt 8)]"

definition x86_optimistic_spin_queue :: ctype where
  "x86_optimistic_spin_queue = CStruct [(''tail'', x86_atomic_t)]"

definition x86_list_head :: ctype where
  "x86_list_head = CStruct [(''next'', CPtr ''list_head''), (''prev'', CPtr ''list_head'')]"

definition x86_rw_semaphore :: ctype where
  "x86_rw_semaphore = CStruct [(''count'', x86_atomic64_t), (''owner'', x86_atomic64_t), (''osq'', x86_optimistic_spin_queue),
     (''wait_lock'', x86_raw_spinlock), (''wait_list'', x86_list_head)]"

definition x86_hlist_node :: ctype where
  "x86_hlist_node = CStruct [(''next'', CPtr ''hlist_node''), (''pprev'', CPtr '''')]"

definition x86_hlist_head :: ctype where
  "x86_hlist_head = CStruct [(''first'', CPtr ''hlist_node'')]"

definition x86_callback_head :: ctype where
  "x86_callback_head = CStruct [(''next'', CPtr ''callback_head''), (''func'', CPtr '''')]"

definition x86_xarray :: ctype where
  "x86_xarray = CStruct [(''xa_lock'', x86_spinlock), (''xa_flags'', CInt 4), (''xa_head'', CPtr '''')]"

definition x86_rb_root :: ctype where
  "x86_rb_root = CStruct [(''rb_node'', CPtr ''rb_node'')]"

definition x86_rb_root_cached :: ctype where
  "x86_rb_root_cached = CStruct [(''rb_root'', x86_rb_root), (''rb_leftmost'', CPtr ''rb_node'')]"

definition x86_address_space :: ctype where
  "x86_address_space = CStruct [(''host'', CPtr ''inode''), (''i_pages'', x86_xarray), (''invalidate_lock'', x86_rw_semaphore),
     (''gfp_mask'', CInt 4), (''i_mmap_writable'', x86_atomic_t), (''i_mmap'', x86_rb_root_cached),
     (''nrpages'', CInt 8), (''writeback_index'', CInt 8), (''a_ops'', CPtr ''address_space_operations''),
     (''flags'', CInt 8), (''wb_err'', CInt 4), (''i_private_lock'', x86_spinlock),
     (''i_private_list'', x86_list_head), (''i_mmap_rwsem'', x86_rw_semaphore), (''i_private_data'', CPtr '''')]"

definition x86_inode :: ctype where
  "x86_inode = CStruct [(''i_mode'', CInt 2), (''i_opflags'', CInt 2), (''i_flags'', CInt 4), (''i_uid'', x86_kuid_t),
     (''i_gid'', x86_kgid_t), (''i_op'', CPtr ''inode_operations''), (''i_sb'', CPtr ''super_block''),
     (''i_mapping'', CPtr ''address_space''), (''i_security'', CPtr ''''), (''i_ino'', CInt 8),
     ('''', CUnion [(''i_nlink'', CInt 4), (''__i_nlink'', CInt 4)]), (''i_rdev'', CInt 4), (''i_size'', CInt 8),
     (''i_atime_sec'', CInt 8), (''i_mtime_sec'', CInt 8), (''i_ctime_sec'', CInt 8), (''i_atime_nsec'', CInt 4),
     (''i_mtime_nsec'', CInt 4), (''i_ctime_nsec'', CInt 4), (''i_generation'', CInt 4), (''i_lock'', x86_spinlock),
     (''i_bytes'', CInt 2), (''i_blkbits'', CInt 1), (''i_write_hint'', CInt 1), (''i_blocks'', CInt 8),
     (''i_state'', x86_inode_state_flags), (''i_rwsem'', x86_rw_semaphore), (''dirtied_when'', CInt 8),
     (''dirtied_time_when'', CInt 8), (''i_hash'', x86_hlist_node), (''i_io_list'', x86_list_head),
     (''i_lru'', x86_list_head), (''i_sb_list'', x86_list_head), (''i_wb_list'', x86_list_head),
     ('''', CUnion [(''i_dentry'', x86_hlist_head), (''i_rcu'', x86_callback_head)]), (''i_version'', x86_atomic64_t),
     (''i_sequence'', x86_atomic64_t), (''i_count'', x86_atomic_t), (''i_dio_count'', x86_atomic_t),
     (''i_writecount'', x86_atomic_t), ('''', CUnion [(''i_fop'', CPtr ''file_operations''),
     (''free_inode'', CPtr '''')]), (''i_flctx'', CPtr ''file_lock_context''), (''i_data'', x86_address_space),
     ('''', CUnion [(''i_devices'', x86_list_head), (''i_linklen'', CInt 4)]),
     ('''', CUnion [(''i_pipe'', CPtr ''pipe_inode_info''), (''i_cdev'', CPtr ''cdev''), (''i_link'', CPtr ''''),
     (''i_dir_seq'', CInt 4)]), (''i_private'', CPtr '''')]"

definition x86_seqcount :: ctype where
  "x86_seqcount = CStruct [(''sequence'', CInt 4)]"

definition x86_seqcount_spinlock :: ctype where
  "x86_seqcount_spinlock = CStruct [(''seqcount'', x86_seqcount)]"

definition x86_hlist_bl_node :: ctype where
  "x86_hlist_bl_node = CStruct [(''next'', CPtr ''hlist_bl_node''), (''pprev'', CPtr '''')]"

definition x86_qstr :: ctype where
  "x86_qstr = CStruct [('''', CUnion [('''', CStruct [(''hash'', CInt 4), (''len'', CInt 4)]), (''hash_len'', CInt 8)]),
     (''name'', CPtr '''')]"

definition x86_shortname_store :: ctype where
  "x86_shortname_store = CUnion [(''string'', CArr 40 (CInt 1)), (''words'', CArr 5 (CInt 8))]"

definition x86_lockref :: ctype where
  "x86_lockref = CStruct [('''', CUnion [(''lock_count'', CInt 8), ('''', CStruct [(''lock'', x86_spinlock), (''count'', CInt 4)])])]"

definition x86_dentry :: ctype where
  "x86_dentry = CStruct [(''d_flags'', CInt 4), (''d_seq'', x86_seqcount_spinlock), (''d_hash'', x86_hlist_bl_node),
     (''d_parent'', CPtr ''dentry''), ('''', CUnion [(''__d_name'', x86_qstr), (''d_name'', x86_qstr)]),
     (''d_inode'', CPtr ''inode''), (''d_shortname'', x86_shortname_store), (''d_op'', CPtr ''dentry_operations''),
     (''d_sb'', CPtr ''super_block''), (''d_time'', CInt 8), (''d_fsdata'', CPtr ''''), (''d_lockref'', x86_lockref),
     ('''', CUnion [(''d_lru'', x86_list_head), (''d_wait'', CPtr '''')]), (''d_sib'', x86_hlist_node),
     (''d_children'', x86_hlist_head), (''d_u'', CUnion [(''d_alias'', x86_hlist_node),
     (''d_in_lookup_hash'', x86_hlist_bl_node), (''d_rcu'', x86_callback_head)])]"

definition x86_hlist_bl_head :: ctype where
  "x86_hlist_bl_head = CStruct [(''first'', CPtr ''hlist_bl_node'')]"

definition x86_mem_dqinfo :: ctype where
  "x86_mem_dqinfo = CStruct [(''dqi_format'', CPtr ''quota_format_type''), (''dqi_fmt_id'', CInt 4), (''dqi_dirty_list'', x86_list_head),
     (''dqi_flags'', CInt 8), (''dqi_bgrace'', CInt 4), (''dqi_igrace'', CInt 4), (''dqi_max_spc_limit'', CInt 8),
     (''dqi_max_ino_limit'', CInt 8), (''dqi_priv'', CPtr '''')]"

definition x86_quota_info :: ctype where
  "x86_quota_info = CStruct [(''flags'', CInt 4), (''dqio_sem'', x86_rw_semaphore), (''files'', CArr 3 (CPtr ''inode'')),
     (''info'', CArr 3 x86_mem_dqinfo), (''ops'', CArr 3 (CPtr ''quota_format_ops''))]"

definition x86_wait_queue_head :: ctype where
  "x86_wait_queue_head = CStruct [(''lock'', x86_spinlock), (''head'', x86_list_head)]"

definition x86_rcu_sync :: ctype where
  "x86_rcu_sync = CStruct [(''gp_state'', CInt 4), (''gp_count'', CInt 4), (''gp_wait'', x86_wait_queue_head),
     (''cb_head'', x86_callback_head)]"

definition x86_rcuwait :: ctype where
  "x86_rcuwait = CStruct [(''task'', CPtr ''task_struct'')]"

definition x86_percpu_rw_semaphore :: ctype where
  "x86_percpu_rw_semaphore = CStruct [(''rss'', x86_rcu_sync), (''read_count'', CPtr ''''), (''writer'', x86_rcuwait),
     (''waiters'', x86_wait_queue_head), (''block'', x86_atomic_t)]"

definition x86_sb_writers :: ctype where
  "x86_sb_writers = CStruct [(''frozen'', CInt 2), (''freeze_kcount'', CInt 4), (''freeze_ucount'', CInt 4), (''freeze_owner'', CPtr ''''),
     (''rw_sem'', CArr 3 x86_percpu_rw_semaphore)]"

definition x86_uuid_t :: ctype where
  "x86_uuid_t = CStruct [(''b'', CArr 16 (CInt 1))]"

definition x86_mutex :: ctype where
  "x86_mutex = CStruct [(''owner'', x86_atomic64_t), (''wait_lock'', x86_raw_spinlock), (''osq'', x86_optimistic_spin_queue),
     (''wait_list'', x86_list_head)]"

definition x86_list_lru :: ctype where
  "x86_list_lru = CStruct [(''node'', CPtr ''list_lru_node'')]"

definition x86_work_struct :: ctype where
  "x86_work_struct = CStruct [(''data'', x86_atomic64_t), (''entry'', x86_list_head), (''func'', CPtr '''')]"

definition x86_super_block :: ctype where
  "x86_super_block = CStruct [(''s_list'', x86_list_head), (''s_dev'', CInt 4), (''s_blocksize_bits'', CInt 1), (''s_blocksize'', CInt 8),
     (''s_maxbytes'', CInt 8), (''s_type'', CPtr ''file_system_type''), (''s_op'', CPtr ''super_operations''),
     (''dq_op'', CPtr ''dquot_operations''), (''s_qcop'', CPtr ''quotactl_ops''),
     (''s_export_op'', CPtr ''export_operations''), (''s_flags'', CInt 8), (''s_iflags'', CInt 8),
     (''s_magic'', CInt 8), (''s_root'', CPtr ''dentry''), (''s_umount'', x86_rw_semaphore), (''s_count'', CInt 4),
     (''s_active'', x86_atomic_t), (''s_security'', CPtr ''''), (''s_xattr'', CPtr ''''),
     (''s_roots'', x86_hlist_bl_head), (''s_mounts'', CPtr ''mount''), (''s_bdev'', CPtr ''block_device''),
     (''s_bdev_file'', CPtr ''file''), (''s_bdi'', CPtr ''backing_dev_info''), (''s_mtd'', CPtr ''mtd_info''),
     (''s_instances'', x86_hlist_node), (''s_quota_types'', CInt 4), (''s_dquot'', x86_quota_info),
     (''s_writers'', x86_sb_writers), (''s_fs_info'', CPtr ''''), (''s_time_gran'', CInt 4), (''s_time_min'', CInt 8),
     (''s_time_max'', CInt 8), (''s_id'', CArr 32 (CInt 1)), (''s_uuid'', x86_uuid_t), (''s_uuid_len'', CInt 1),
     (''s_sysfs_name'', CArr 37 (CInt 1)), (''s_max_links'', CInt 4), (''s_d_flags'', CInt 4),
     (''s_vfs_rename_mutex'', x86_mutex), (''s_subtype'', CPtr ''''), (''__s_d_op'', CPtr ''dentry_operations''),
     (''s_shrink'', CPtr ''shrinker''), (''s_remove_count'', x86_atomic64_t), (''s_readonly_remount'', CInt 4),
     (''s_wb_err'', CInt 4), (''s_dio_done_wq'', CPtr ''workqueue_struct''), (''s_pins'', x86_hlist_head),
     (''s_user_ns'', CPtr ''user_namespace''), (''s_dentry_lru'', x86_list_lru), (''s_inode_lru'', x86_list_lru),
     (''rcu'', x86_callback_head), (''destroy_work'', x86_work_struct), (''s_sync_lock'', x86_mutex),
     (''s_stack_depth'', CInt 4), ('''', CBits 8 64), ('''', CBits 8 64), (''s_inode_list_lock'', x86_spinlock),
     (''s_inodes'', x86_list_head), (''s_inode_wblist_lock'', x86_spinlock), (''s_inodes_wb'', x86_list_head),
     (''s_min_writeback_pages'', CInt 8), ('''', CBits 8 64)]"

definition x86_path :: ctype where
  "x86_path = CStruct [(''mnt'', CPtr ''vfsmount''), (''dentry'', CPtr ''dentry'')]"

definition x86_llist_node :: ctype where
  "x86_llist_node = CStruct [(''next'', CPtr ''llist_node'')]"

definition x86_file_ra_state :: ctype where
  "x86_file_ra_state = CStruct [(''start'', CInt 8), (''size'', CInt 4), (''async_size'', CInt 4), (''ra_pages'', CInt 4), (''order'', CInt 2),
     (''mmap_miss'', CInt 2), (''prev_pos'', CInt 8)]"

definition x86_freeptr_t :: ctype where
  "x86_freeptr_t = CStruct [(''v'', CInt 8)]"

definition x86_file_ref_t :: ctype where
  "x86_file_ref_t = CStruct [(''refcnt'', x86_atomic64_t)]"

definition x86_file :: ctype where
  "x86_file = CStruct [(''f_lock'', x86_spinlock), (''f_mode'', CInt 4), (''f_op'', CPtr ''file_operations''),
     (''f_mapping'', CPtr ''address_space''), (''private_data'', CPtr ''''), (''f_inode'', CPtr ''inode''),
     (''f_flags'', CInt 4), (''f_iocb_flags'', CInt 4), (''f_cred'', CPtr ''cred''),
     (''f_owner'', CPtr ''fown_struct''), ('''', CUnion [(''f_path'', x86_path), (''__f_path'', x86_path)]),
     ('''', CUnion [(''f_pos_lock'', x86_mutex), (''f_pipe'', CInt 8)]), (''f_pos'', CInt 8),
     (''f_security'', CPtr ''''), (''f_wb_err'', CInt 4), (''f_sb_err'', CInt 4),
     ('''', CUnion [(''f_task_work'', x86_callback_head), (''f_llist'', x86_llist_node),
     (''f_ra'', x86_file_ra_state), (''f_freeptr'', x86_freeptr_t)]), (''f_ref'', x86_file_ref_t)]"

definition x86_rlimit :: ctype where
  "x86_rlimit = CStruct [(''rlim_cur'', CInt 8), (''rlim_max'', CInt 8)]"

definition x86_linux_binprm :: ctype where
  "x86_linux_binprm = CStruct [(''vma'', CPtr ''vm_area_struct''), (''vma_pages'', CInt 8), (''argmin'', CInt 8), (''mm'', CPtr ''mm_struct''),
     (''p'', CInt 8), (''have_execfd'', CBits 4 1), (''execfd_creds'', CBits 4 1), (''secureexec'', CBits 4 1),
     (''point_of_no_return'', CBits 4 1), (''comm_from_dentry'', CBits 4 1), (''is_check'', CBits 4 1),
     (''executable'', CPtr ''file''), (''interpreter'', CPtr ''file''), (''file'', CPtr ''file''),
     (''cred'', CPtr ''cred''), (''unsafe'', CInt 4), (''per_clear'', CInt 4), (''argc'', CInt 4), (''envc'', CInt 4),
     (''filename'', CPtr ''''), (''interp'', CPtr ''''), (''fdpath'', CPtr ''''), (''interp_flags'', CInt 4),
     (''execfd'', CInt 4), (''exec'', CInt 8), (''rlim_stack'', x86_rlimit), (''buf'', CArr 256 (CInt 1))]"

definition x86_maple_tree :: ctype where
  "x86_maple_tree = CStruct [('''', CUnion [(''ma_lock'', x86_spinlock)]), (''ma_flags'', CInt 4), (''ma_root'', CPtr '''')]"

definition x86_mm_mm_cid :: ctype where
  "x86_mm_mm_cid = CStruct []"

definition x86_percpu_counter :: ctype where
  "x86_percpu_counter = CStruct [(''lock'', x86_raw_spinlock), (''count'', CInt 8), (''list'', x86_list_head), (''counters'', CPtr '''')]"

definition x86_mm_context_t :: ctype where
  "x86_mm_context_t = CStruct [(''ctx_id'', CInt 8), (''tlb_gen'', x86_atomic64_t), (''next_trim_cpumask'', CInt 8), (''flags'', CInt 8),
     (''lock'', x86_mutex), (''vdso'', CPtr ''''), (''vdso_image'', CPtr ''vdso_image''),
     (''perf_rdpmc_allowed'', x86_atomic_t), (''pkey_allocation_map'', CInt 2), (''execute_only_pkey'', CInt 2),
     (''global_asid'', CInt 2), (''asid_transition'', CInt 1)]"

definition x86_mm_flags_t :: ctype where
  "x86_mm_flags_t = CStruct [(''__mm_flags'', CArr 1 (CInt 8))]"

definition x86_uprobes_state :: ctype where
  "x86_uprobes_state = CStruct [(''xol_area'', CPtr ''xol_area''), (''head_tramps'', x86_hlist_head)]"

definition x86_mm_struct :: ctype where
  "x86_mm_struct = CStruct [('''', CStruct [('''', CStruct [(''mm_count'', x86_atomic_t), ('''', CBits 8 64), ('''', CBits 8 64),
     ('''', CBits 8 64), ('''', CBits 8 64), ('''', CBits 8 64), ('''', CBits 8 64), ('''', CBits 8 64)]),
     (''mm_mt'', x86_maple_tree), (''mmap_base'', CInt 8), (''mmap_legacy_base'', CInt 8), (''task_size'', CInt 8),
     (''pgd'', CPtr ''''), (''mm_users'', x86_atomic_t), (''mm_cid'', x86_mm_mm_cid),
     (''pgtables_bytes'', x86_atomic64_t), (''map_count'', CInt 4), (''page_table_lock'', x86_spinlock),
     (''mmap_lock'', x86_rw_semaphore), (''mmlist'', x86_list_head), (''vma_writer_wait'', x86_rcuwait),
     (''mm_lock_seq'', x86_seqcount), (''hiwater_rss'', CInt 8), (''hiwater_vm'', CInt 8), (''total_vm'', CInt 8),
     (''locked_vm'', CInt 8), (''pinned_vm'', x86_atomic64_t), (''data_vm'', CInt 8), (''exec_vm'', CInt 8),
     (''stack_vm'', CInt 8), (''def_flags'', CInt 8), (''write_protect_seq'', x86_seqcount),
     (''arg_lock'', x86_spinlock), (''start_code'', CInt 8), (''end_code'', CInt 8), (''start_data'', CInt 8),
     (''end_data'', CInt 8), (''start_brk'', CInt 8), (''brk'', CInt 8), (''start_stack'', CInt 8),
     (''arg_start'', CInt 8), (''arg_end'', CInt 8), (''env_start'', CInt 8), (''env_end'', CInt 8),
     (''saved_auxv'', CArr 50 (CInt 8)), (''rss_stat'', CArr 4 x86_percpu_counter),
     (''binfmt'', CPtr ''linux_binfmt''), (''context'', x86_mm_context_t), (''flags'', x86_mm_flags_t),
     (''user_ns'', CPtr ''user_namespace''), (''exe_file'', CPtr ''file''), (''tlb_flush_pending'', x86_atomic_t),
     (''tlb_flush_batched'', x86_atomic_t), (''uprobes_state'', x86_uprobes_state),
     (''async_put_work'', x86_work_struct), ('''', CBits 8 64), ('''', CBits 8 64), ('''', CBits 8 64),
     ('''', CBits 8 64)]), (''flexible_array'', CArr 0 (CInt 1))]"

definition x86_thread_info :: ctype where
  "x86_thread_info = CStruct [(''flags'', CInt 8), (''syscall_work'', CInt 8), (''status'', CInt 4), (''cpu'', CInt 4)]"

definition x86_refcount_struct :: ctype where
  "x86_refcount_struct = CStruct [(''refs'', x86_atomic_t)]"

definition x86_call_single_node :: ctype where
  "x86_call_single_node = CStruct [(''llist'', x86_llist_node), ('''', CUnion [(''u_flags'', CInt 4), (''a_flags'', x86_atomic_t)]),
     (''src'', CInt 2), (''dst'', CInt 2)]"

definition x86_load_weight :: ctype where
  "x86_load_weight = CStruct [(''weight'', CInt 8), (''inv_weight'', CInt 4)]"

definition x86_rb_node :: ctype where
  "x86_rb_node = CStruct [(''__rb_parent_color'', CInt 8), (''rb_right'', CPtr ''rb_node''), (''rb_left'', CPtr ''rb_node'')]"

definition x86_sched_avg :: ctype where
  "x86_sched_avg = CStruct [(''last_update_time'', CInt 8), (''load_sum'', CInt 8), (''runnable_sum'', CInt 8), (''util_sum'', CInt 4),
     (''period_contrib'', CInt 4), (''load_avg'', CInt 8), (''runnable_avg'', CInt 8), (''util_avg'', CInt 8),
     (''util_est'', CInt 4)]"

definition x86_sched_entity :: ctype where
  "x86_sched_entity = CStruct [(''load'', x86_load_weight), (''run_node'', x86_rb_node), (''deadline'', CInt 8), (''min_vruntime'', CInt 8),
     (''min_slice'', CInt 8), (''group_node'', x86_list_head), (''on_rq'', CInt 1), (''sched_delayed'', CInt 1),
     (''rel_deadline'', CInt 1), (''custom_slice'', CInt 1), (''exec_start'', CInt 8), (''sum_exec_runtime'', CInt 8),
     (''prev_sum_exec_runtime'', CInt 8), (''vruntime'', CInt 8), ('''', CUnion [(''vlag'', CInt 8),
     (''vprot'', CInt 8)]), (''slice'', CInt 8), (''nr_migrations'', CInt 8), ('''', CBits 8 64), ('''', CBits 8 64),
     ('''', CBits 8 64), ('''', CBits 8 64), ('''', CBits 8 64), ('''', CBits 8 64), (''avg'', x86_sched_avg)]"

definition x86_sched_rt_entity :: ctype where
  "x86_sched_rt_entity = CStruct [(''run_list'', x86_list_head), (''timeout'', CInt 8), (''watchdog_stamp'', CInt 8), (''time_slice'', CInt 4),
     (''on_rq'', CInt 2), (''on_list'', CInt 2), (''back'', CPtr ''sched_rt_entity'')]"

definition x86_timerqueue_node :: ctype where
  "x86_timerqueue_node = CStruct [(''node'', x86_rb_node), (''expires'', CInt 8)]"

definition x86_hrtimer :: ctype where
  "x86_hrtimer = CStruct [(''node'', x86_timerqueue_node), (''_softexpires'', CInt 8), (''function'', CPtr ''''),
     (''base'', CPtr ''hrtimer_clock_base''), (''state'', CInt 1), (''is_rel'', CInt 1), (''is_soft'', CInt 1),
     (''is_hard'', CInt 1)]"

definition x86_sched_dl_entity :: ctype where
  "x86_sched_dl_entity = CStruct [(''rb_node'', x86_rb_node), (''dl_runtime'', CInt 8), (''dl_deadline'', CInt 8), (''dl_period'', CInt 8),
     (''dl_bw'', CInt 8), (''dl_density'', CInt 8), (''runtime'', CInt 8), (''deadline'', CInt 8),
     (''flags'', CInt 4), (''dl_throttled'', CBits 4 1), (''dl_yielded'', CBits 4 1),
     (''dl_non_contending'', CBits 4 1), (''dl_overrun'', CBits 4 1), (''dl_server'', CBits 4 1),
     (''dl_server_active'', CBits 4 1), (''dl_defer'', CBits 4 1), (''dl_defer_armed'', CBits 4 1),
     (''dl_defer_running'', CBits 4 1), (''dl_defer_idle'', CBits 4 1), (''dl_timer'', x86_hrtimer),
     (''inactive_timer'', x86_hrtimer), (''rq'', CPtr ''rq''), (''server_pick_task'', CPtr '''')]"

definition x86_sched_statistics :: ctype where
  "x86_sched_statistics = CStruct []"

definition x86_cpumask :: ctype where
  "x86_cpumask = CStruct [(''bits'', CArr 1 (CInt 8))]"

definition x86_rcu_special :: ctype where
  "x86_rcu_special = CUnion [(''b'', CStruct [(''blocked'', CInt 1), (''need_qs'', CInt 1), (''exp_hint'', CInt 1), (''need_mb'', CInt 1)]),
     (''s'', CInt 4)]"

definition x86_sched_info :: ctype where
  "x86_sched_info = CStruct []"

definition x86_plist_node :: ctype where
  "x86_plist_node = CStruct [(''prio'', CInt 4), (''prio_list'', x86_list_head), (''node_list'', x86_list_head)]"

definition x86_restart_block :: ctype where
  "x86_restart_block = CStruct [(''arch_data'', CInt 8), (''fn'', CPtr ''''), ('''', CUnion [(''futex'', CStruct [(''uaddr'', CPtr ''''),
     (''val'', CInt 4), (''flags'', CInt 4), (''bitset'', CInt 4), (''time'', CInt 8), (''uaddr2'', CPtr '''')]),
     (''nanosleep'', CStruct [(''clockid'', CInt 4), (''type'', CInt 4),
     ('''', CUnion [(''rmtp'', CPtr ''__kernel_timespec''), (''compat_rmtp'', CPtr ''old_timespec32'')]),
     (''expires'', CInt 8)]), (''poll'', CStruct [(''ufds'', CPtr ''pollfd''), (''nfds'', CInt 4),
     (''has_timeout'', CInt 4), (''tv_sec'', CInt 8), (''tv_nsec'', CInt 8)])])]"

definition x86_prev_cputime :: ctype where
  "x86_prev_cputime = CStruct [(''utime'', CInt 8), (''stime'', CInt 8), (''lock'', x86_raw_spinlock)]"

definition x86_posix_cputimers :: ctype where
  "x86_posix_cputimers = CStruct []"

definition x86_sigset_t :: ctype where
  "x86_sigset_t = CStruct [(''sig'', CArr 1 (CInt 8))]"

definition x86_sigpending :: ctype where
  "x86_sigpending = CStruct [(''list'', x86_list_head), (''signal'', x86_sigset_t)]"

definition x86_seccomp :: ctype where
  "x86_seccomp = CStruct []"

definition x86_syscall_user_dispatch :: ctype where
  "x86_syscall_user_dispatch = CStruct [(''selector'', CPtr ''''), (''offset'', CInt 8), (''len'', CInt 8), (''on_dispatch'', CInt 1)]"

definition x86_wake_q_node :: ctype where
  "x86_wake_q_node = CStruct [(''next'', CPtr ''wake_q_node'')]"

definition x86_task_io_accounting :: ctype where
  "x86_task_io_accounting = CStruct []"

definition x86_rseq_data :: ctype where
  "x86_rseq_data = CStruct []"

definition x86_sched_mm_cid :: ctype where
  "x86_sched_mm_cid = CStruct []"

definition x86_arch_tlbflush_unmap_batch :: ctype where
  "x86_arch_tlbflush_unmap_batch = CStruct [(''cpumask'', x86_cpumask), (''unmapped_pages'', CInt 1)]"

definition x86_tlbflush_unmap_batch :: ctype where
  "x86_tlbflush_unmap_batch = CStruct [(''arch'', x86_arch_tlbflush_unmap_batch), (''flush_required'', CInt 1), (''writable'', CInt 1)]"

definition x86_page_frag :: ctype where
  "x86_page_frag = CStruct [(''page'', CPtr ''page''), (''offset'', CInt 4), (''size'', CInt 4)]"

definition x86_kmap_ctrl :: ctype where
  "x86_kmap_ctrl = CStruct []"

definition x86_timer_list :: ctype where
  "x86_timer_list = CStruct [(''entry'', x86_hlist_node), (''expires'', CInt 8), (''function'', CPtr ''''), (''flags'', CInt 4)]"

definition x86_llist_head :: ctype where
  "x86_llist_head = CStruct [(''first'', CPtr ''llist_node'')]"

definition x86_unwind_task_id :: ctype where
  "x86_unwind_task_id = CUnion [('''', CStruct [(''cpu'', CInt 4), (''cnt'', CInt 4)]), (''id'', CInt 8)]"

definition x86_unwind_task_info :: ctype where
  "x86_unwind_task_info = CStruct [(''unwind_mask'', x86_atomic64_t), (''cache'', CPtr ''unwind_cache''), (''work'', x86_callback_head),
     (''id'', x86_unwind_task_id)]"

definition x86_desc_struct :: ctype where
  "x86_desc_struct = CStruct [(''limit0'', CInt 2), (''base0'', CInt 2), (''base1'', CBits 2 8), (''type'', CBits 2 4), (''s'', CBits 2 1),
     (''dpl'', CBits 2 2), (''p'', CBits 2 1), (''limit1'', CBits 2 4), (''avl'', CBits 2 1), (''l'', CBits 2 1),
     (''d'', CBits 2 1), (''g'', CBits 2 1), (''base2'', CBits 2 8)]"

definition x86_thread_struct :: ctype where
  "x86_thread_struct = CStruct [(''tls_array'', CArr 3 x86_desc_struct), (''sp'', CInt 8), (''es'', CInt 2), (''ds'', CInt 2),
     (''fsindex'', CInt 2), (''gsindex'', CInt 2), (''fsbase'', CInt 8), (''gsbase'', CInt 8),
     (''ptrace_bps'', CArr 4 (CPtr ''perf_event'')), (''virtual_dr6'', CInt 8), (''ptrace_dr7'', CInt 8),
     (''cr2'', CInt 8), (''trap_nr'', CInt 8), (''error_code'', CInt 8), (''io_bitmap'', CPtr ''io_bitmap''),
     (''iopl_emul'', CInt 8), (''iopl_warn'', CBits 4 1), (''pkru'', CInt 4)]"

definition x86_task_struct_head :: cfields where
  "x86_task_struct_head =
    [(''thread_info'', x86_thread_info), (''__state'', CInt 4), (''saved_state'', CInt 4), (''stack'', CPtr ''''),
     (''usage'', x86_refcount_struct), (''flags'', CInt 4), (''ptrace'', CInt 4), (''on_cpu'', CInt 4),
     (''wake_entry'', x86_call_single_node), (''wakee_flips'', CInt 4), (''wakee_flip_decay_ts'', CInt 8),
     (''last_wakee'', CPtr ''task_struct''), (''recent_used_cpu'', CInt 4), (''wake_cpu'', CInt 4),
     (''on_rq'', CInt 4), (''prio'', CInt 4), (''static_prio'', CInt 4), (''normal_prio'', CInt 4),
     (''rt_priority'', CInt 4), (''se'', x86_sched_entity), (''rt'', x86_sched_rt_entity),
     (''dl'', x86_sched_dl_entity), (''dl_server'', CPtr ''sched_dl_entity''),
     (''sched_class'', CPtr ''sched_class''), ('''', CBits 8 64), ('''', CBits 8 64), ('''', CBits 8 64),
     (''stats'', x86_sched_statistics), (''policy'', CInt 4), (''max_allowed_capacity'', CInt 8),
     (''nr_cpus_allowed'', CInt 4), (''cpus_ptr'', CPtr ''''), (''user_cpus_ptr'', CPtr ''''),
     (''cpus_mask'', x86_cpumask), (''migration_pending'', CPtr ''''), (''migration_disabled'', CInt 2),
     (''migration_flags'', CInt 2), (''trc_reader_nesting'', CInt 4), (''trc_ipi_to_cpu'', CInt 4),
     (''trc_reader_special'', x86_rcu_special), (''trc_holdout_list'', x86_list_head),
     (''trc_blkd_node'', x86_list_head), (''trc_blkd_cpu'', CInt 4), (''sched_info'', x86_sched_info),
     (''tasks'', x86_list_head), (''pushable_tasks'', x86_plist_node), (''pushable_dl_tasks'', x86_rb_node),
     (''mm'', CPtr ''mm_struct''), (''active_mm'', CPtr ''mm_struct''),
     (''faults_disabled_mapping'', CPtr ''address_space''), (''exit_state'', CInt 4), (''exit_code'', CInt 4),
     (''exit_signal'', CInt 4), (''pdeath_signal'', CInt 4), (''jobctl'', CInt 8), (''personality'', CInt 4),
     (''sched_reset_on_fork'', CBits 4 1), (''sched_contributes_to_load'', CBits 4 1),
     (''sched_migrated'', CBits 4 1), (''sched_task_hot'', CBits 4 1), ('''', CBits 8 28),
     (''sched_remote_wakeup'', CBits 4 1), (''in_execve'', CBits 4 1), (''in_iowait'', CBits 4 1),
     (''restore_sigmask'', CBits 4 1), (''in_nf_duplicate'', CBits 4 1), (''atomic_flags'', CInt 8),
     (''restart_block'', x86_restart_block), (''pid'', CInt 4), (''tgid'', CInt 4),
     (''real_parent'', CPtr ''task_struct''), (''parent'', CPtr ''task_struct''), (''children'', x86_list_head),
     (''sibling'', x86_list_head), (''group_leader'', CPtr ''task_struct''), (''ptraced'', x86_list_head),
     (''ptrace_entry'', x86_list_head), (''thread_pid'', CPtr ''pid''), (''pid_links'', CArr 4 x86_hlist_node),
     (''thread_node'', x86_list_head), (''vfork_done'', CPtr ''completion''), (''set_child_tid'', CPtr ''''),
     (''clear_child_tid'', CPtr ''''), (''worker_private'', CPtr ''''), (''utime'', CInt 8), (''stime'', CInt 8),
     (''gtime'', CInt 8), (''prev_cputime'', x86_prev_cputime), (''nvcsw'', CInt 8), (''nivcsw'', CInt 8),
     (''start_time'', CInt 8), (''start_boottime'', CInt 8), (''min_flt'', CInt 8), (''maj_flt'', CInt 8),
     (''posix_cputimers'', x86_posix_cputimers), (''ptracer_cred'', CPtr ''cred''), (''real_cred'', CPtr ''cred''),
     (''cred'', CPtr ''cred''), (''comm'', CArr 16 (CInt 1)), (''nameidata'', CPtr ''nameidata''),
     (''fs'', CPtr ''fs_struct''), (''files'', CPtr ''files_struct''), (''nsproxy'', CPtr ''nsproxy''),
     (''signal'', CPtr ''signal_struct''), (''sighand'', CPtr ''sighand_struct''), (''blocked'', x86_sigset_t),
     (''real_blocked'', x86_sigset_t), (''saved_sigmask'', x86_sigset_t), (''pending'', x86_sigpending),
     (''sas_ss_sp'', CInt 8), (''sas_ss_size'', CInt 8), (''sas_ss_flags'', CInt 4),
     (''task_works'', CPtr ''callback_head''), (''seccomp'', x86_seccomp),
     (''syscall_dispatch'', x86_syscall_user_dispatch), (''parent_exec_id'', CInt 8), (''self_exec_id'', CInt 8),
     (''alloc_lock'', x86_spinlock), (''pi_lock'', x86_raw_spinlock)]"

definition x86_task_struct_tail :: cfields where
  "x86_task_struct_tail =
    [(''wake_q'', x86_wake_q_node), (''blocked_on'', CPtr ''mutex''), (''journal_info'', CPtr ''''),
     (''bio_list'', CPtr ''bio_list''), (''plug'', CPtr ''blk_plug''), (''reclaim_state'', CPtr ''reclaim_state''),
     (''io_context'', CPtr ''io_context''), (''ptrace_message'', CInt 8), (''last_siginfo'', CPtr ''''),
     (''ioac'', x86_task_io_accounting), (''perf_recursion'', CArr 4 (CInt 1)),
     (''perf_event_ctxp'', CPtr ''perf_event_context''), (''perf_event_mutex'', x86_mutex),
     (''perf_event_list'', x86_list_head), (''perf_ctx_data'', CPtr ''perf_ctx_data''), (''rseq'', x86_rseq_data),
     (''mm_cid'', x86_sched_mm_cid), (''tlb_ubc'', x86_tlbflush_unmap_batch),
     (''splice_pipe'', CPtr ''pipe_inode_info''), (''task_frag'', x86_page_frag), (''nr_dirtied'', CInt 4),
     (''nr_dirtied_pause'', CInt 4), (''dirty_paused_when'', CInt 8), (''timer_slack_ns'', CInt 8),
     (''default_timer_slack_ns'', CInt 8), (''curr_ret_stack'', CInt 4), (''curr_ret_depth'', CInt 4),
     (''ret_stack'', CPtr ''''), (''ftrace_timestamp'', CInt 8), (''ftrace_sleeptime'', CInt 8),
     (''trace_overrun'', x86_atomic_t), (''tracing_graph_pause'', x86_atomic_t), (''trace_recursion'', CInt 8),
     (''utask'', CPtr ''uprobe_task''), (''kmap_ctrl'', x86_kmap_ctrl), (''rcu'', x86_callback_head),
     (''rcu_users'', x86_refcount_struct), (''pagefault_disabled'', CInt 4),
     (''oom_reaper_list'', CPtr ''task_struct''), (''oom_reaper_timer'', x86_timer_list),
     (''stack_vm_area'', CPtr ''vm_struct''), (''stack_refcount'', x86_refcount_struct), (''security'', CPtr ''''),
     (''bpf_storage'', CPtr ''bpf_local_storage''), (''bpf_ctx'', CPtr ''bpf_run_ctx''),
     (''bpf_net_context'', CPtr ''bpf_net_context''), (''kretprobe_instances'', x86_llist_head),
     (''rethooks'', x86_llist_head), (''l1d_flush_kill'', x86_callback_head), (''unwind_info'', x86_unwind_task_info),
     (''thread'', x86_thread_struct), ('''', CBits 8 64), ('''', CBits 8 64), ('''', CBits 8 64), ('''', CBits 8 64),
     ('''', CBits 8 64), ('''', CBits 8 64), ('''', CBits 8 64)]"

definition x86_task_struct :: ctype where
  "x86_task_struct = CStruct (x86_task_struct_head @ x86_task_struct_tail)"

definition x86_bpf_sock_addr :: ctype where
  "x86_bpf_sock_addr = CStruct [(''user_family'', CInt 4), (''user_ip4'', CInt 4), (''user_ip6'', CArr 4 (CInt 4)), (''user_port'', CInt 4),
     (''family'', CInt 4), (''type'', CInt 4), (''protocol'', CInt 4), (''msg_src_ip4'', CInt 4),
     (''msg_src_ip6'', CArr 4 (CInt 4)), ('''', CUnion [(''sk'', CPtr ''bpf_sock'')])]"

definition x86_vfsuid_t :: ctype where
  "x86_vfsuid_t = CStruct [(''val'', CInt 4)]"

definition x86_vfsgid_t :: ctype where
  "x86_vfsgid_t = CStruct [(''val'', CInt 4)]"

definition x86_timespec64 :: ctype where
  "x86_timespec64 = CStruct [(''tv_sec'', CInt 8), (''tv_nsec'', CInt 8)]"

definition x86_iattr :: ctype where
  "x86_iattr = CStruct [(''ia_valid'', CInt 4), (''ia_mode'', CInt 2), ('''', CUnion [(''ia_uid'', x86_kuid_t),
     (''ia_vfsuid'', x86_vfsuid_t)]), ('''', CUnion [(''ia_gid'', x86_kgid_t), (''ia_vfsgid'', x86_vfsgid_t)]),
     (''ia_size'', CInt 8), (''ia_atime'', x86_timespec64), (''ia_mtime'', x86_timespec64),
     (''ia_ctime'', x86_timespec64), (''ia_file'', CPtr ''file'')]"

definition x86_vfsmount :: ctype where
  "x86_vfsmount = CStruct [(''mnt_root'', CPtr ''dentry''), (''mnt_sb'', CPtr ''super_block''), (''mnt_flags'', CInt 4),
     (''mnt_idmap'', CPtr ''mnt_idmap'')]"

subsection \<open>Sizes and alignments\<close>

lemma x86_kuid_t_size [THEN laid_outD, klayout]: "laid_out x86_kuid_t 4 4"
  by (rule laid_out_struct [OF x86_kuid_t_def]; simp add: klayout cong: fields_cong)

lemma x86_kgid_t_size [THEN laid_outD, klayout]: "laid_out x86_kgid_t 4 4"
  by (rule laid_out_struct [OF x86_kgid_t_def]; simp add: klayout cong: fields_cong)

lemma x86_atomic_t_size [THEN laid_outD, klayout]: "laid_out x86_atomic_t 4 4"
  by (rule laid_out_struct [OF x86_atomic_t_def]; simp add: klayout cong: fields_cong)

lemma x86_qspinlock_size [THEN laid_outD, klayout]: "laid_out x86_qspinlock 4 4"
  by (rule laid_out_struct [OF x86_qspinlock_def]; simp add: klayout cong: fields_cong)

lemma x86_raw_spinlock_size [THEN laid_outD, klayout]: "laid_out x86_raw_spinlock 4 4"
  by (rule laid_out_struct [OF x86_raw_spinlock_def]; simp add: klayout cong: fields_cong)

lemma x86_spinlock_size [THEN laid_outD, klayout]: "laid_out x86_spinlock 4 4"
  by (rule laid_out_struct [OF x86_spinlock_def]; simp add: klayout cong: fields_cong)

lemma x86_inode_state_flags_size [THEN laid_outD, klayout]: "laid_out x86_inode_state_flags 4 4"
  by (rule laid_out_struct [OF x86_inode_state_flags_def]; simp add: klayout cong: fields_cong)

lemma x86_atomic64_t_size [THEN laid_outD, klayout]: "laid_out x86_atomic64_t 8 8"
  by (rule laid_out_struct [OF x86_atomic64_t_def]; simp add: klayout cong: fields_cong)

lemma x86_optimistic_spin_queue_size [THEN laid_outD, klayout]: "laid_out x86_optimistic_spin_queue 4 4"
  by (rule laid_out_struct [OF x86_optimistic_spin_queue_def]; simp add: klayout cong: fields_cong)

lemma x86_list_head_size [THEN laid_outD, klayout]: "laid_out x86_list_head 16 8"
  by (rule laid_out_struct [OF x86_list_head_def]; simp add: klayout cong: fields_cong)

lemma x86_rw_semaphore_size [THEN laid_outD, klayout]: "laid_out x86_rw_semaphore 40 8"
  by (rule laid_out_struct [OF x86_rw_semaphore_def]; simp add: klayout cong: fields_cong)

lemma x86_hlist_node_size [THEN laid_outD, klayout]: "laid_out x86_hlist_node 16 8"
  by (rule laid_out_struct [OF x86_hlist_node_def]; simp add: klayout cong: fields_cong)

lemma x86_hlist_head_size [THEN laid_outD, klayout]: "laid_out x86_hlist_head 8 8"
  by (rule laid_out_struct [OF x86_hlist_head_def]; simp add: klayout cong: fields_cong)

lemma x86_callback_head_size [THEN laid_outD, klayout]: "laid_out x86_callback_head 16 8"
  by (rule laid_out_struct [OF x86_callback_head_def]; simp add: klayout cong: fields_cong)

lemma x86_xarray_size [THEN laid_outD, klayout]: "laid_out x86_xarray 16 8"
  by (rule laid_out_struct [OF x86_xarray_def]; simp add: klayout cong: fields_cong)

lemma x86_rb_root_size [THEN laid_outD, klayout]: "laid_out x86_rb_root 8 8"
  by (rule laid_out_struct [OF x86_rb_root_def]; simp add: klayout cong: fields_cong)

lemma x86_rb_root_cached_size [THEN laid_outD, klayout]: "laid_out x86_rb_root_cached 16 8"
  by (rule laid_out_struct [OF x86_rb_root_cached_def]; simp add: klayout cong: fields_cong)

lemma x86_address_space_size [THEN laid_outD, klayout]: "laid_out x86_address_space 192 8"
  by (rule laid_out_struct [OF x86_address_space_def]; simp add: klayout cong: fields_cong)

lemma x86_inode_size [THEN laid_outD, klayout]: "laid_out x86_inode 560 8"
  by (rule laid_out_struct [OF x86_inode_def]; simp add: klayout cong: fields_cong)

lemma x86_seqcount_size [THEN laid_outD, klayout]: "laid_out x86_seqcount 4 4"
  by (rule laid_out_struct [OF x86_seqcount_def]; simp add: klayout cong: fields_cong)

lemma x86_seqcount_spinlock_size [THEN laid_outD, klayout]: "laid_out x86_seqcount_spinlock 4 4"
  by (rule laid_out_struct [OF x86_seqcount_spinlock_def]; simp add: klayout cong: fields_cong)

lemma x86_hlist_bl_node_size [THEN laid_outD, klayout]: "laid_out x86_hlist_bl_node 16 8"
  by (rule laid_out_struct [OF x86_hlist_bl_node_def]; simp add: klayout cong: fields_cong)

lemma x86_qstr_size [THEN laid_outD, klayout]: "laid_out x86_qstr 16 8"
  by (rule laid_out_struct [OF x86_qstr_def]; simp add: klayout cong: fields_cong)

lemma x86_shortname_store_size [THEN laid_outD, klayout]: "laid_out x86_shortname_store 40 8"
  by (rule laid_out_union [OF x86_shortname_store_def]; simp add: klayout cong: fields_cong)

lemma x86_lockref_size [THEN laid_outD, klayout]: "laid_out x86_lockref 8 8"
  by (rule laid_out_struct [OF x86_lockref_def]; simp add: klayout cong: fields_cong)

lemma x86_dentry_size [THEN laid_outD, klayout]: "laid_out x86_dentry 192 8"
  by (rule laid_out_struct [OF x86_dentry_def]; simp add: klayout cong: fields_cong)

lemma x86_hlist_bl_head_size [THEN laid_outD, klayout]: "laid_out x86_hlist_bl_head 8 8"
  by (rule laid_out_struct [OF x86_hlist_bl_head_def]; simp add: klayout cong: fields_cong)

lemma x86_mem_dqinfo_size [THEN laid_outD, klayout]: "laid_out x86_mem_dqinfo 72 8"
  by (rule laid_out_struct [OF x86_mem_dqinfo_def]; simp add: klayout cong: fields_cong)

lemma x86_quota_info_size [THEN laid_outD, klayout]: "laid_out x86_quota_info 312 8"
  by (rule laid_out_struct [OF x86_quota_info_def]; simp add: klayout cong: fields_cong)

lemma x86_wait_queue_head_size [THEN laid_outD, klayout]: "laid_out x86_wait_queue_head 24 8"
  by (rule laid_out_struct [OF x86_wait_queue_head_def]; simp add: klayout cong: fields_cong)

lemma x86_rcu_sync_size [THEN laid_outD, klayout]: "laid_out x86_rcu_sync 48 8"
  by (rule laid_out_struct [OF x86_rcu_sync_def]; simp add: klayout cong: fields_cong)

lemma x86_rcuwait_size [THEN laid_outD, klayout]: "laid_out x86_rcuwait 8 8"
  by (rule laid_out_struct [OF x86_rcuwait_def]; simp add: klayout cong: fields_cong)

lemma x86_percpu_rw_semaphore_size [THEN laid_outD, klayout]: "laid_out x86_percpu_rw_semaphore 96 8"
  by (rule laid_out_struct [OF x86_percpu_rw_semaphore_def]; simp add: klayout cong: fields_cong)

lemma x86_sb_writers_size [THEN laid_outD, klayout]: "laid_out x86_sb_writers 312 8"
  by (rule laid_out_struct [OF x86_sb_writers_def]; simp add: klayout cong: fields_cong)

lemma x86_uuid_t_size [THEN laid_outD, klayout]: "laid_out x86_uuid_t 16 1"
  by (rule laid_out_struct [OF x86_uuid_t_def]; simp add: klayout cong: fields_cong)

lemma x86_mutex_size [THEN laid_outD, klayout]: "laid_out x86_mutex 32 8"
  by (rule laid_out_struct [OF x86_mutex_def]; simp add: klayout cong: fields_cong)

lemma x86_list_lru_size [THEN laid_outD, klayout]: "laid_out x86_list_lru 8 8"
  by (rule laid_out_struct [OF x86_list_lru_def]; simp add: klayout cong: fields_cong)

lemma x86_work_struct_size [THEN laid_outD, klayout]: "laid_out x86_work_struct 32 8"
  by (rule laid_out_struct [OF x86_work_struct_def]; simp add: klayout cong: fields_cong)

lemma x86_super_block_size [THEN laid_outD, klayout]: "laid_out x86_super_block 1280 8"
  by (rule laid_out_struct [OF x86_super_block_def]; simp add: klayout cong: fields_cong)

lemma x86_path_size [THEN laid_outD, klayout]: "laid_out x86_path 16 8"
  by (rule laid_out_struct [OF x86_path_def]; simp add: klayout cong: fields_cong)

lemma x86_llist_node_size [THEN laid_outD, klayout]: "laid_out x86_llist_node 8 8"
  by (rule laid_out_struct [OF x86_llist_node_def]; simp add: klayout cong: fields_cong)

lemma x86_file_ra_state_size [THEN laid_outD, klayout]: "laid_out x86_file_ra_state 32 8"
  by (rule laid_out_struct [OF x86_file_ra_state_def]; simp add: klayout cong: fields_cong)

lemma x86_freeptr_t_size [THEN laid_outD, klayout]: "laid_out x86_freeptr_t 8 8"
  by (rule laid_out_struct [OF x86_freeptr_t_def]; simp add: klayout cong: fields_cong)

lemma x86_file_ref_t_size [THEN laid_outD, klayout]: "laid_out x86_file_ref_t 8 8"
  by (rule laid_out_struct [OF x86_file_ref_t_def]; simp add: klayout cong: fields_cong)

lemma x86_file_size [THEN laid_outD, klayout]: "laid_out x86_file 176 8"
  by (rule laid_out_struct [OF x86_file_def]; simp add: klayout cong: fields_cong)

lemma x86_rlimit_size [THEN laid_outD, klayout]: "laid_out x86_rlimit 16 8"
  by (rule laid_out_struct [OF x86_rlimit_def]; simp add: klayout cong: fields_cong)

lemma x86_linux_binprm_size [THEN laid_outD, klayout]: "laid_out x86_linux_binprm 408 8"
  by (rule laid_out_struct [OF x86_linux_binprm_def]; simp add: klayout cong: fields_cong)

lemma x86_maple_tree_size [THEN laid_outD, klayout]: "laid_out x86_maple_tree 16 8"
  by (rule laid_out_struct [OF x86_maple_tree_def]; simp add: klayout cong: fields_cong)

lemma x86_mm_mm_cid_size [THEN laid_outD, klayout]: "laid_out x86_mm_mm_cid 0 1"
  by (rule laid_out_struct [OF x86_mm_mm_cid_def]; simp add: klayout cong: fields_cong)

lemma x86_percpu_counter_size [THEN laid_outD, klayout]: "laid_out x86_percpu_counter 40 8"
  by (rule laid_out_struct [OF x86_percpu_counter_def]; simp add: klayout cong: fields_cong)

lemma x86_mm_context_t_size [THEN laid_outD, klayout]: "laid_out x86_mm_context_t 96 8"
  by (rule laid_out_struct [OF x86_mm_context_t_def]; simp add: klayout cong: fields_cong)

lemma x86_mm_flags_t_size [THEN laid_outD, klayout]: "laid_out x86_mm_flags_t 8 8"
  by (rule laid_out_struct [OF x86_mm_flags_t_def]; simp add: klayout cong: fields_cong)

lemma x86_uprobes_state_size [THEN laid_outD, klayout]: "laid_out x86_uprobes_state 16 8"
  by (rule laid_out_struct [OF x86_uprobes_state_def]; simp add: klayout cong: fields_cong)

lemma x86_mm_struct_size [THEN laid_outD, klayout]: "laid_out x86_mm_struct 1152 8"
  by (rule laid_out_struct [OF x86_mm_struct_def]; simp add: klayout cong: fields_cong)

lemma x86_thread_info_size [THEN laid_outD, klayout]: "laid_out x86_thread_info 24 8"
  by (rule laid_out_struct [OF x86_thread_info_def]; simp add: klayout cong: fields_cong)

lemma x86_refcount_struct_size [THEN laid_outD, klayout]: "laid_out x86_refcount_struct 4 4"
  by (rule laid_out_struct [OF x86_refcount_struct_def]; simp add: klayout cong: fields_cong)

lemma x86_call_single_node_size [THEN laid_outD, klayout]: "laid_out x86_call_single_node 16 8"
  by (rule laid_out_struct [OF x86_call_single_node_def]; simp add: klayout cong: fields_cong)

lemma x86_load_weight_size [THEN laid_outD, klayout]: "laid_out x86_load_weight 16 8"
  by (rule laid_out_struct [OF x86_load_weight_def]; simp add: klayout cong: fields_cong)

lemma x86_rb_node_size [THEN laid_outD, klayout]: "laid_out x86_rb_node 24 8"
  by (rule laid_out_struct [OF x86_rb_node_def]; simp add: klayout cong: fields_cong)

lemma x86_sched_avg_size [THEN laid_outD, klayout]: "laid_out x86_sched_avg 64 8"
  by (rule laid_out_struct [OF x86_sched_avg_def]; simp add: klayout cong: fields_cong)

lemma x86_sched_entity_size [THEN laid_outD, klayout]: "laid_out x86_sched_entity 256 8"
  by (rule laid_out_struct [OF x86_sched_entity_def]; simp add: klayout cong: fields_cong)

lemma x86_sched_rt_entity_size [THEN laid_outD, klayout]: "laid_out x86_sched_rt_entity 48 8"
  by (rule laid_out_struct [OF x86_sched_rt_entity_def]; simp add: klayout cong: fields_cong)

lemma x86_timerqueue_node_size [THEN laid_outD, klayout]: "laid_out x86_timerqueue_node 32 8"
  by (rule laid_out_struct [OF x86_timerqueue_node_def]; simp add: klayout cong: fields_cong)

lemma x86_hrtimer_size [THEN laid_outD, klayout]: "laid_out x86_hrtimer 64 8"
  by (rule laid_out_struct [OF x86_hrtimer_def]; simp add: klayout cong: fields_cong)

lemma x86_sched_dl_entity_size [THEN laid_outD, klayout]: "laid_out x86_sched_dl_entity 232 8"
  by (rule laid_out_struct [OF x86_sched_dl_entity_def]; simp add: klayout cong: fields_cong)

lemma x86_sched_statistics_size [THEN laid_outD, klayout]: "laid_out x86_sched_statistics 0 1"
  by (rule laid_out_struct [OF x86_sched_statistics_def]; simp add: klayout cong: fields_cong)

lemma x86_cpumask_size [THEN laid_outD, klayout]: "laid_out x86_cpumask 8 8"
  by (rule laid_out_struct [OF x86_cpumask_def]; simp add: klayout cong: fields_cong)

lemma x86_rcu_special_size [THEN laid_outD, klayout]: "laid_out x86_rcu_special 4 4"
  by (rule laid_out_union [OF x86_rcu_special_def]; simp add: klayout cong: fields_cong)

lemma x86_sched_info_size [THEN laid_outD, klayout]: "laid_out x86_sched_info 0 1"
  by (rule laid_out_struct [OF x86_sched_info_def]; simp add: klayout cong: fields_cong)

lemma x86_plist_node_size [THEN laid_outD, klayout]: "laid_out x86_plist_node 40 8"
  by (rule laid_out_struct [OF x86_plist_node_def]; simp add: klayout cong: fields_cong)

lemma x86_restart_block_size [THEN laid_outD, klayout]: "laid_out x86_restart_block 56 8"
  by (rule laid_out_struct [OF x86_restart_block_def]; simp add: klayout cong: fields_cong)

lemma x86_prev_cputime_size [THEN laid_outD, klayout]: "laid_out x86_prev_cputime 24 8"
  by (rule laid_out_struct [OF x86_prev_cputime_def]; simp add: klayout cong: fields_cong)

lemma x86_posix_cputimers_size [THEN laid_outD, klayout]: "laid_out x86_posix_cputimers 0 1"
  by (rule laid_out_struct [OF x86_posix_cputimers_def]; simp add: klayout cong: fields_cong)

lemma x86_sigset_t_size [THEN laid_outD, klayout]: "laid_out x86_sigset_t 8 8"
  by (rule laid_out_struct [OF x86_sigset_t_def]; simp add: klayout cong: fields_cong)

lemma x86_sigpending_size [THEN laid_outD, klayout]: "laid_out x86_sigpending 24 8"
  by (rule laid_out_struct [OF x86_sigpending_def]; simp add: klayout cong: fields_cong)

lemma x86_seccomp_size [THEN laid_outD, klayout]: "laid_out x86_seccomp 0 1"
  by (rule laid_out_struct [OF x86_seccomp_def]; simp add: klayout cong: fields_cong)

lemma x86_syscall_user_dispatch_size [THEN laid_outD, klayout]: "laid_out x86_syscall_user_dispatch 32 8"
  by (rule laid_out_struct [OF x86_syscall_user_dispatch_def]; simp add: klayout cong: fields_cong)

lemma x86_wake_q_node_size [THEN laid_outD, klayout]: "laid_out x86_wake_q_node 8 8"
  by (rule laid_out_struct [OF x86_wake_q_node_def]; simp add: klayout cong: fields_cong)

lemma x86_task_io_accounting_size [THEN laid_outD, klayout]: "laid_out x86_task_io_accounting 0 1"
  by (rule laid_out_struct [OF x86_task_io_accounting_def]; simp add: klayout cong: fields_cong)

lemma x86_rseq_data_size [THEN laid_outD, klayout]: "laid_out x86_rseq_data 0 1"
  by (rule laid_out_struct [OF x86_rseq_data_def]; simp add: klayout cong: fields_cong)

lemma x86_sched_mm_cid_size [THEN laid_outD, klayout]: "laid_out x86_sched_mm_cid 0 1"
  by (rule laid_out_struct [OF x86_sched_mm_cid_def]; simp add: klayout cong: fields_cong)

lemma x86_arch_tlbflush_unmap_batch_size [THEN laid_outD, klayout]: "laid_out x86_arch_tlbflush_unmap_batch 16 8"
  by (rule laid_out_struct [OF x86_arch_tlbflush_unmap_batch_def]; simp add: klayout cong: fields_cong)

lemma x86_tlbflush_unmap_batch_size [THEN laid_outD, klayout]: "laid_out x86_tlbflush_unmap_batch 24 8"
  by (rule laid_out_struct [OF x86_tlbflush_unmap_batch_def]; simp add: klayout cong: fields_cong)

lemma x86_page_frag_size [THEN laid_outD, klayout]: "laid_out x86_page_frag 16 8"
  by (rule laid_out_struct [OF x86_page_frag_def]; simp add: klayout cong: fields_cong)

lemma x86_kmap_ctrl_size [THEN laid_outD, klayout]: "laid_out x86_kmap_ctrl 0 1"
  by (rule laid_out_struct [OF x86_kmap_ctrl_def]; simp add: klayout cong: fields_cong)

lemma x86_timer_list_size [THEN laid_outD, klayout]: "laid_out x86_timer_list 40 8"
  by (rule laid_out_struct [OF x86_timer_list_def]; simp add: klayout cong: fields_cong)

lemma x86_llist_head_size [THEN laid_outD, klayout]: "laid_out x86_llist_head 8 8"
  by (rule laid_out_struct [OF x86_llist_head_def]; simp add: klayout cong: fields_cong)

lemma x86_unwind_task_id_size [THEN laid_outD, klayout]: "laid_out x86_unwind_task_id 8 8"
  by (rule laid_out_union [OF x86_unwind_task_id_def]; simp add: klayout cong: fields_cong)

lemma x86_unwind_task_info_size [THEN laid_outD, klayout]: "laid_out x86_unwind_task_info 40 8"
  by (rule laid_out_struct [OF x86_unwind_task_info_def]; simp add: klayout cong: fields_cong)

lemma x86_desc_struct_size [THEN laid_outD, klayout]: "laid_out x86_desc_struct 8 2"
  by (rule laid_out_struct [OF x86_desc_struct_def]; simp add: klayout cong: fields_cong)

lemma x86_thread_struct_size [THEN laid_outD, klayout]: "laid_out x86_thread_struct 152 8"
  by (rule laid_out_struct [OF x86_thread_struct_def]; simp add: klayout cong: fields_cong)

lemma x86_task_struct_size [THEN laid_outD, klayout]: "laid_out x86_task_struct 2240 8"
  by (rule laid_out_struct [OF x86_task_struct_def]; unfold csize.simps x86_task_struct_head_def x86_task_struct_tail_def cend_append calign_fields_append; simp add: klayout cong: fields_cong)

lemma x86_bpf_sock_addr_size [THEN laid_outD, klayout]: "laid_out x86_bpf_sock_addr 72 8"
  by (rule laid_out_struct [OF x86_bpf_sock_addr_def]; simp add: klayout cong: fields_cong)

lemma x86_vfsuid_t_size [THEN laid_outD, klayout]: "laid_out x86_vfsuid_t 4 4"
  by (rule laid_out_struct [OF x86_vfsuid_t_def]; simp add: klayout cong: fields_cong)

lemma x86_vfsgid_t_size [THEN laid_outD, klayout]: "laid_out x86_vfsgid_t 4 4"
  by (rule laid_out_struct [OF x86_vfsgid_t_def]; simp add: klayout cong: fields_cong)

lemma x86_timespec64_size [THEN laid_outD, klayout]: "laid_out x86_timespec64 16 8"
  by (rule laid_out_struct [OF x86_timespec64_def]; simp add: klayout cong: fields_cong)

lemma x86_iattr_size [THEN laid_outD, klayout]: "laid_out x86_iattr 80 8"
  by (rule laid_out_struct [OF x86_iattr_def]; simp add: klayout cong: fields_cong)

lemma x86_vfsmount_size [THEN laid_outD, klayout]: "laid_out x86_vfsmount 32 8"
  by (rule laid_out_struct [OF x86_vfsmount_def]; simp add: klayout cong: fields_cong)

end
