(* ===== verification/Kernel_Arm64.thy ===== *)
theory Kernel_Arm64
  imports C_Layout
begin

text \<open>
  The kernel types the programs read through, as \<open>rk-bpf/include/vmlinux/arm64/vmlinux.h\<close> declares them for
  arm64: every struct a program dereferences, and every struct and union those contain by value, in
  the order of the closure.  Scalars and enums are given by their size, pointers to structs keep the
  tag, bit-fields keep the declared type's size.  Each type is followed at the end by its size and
  alignment.
\<close>

subsection \<open>Declarations\<close>

definition a64_kuid_t :: ctype where
  "a64_kuid_t = CStruct [(''val'', CInt 4)]"

definition a64_kgid_t :: ctype where
  "a64_kgid_t = CStruct [(''val'', CInt 4)]"

definition a64_atomic_t :: ctype where
  "a64_atomic_t = CStruct [(''counter'', CInt 4)]"

definition a64_qspinlock :: ctype where
  "a64_qspinlock = CStruct [('''', CUnion [(''val'', a64_atomic_t), ('''', CStruct [(''locked'', CInt 1), (''pending'', CInt 1)]),
     ('''', CStruct [(''locked_pending'', CInt 2), (''tail'', CInt 2)])])]"

definition a64_raw_spinlock :: ctype where
  "a64_raw_spinlock = CStruct [(''raw_lock'', a64_qspinlock)]"

definition a64_spinlock :: ctype where
  "a64_spinlock = CStruct [('''', CUnion [(''rlock'', a64_raw_spinlock)])]"

definition a64_inode_state_flags :: ctype where
  "a64_inode_state_flags = CStruct [(''__state'', CInt 4)]"

definition a64_atomic64_t :: ctype where
  "a64_atomic64_t = CStruct [(''counter'', CInt 8)]"

definition a64_optimistic_spin_queue :: ctype where
  "a64_optimistic_spin_queue = CStruct [(''tail'', a64_atomic_t)]"

definition a64_list_head :: ctype where
  "a64_list_head = CStruct [(''next'', CPtr ''list_head''), (''prev'', CPtr ''list_head'')]"

definition a64_rw_semaphore :: ctype where
  "a64_rw_semaphore = CStruct [(''count'', a64_atomic64_t), (''owner'', a64_atomic64_t), (''osq'', a64_optimistic_spin_queue),
     (''wait_lock'', a64_raw_spinlock), (''wait_list'', a64_list_head)]"

definition a64_hlist_node :: ctype where
  "a64_hlist_node = CStruct [(''next'', CPtr ''hlist_node''), (''pprev'', CPtr '''')]"

definition a64_hlist_head :: ctype where
  "a64_hlist_head = CStruct [(''first'', CPtr ''hlist_node'')]"

definition a64_callback_head :: ctype where
  "a64_callback_head = CStruct [(''next'', CPtr ''callback_head''), (''func'', CPtr '''')]"

definition a64_xarray :: ctype where
  "a64_xarray = CStruct [(''xa_lock'', a64_spinlock), (''xa_flags'', CInt 4), (''xa_head'', CPtr '''')]"

definition a64_rb_root :: ctype where
  "a64_rb_root = CStruct [(''rb_node'', CPtr ''rb_node'')]"

definition a64_rb_root_cached :: ctype where
  "a64_rb_root_cached = CStruct [(''rb_root'', a64_rb_root), (''rb_leftmost'', CPtr ''rb_node'')]"

definition a64_address_space :: ctype where
  "a64_address_space = CStruct [(''host'', CPtr ''inode''), (''i_pages'', a64_xarray), (''invalidate_lock'', a64_rw_semaphore),
     (''gfp_mask'', CInt 4), (''i_mmap_writable'', a64_atomic_t), (''i_mmap'', a64_rb_root_cached),
     (''nrpages'', CInt 8), (''writeback_index'', CInt 8), (''a_ops'', CPtr ''address_space_operations''),
     (''flags'', CInt 8), (''wb_err'', CInt 4), (''i_private_lock'', a64_spinlock),
     (''i_private_list'', a64_list_head), (''i_mmap_rwsem'', a64_rw_semaphore), (''i_private_data'', CPtr '''')]"

definition a64_inode :: ctype where
  "a64_inode = CStruct [(''i_mode'', CInt 2), (''i_opflags'', CInt 2), (''i_flags'', CInt 4), (''i_uid'', a64_kuid_t),
     (''i_gid'', a64_kgid_t), (''i_op'', CPtr ''inode_operations''), (''i_sb'', CPtr ''super_block''),
     (''i_mapping'', CPtr ''address_space''), (''i_security'', CPtr ''''), (''i_ino'', CInt 8),
     ('''', CUnion [(''i_nlink'', CInt 4), (''__i_nlink'', CInt 4)]), (''i_rdev'', CInt 4), (''i_size'', CInt 8),
     (''i_atime_sec'', CInt 8), (''i_mtime_sec'', CInt 8), (''i_ctime_sec'', CInt 8), (''i_atime_nsec'', CInt 4),
     (''i_mtime_nsec'', CInt 4), (''i_ctime_nsec'', CInt 4), (''i_generation'', CInt 4), (''i_lock'', a64_spinlock),
     (''i_bytes'', CInt 2), (''i_blkbits'', CInt 1), (''i_write_hint'', CInt 1), (''i_blocks'', CInt 8),
     (''i_state'', a64_inode_state_flags), (''i_rwsem'', a64_rw_semaphore), (''dirtied_when'', CInt 8),
     (''dirtied_time_when'', CInt 8), (''i_hash'', a64_hlist_node), (''i_io_list'', a64_list_head),
     (''i_lru'', a64_list_head), (''i_sb_list'', a64_list_head), (''i_wb_list'', a64_list_head),
     ('''', CUnion [(''i_dentry'', a64_hlist_head), (''i_rcu'', a64_callback_head)]), (''i_version'', a64_atomic64_t),
     (''i_sequence'', a64_atomic64_t), (''i_count'', a64_atomic_t), (''i_dio_count'', a64_atomic_t),
     (''i_writecount'', a64_atomic_t), ('''', CUnion [(''i_fop'', CPtr ''file_operations''),
     (''free_inode'', CPtr '''')]), (''i_flctx'', CPtr ''file_lock_context''), (''i_data'', a64_address_space),
     ('''', CUnion [(''i_devices'', a64_list_head), (''i_linklen'', CInt 4)]),
     ('''', CUnion [(''i_pipe'', CPtr ''pipe_inode_info''), (''i_cdev'', CPtr ''cdev''), (''i_link'', CPtr ''''),
     (''i_dir_seq'', CInt 4)]), (''i_private'', CPtr '''')]"

definition a64_seqcount :: ctype where
  "a64_seqcount = CStruct [(''sequence'', CInt 4)]"

definition a64_seqcount_spinlock :: ctype where
  "a64_seqcount_spinlock = CStruct [(''seqcount'', a64_seqcount)]"

definition a64_hlist_bl_node :: ctype where
  "a64_hlist_bl_node = CStruct [(''next'', CPtr ''hlist_bl_node''), (''pprev'', CPtr '''')]"

definition a64_qstr :: ctype where
  "a64_qstr = CStruct [('''', CUnion [('''', CStruct [(''hash'', CInt 4), (''len'', CInt 4)]), (''hash_len'', CInt 8)]),
     (''name'', CPtr '''')]"

definition a64_shortname_store :: ctype where
  "a64_shortname_store = CUnion [(''string'', CArr 40 (CInt 1)), (''words'', CArr 5 (CInt 8))]"

definition a64_lockref :: ctype where
  "a64_lockref = CStruct [('''', CUnion [(''lock_count'', CInt 8), ('''', CStruct [(''lock'', a64_spinlock), (''count'', CInt 4)])])]"

definition a64_dentry :: ctype where
  "a64_dentry = CStruct [(''d_flags'', CInt 4), (''d_seq'', a64_seqcount_spinlock), (''d_hash'', a64_hlist_bl_node),
     (''d_parent'', CPtr ''dentry''), ('''', CUnion [(''__d_name'', a64_qstr), (''d_name'', a64_qstr)]),
     (''d_inode'', CPtr ''inode''), (''d_shortname'', a64_shortname_store), (''d_op'', CPtr ''dentry_operations''),
     (''d_sb'', CPtr ''super_block''), (''d_time'', CInt 8), (''d_fsdata'', CPtr ''''), (''d_lockref'', a64_lockref),
     ('''', CUnion [(''d_lru'', a64_list_head), (''d_wait'', CPtr '''')]), (''d_sib'', a64_hlist_node),
     (''d_children'', a64_hlist_head), (''d_u'', CUnion [(''d_alias'', a64_hlist_node),
     (''d_in_lookup_hash'', a64_hlist_bl_node), (''d_rcu'', a64_callback_head)])]"

definition a64_hlist_bl_head :: ctype where
  "a64_hlist_bl_head = CStruct [(''first'', CPtr ''hlist_bl_node'')]"

definition a64_mem_dqinfo :: ctype where
  "a64_mem_dqinfo = CStruct [(''dqi_format'', CPtr ''quota_format_type''), (''dqi_fmt_id'', CInt 4), (''dqi_dirty_list'', a64_list_head),
     (''dqi_flags'', CInt 8), (''dqi_bgrace'', CInt 4), (''dqi_igrace'', CInt 4), (''dqi_max_spc_limit'', CInt 8),
     (''dqi_max_ino_limit'', CInt 8), (''dqi_priv'', CPtr '''')]"

definition a64_quota_info :: ctype where
  "a64_quota_info = CStruct [(''flags'', CInt 4), (''dqio_sem'', a64_rw_semaphore), (''files'', CArr 3 (CPtr ''inode'')),
     (''info'', CArr 3 a64_mem_dqinfo), (''ops'', CArr 3 (CPtr ''quota_format_ops''))]"

definition a64_wait_queue_head :: ctype where
  "a64_wait_queue_head = CStruct [(''lock'', a64_spinlock), (''head'', a64_list_head)]"

definition a64_rcu_sync :: ctype where
  "a64_rcu_sync = CStruct [(''gp_state'', CInt 4), (''gp_count'', CInt 4), (''gp_wait'', a64_wait_queue_head),
     (''cb_head'', a64_callback_head)]"

definition a64_rcuwait :: ctype where
  "a64_rcuwait = CStruct [(''task'', CPtr ''task_struct'')]"

definition a64_percpu_rw_semaphore :: ctype where
  "a64_percpu_rw_semaphore = CStruct [(''rss'', a64_rcu_sync), (''read_count'', CPtr ''''), (''writer'', a64_rcuwait),
     (''waiters'', a64_wait_queue_head), (''block'', a64_atomic_t)]"

definition a64_sb_writers :: ctype where
  "a64_sb_writers = CStruct [(''frozen'', CInt 2), (''freeze_kcount'', CInt 4), (''freeze_ucount'', CInt 4), (''freeze_owner'', CPtr ''''),
     (''rw_sem'', CArr 3 a64_percpu_rw_semaphore)]"

definition a64_uuid_t :: ctype where
  "a64_uuid_t = CStruct [(''b'', CArr 16 (CInt 1))]"

definition a64_mutex :: ctype where
  "a64_mutex = CStruct [(''owner'', a64_atomic64_t), (''wait_lock'', a64_raw_spinlock), (''osq'', a64_optimistic_spin_queue),
     (''wait_list'', a64_list_head)]"

definition a64_list_lru :: ctype where
  "a64_list_lru = CStruct [(''node'', CPtr ''list_lru_node'')]"

definition a64_work_struct :: ctype where
  "a64_work_struct = CStruct [(''data'', a64_atomic64_t), (''entry'', a64_list_head), (''func'', CPtr '''')]"

definition a64_super_block :: ctype where
  "a64_super_block = CStruct [(''s_list'', a64_list_head), (''s_dev'', CInt 4), (''s_blocksize_bits'', CInt 1), (''s_blocksize'', CInt 8),
     (''s_maxbytes'', CInt 8), (''s_type'', CPtr ''file_system_type''), (''s_op'', CPtr ''super_operations''),
     (''dq_op'', CPtr ''dquot_operations''), (''s_qcop'', CPtr ''quotactl_ops''),
     (''s_export_op'', CPtr ''export_operations''), (''s_flags'', CInt 8), (''s_iflags'', CInt 8),
     (''s_magic'', CInt 8), (''s_root'', CPtr ''dentry''), (''s_umount'', a64_rw_semaphore), (''s_count'', CInt 4),
     (''s_active'', a64_atomic_t), (''s_security'', CPtr ''''), (''s_xattr'', CPtr ''''),
     (''s_roots'', a64_hlist_bl_head), (''s_mounts'', CPtr ''mount''), (''s_bdev'', CPtr ''block_device''),
     (''s_bdev_file'', CPtr ''file''), (''s_bdi'', CPtr ''backing_dev_info''), (''s_mtd'', CPtr ''mtd_info''),
     (''s_instances'', a64_hlist_node), (''s_quota_types'', CInt 4), (''s_dquot'', a64_quota_info),
     (''s_writers'', a64_sb_writers), (''s_fs_info'', CPtr ''''), (''s_time_gran'', CInt 4), (''s_time_min'', CInt 8),
     (''s_time_max'', CInt 8), (''s_id'', CArr 32 (CInt 1)), (''s_uuid'', a64_uuid_t), (''s_uuid_len'', CInt 1),
     (''s_sysfs_name'', CArr 37 (CInt 1)), (''s_max_links'', CInt 4), (''s_d_flags'', CInt 4),
     (''s_vfs_rename_mutex'', a64_mutex), (''s_subtype'', CPtr ''''), (''__s_d_op'', CPtr ''dentry_operations''),
     (''s_shrink'', CPtr ''shrinker''), (''s_remove_count'', a64_atomic64_t), (''s_readonly_remount'', CInt 4),
     (''s_wb_err'', CInt 4), (''s_dio_done_wq'', CPtr ''workqueue_struct''), (''s_pins'', a64_hlist_head),
     (''s_user_ns'', CPtr ''user_namespace''), (''s_dentry_lru'', a64_list_lru), (''s_inode_lru'', a64_list_lru),
     (''rcu'', a64_callback_head), (''destroy_work'', a64_work_struct), (''s_sync_lock'', a64_mutex),
     (''s_stack_depth'', CInt 4), ('''', CBits 8 64), ('''', CBits 8 64), (''s_inode_list_lock'', a64_spinlock),
     (''s_inodes'', a64_list_head), (''s_inode_wblist_lock'', a64_spinlock), (''s_inodes_wb'', a64_list_head),
     (''s_min_writeback_pages'', CInt 8), ('''', CBits 8 64)]"

definition a64_path :: ctype where
  "a64_path = CStruct [(''mnt'', CPtr ''vfsmount''), (''dentry'', CPtr ''dentry'')]"

definition a64_llist_node :: ctype where
  "a64_llist_node = CStruct [(''next'', CPtr ''llist_node'')]"

definition a64_file_ra_state :: ctype where
  "a64_file_ra_state = CStruct [(''start'', CInt 8), (''size'', CInt 4), (''async_size'', CInt 4), (''ra_pages'', CInt 4), (''order'', CInt 2),
     (''mmap_miss'', CInt 2), (''prev_pos'', CInt 8)]"

definition a64_freeptr_t :: ctype where
  "a64_freeptr_t = CStruct [(''v'', CInt 8)]"

definition a64_file_ref_t :: ctype where
  "a64_file_ref_t = CStruct [(''refcnt'', a64_atomic64_t)]"

definition a64_file :: ctype where
  "a64_file = CStruct [(''f_lock'', a64_spinlock), (''f_mode'', CInt 4), (''f_op'', CPtr ''file_operations''),
     (''f_mapping'', CPtr ''address_space''), (''private_data'', CPtr ''''), (''f_inode'', CPtr ''inode''),
     (''f_flags'', CInt 4), (''f_iocb_flags'', CInt 4), (''f_cred'', CPtr ''cred''),
     (''f_owner'', CPtr ''fown_struct''), ('''', CUnion [(''f_path'', a64_path), (''__f_path'', a64_path)]),
     ('''', CUnion [(''f_pos_lock'', a64_mutex), (''f_pipe'', CInt 8)]), (''f_pos'', CInt 8),
     (''f_security'', CPtr ''''), (''f_wb_err'', CInt 4), (''f_sb_err'', CInt 4),
     ('''', CUnion [(''f_task_work'', a64_callback_head), (''f_llist'', a64_llist_node),
     (''f_ra'', a64_file_ra_state), (''f_freeptr'', a64_freeptr_t)]), (''f_ref'', a64_file_ref_t)]"

definition a64_rlimit :: ctype where
  "a64_rlimit = CStruct [(''rlim_cur'', CInt 8), (''rlim_max'', CInt 8)]"

definition a64_linux_binprm :: ctype where
  "a64_linux_binprm = CStruct [(''vma'', CPtr ''vm_area_struct''), (''vma_pages'', CInt 8), (''argmin'', CInt 8), (''mm'', CPtr ''mm_struct''),
     (''p'', CInt 8), (''have_execfd'', CBits 4 1), (''execfd_creds'', CBits 4 1), (''secureexec'', CBits 4 1),
     (''point_of_no_return'', CBits 4 1), (''comm_from_dentry'', CBits 4 1), (''is_check'', CBits 4 1),
     (''executable'', CPtr ''file''), (''interpreter'', CPtr ''file''), (''file'', CPtr ''file''),
     (''cred'', CPtr ''cred''), (''unsafe'', CInt 4), (''per_clear'', CInt 4), (''argc'', CInt 4), (''envc'', CInt 4),
     (''filename'', CPtr ''''), (''interp'', CPtr ''''), (''fdpath'', CPtr ''''), (''interp_flags'', CInt 4),
     (''execfd'', CInt 4), (''exec'', CInt 8), (''rlim_stack'', a64_rlimit), (''buf'', CArr 256 (CInt 1))]"

definition a64_maple_tree :: ctype where
  "a64_maple_tree = CStruct [('''', CUnion [(''ma_lock'', a64_spinlock)]), (''ma_flags'', CInt 4), (''ma_root'', CPtr '''')]"

definition a64_mm_mm_cid :: ctype where
  "a64_mm_mm_cid = CStruct []"

definition a64_percpu_counter :: ctype where
  "a64_percpu_counter = CStruct [(''lock'', a64_raw_spinlock), (''count'', CInt 8), (''counters'', CPtr '''')]"

definition a64_refcount_struct :: ctype where
  "a64_refcount_struct = CStruct [(''refs'', a64_atomic_t)]"

definition a64_mm_context_t :: ctype where
  "a64_mm_context_t = CStruct [(''id'', a64_atomic64_t), (''pinned'', a64_refcount_struct), (''vdso'', CPtr ''''), (''flags'', CInt 8),
     (''pkey_allocation_map'', CInt 1)]"

definition a64_mm_flags_t :: ctype where
  "a64_mm_flags_t = CStruct [(''__mm_flags'', CArr 1 (CInt 8))]"

definition a64_uprobes_state :: ctype where
  "a64_uprobes_state = CStruct [(''xol_area'', CPtr ''xol_area'')]"

definition a64_mm_struct :: ctype where
  "a64_mm_struct = CStruct [('''', CStruct [('''', CStruct [(''mm_count'', a64_atomic_t), ('''', CBits 8 64), ('''', CBits 8 64),
     ('''', CBits 8 64), ('''', CBits 8 64), ('''', CBits 8 64), ('''', CBits 8 64), ('''', CBits 8 64)]),
     (''mm_mt'', a64_maple_tree), (''mmap_base'', CInt 8), (''mmap_legacy_base'', CInt 8), (''task_size'', CInt 8),
     (''pgd'', CPtr ''''), (''mm_users'', a64_atomic_t), (''mm_cid'', a64_mm_mm_cid),
     (''pgtables_bytes'', a64_atomic64_t), (''map_count'', CInt 4), (''page_table_lock'', a64_spinlock),
     (''mmap_lock'', a64_rw_semaphore), (''mmlist'', a64_list_head), (''vma_writer_wait'', a64_rcuwait),
     (''mm_lock_seq'', a64_seqcount), (''hiwater_rss'', CInt 8), (''hiwater_vm'', CInt 8), (''total_vm'', CInt 8),
     (''locked_vm'', CInt 8), (''pinned_vm'', a64_atomic64_t), (''data_vm'', CInt 8), (''exec_vm'', CInt 8),
     (''stack_vm'', CInt 8), (''def_flags'', CInt 8), (''write_protect_seq'', a64_seqcount),
     (''arg_lock'', a64_spinlock), (''start_code'', CInt 8), (''end_code'', CInt 8), (''start_data'', CInt 8),
     (''end_data'', CInt 8), (''start_brk'', CInt 8), (''brk'', CInt 8), (''start_stack'', CInt 8),
     (''arg_start'', CInt 8), (''arg_end'', CInt 8), (''env_start'', CInt 8), (''env_end'', CInt 8),
     (''saved_auxv'', CArr 50 (CInt 8)), (''rss_stat'', CArr 4 a64_percpu_counter),
     (''binfmt'', CPtr ''linux_binfmt''), (''context'', a64_mm_context_t), (''flags'', a64_mm_flags_t),
     (''user_ns'', CPtr ''user_namespace''), (''exe_file'', CPtr ''file''), (''tlb_flush_pending'', a64_atomic_t),
     (''tlb_flush_batched'', a64_atomic_t), (''uprobes_state'', a64_uprobes_state),
     (''async_put_work'', a64_work_struct), ('''', CBits 8 64), ('''', CBits 8 64), ('''', CBits 8 64),
     ('''', CBits 8 64)]), (''flexible_array'', CArr 0 (CInt 1))]"

definition a64_thread_info :: ctype where
  "a64_thread_info = CStruct [(''flags'', CInt 8), ('''', CUnion [(''preempt_count'', CInt 8), (''preempt'', CStruct [(''count'', CInt 4),
     (''need_resched'', CInt 4)])]), (''cpu'', CInt 4)]"

definition a64_call_single_node :: ctype where
  "a64_call_single_node = CStruct [(''llist'', a64_llist_node), ('''', CUnion [(''u_flags'', CInt 4), (''a_flags'', a64_atomic_t)]),
     (''src'', CInt 2), (''dst'', CInt 2)]"

definition a64_load_weight :: ctype where
  "a64_load_weight = CStruct [(''weight'', CInt 8), (''inv_weight'', CInt 4)]"

definition a64_rb_node :: ctype where
  "a64_rb_node = CStruct [(''__rb_parent_color'', CInt 8), (''rb_right'', CPtr ''rb_node''), (''rb_left'', CPtr ''rb_node'')]"

definition a64_sched_avg :: ctype where
  "a64_sched_avg = CStruct [(''last_update_time'', CInt 8), (''load_sum'', CInt 8), (''runnable_sum'', CInt 8), (''util_sum'', CInt 4),
     (''period_contrib'', CInt 4), (''load_avg'', CInt 8), (''runnable_avg'', CInt 8), (''util_avg'', CInt 8),
     (''util_est'', CInt 4)]"

definition a64_sched_entity :: ctype where
  "a64_sched_entity = CStruct [(''load'', a64_load_weight), (''run_node'', a64_rb_node), (''deadline'', CInt 8), (''min_vruntime'', CInt 8),
     (''min_slice'', CInt 8), (''group_node'', a64_list_head), (''on_rq'', CInt 1), (''sched_delayed'', CInt 1),
     (''rel_deadline'', CInt 1), (''custom_slice'', CInt 1), (''exec_start'', CInt 8), (''sum_exec_runtime'', CInt 8),
     (''prev_sum_exec_runtime'', CInt 8), (''vruntime'', CInt 8), ('''', CUnion [(''vlag'', CInt 8),
     (''vprot'', CInt 8)]), (''slice'', CInt 8), (''nr_migrations'', CInt 8), ('''', CBits 8 64), ('''', CBits 8 64),
     ('''', CBits 8 64), ('''', CBits 8 64), ('''', CBits 8 64), ('''', CBits 8 64), (''avg'', a64_sched_avg)]"

definition a64_sched_rt_entity :: ctype where
  "a64_sched_rt_entity = CStruct [(''run_list'', a64_list_head), (''timeout'', CInt 8), (''watchdog_stamp'', CInt 8), (''time_slice'', CInt 4),
     (''on_rq'', CInt 2), (''on_list'', CInt 2), (''back'', CPtr ''sched_rt_entity'')]"

definition a64_timerqueue_node :: ctype where
  "a64_timerqueue_node = CStruct [(''node'', a64_rb_node), (''expires'', CInt 8)]"

definition a64_hrtimer :: ctype where
  "a64_hrtimer = CStruct [(''node'', a64_timerqueue_node), (''_softexpires'', CInt 8), (''function'', CPtr ''''),
     (''base'', CPtr ''hrtimer_clock_base''), (''state'', CInt 1), (''is_rel'', CInt 1), (''is_soft'', CInt 1),
     (''is_hard'', CInt 1)]"

definition a64_sched_dl_entity :: ctype where
  "a64_sched_dl_entity = CStruct [(''rb_node'', a64_rb_node), (''dl_runtime'', CInt 8), (''dl_deadline'', CInt 8), (''dl_period'', CInt 8),
     (''dl_bw'', CInt 8), (''dl_density'', CInt 8), (''runtime'', CInt 8), (''deadline'', CInt 8),
     (''flags'', CInt 4), (''dl_throttled'', CBits 4 1), (''dl_yielded'', CBits 4 1),
     (''dl_non_contending'', CBits 4 1), (''dl_overrun'', CBits 4 1), (''dl_server'', CBits 4 1),
     (''dl_server_active'', CBits 4 1), (''dl_defer'', CBits 4 1), (''dl_defer_armed'', CBits 4 1),
     (''dl_defer_running'', CBits 4 1), (''dl_defer_idle'', CBits 4 1), (''dl_timer'', a64_hrtimer),
     (''inactive_timer'', a64_hrtimer), (''rq'', CPtr ''rq''), (''server_pick_task'', CPtr '''')]"

definition a64_sched_statistics :: ctype where
  "a64_sched_statistics = CStruct []"

definition a64_cpumask :: ctype where
  "a64_cpumask = CStruct [(''bits'', CArr 8 (CInt 8))]"

definition a64_rcu_special :: ctype where
  "a64_rcu_special = CUnion [(''b'', CStruct [(''blocked'', CInt 1), (''need_qs'', CInt 1), (''exp_hint'', CInt 1), (''need_mb'', CInt 1)]),
     (''s'', CInt 4)]"

definition a64_sched_info :: ctype where
  "a64_sched_info = CStruct []"

definition a64_plist_node :: ctype where
  "a64_plist_node = CStruct [(''prio'', CInt 4), (''prio_list'', a64_list_head), (''node_list'', a64_list_head)]"

definition a64_restart_block :: ctype where
  "a64_restart_block = CStruct [(''arch_data'', CInt 8), (''fn'', CPtr ''''), ('''', CUnion [(''futex'', CStruct [(''uaddr'', CPtr ''''),
     (''val'', CInt 4), (''flags'', CInt 4), (''bitset'', CInt 4), (''time'', CInt 8), (''uaddr2'', CPtr '''')]),
     (''nanosleep'', CStruct [(''clockid'', CInt 4), (''type'', CInt 4),
     ('''', CUnion [(''rmtp'', CPtr ''__kernel_timespec''), (''compat_rmtp'', CPtr ''old_timespec32'')]),
     (''expires'', CInt 8)]), (''poll'', CStruct [(''ufds'', CPtr ''pollfd''), (''nfds'', CInt 4),
     (''has_timeout'', CInt 4), (''tv_sec'', CInt 8), (''tv_nsec'', CInt 8)])])]"

definition a64_prev_cputime :: ctype where
  "a64_prev_cputime = CStruct [(''utime'', CInt 8), (''stime'', CInt 8), (''lock'', a64_raw_spinlock)]"

definition a64_posix_cputimers :: ctype where
  "a64_posix_cputimers = CStruct []"

definition a64_sigset_t :: ctype where
  "a64_sigset_t = CStruct [(''sig'', CArr 1 (CInt 8))]"

definition a64_sigpending :: ctype where
  "a64_sigpending = CStruct [(''list'', a64_list_head), (''signal'', a64_sigset_t)]"

definition a64_seccomp :: ctype where
  "a64_seccomp = CStruct []"

definition a64_syscall_user_dispatch :: ctype where
  "a64_syscall_user_dispatch = CStruct []"

definition a64_wake_q_node :: ctype where
  "a64_wake_q_node = CStruct [(''next'', CPtr ''wake_q_node'')]"

definition a64_task_io_accounting :: ctype where
  "a64_task_io_accounting = CStruct []"

definition a64_rseq_data :: ctype where
  "a64_rseq_data = CStruct []"

definition a64_sched_mm_cid :: ctype where
  "a64_sched_mm_cid = CStruct []"

definition a64_arch_tlbflush_unmap_batch :: ctype where
  "a64_arch_tlbflush_unmap_batch = CStruct []"

definition a64_tlbflush_unmap_batch :: ctype where
  "a64_tlbflush_unmap_batch = CStruct [(''arch'', a64_arch_tlbflush_unmap_batch), (''flush_required'', CInt 1), (''writable'', CInt 1)]"

definition a64_page_frag :: ctype where
  "a64_page_frag = CStruct [(''page'', CPtr ''page''), (''offset'', CInt 4), (''size'', CInt 4)]"

definition a64_kmap_ctrl :: ctype where
  "a64_kmap_ctrl = CStruct []"

definition a64_timer_list :: ctype where
  "a64_timer_list = CStruct [(''entry'', a64_hlist_node), (''expires'', CInt 8), (''function'', CPtr ''''), (''flags'', CInt 4)]"

definition a64_llist_head :: ctype where
  "a64_llist_head = CStruct [(''first'', CPtr ''llist_node'')]"

definition a64_cpu_context :: ctype where
  "a64_cpu_context = CStruct [(''x19'', CInt 8), (''x20'', CInt 8), (''x21'', CInt 8), (''x22'', CInt 8), (''x23'', CInt 8), (''x24'', CInt 8),
     (''x25'', CInt 8), (''x26'', CInt 8), (''x27'', CInt 8), (''x28'', CInt 8), (''fp'', CInt 8), (''sp'', CInt 8),
     (''pc'', CInt 8)]"

definition a64_user_fpsimd_state :: ctype where
  "a64_user_fpsimd_state = CStruct [(''vregs'', CArr 32 (CInt 16)), (''fpsr'', CInt 4), (''fpcr'', CInt 4), (''__reserved'', CArr 2 (CInt 4))]"

definition a64_debug_info :: ctype where
  "a64_debug_info = CStruct [(''suspended_step'', CInt 4), (''bps_disabled'', CInt 4), (''wps_disabled'', CInt 4),
     (''hbp_break'', CArr 16 (CPtr ''perf_event'')), (''hbp_watch'', CArr 16 (CPtr ''perf_event''))]"

definition a64_thread_struct :: ctype where
  "a64_thread_struct = CStruct [(''cpu_context'', a64_cpu_context), ('''', CBits 8 64), (''uw'', CStruct [(''tp_value'', CInt 8),
     (''tp2_value'', CInt 8), (''fpmr'', CInt 8), (''pad'', CInt 8), (''fpsimd_state'', a64_user_fpsimd_state)]),
     (''fp_type'', CInt 4), (''fpsimd_cpu'', CInt 4), (''sve_state'', CPtr ''''), (''sme_state'', CPtr ''''),
     (''vl'', CArr 2 (CInt 4)), (''vl_onexec'', CArr 2 (CInt 4)), (''fault_address'', CInt 8),
     (''fault_code'', CInt 8), (''debug'', a64_debug_info), (''kernel_fpsimd_state'', CPtr ''user_fpsimd_state''),
     (''kernel_fpsimd_cpu'', CInt 4), (''sctlr_user'', CInt 8), (''svcr'', CInt 8), (''tpidr2_el0'', CInt 8),
     (''por_el0'', CInt 8), ('''', CBits 8 64)]"

definition a64_task_struct_head :: cfields where
  "a64_task_struct_head =
    [(''thread_info'', a64_thread_info), (''__state'', CInt 4), (''saved_state'', CInt 4), (''stack'', CPtr ''''),
     (''usage'', a64_refcount_struct), (''flags'', CInt 4), (''ptrace'', CInt 4), (''on_cpu'', CInt 4),
     (''wake_entry'', a64_call_single_node), (''wakee_flips'', CInt 4), (''wakee_flip_decay_ts'', CInt 8),
     (''last_wakee'', CPtr ''task_struct''), (''recent_used_cpu'', CInt 4), (''wake_cpu'', CInt 4),
     (''on_rq'', CInt 4), (''prio'', CInt 4), (''static_prio'', CInt 4), (''normal_prio'', CInt 4),
     (''rt_priority'', CInt 4), (''se'', a64_sched_entity), (''rt'', a64_sched_rt_entity),
     (''dl'', a64_sched_dl_entity), (''dl_server'', CPtr ''sched_dl_entity''),
     (''sched_class'', CPtr ''sched_class''), ('''', CBits 8 64), ('''', CBits 8 64), ('''', CBits 8 64),
     (''stats'', a64_sched_statistics), (''policy'', CInt 4), (''max_allowed_capacity'', CInt 8),
     (''nr_cpus_allowed'', CInt 4), (''cpus_ptr'', CPtr ''''), (''user_cpus_ptr'', CPtr ''''),
     (''cpus_mask'', a64_cpumask), (''migration_pending'', CPtr ''''), (''migration_disabled'', CInt 2),
     (''migration_flags'', CInt 2), (''trc_reader_nesting'', CInt 4), (''trc_ipi_to_cpu'', CInt 4),
     (''trc_reader_special'', a64_rcu_special), (''trc_holdout_list'', a64_list_head),
     (''trc_blkd_node'', a64_list_head), (''trc_blkd_cpu'', CInt 4), (''sched_info'', a64_sched_info),
     (''tasks'', a64_list_head), (''pushable_tasks'', a64_plist_node), (''pushable_dl_tasks'', a64_rb_node),
     (''mm'', CPtr ''mm_struct''), (''active_mm'', CPtr ''mm_struct''),
     (''faults_disabled_mapping'', CPtr ''address_space''), (''exit_state'', CInt 4), (''exit_code'', CInt 4),
     (''exit_signal'', CInt 4), (''pdeath_signal'', CInt 4), (''jobctl'', CInt 8), (''personality'', CInt 4),
     (''sched_reset_on_fork'', CBits 4 1), (''sched_contributes_to_load'', CBits 4 1),
     (''sched_migrated'', CBits 4 1), (''sched_task_hot'', CBits 4 1), ('''', CBits 8 28),
     (''sched_remote_wakeup'', CBits 4 1), (''in_execve'', CBits 4 1), (''in_iowait'', CBits 4 1),
     (''in_nf_duplicate'', CBits 4 1), (''atomic_flags'', CInt 8), (''restart_block'', a64_restart_block),
     (''pid'', CInt 4), (''tgid'', CInt 4), (''real_parent'', CPtr ''task_struct''),
     (''parent'', CPtr ''task_struct''), (''children'', a64_list_head), (''sibling'', a64_list_head),
     (''group_leader'', CPtr ''task_struct''), (''ptraced'', a64_list_head), (''ptrace_entry'', a64_list_head),
     (''thread_pid'', CPtr ''pid''), (''pid_links'', CArr 4 a64_hlist_node), (''thread_node'', a64_list_head),
     (''vfork_done'', CPtr ''completion''), (''set_child_tid'', CPtr ''''), (''clear_child_tid'', CPtr ''''),
     (''worker_private'', CPtr ''''), (''utime'', CInt 8), (''stime'', CInt 8), (''gtime'', CInt 8),
     (''prev_cputime'', a64_prev_cputime), (''nvcsw'', CInt 8), (''nivcsw'', CInt 8), (''start_time'', CInt 8),
     (''start_boottime'', CInt 8), (''min_flt'', CInt 8), (''maj_flt'', CInt 8),
     (''posix_cputimers'', a64_posix_cputimers), (''ptracer_cred'', CPtr ''cred''), (''real_cred'', CPtr ''cred''),
     (''cred'', CPtr ''cred''), (''comm'', CArr 16 (CInt 1)), (''nameidata'', CPtr ''nameidata''),
     (''fs'', CPtr ''fs_struct''), (''files'', CPtr ''files_struct''), (''nsproxy'', CPtr ''nsproxy''),
     (''signal'', CPtr ''signal_struct''), (''sighand'', CPtr ''sighand_struct''), (''blocked'', a64_sigset_t),
     (''real_blocked'', a64_sigset_t), (''saved_sigmask'', a64_sigset_t), (''pending'', a64_sigpending),
     (''sas_ss_sp'', CInt 8), (''sas_ss_size'', CInt 8), (''sas_ss_flags'', CInt 4),
     (''task_works'', CPtr ''callback_head''), (''seccomp'', a64_seccomp),
     (''syscall_dispatch'', a64_syscall_user_dispatch), (''parent_exec_id'', CInt 8), (''self_exec_id'', CInt 8),
     (''alloc_lock'', a64_spinlock), (''pi_lock'', a64_raw_spinlock), (''wake_q'', a64_wake_q_node)]"

definition a64_task_struct_tail :: cfields where
  "a64_task_struct_tail =
    [(''blocked_on'', CPtr ''mutex''), (''journal_info'', CPtr ''''), (''bio_list'', CPtr ''bio_list''),
     (''plug'', CPtr ''blk_plug''), (''reclaim_state'', CPtr ''reclaim_state''),
     (''io_context'', CPtr ''io_context''), (''ptrace_message'', CInt 8), (''last_siginfo'', CPtr ''''),
     (''ioac'', a64_task_io_accounting), (''perf_recursion'', CArr 4 (CInt 1)),
     (''perf_event_ctxp'', CPtr ''perf_event_context''), (''perf_event_mutex'', a64_mutex),
     (''perf_event_list'', a64_list_head), (''perf_ctx_data'', CPtr ''perf_ctx_data''), (''rseq'', a64_rseq_data),
     (''mm_cid'', a64_sched_mm_cid), (''tlb_ubc'', a64_tlbflush_unmap_batch),
     (''splice_pipe'', CPtr ''pipe_inode_info''), (''task_frag'', a64_page_frag), (''nr_dirtied'', CInt 4),
     (''nr_dirtied_pause'', CInt 4), (''dirty_paused_when'', CInt 8), (''timer_slack_ns'', CInt 8),
     (''default_timer_slack_ns'', CInt 8), (''curr_ret_stack'', CInt 4), (''curr_ret_depth'', CInt 4),
     (''ret_stack'', CPtr ''''), (''ftrace_timestamp'', CInt 8), (''ftrace_sleeptime'', CInt 8),
     (''trace_overrun'', a64_atomic_t), (''tracing_graph_pause'', a64_atomic_t), (''trace_recursion'', CInt 8),
     (''utask'', CPtr ''uprobe_task''), (''kmap_ctrl'', a64_kmap_ctrl), (''rcu'', a64_callback_head),
     (''rcu_users'', a64_refcount_struct), (''pagefault_disabled'', CInt 4),
     (''oom_reaper_list'', CPtr ''task_struct''), (''oom_reaper_timer'', a64_timer_list),
     (''stack_vm_area'', CPtr ''vm_struct''), (''stack_refcount'', a64_refcount_struct), (''security'', CPtr ''''),
     (''bpf_storage'', CPtr ''bpf_local_storage''), (''bpf_ctx'', CPtr ''bpf_run_ctx''),
     (''bpf_net_context'', CPtr ''bpf_net_context''), (''kretprobe_instances'', a64_llist_head), ('''', CBits 8 64),
     (''thread'', a64_thread_struct), ('''', CBits 8 64), ('''', CBits 8 64), ('''', CBits 8 64), ('''', CBits 8 64)]"

definition a64_task_struct :: ctype where
  "a64_task_struct = CStruct (a64_task_struct_head @ a64_task_struct_tail)"

definition a64_bpf_sock_addr :: ctype where
  "a64_bpf_sock_addr = CStruct [(''user_family'', CInt 4), (''user_ip4'', CInt 4), (''user_ip6'', CArr 4 (CInt 4)), (''user_port'', CInt 4),
     (''family'', CInt 4), (''type'', CInt 4), (''protocol'', CInt 4), (''msg_src_ip4'', CInt 4),
     (''msg_src_ip6'', CArr 4 (CInt 4)), ('''', CUnion [(''sk'', CPtr ''bpf_sock'')])]"

definition a64_vfsuid_t :: ctype where
  "a64_vfsuid_t = CStruct [(''val'', CInt 4)]"

definition a64_vfsgid_t :: ctype where
  "a64_vfsgid_t = CStruct [(''val'', CInt 4)]"

definition a64_timespec64 :: ctype where
  "a64_timespec64 = CStruct [(''tv_sec'', CInt 8), (''tv_nsec'', CInt 8)]"

definition a64_iattr :: ctype where
  "a64_iattr = CStruct [(''ia_valid'', CInt 4), (''ia_mode'', CInt 2), ('''', CUnion [(''ia_uid'', a64_kuid_t),
     (''ia_vfsuid'', a64_vfsuid_t)]), ('''', CUnion [(''ia_gid'', a64_kgid_t), (''ia_vfsgid'', a64_vfsgid_t)]),
     (''ia_size'', CInt 8), (''ia_atime'', a64_timespec64), (''ia_mtime'', a64_timespec64),
     (''ia_ctime'', a64_timespec64), (''ia_file'', CPtr ''file'')]"

definition a64_vfsmount :: ctype where
  "a64_vfsmount = CStruct [(''mnt_root'', CPtr ''dentry''), (''mnt_sb'', CPtr ''super_block''), (''mnt_flags'', CInt 4),
     (''mnt_idmap'', CPtr ''mnt_idmap'')]"

subsection \<open>Sizes and alignments\<close>

lemma a64_kuid_t_size [THEN laid_outD, klayout]: "laid_out a64_kuid_t 4 4"
  by (rule laid_out_struct [OF a64_kuid_t_def]; simp add: klayout cong: fields_cong)

lemma a64_kgid_t_size [THEN laid_outD, klayout]: "laid_out a64_kgid_t 4 4"
  by (rule laid_out_struct [OF a64_kgid_t_def]; simp add: klayout cong: fields_cong)

lemma a64_atomic_t_size [THEN laid_outD, klayout]: "laid_out a64_atomic_t 4 4"
  by (rule laid_out_struct [OF a64_atomic_t_def]; simp add: klayout cong: fields_cong)

lemma a64_qspinlock_size [THEN laid_outD, klayout]: "laid_out a64_qspinlock 4 4"
  by (rule laid_out_struct [OF a64_qspinlock_def]; simp add: klayout cong: fields_cong)

lemma a64_raw_spinlock_size [THEN laid_outD, klayout]: "laid_out a64_raw_spinlock 4 4"
  by (rule laid_out_struct [OF a64_raw_spinlock_def]; simp add: klayout cong: fields_cong)

lemma a64_spinlock_size [THEN laid_outD, klayout]: "laid_out a64_spinlock 4 4"
  by (rule laid_out_struct [OF a64_spinlock_def]; simp add: klayout cong: fields_cong)

lemma a64_inode_state_flags_size [THEN laid_outD, klayout]: "laid_out a64_inode_state_flags 4 4"
  by (rule laid_out_struct [OF a64_inode_state_flags_def]; simp add: klayout cong: fields_cong)

lemma a64_atomic64_t_size [THEN laid_outD, klayout]: "laid_out a64_atomic64_t 8 8"
  by (rule laid_out_struct [OF a64_atomic64_t_def]; simp add: klayout cong: fields_cong)

lemma a64_optimistic_spin_queue_size [THEN laid_outD, klayout]: "laid_out a64_optimistic_spin_queue 4 4"
  by (rule laid_out_struct [OF a64_optimistic_spin_queue_def]; simp add: klayout cong: fields_cong)

lemma a64_list_head_size [THEN laid_outD, klayout]: "laid_out a64_list_head 16 8"
  by (rule laid_out_struct [OF a64_list_head_def]; simp add: klayout cong: fields_cong)

lemma a64_rw_semaphore_size [THEN laid_outD, klayout]: "laid_out a64_rw_semaphore 40 8"
  by (rule laid_out_struct [OF a64_rw_semaphore_def]; simp add: klayout cong: fields_cong)

lemma a64_hlist_node_size [THEN laid_outD, klayout]: "laid_out a64_hlist_node 16 8"
  by (rule laid_out_struct [OF a64_hlist_node_def]; simp add: klayout cong: fields_cong)

lemma a64_hlist_head_size [THEN laid_outD, klayout]: "laid_out a64_hlist_head 8 8"
  by (rule laid_out_struct [OF a64_hlist_head_def]; simp add: klayout cong: fields_cong)

lemma a64_callback_head_size [THEN laid_outD, klayout]: "laid_out a64_callback_head 16 8"
  by (rule laid_out_struct [OF a64_callback_head_def]; simp add: klayout cong: fields_cong)

lemma a64_xarray_size [THEN laid_outD, klayout]: "laid_out a64_xarray 16 8"
  by (rule laid_out_struct [OF a64_xarray_def]; simp add: klayout cong: fields_cong)

lemma a64_rb_root_size [THEN laid_outD, klayout]: "laid_out a64_rb_root 8 8"
  by (rule laid_out_struct [OF a64_rb_root_def]; simp add: klayout cong: fields_cong)

lemma a64_rb_root_cached_size [THEN laid_outD, klayout]: "laid_out a64_rb_root_cached 16 8"
  by (rule laid_out_struct [OF a64_rb_root_cached_def]; simp add: klayout cong: fields_cong)

lemma a64_address_space_size [THEN laid_outD, klayout]: "laid_out a64_address_space 192 8"
  by (rule laid_out_struct [OF a64_address_space_def]; simp add: klayout cong: fields_cong)

lemma a64_inode_size [THEN laid_outD, klayout]: "laid_out a64_inode 560 8"
  by (rule laid_out_struct [OF a64_inode_def]; simp add: klayout cong: fields_cong)

lemma a64_seqcount_size [THEN laid_outD, klayout]: "laid_out a64_seqcount 4 4"
  by (rule laid_out_struct [OF a64_seqcount_def]; simp add: klayout cong: fields_cong)

lemma a64_seqcount_spinlock_size [THEN laid_outD, klayout]: "laid_out a64_seqcount_spinlock 4 4"
  by (rule laid_out_struct [OF a64_seqcount_spinlock_def]; simp add: klayout cong: fields_cong)

lemma a64_hlist_bl_node_size [THEN laid_outD, klayout]: "laid_out a64_hlist_bl_node 16 8"
  by (rule laid_out_struct [OF a64_hlist_bl_node_def]; simp add: klayout cong: fields_cong)

lemma a64_qstr_size [THEN laid_outD, klayout]: "laid_out a64_qstr 16 8"
  by (rule laid_out_struct [OF a64_qstr_def]; simp add: klayout cong: fields_cong)

lemma a64_shortname_store_size [THEN laid_outD, klayout]: "laid_out a64_shortname_store 40 8"
  by (rule laid_out_union [OF a64_shortname_store_def]; simp add: klayout cong: fields_cong)

lemma a64_lockref_size [THEN laid_outD, klayout]: "laid_out a64_lockref 8 8"
  by (rule laid_out_struct [OF a64_lockref_def]; simp add: klayout cong: fields_cong)

lemma a64_dentry_size [THEN laid_outD, klayout]: "laid_out a64_dentry 192 8"
  by (rule laid_out_struct [OF a64_dentry_def]; simp add: klayout cong: fields_cong)

lemma a64_hlist_bl_head_size [THEN laid_outD, klayout]: "laid_out a64_hlist_bl_head 8 8"
  by (rule laid_out_struct [OF a64_hlist_bl_head_def]; simp add: klayout cong: fields_cong)

lemma a64_mem_dqinfo_size [THEN laid_outD, klayout]: "laid_out a64_mem_dqinfo 72 8"
  by (rule laid_out_struct [OF a64_mem_dqinfo_def]; simp add: klayout cong: fields_cong)

lemma a64_quota_info_size [THEN laid_outD, klayout]: "laid_out a64_quota_info 312 8"
  by (rule laid_out_struct [OF a64_quota_info_def]; simp add: klayout cong: fields_cong)

lemma a64_wait_queue_head_size [THEN laid_outD, klayout]: "laid_out a64_wait_queue_head 24 8"
  by (rule laid_out_struct [OF a64_wait_queue_head_def]; simp add: klayout cong: fields_cong)

lemma a64_rcu_sync_size [THEN laid_outD, klayout]: "laid_out a64_rcu_sync 48 8"
  by (rule laid_out_struct [OF a64_rcu_sync_def]; simp add: klayout cong: fields_cong)

lemma a64_rcuwait_size [THEN laid_outD, klayout]: "laid_out a64_rcuwait 8 8"
  by (rule laid_out_struct [OF a64_rcuwait_def]; simp add: klayout cong: fields_cong)

lemma a64_percpu_rw_semaphore_size [THEN laid_outD, klayout]: "laid_out a64_percpu_rw_semaphore 96 8"
  by (rule laid_out_struct [OF a64_percpu_rw_semaphore_def]; simp add: klayout cong: fields_cong)

lemma a64_sb_writers_size [THEN laid_outD, klayout]: "laid_out a64_sb_writers 312 8"
  by (rule laid_out_struct [OF a64_sb_writers_def]; simp add: klayout cong: fields_cong)

lemma a64_uuid_t_size [THEN laid_outD, klayout]: "laid_out a64_uuid_t 16 1"
  by (rule laid_out_struct [OF a64_uuid_t_def]; simp add: klayout cong: fields_cong)

lemma a64_mutex_size [THEN laid_outD, klayout]: "laid_out a64_mutex 32 8"
  by (rule laid_out_struct [OF a64_mutex_def]; simp add: klayout cong: fields_cong)

lemma a64_list_lru_size [THEN laid_outD, klayout]: "laid_out a64_list_lru 8 8"
  by (rule laid_out_struct [OF a64_list_lru_def]; simp add: klayout cong: fields_cong)

lemma a64_work_struct_size [THEN laid_outD, klayout]: "laid_out a64_work_struct 32 8"
  by (rule laid_out_struct [OF a64_work_struct_def]; simp add: klayout cong: fields_cong)

lemma a64_super_block_size [THEN laid_outD, klayout]: "laid_out a64_super_block 1280 8"
  by (rule laid_out_struct [OF a64_super_block_def]; simp add: klayout cong: fields_cong)

lemma a64_path_size [THEN laid_outD, klayout]: "laid_out a64_path 16 8"
  by (rule laid_out_struct [OF a64_path_def]; simp add: klayout cong: fields_cong)

lemma a64_llist_node_size [THEN laid_outD, klayout]: "laid_out a64_llist_node 8 8"
  by (rule laid_out_struct [OF a64_llist_node_def]; simp add: klayout cong: fields_cong)

lemma a64_file_ra_state_size [THEN laid_outD, klayout]: "laid_out a64_file_ra_state 32 8"
  by (rule laid_out_struct [OF a64_file_ra_state_def]; simp add: klayout cong: fields_cong)

lemma a64_freeptr_t_size [THEN laid_outD, klayout]: "laid_out a64_freeptr_t 8 8"
  by (rule laid_out_struct [OF a64_freeptr_t_def]; simp add: klayout cong: fields_cong)

lemma a64_file_ref_t_size [THEN laid_outD, klayout]: "laid_out a64_file_ref_t 8 8"
  by (rule laid_out_struct [OF a64_file_ref_t_def]; simp add: klayout cong: fields_cong)

lemma a64_file_size [THEN laid_outD, klayout]: "laid_out a64_file 176 8"
  by (rule laid_out_struct [OF a64_file_def]; simp add: klayout cong: fields_cong)

lemma a64_rlimit_size [THEN laid_outD, klayout]: "laid_out a64_rlimit 16 8"
  by (rule laid_out_struct [OF a64_rlimit_def]; simp add: klayout cong: fields_cong)

lemma a64_linux_binprm_size [THEN laid_outD, klayout]: "laid_out a64_linux_binprm 408 8"
  by (rule laid_out_struct [OF a64_linux_binprm_def]; simp add: klayout cong: fields_cong)

lemma a64_maple_tree_size [THEN laid_outD, klayout]: "laid_out a64_maple_tree 16 8"
  by (rule laid_out_struct [OF a64_maple_tree_def]; simp add: klayout cong: fields_cong)

lemma a64_mm_mm_cid_size [THEN laid_outD, klayout]: "laid_out a64_mm_mm_cid 0 1"
  by (rule laid_out_struct [OF a64_mm_mm_cid_def]; simp add: klayout cong: fields_cong)

lemma a64_percpu_counter_size [THEN laid_outD, klayout]: "laid_out a64_percpu_counter 24 8"
  by (rule laid_out_struct [OF a64_percpu_counter_def]; simp add: klayout cong: fields_cong)

lemma a64_refcount_struct_size [THEN laid_outD, klayout]: "laid_out a64_refcount_struct 4 4"
  by (rule laid_out_struct [OF a64_refcount_struct_def]; simp add: klayout cong: fields_cong)

lemma a64_mm_context_t_size [THEN laid_outD, klayout]: "laid_out a64_mm_context_t 40 8"
  by (rule laid_out_struct [OF a64_mm_context_t_def]; simp add: klayout cong: fields_cong)

lemma a64_mm_flags_t_size [THEN laid_outD, klayout]: "laid_out a64_mm_flags_t 8 8"
  by (rule laid_out_struct [OF a64_mm_flags_t_def]; simp add: klayout cong: fields_cong)

lemma a64_uprobes_state_size [THEN laid_outD, klayout]: "laid_out a64_uprobes_state 8 8"
  by (rule laid_out_struct [OF a64_uprobes_state_def]; simp add: klayout cong: fields_cong)

lemma a64_mm_struct_size [THEN laid_outD, klayout]: "laid_out a64_mm_struct 1024 8"
  by (rule laid_out_struct [OF a64_mm_struct_def]; simp add: klayout cong: fields_cong)

lemma a64_thread_info_size [THEN laid_outD, klayout]: "laid_out a64_thread_info 24 8"
  by (rule laid_out_struct [OF a64_thread_info_def]; simp add: klayout cong: fields_cong)

lemma a64_call_single_node_size [THEN laid_outD, klayout]: "laid_out a64_call_single_node 16 8"
  by (rule laid_out_struct [OF a64_call_single_node_def]; simp add: klayout cong: fields_cong)

lemma a64_load_weight_size [THEN laid_outD, klayout]: "laid_out a64_load_weight 16 8"
  by (rule laid_out_struct [OF a64_load_weight_def]; simp add: klayout cong: fields_cong)

lemma a64_rb_node_size [THEN laid_outD, klayout]: "laid_out a64_rb_node 24 8"
  by (rule laid_out_struct [OF a64_rb_node_def]; simp add: klayout cong: fields_cong)

lemma a64_sched_avg_size [THEN laid_outD, klayout]: "laid_out a64_sched_avg 64 8"
  by (rule laid_out_struct [OF a64_sched_avg_def]; simp add: klayout cong: fields_cong)

lemma a64_sched_entity_size [THEN laid_outD, klayout]: "laid_out a64_sched_entity 256 8"
  by (rule laid_out_struct [OF a64_sched_entity_def]; simp add: klayout cong: fields_cong)

lemma a64_sched_rt_entity_size [THEN laid_outD, klayout]: "laid_out a64_sched_rt_entity 48 8"
  by (rule laid_out_struct [OF a64_sched_rt_entity_def]; simp add: klayout cong: fields_cong)

lemma a64_timerqueue_node_size [THEN laid_outD, klayout]: "laid_out a64_timerqueue_node 32 8"
  by (rule laid_out_struct [OF a64_timerqueue_node_def]; simp add: klayout cong: fields_cong)

lemma a64_hrtimer_size [THEN laid_outD, klayout]: "laid_out a64_hrtimer 64 8"
  by (rule laid_out_struct [OF a64_hrtimer_def]; simp add: klayout cong: fields_cong)

lemma a64_sched_dl_entity_size [THEN laid_outD, klayout]: "laid_out a64_sched_dl_entity 232 8"
  by (rule laid_out_struct [OF a64_sched_dl_entity_def]; simp add: klayout cong: fields_cong)

lemma a64_sched_statistics_size [THEN laid_outD, klayout]: "laid_out a64_sched_statistics 0 1"
  by (rule laid_out_struct [OF a64_sched_statistics_def]; simp add: klayout cong: fields_cong)

lemma a64_cpumask_size [THEN laid_outD, klayout]: "laid_out a64_cpumask 64 8"
  by (rule laid_out_struct [OF a64_cpumask_def]; simp add: klayout cong: fields_cong)

lemma a64_rcu_special_size [THEN laid_outD, klayout]: "laid_out a64_rcu_special 4 4"
  by (rule laid_out_union [OF a64_rcu_special_def]; simp add: klayout cong: fields_cong)

lemma a64_sched_info_size [THEN laid_outD, klayout]: "laid_out a64_sched_info 0 1"
  by (rule laid_out_struct [OF a64_sched_info_def]; simp add: klayout cong: fields_cong)

lemma a64_plist_node_size [THEN laid_outD, klayout]: "laid_out a64_plist_node 40 8"
  by (rule laid_out_struct [OF a64_plist_node_def]; simp add: klayout cong: fields_cong)

lemma a64_restart_block_size [THEN laid_outD, klayout]: "laid_out a64_restart_block 56 8"
  by (rule laid_out_struct [OF a64_restart_block_def]; simp add: klayout cong: fields_cong)

lemma a64_prev_cputime_size [THEN laid_outD, klayout]: "laid_out a64_prev_cputime 24 8"
  by (rule laid_out_struct [OF a64_prev_cputime_def]; simp add: klayout cong: fields_cong)

lemma a64_posix_cputimers_size [THEN laid_outD, klayout]: "laid_out a64_posix_cputimers 0 1"
  by (rule laid_out_struct [OF a64_posix_cputimers_def]; simp add: klayout cong: fields_cong)

lemma a64_sigset_t_size [THEN laid_outD, klayout]: "laid_out a64_sigset_t 8 8"
  by (rule laid_out_struct [OF a64_sigset_t_def]; simp add: klayout cong: fields_cong)

lemma a64_sigpending_size [THEN laid_outD, klayout]: "laid_out a64_sigpending 24 8"
  by (rule laid_out_struct [OF a64_sigpending_def]; simp add: klayout cong: fields_cong)

lemma a64_seccomp_size [THEN laid_outD, klayout]: "laid_out a64_seccomp 0 1"
  by (rule laid_out_struct [OF a64_seccomp_def]; simp add: klayout cong: fields_cong)

lemma a64_syscall_user_dispatch_size [THEN laid_outD, klayout]: "laid_out a64_syscall_user_dispatch 0 1"
  by (rule laid_out_struct [OF a64_syscall_user_dispatch_def]; simp add: klayout cong: fields_cong)

lemma a64_wake_q_node_size [THEN laid_outD, klayout]: "laid_out a64_wake_q_node 8 8"
  by (rule laid_out_struct [OF a64_wake_q_node_def]; simp add: klayout cong: fields_cong)

lemma a64_task_io_accounting_size [THEN laid_outD, klayout]: "laid_out a64_task_io_accounting 0 1"
  by (rule laid_out_struct [OF a64_task_io_accounting_def]; simp add: klayout cong: fields_cong)

lemma a64_rseq_data_size [THEN laid_outD, klayout]: "laid_out a64_rseq_data 0 1"
  by (rule laid_out_struct [OF a64_rseq_data_def]; simp add: klayout cong: fields_cong)

lemma a64_sched_mm_cid_size [THEN laid_outD, klayout]: "laid_out a64_sched_mm_cid 0 1"
  by (rule laid_out_struct [OF a64_sched_mm_cid_def]; simp add: klayout cong: fields_cong)

lemma a64_arch_tlbflush_unmap_batch_size [THEN laid_outD, klayout]: "laid_out a64_arch_tlbflush_unmap_batch 0 1"
  by (rule laid_out_struct [OF a64_arch_tlbflush_unmap_batch_def]; simp add: klayout cong: fields_cong)

lemma a64_tlbflush_unmap_batch_size [THEN laid_outD, klayout]: "laid_out a64_tlbflush_unmap_batch 2 1"
  by (rule laid_out_struct [OF a64_tlbflush_unmap_batch_def]; simp add: klayout cong: fields_cong)

lemma a64_page_frag_size [THEN laid_outD, klayout]: "laid_out a64_page_frag 16 8"
  by (rule laid_out_struct [OF a64_page_frag_def]; simp add: klayout cong: fields_cong)

lemma a64_kmap_ctrl_size [THEN laid_outD, klayout]: "laid_out a64_kmap_ctrl 0 1"
  by (rule laid_out_struct [OF a64_kmap_ctrl_def]; simp add: klayout cong: fields_cong)

lemma a64_timer_list_size [THEN laid_outD, klayout]: "laid_out a64_timer_list 40 8"
  by (rule laid_out_struct [OF a64_timer_list_def]; simp add: klayout cong: fields_cong)

lemma a64_llist_head_size [THEN laid_outD, klayout]: "laid_out a64_llist_head 8 8"
  by (rule laid_out_struct [OF a64_llist_head_def]; simp add: klayout cong: fields_cong)

lemma a64_cpu_context_size [THEN laid_outD, klayout]: "laid_out a64_cpu_context 104 8"
  by (rule laid_out_struct [OF a64_cpu_context_def]; simp add: klayout cong: fields_cong)

lemma a64_user_fpsimd_state_size [THEN laid_outD, klayout]: "laid_out a64_user_fpsimd_state 528 16"
  by (rule laid_out_struct [OF a64_user_fpsimd_state_def]; simp add: klayout cong: fields_cong)

lemma a64_debug_info_size [THEN laid_outD, klayout]: "laid_out a64_debug_info 272 8"
  by (rule laid_out_struct [OF a64_debug_info_def]; simp add: klayout cong: fields_cong)

lemma a64_thread_struct_size [THEN laid_outD, klayout]: "laid_out a64_thread_struct 1056 16"
  by (rule laid_out_struct [OF a64_thread_struct_def]; simp add: klayout cong: fields_cong)

lemma a64_task_struct_size [THEN laid_outD, klayout]: "laid_out a64_task_struct 3072 16"
  by (rule laid_out_struct [OF a64_task_struct_def]; unfold csize.simps a64_task_struct_head_def a64_task_struct_tail_def cend_append calign_fields_append; simp add: klayout cong: fields_cong)

lemma a64_bpf_sock_addr_size [THEN laid_outD, klayout]: "laid_out a64_bpf_sock_addr 72 8"
  by (rule laid_out_struct [OF a64_bpf_sock_addr_def]; simp add: klayout cong: fields_cong)

lemma a64_vfsuid_t_size [THEN laid_outD, klayout]: "laid_out a64_vfsuid_t 4 4"
  by (rule laid_out_struct [OF a64_vfsuid_t_def]; simp add: klayout cong: fields_cong)

lemma a64_vfsgid_t_size [THEN laid_outD, klayout]: "laid_out a64_vfsgid_t 4 4"
  by (rule laid_out_struct [OF a64_vfsgid_t_def]; simp add: klayout cong: fields_cong)

lemma a64_timespec64_size [THEN laid_outD, klayout]: "laid_out a64_timespec64 16 8"
  by (rule laid_out_struct [OF a64_timespec64_def]; simp add: klayout cong: fields_cong)

lemma a64_iattr_size [THEN laid_outD, klayout]: "laid_out a64_iattr 80 8"
  by (rule laid_out_struct [OF a64_iattr_def]; simp add: klayout cong: fields_cong)

lemma a64_vfsmount_size [THEN laid_outD, klayout]: "laid_out a64_vfsmount 32 8"
  by (rule laid_out_struct [OF a64_vfsmount_def]; simp add: klayout cong: fields_cong)

end
