(* ===== verification/Kernel_Mem.thy ===== *)
theory Kernel_Mem
  imports Kernel_X86 Kernel_Arm64 Kernel_Env
begin

text \<open>
  Kernel objects as bytes.  A program reads a member of a kernel object with \<open>BPF_CORE_READ\<close>, a probe
  read of the member's size at the member's offset; the offsets are those of the \<open>vmlinux.h\<close> of the
  target.  \<open>kernel_heap\<close> builds the object heap of \<open>Kernel_Env\<close> from a byte-addressed memory and the
  types of one target, so that the programs, which are defined over \<open>kheap\<close>, run on raw memory of
  either target.
\<close>

subsection \<open>Member paths\<close>

fun cpath :: "string list \<Rightarrow> ctype \<Rightarrow> (nat \<times> ctype) option" where
  "cpath [] t = Some (0, t)"
| "cpath (n # ns) t = (case cmember n t of
      None \<Rightarrow> None
    | Some (q, u) \<Rightarrow> map_option (\<lambda>(r, v). (q + r, v)) (cpath ns u))"

text \<open>Offset and size of a member, in bytes.\<close>

definition field_at :: "ctype \<Rightarrow> string list \<Rightarrow> (nat \<times> nat) option" where
  "field_at t path = map_option (\<lambda>(q, u). (q div 8, csize u)) (cpath path t)"

lemma cpath_within: "cpath path t = Some (q, u) \<Longrightarrow> path \<noteq> [] \<Longrightarrow> q + cbits u \<le> 8 * csize t"
proof (induction path arbitrary: t q u)
  case (Cons n ns)
  obtain a v r where a: "cmember n t = Some (a, v)" and r: "cpath ns v = Some (r, u)" "q = a + r"
    using Cons.prems by (auto split: option.splits)
  have v: "a + cbits v \<le> 8 * csize t" using cmember_within(1) [OF a] .
  show ?case
  proof (cases ns)
    case Nil
    then show ?thesis using r v by simp
  next
    case (Cons n' ns')
    then have "r + cbits u \<le> 8 * csize v" using Cons.IH [OF r(1)] by simp
    moreover have "cbits v = 8 * csize v" using r(1) Cons by (auto split: option.splits dest: cmember_cbits)
    ultimately show ?thesis using v r(2) by simp
  qed
qed simp

subsection \<open>The types of a target\<close>

type_synonym ktypes = "string \<rightharpoonup> ctype"

definition x86_types :: ktypes where
  "x86_types = map_of [(''super_block'', x86_super_block), (''inode'', x86_inode), (''dentry'', x86_dentry),
     (''file'', x86_file), (''linux_binprm'', x86_linux_binprm), (''mm_struct'', x86_mm_struct),
     (''task_struct'', x86_task_struct), (''iattr'', x86_iattr), (''vfsmount'', x86_vfsmount),
     (''bpf_sock_addr'', x86_bpf_sock_addr)]"

definition a64_types :: ktypes where
  "a64_types = map_of [(''super_block'', a64_super_block), (''inode'', a64_inode), (''dentry'', a64_dentry),
     (''file'', a64_file), (''linux_binprm'', a64_linux_binprm), (''mm_struct'', a64_mm_struct),
     (''task_struct'', a64_task_struct), (''iattr'', a64_iattr), (''vfsmount'', a64_vfsmount),
     (''bpf_sock_addr'', a64_bpf_sock_addr)]"

definition core_offset :: "ktypes \<Rightarrow> string \<Rightarrow> string list \<Rightarrow> (nat \<times> nat) option" where
  "core_offset kt s path = (case kt s of None \<Rightarrow> None | Some t \<Rightarrow> field_at t path)"

text \<open>
  Every member the programs read, with its size: the \<open>BPF_CORE_READ\<close>s of \<open>exec.bpf.c\<close>, \<open>file.bpf.c\<close>,
  \<open>guard.bpf.c\<close> and \<open>rk_selftest.bpf.c\<close>, and the context members that \<open>net.bpf.c\<close> loads.
\<close>

definition core_fields :: "(string \<times> string list \<times> nat) list" where
  "core_fields =
    [(''super_block'', [''s_dev''], 4), (''super_block'', [''s_magic''], 8),
     (''inode'', [''i_sb''], 8), (''inode'', [''i_ino''], 8), (''inode'', [''i_nlink''], 4),
     (''dentry'', [''d_parent''], 8), (''dentry'', [''d_inode''], 8), (''dentry'', [''d_name'', ''name''], 8),
     (''file'', [''f_inode''], 8), (''file'', [''f_path'', ''dentry''], 8), (''file'', [''f_mode''], 4),
     (''file'', [''f_flags''], 4), (''linux_binprm'', [''file''], 8), (''linux_binprm'', [''filename''], 8),
     (''mm_struct'', [''arg_start''], 8), (''mm_struct'', [''arg_end''], 8),
     (''task_struct'', [''tgid''], 4), (''task_struct'', [''mm''], 8), (''task_struct'', [''group_leader''], 8),
     (''task_struct'', [''start_boottime''], 8), (''iattr'', [''ia_valid''], 4), (''vfsmount'', [''mnt_sb''], 8)]"

definition ctx_fields :: "(string \<times> string list \<times> nat) list" where
  "ctx_fields =
    [(''bpf_sock_addr'', [''user_ip4''], 4), (''bpf_sock_addr'', [''user_ip6''], 16),
     (''bpf_sock_addr'', [''user_port''], 4), (''bpf_sock_addr'', [''protocol''], 4)]"

subsection \<open>Offsets\<close>

text \<open>A member lookup leaves the members behind it alone.\<close>

lemma member_cong: "p = q \<Longrightarrow> cmember_struct nm p fs = cmember_struct nm q fs"
  by simp

lemmas x86_open = x86_super_block_def x86_inode_def x86_dentry_def x86_file_def x86_linux_binprm_def x86_mm_struct_def
  x86_task_struct_def x86_task_struct_head_def x86_task_struct_tail_def x86_iattr_def x86_vfsmount_def x86_bpf_sock_addr_def
  append.simps

lemmas a64_open = a64_super_block_def a64_inode_def a64_dentry_def a64_file_def a64_linux_binprm_def a64_mm_struct_def
  a64_task_struct_def a64_task_struct_head_def a64_task_struct_tail_def a64_iattr_def a64_vfsmount_def a64_bpf_sock_addr_def
  append.simps

lemma x86_super_block_fields:
  "field_at x86_super_block [''s_dev''] = Some (16, 4)"
  "field_at x86_super_block [''s_magic''] = Some (96, 8)"
  unfolding x86_open by (simp_all add: field_at_def klayout cong: member_cong fields_cong)

lemma x86_inode_fields:
  "field_at x86_inode [''i_sb''] = Some (24, 8)"
  "field_at x86_inode [''i_ino''] = Some (48, 8)"
  "field_at x86_inode [''i_nlink''] = Some (56, 4)"
  unfolding x86_open by (simp_all add: field_at_def klayout cong: member_cong fields_cong)

lemma x86_dentry_fields:
  "field_at x86_dentry [''d_parent''] = Some (24, 8)"
  "field_at x86_dentry [''d_inode''] = Some (48, 8)"
  "field_at x86_dentry [''d_name'', ''name''] = Some (40, 8)"
  unfolding x86_open by (simp_all add: field_at_def x86_qstr_def klayout cong: member_cong fields_cong)

lemma x86_file_fields:
  "field_at x86_file [''f_inode''] = Some (32, 8)"
  "field_at x86_file [''f_path'', ''dentry''] = Some (72, 8)"
  "field_at x86_file [''f_mode''] = Some (4, 4)"
  "field_at x86_file [''f_flags''] = Some (40, 4)"
  unfolding x86_open by (simp_all add: field_at_def x86_path_def klayout cong: member_cong fields_cong)

lemma x86_linux_binprm_fields:
  "field_at x86_linux_binprm [''file''] = Some (64, 8)"
  "field_at x86_linux_binprm [''filename''] = Some (96, 8)"
  unfolding x86_open by (simp_all add: field_at_def klayout cong: member_cong fields_cong)

lemma x86_mm_struct_fields:
  "field_at x86_mm_struct [''arg_start''] = Some (344, 8)"
  "field_at x86_mm_struct [''arg_end''] = Some (352, 8)"
  unfolding x86_open by (simp_all add: field_at_def klayout cong: member_cong fields_cong)

lemma x86_task_struct_fields:
  "field_at x86_task_struct [''tgid''] = Some (1028, 4)"
  "field_at x86_task_struct [''mm''] = Some (896, 8)"
  "field_at x86_task_struct [''group_leader''] = Some (1080, 8)"
  "field_at x86_task_struct [''start_boottime''] = Some (1312, 8)"
  unfolding x86_open by (simp_all add: field_at_def klayout cong: member_cong fields_cong)

lemma x86_iattr_fields:
  "field_at x86_iattr [''ia_valid''] = Some (0, 4)"
  unfolding x86_open by (simp_all add: field_at_def klayout cong: member_cong fields_cong)

lemma x86_vfsmount_fields:
  "field_at x86_vfsmount [''mnt_sb''] = Some (8, 8)"
  unfolding x86_open by (simp_all add: field_at_def klayout cong: member_cong fields_cong)

lemma x86_bpf_sock_addr_fields:
  "field_at x86_bpf_sock_addr [''user_ip4''] = Some (4, 4)"
  "field_at x86_bpf_sock_addr [''user_ip6''] = Some (8, 16)"
  "field_at x86_bpf_sock_addr [''user_port''] = Some (24, 4)"
  "field_at x86_bpf_sock_addr [''protocol''] = Some (36, 4)"
  unfolding x86_open by (simp_all add: field_at_def klayout cong: member_cong fields_cong)

lemma a64_super_block_fields:
  "field_at a64_super_block [''s_dev''] = Some (16, 4)"
  "field_at a64_super_block [''s_magic''] = Some (96, 8)"
  unfolding a64_open by (simp_all add: field_at_def klayout cong: member_cong fields_cong)

lemma a64_inode_fields:
  "field_at a64_inode [''i_sb''] = Some (24, 8)"
  "field_at a64_inode [''i_ino''] = Some (48, 8)"
  "field_at a64_inode [''i_nlink''] = Some (56, 4)"
  unfolding a64_open by (simp_all add: field_at_def klayout cong: member_cong fields_cong)

lemma a64_dentry_fields:
  "field_at a64_dentry [''d_parent''] = Some (24, 8)"
  "field_at a64_dentry [''d_inode''] = Some (48, 8)"
  "field_at a64_dentry [''d_name'', ''name''] = Some (40, 8)"
  unfolding a64_open by (simp_all add: field_at_def a64_qstr_def klayout cong: member_cong fields_cong)

lemma a64_file_fields:
  "field_at a64_file [''f_inode''] = Some (32, 8)"
  "field_at a64_file [''f_path'', ''dentry''] = Some (72, 8)"
  "field_at a64_file [''f_mode''] = Some (4, 4)"
  "field_at a64_file [''f_flags''] = Some (40, 4)"
  unfolding a64_open by (simp_all add: field_at_def a64_path_def klayout cong: member_cong fields_cong)

lemma a64_linux_binprm_fields:
  "field_at a64_linux_binprm [''file''] = Some (64, 8)"
  "field_at a64_linux_binprm [''filename''] = Some (96, 8)"
  unfolding a64_open by (simp_all add: field_at_def klayout cong: member_cong fields_cong)

lemma a64_mm_struct_fields:
  "field_at a64_mm_struct [''arg_start''] = Some (344, 8)"
  "field_at a64_mm_struct [''arg_end''] = Some (352, 8)"
  unfolding a64_open by (simp_all add: field_at_def klayout cong: member_cong fields_cong)

lemma a64_task_struct_fields:
  "field_at a64_task_struct [''tgid''] = Some (1084, 4)"
  "field_at a64_task_struct [''mm''] = Some (952, 8)"
  "field_at a64_task_struct [''group_leader''] = Some (1136, 8)"
  "field_at a64_task_struct [''start_boottime''] = Some (1368, 8)"
  unfolding a64_open by (simp_all add: field_at_def klayout cong: member_cong fields_cong)

lemma a64_iattr_fields:
  "field_at a64_iattr [''ia_valid''] = Some (0, 4)"
  unfolding a64_open by (simp_all add: field_at_def klayout cong: member_cong fields_cong)

lemma a64_vfsmount_fields:
  "field_at a64_vfsmount [''mnt_sb''] = Some (8, 8)"
  unfolding a64_open by (simp_all add: field_at_def klayout cong: member_cong fields_cong)

lemma a64_bpf_sock_addr_fields:
  "field_at a64_bpf_sock_addr [''user_ip4''] = Some (4, 4)"
  "field_at a64_bpf_sock_addr [''user_ip6''] = Some (8, 16)"
  "field_at a64_bpf_sock_addr [''user_port''] = Some (24, 4)"
  "field_at a64_bpf_sock_addr [''protocol''] = Some (36, 4)"
  unfolding a64_open by (simp_all add: field_at_def klayout cong: member_cong fields_cong)

lemmas x86_field_offsets = x86_super_block_fields x86_inode_fields x86_dentry_fields x86_file_fields x86_linux_binprm_fields
  x86_mm_struct_fields x86_task_struct_fields x86_iattr_fields x86_vfsmount_fields x86_bpf_sock_addr_fields

lemmas a64_field_offsets = a64_super_block_fields a64_inode_fields a64_dentry_fields a64_file_fields a64_linux_binprm_fields
  a64_mm_struct_fields a64_task_struct_fields a64_iattr_fields a64_vfsmount_fields a64_bpf_sock_addr_fields

text \<open>
  What a read of a member needs of a target: the path resolves, the member has the size the
  program reads, and it ends inside the object.  Members that do not overlap hold independent values.
\<close>

definition field_ok :: "ktypes \<Rightarrow> string \<times> string list \<times> nat \<Rightarrow> bool" where
  "field_ok kt = (\<lambda>(s, path, w). case core_offset kt s path of
      None \<Rightarrow> False
    | Some (q, v) \<Rightarrow> v = w \<and> q + w \<le> csize (the (kt s)))"

definition overlap :: "ktypes \<Rightarrow> string \<times> string list \<times> nat \<Rightarrow> string \<times> string list \<times> nat \<Rightarrow> bool" where
  "overlap kt f g = (case (f, g) of ((s, path, w), (s', path', w')) \<Rightarrow>
     s = s' \<and> (case (core_offset kt s path, core_offset kt s' path') of
        (Some (q, _), Some (q', _)) \<Rightarrow> q < q' + w' \<and> q' < q + w
      | _ \<Rightarrow> True))"

fun pairwise_apart :: "ktypes \<Rightarrow> (string \<times> string list \<times> nat) list \<Rightarrow> bool" where
  "pairwise_apart kt [] = True"
| "pairwise_apart kt (f # fs) = (list_all (\<lambda>g. \<not> overlap kt f g) fs \<and> pairwise_apart kt fs)"

lemma x86_fields_ok: "list_all (field_ok x86_types) core_fields" "list_all (field_ok x86_types) ctx_fields"
  by (simp_all add: core_fields_def ctx_fields_def field_ok_def core_offset_def x86_types_def x86_field_offsets klayout)

lemma a64_fields_ok: "list_all (field_ok a64_types) core_fields" "list_all (field_ok a64_types) ctx_fields"
  by (simp_all add: core_fields_def ctx_fields_def field_ok_def core_offset_def a64_types_def a64_field_offsets klayout)

lemma x86_fields_apart: "pairwise_apart x86_types (core_fields @ ctx_fields)"
  by (simp add: core_fields_def ctx_fields_def overlap_def core_offset_def x86_types_def x86_field_offsets)

lemma a64_fields_apart: "pairwise_apart a64_types (core_fields @ ctx_fields)"
  by (simp add: core_fields_def ctx_fields_def overlap_def core_offset_def a64_types_def a64_field_offsets)

subsection \<open>Reads from memory\<close>

text \<open>Kernel memory: \<open>None\<close> where an access faults.\<close>

type_synonym kmem = "u64 \<Rightarrow> u8 option"

text \<open>\<open>bpf_probe_read_kernel\<close> of \<open>n\<close> bytes; the destination is zeroed when any of them faults.\<close>

definition probe_read :: "kmem \<Rightarrow> u64 \<Rightarrow> nat \<Rightarrow> u64" where
  "probe_read mem a n = (let bs = map (\<lambda>i. mem (a + of_nat i)) [0..<n] in
     if list_all (\<lambda>b. b \<noteq> None) bs then unle (map the bs) else 0)"

definition core_read :: "ktypes \<Rightarrow> kmem \<Rightarrow> string \<Rightarrow> string list \<Rightarrow> u64 \<Rightarrow> u64" where
  "core_read kt mem s path p = (case core_offset kt s path of
      None \<Rightarrow> 0
    | Some (q, w) \<Rightarrow> probe_read mem (p + of_nat q) w)"

text \<open>
  The heap of \<open>Kernel_Env\<close> held in a memory.  \<open>objs s p\<close> says that the kernel has a live object of
  struct \<open>s\<close> at \<open>p\<close>; other addresses are not dereferenced as that struct.
\<close>

type_synonym kobjs = "string \<Rightarrow> u64 \<Rightarrow> bool"

definition kernel_heap :: "ktypes \<Rightarrow> kobjs \<Rightarrow> kmem \<Rightarrow> kheap" where
  "kernel_heap kt objs mem = \<lparr>
     super_blocks = (\<lambda>p. if objs ''super_block'' p then Some
       \<lparr>s_dev = ucast (core_read kt mem ''super_block'' [''s_dev''] p),
        s_magic = core_read kt mem ''super_block'' [''s_magic''] p\<rparr> else None),
     inodes = (\<lambda>p. if objs ''inode'' p then Some
       \<lparr>i_sb = core_read kt mem ''inode'' [''i_sb''] p, i_ino = core_read kt mem ''inode'' [''i_ino''] p,
        i_nlink = ucast (core_read kt mem ''inode'' [''i_nlink''] p)\<rparr> else None),
     dentries = (\<lambda>p. if objs ''dentry'' p then Some
       \<lparr>d_parent = core_read kt mem ''dentry'' [''d_parent''] p, d_inode = core_read kt mem ''dentry'' [''d_inode''] p,
        d_name_name = core_read kt mem ''dentry'' [''d_name'', ''name''] p\<rparr> else None),
     files = (\<lambda>p. if objs ''file'' p then Some
       \<lparr>f_inode = core_read kt mem ''file'' [''f_inode''] p,
        f_path_dentry = core_read kt mem ''file'' [''f_path'', ''dentry''] p,
        f_mode = ucast (core_read kt mem ''file'' [''f_mode''] p),
        f_flags = ucast (core_read kt mem ''file'' [''f_flags''] p)\<rparr> else None),
     binprms = (\<lambda>p. if objs ''linux_binprm'' p then Some
       \<lparr>bprm_file = core_read kt mem ''linux_binprm'' [''file''] p,
        bprm_filename = core_read kt mem ''linux_binprm'' [''filename''] p\<rparr> else None),
     mms = (\<lambda>p. if objs ''mm_struct'' p then Some
       \<lparr>mm_arg_start = core_read kt mem ''mm_struct'' [''arg_start''] p,
        mm_arg_end = core_read kt mem ''mm_struct'' [''arg_end''] p\<rparr> else None),
     tasks = (\<lambda>p. if objs ''task_struct'' p then Some
       \<lparr>t_tgid = ucast (core_read kt mem ''task_struct'' [''tgid''] p),
        t_mm = core_read kt mem ''task_struct'' [''mm''] p,
        t_group_leader = core_read kt mem ''task_struct'' [''group_leader''] p,
        t_start_boottime = core_read kt mem ''task_struct'' [''start_boottime''] p\<rparr> else None),
     iattrs = (\<lambda>p. if objs ''iattr'' p then Some
       \<lparr>ia_valid = ucast (core_read kt mem ''iattr'' [''ia_valid''] p)\<rparr> else None),
     vfsmounts = (\<lambda>p. if objs ''vfsmount'' p then Some
       \<lparr>mnt_sb = core_read kt mem ''vfsmount'' [''mnt_sb''] p\<rparr> else None)\<rparr>"

text \<open>A live task of either target.\<close>

lemma rd_task_x86:
  assumes "objs ''task_struct'' p"
  shows "rd_task (kernel_heap x86_types objs mem) p =
    \<lparr>t_tgid = ucast (probe_read mem (p + 1028) 4), t_mm = probe_read mem (p + 896) 8,
     t_group_leader = probe_read mem (p + 1080) 8, t_start_boottime = probe_read mem (p + 1312) 8\<rparr>"
  using assms by (simp add: rd_task_def kernel_heap_def core_read_def core_offset_def x86_types_def x86_task_struct_fields)

lemma rd_task_a64:
  assumes "objs ''task_struct'' p"
  shows "rd_task (kernel_heap a64_types objs mem) p =
    \<lparr>t_tgid = ucast (probe_read mem (p + 1084) 4), t_mm = probe_read mem (p + 952) 8,
     t_group_leader = probe_read mem (p + 1136) 8, t_start_boottime = probe_read mem (p + 1368) 8\<rparr>"
  using assms by (simp add: rd_task_def kernel_heap_def core_read_def core_offset_def a64_types_def a64_task_struct_fields)

text \<open>The heap is determined by the members the programs read.\<close>

lemma kernel_heap_eqI:
  assumes "\<And>s path w p. (s, path, w) \<in> set core_fields \<Longrightarrow> objs s p \<Longrightarrow>
    core_read kt mem s path p = core_read kt' mem' s path p"
  shows "kernel_heap kt objs mem = kernel_heap kt' objs mem'"
proof -
  have "list_all (\<lambda>(s, path, w). \<forall>p. objs s p \<longrightarrow> core_read kt mem s path p = core_read kt' mem' s path p) core_fields"
    using assms by (auto simp: list_all_iff)
  then show ?thesis
    unfolding kernel_heap_def by (simp add: core_fields_def cong: if_cong)
qed

subsection \<open>Bytes an object does not share\<close>

definition bytes_at :: "u64 \<Rightarrow> nat \<Rightarrow> u64 set" where
  "bytes_at a n = (\<lambda>i. a + of_nat i) ` {..<n}"

definition object_bytes :: "ktypes \<Rightarrow> string \<Rightarrow> u64 \<Rightarrow> u64 set" where
  "object_bytes kt s p = bytes_at p (csize (the (kt s)))"

definition read_bytes :: "ktypes \<Rightarrow> string \<Rightarrow> u64 \<Rightarrow> u64 set" where
  "read_bytes kt s p = (\<Union>(s', path, w) \<in> set core_fields. if s' = s
     then (case core_offset kt s path of None \<Rightarrow> {} | Some (q, v) \<Rightarrow> bytes_at (p + of_nat q) v) else {})"

text \<open>Live objects occupy disjoint memory.\<close>

definition separated :: "ktypes \<Rightarrow> kobjs \<Rightarrow> bool" where
  "separated kt objs \<longleftrightarrow> (\<forall>s p s' p'. objs s p \<longrightarrow> objs s' p' \<longrightarrow> (s, p) \<noteq> (s', p') \<longrightarrow>
     object_bytes kt s p \<inter> object_bytes kt s' p' = {})"

lemma bytes_at_sub: "q + w \<le> n \<Longrightarrow> bytes_at (p + of_nat q) w \<subseteq> bytes_at p n"
proof
  fix x assume q: "q + w \<le> n" and "x \<in> bytes_at (p + of_nat q) w"
  then obtain i where "i < w" "x = p + of_nat (q + i)" by (auto simp: bytes_at_def algebra_simps)
  then show "x \<in> bytes_at p n"
    unfolding bytes_at_def using q by (intro image_eqI [of _ _ "q + i"]) simp_all
qed

lemma probe_read_eqI: "(\<And>x. x \<in> bytes_at a n \<Longrightarrow> mem x = mem' x) \<Longrightarrow> probe_read mem a n = probe_read mem' a n"
proof -
  assume "\<And>x. x \<in> bytes_at a n \<Longrightarrow> mem x = mem' x"
  then have "map (\<lambda>i. mem (a + of_nat i)) [0..<n] = map (\<lambda>i. mem' (a + of_nat i)) [0..<n]"
    by (auto simp: bytes_at_def)
  then show ?thesis unfolding probe_read_def by (rule arg_cong)
qed

lemma read_bytesI:
  assumes "(s, path, w) \<in> set core_fields" "core_offset kt s path = Some (q, v)"
  shows "bytes_at (p + of_nat q) v \<subseteq> read_bytes kt s p"
proof
  fix x assume "x \<in> bytes_at (p + of_nat q) v"
  then show "x \<in> read_bytes kt s p"
    unfolding read_bytes_def by (intro UN_I [OF assms(1)]) (simp add: assms(2))
qed

lemma read_bytes_within:
  assumes "list_all (field_ok kt) core_fields"
  shows "read_bytes kt s p \<subseteq> object_bytes kt s p"
proof
  fix x assume "x \<in> read_bytes kt s p"
  then obtain path w where f: "(s, path, w) \<in> set core_fields"
    and x: "x \<in> (case core_offset kt s path of None \<Rightarrow> {} | Some (q, v) \<Rightarrow> bytes_at (p + of_nat q) v)"
    by (auto simp: read_bytes_def split: if_splits)
  then obtain q v where q: "core_offset kt s path = Some (q, v)" "x \<in> bytes_at (p + of_nat q) v"
    by (auto split: option.splits)
  have "field_ok kt (s, path, w)" using assms f by (auto simp: list_all_iff)
  then have "q + v \<le> csize (the (kt s))" using q(1) by (simp add: field_ok_def)
  then show "x \<in> object_bytes kt s p" using bytes_at_sub q(2) unfolding object_bytes_def by blast
qed

lemma kernel_heap_frame:
  assumes "\<And>s p x. objs s p \<Longrightarrow> x \<in> read_bytes kt s p \<Longrightarrow> mem x = mem' x"
  shows "kernel_heap kt objs mem = kernel_heap kt objs mem'"
proof (rule kernel_heap_eqI)
  fix s path w p
  assume f: "(s, path, w) \<in> set core_fields" and o: "objs s p"
  show "core_read kt mem s path p = core_read kt mem' s path p"
  proof (cases "core_offset kt s path")
    case (Some r)
    obtain q v where r: "r = (q, v)" by (cases r)
    have "bytes_at (p + of_nat q) v \<subseteq> read_bytes kt s p"
      using read_bytesI [OF f] Some r by blast
    then have "probe_read mem (p + of_nat q) v = probe_read mem' (p + of_nat q) v"
      using assms [OF o] by (intro probe_read_eqI) blast
    then show ?thesis using Some r by (simp add: core_read_def)
  qed (simp add: core_read_def)
qed

subsection \<open>A sample object\<close>

text \<open>A task at 4096 with \<open>tgid\<close> 7, as each target stores it.\<close>

definition sample_task :: kobjs where
  "sample_task s p \<longleftrightarrow> s = ''task_struct'' \<and> p = 4096"

definition sample_mem :: "u64 \<Rightarrow> kmem" where
  "sample_mem off a = Some (if a = 4096 + off then 7 else 0)"

lemma upt_4_8: "[0..<4] = [0, 1, 2, 3]" "[0..<8] = [0, 1, 2, 3, 4, 5, 6, 7]"
  by code_simp+

lemma sample_mem_reads:
  "probe_read (sample_mem 1028) 5124 4 = 7" "probe_read (sample_mem 1028) 5180 4 = 0" "probe_read (sample_mem 1028) 5176 8 = 0"
  "probe_read (sample_mem 1028) 1312 8 = 0" "probe_read (sample_mem 1028) 5232 8 = 0"
  by (simp_all add: probe_read_def sample_mem_def Let_def upt_4_8)

end
