(* ===== verification/Policy_Lib.thy ===== *)
theory Policy_Lib
  imports Rk_Prelude
begin

text \<open>
  What the policy compiler takes from its libraries.  Network prefixes are third-party code: the record
  \<open>ipnet_lib\<close> holds the operations the compiler calls, the locale \<open>ipnet\<close> states what they are documented
  to do, and \<open>ipnet_std\<close> shows that these laws can hold.  The second part is about iterator choices and
  stable sorting by groups.
\<close>

subsection \<open>Prefixes\<close>

record ipv6net =
  net_addr :: "128 word"
  net_len :: nat  \<comment> \<open>prefix length\<close>

record ipnet_lib =
  contains_addr :: "ipv6net \<Rightarrow> 128 word \<Rightarrow> bool"
  contains_net :: "ipv6net \<Rightarrow> ipv6net \<Rightarrow> bool"
  network :: "ipv6net \<Rightarrow> 128 word"

text \<open>The first \<open>l\<close> bits of an address, as a number.\<close>

definition prefix_bits :: "nat \<Rightarrow> 128 word \<Rightarrow> nat" where
  "prefix_bits l a = unat a div 2 ^ (128 - l)"

text \<open>Addresses as 16 octets in network order.\<close>

definition octets :: "128 word \<Rightarrow> bytes" where
  "octets a = rev (le 16 a)"

definition of_octets :: "bytes \<Rightarrow> 128 word" where
  "of_octets bs = unle (rev bs)"

lemma of_octets_octets [simp]: "of_octets (octets a) = a"
  by (simp add: of_octets_def octets_def unle_le take_bit_word_eq_self)

lemma length_octets [simp]: "length (octets a) = 16"
  by (simp add: octets_def)

locale ipnet =
  fixes L :: ipnet_lib
  assumes contains_addr: "net_len n \<le> 128 \<Longrightarrow>
      contains_addr L n a \<longleftrightarrow> prefix_bits (net_len n) a = prefix_bits (net_len n) (net_addr n)"
    and contains_net: "net_len n \<le> 128 \<Longrightarrow> net_len m \<le> 128 \<Longrightarrow>
      contains_net L n m \<longleftrightarrow> net_len n \<le> net_len m \<and> contains_addr L n (net_addr m)"
    and network: "net_len n \<le> 128 \<Longrightarrow> unat (network L n) = prefix_bits (net_len n) (net_addr n) * 2 ^ (128 - net_len n)"
begin

lemma prefix_bits_mono:
  assumes "l \<le> k" "k \<le> 128" "prefix_bits k a = prefix_bits k b"
  shows "prefix_bits l a = prefix_bits l b"
proof -
  have "prefix_bits l x = prefix_bits k x div 2 ^ (k - l)" for x
    using assms(1,2) by (simp add: prefix_bits_def div_mult2_eq [symmetric] power_add [symmetric])
  then show ?thesis using assms(3) by simp
qed

lemma contains_trans:
  assumes "net_len n \<le> 128" "net_len m \<le> 128" "contains_net L n m" "contains_addr L m a"
  shows "contains_addr L n a"
  using assms prefix_bits_mono [of "net_len n" "net_len m" a "net_addr m"] by (simp add: contains_net contains_addr)

text \<open>Prefixes of one address are nested.\<close>

lemma nested:
  assumes "net_len n \<le> net_len m" "net_len m \<le> 128" "contains_addr L n a" "contains_addr L m a"
  shows "contains_net L n m"
  using assms prefix_bits_mono [of "net_len n" "net_len m" a "net_addr m"] by (simp add: contains_net contains_addr)

text \<open>A prefix without host bits is determined by its length and any address in it.\<close>

lemma same_prefix:
  assumes "net_len n = net_len m" "net_len m \<le> 128" "contains_addr L n a" "contains_addr L m a"
    and "network L n = net_addr n" "network L m = net_addr m"
  shows "n = m"
proof -
  have "unat (network L n) = unat (network L m)"
    using assms(1-4) by (simp add: network contains_addr)
  then show ?thesis using assms(1,5,6) by (simp add: word_unat_eq_iff [symmetric])
qed

end

text \<open>The library's documented meaning, as functions.\<close>

definition ipnet_std :: ipnet_lib where
  "ipnet_std = \<lparr>contains_addr = (\<lambda>n a. prefix_bits (net_len n) a = prefix_bits (net_len n) (net_addr n)),
     contains_net = (\<lambda>n m. net_len n \<le> net_len m \<and> prefix_bits (net_len n) (net_addr m) = prefix_bits (net_len n) (net_addr n)),
     network = (\<lambda>n. word_of_nat (prefix_bits (net_len n) (net_addr n) * 2 ^ (128 - net_len n)))\<rparr>"

lemma prefix_bits_le: "prefix_bits l a * 2 ^ (128 - l) \<le> unat a"
  by (simp add: prefix_bits_def)

interpretation ipnet_std: ipnet ipnet_std
proof
  fix n :: ipv6net
  have "prefix_bits (net_len n) (net_addr n) * 2 ^ (128 - net_len n) < 2 ^ 128"
    by (rule le_less_trans [OF prefix_bits_le]) (use unsigned_less [of "net_addr n"] in simp)
  then show "unat (network ipnet_std n) = prefix_bits (net_len n) (net_addr n) * 2 ^ (128 - net_len n)"
    by (simp add: ipnet_std_def unat_of_nat del: of_nat_mult of_nat_power)
qed (simp_all add: ipnet_std_def)

subsection \<open>Choosing from lists\<close>

text \<open>\<open>Iterator::max_by\<close>: the last of the greatest elements; \<open>gt x y\<close> is \<open>compare(x, y) == Greater\<close>.\<close>

fun max_by :: "('a \<Rightarrow> 'a \<Rightarrow> bool) \<Rightarrow> 'a list \<Rightarrow> 'a option" where
  "max_by gt [] = None"
| "max_by gt (x # xs) = Some (foldl (\<lambda>b y. if gt b y then b else y) x xs)"

lemma hd_insort: "hd (insort_key f x xs) = (if xs = [] \<or> f x \<le> f (hd xs) then x else hd xs)"
  by (cases xs) auto

lemma max_by_first_least: "max_by (\<lambda>a b. f a \<le> f b) (x # xs) = Some (hd (sort_key f (x # xs)))"
proof (induction xs arbitrary: x)
  case (Cons y ys)
  have "max_by (\<lambda>a b. f a \<le> f b) (x # y # ys) = max_by (\<lambda>a b. f a \<le> f b) ((if f x \<le> f y then x else y) # ys)"
    by simp
  also have "\<dots> = Some (hd (sort_key f (x # y # ys)))"
    unfolding Cons.IH by (auto simp: hd_insort)
  finally show ?case .
qed simp

lemma max_by_greatest:
  assumes "max_by (\<lambda>a b. f a > f b) xs = Some e"
  shows "e \<in> set xs \<and> (\<forall>y \<in> set xs. f y \<le> (f e :: 'b :: linorder))"
proof -
  have "foldl (\<lambda>b y. if f b > f y then b else y) x ys \<in> set (x # ys) \<and>
      (\<forall>y \<in> set (x # ys). f y \<le> f (foldl (\<lambda>b y. if f b > f y then b else y) x ys))" for x ys
  proof (induction ys arbitrary: x)
    case (Cons z zs)
    show ?case using Cons.IH [of "if f x > f z then x else z"] by (auto split: if_splits)
  qed simp
  then show ?thesis using assms by (cases xs) auto
qed

lemma max_by_None [simp]: "max_by gt xs = None \<longleftrightarrow> xs = []"
  by (cases xs) simp_all

lemma find_append: "find P (xs @ ys) = (case find P xs of None \<Rightarrow> find P ys | Some x \<Rightarrow> Some x)"
  by (induction xs) simp_all

lemma find_first: "find P xs = (case filter P xs of [] \<Rightarrow> None | x # _ \<Rightarrow> Some x)"
  by (induction xs) simp_all

lemma insort_append:
  assumes "\<forall>y \<in> set ys. f y < f x"
  shows "insort_key f x (ys @ zs) = ys @ insort_key f x zs"
  using assms by (induction ys) (auto simp: not_le)

lemma sort_key_of_map: "sort_key f (map g xs) = map g (sort_key (\<lambda>x. f (g x)) xs)"
proof (induction xs)
  case (Cons x xs)
  have "insort_key f (g x) (map g ys) = map g (insort_key (\<lambda>x. f (g x)) x ys)" for ys
    by (induction ys) simp_all
  then show ?case using Cons by simp
qed simp

text \<open>Concatenating the groups in the order of their keys is the stable sort by key.\<close>

lemma insort_groups:
  assumes "sorted_wrt (\<lambda>m m'. f m < f m') ms" "g r \<in> set ms"
  shows "insort_key (\<lambda>r. f (g r)) r (concat (map (\<lambda>m. filter (\<lambda>r. g r = m) R) ms)) =
    concat (map (\<lambda>m. filter (\<lambda>r. g r = m) (r # R)) ms)"
  using assms
proof (induction ms)
  case (Cons m ms)
  show ?case
  proof (cases "g r = m")
    case True
    then have "concat (map (\<lambda>m. filter (\<lambda>r. g r = m) (r # R)) ms) = concat (map (\<lambda>m. filter (\<lambda>r. g r = m) R) ms)"
      using Cons.prems by (intro arg_cong [where f = concat] map_cong) auto
    moreover have "\<forall>x \<in> set (concat (map (\<lambda>m. filter (\<lambda>r. g r = m) R) (m # ms))). f (g r) \<le> f (g x)"
      using Cons.prems True by (auto simp: less_imp_le)
    ultimately show ?thesis using True by (simp add: insort_is_Cons)
  next
    case False
    then show ?thesis using Cons by (auto simp: insort_append)
  qed
qed simp

lemma sort_groups:
  assumes "sorted_wrt (\<lambda>m m'. f m < f m') ms" "\<forall>r \<in> set R. g r \<in> set ms"
  shows "concat (map (\<lambda>m. filter (\<lambda>r. g r = m) R) ms) = sort_key (\<lambda>r. f (g r)) R"
  using assms
proof (induction R)
  case (Cons r R)
  then show ?case using insort_groups [of f ms g r R] by simp
qed simp

end
