(* ===== verification/Policy_Net.thy ===== *)
theory Policy_Net
  imports Policy_Lib
begin

text \<open>
  The policy compiler, \<open>rk-policy/src/net.rs\<close>: the validated policy, its reference semantics \<open>evaluate\<close>,
  and the compilation into longest-prefix-match entries, in which every prefix carries its own port
  ranges followed by those of the prefixes that cover it.  One longest-prefix lookup in the compiled
  entries then gives the decision of the reference.
\<close>

subsection \<open>The validated policy\<close>

datatype mode = Audit | Enforce

datatype action = Allow | Deny

record port_range =
  pr_lo :: u16
  pr_hi :: u16

definition port_contains :: "port_range \<Rightarrow> u16 \<Rightarrow> bool" where
  "port_contains p port \<longleftrightarrow> pr_lo p \<le> port \<and> port \<le> pr_hi p"

record rule =
  r_id :: u32
  r_action :: action
  r_net :: ipv6net
  r_ports :: "port_range list"
  r_proto :: u8

record file_rule =
  fl_id :: u32
  fl_path :: string
  fl_subtree :: bool
  fl_deny_mask :: u32
  fl_optional :: bool

record file_policy =
  fp_rules :: "file_rule list"
  fp_protect_exec_allowlist :: bool

datatype exec_path_kind = KFile | KDir

record exec_allow =
  xa_id :: u32
  xa_path :: string
  xa_kind :: exec_path_kind

record exec_policy =
  ep_default :: action
  ep_allow_unlinked :: bool
  ep_allow :: "exec_allow list"

datatype principal = User string | Group string | Uid u32 | Gid u32

record profile =
  pf_id :: u32
  pf_name :: string
  pf_mode :: mode
  pf_net_default :: action
  pf_deny_raw_sockets :: bool
  pf_rules :: "rule list"
  pf_exec :: "exec_policy option"
  pf_files :: file_policy
  pf_launchable_by :: "principal list"

record policy_binding =
  pb_cgroup :: string
  pb_profile :: u32

record rule_origin =
  ro_id :: u32
  ro_profile :: string
  ro_origin :: string

record namespace_rule =
  ns_default :: "string option"
  ns_allowed :: "string list"

record policy =
  pol_profiles :: "profile list"
  pol_bindings :: "policy_binding list"
  pol_origins :: "rule_origin list"
  pol_namespaces :: "string \<rightharpoonup> namespace_rule"

definition find_profile :: "policy \<Rightarrow> u32 \<Rightarrow> profile option" where
  "find_profile pol i = find (\<lambda>p. pf_id p = i) (pol_profiles pol)"

subsection \<open>Reference semantics\<close>

record decision_ref =
  dr_action :: action
  dr_rule_id :: u32

datatype ip_addr = V4 u32 | V6 "128 word"

fun normalize :: "ip_addr \<Rightarrow> 128 word" where
  "normalize (V4 a) = 0xffff00000000 OR ucast a"
| "normalize (V6 a) = a"

definition rule_matches :: "ipnet_lib \<Rightarrow> action \<Rightarrow> 128 word \<Rightarrow> u16 \<Rightarrow> u8 \<Rightarrow> rule \<Rightarrow> bool" where
  "rule_matches L action addr port proto r \<longleftrightarrow>
     r_action r = action \<and> contains_addr L (r_net r) addr \<and> r_proto r AND proto \<noteq> 0 \<and>
     list_ex (\<lambda>p. port_contains p port) (r_ports r)"

text \<open>The more specific prefix wins, then the earlier rule.\<close>

fun preferred :: "nat \<times> rule \<Rightarrow> nat \<times> rule \<Rightarrow> bool" where
  "preferred (ia, a) (ib, b) \<longleftrightarrow>
     net_len (r_net a) > net_len (r_net b) \<or> net_len (r_net a) = net_len (r_net b) \<and> ib > ia"

definition best_rule :: "ipnet_lib \<Rightarrow> profile \<Rightarrow> action \<Rightarrow> 128 word \<Rightarrow> u16 \<Rightarrow> u8 \<Rightarrow> rule option" where
  "best_rule L prof action addr port proto =
     map_option snd (max_by preferred
       (filter (\<lambda>(_, r). rule_matches L action addr port proto r) (enumerate 0 (pf_rules prof))))"

definition evaluate :: "ipnet_lib \<Rightarrow> policy \<Rightarrow> u32 \<Rightarrow> ip_addr \<Rightarrow> u16 \<Rightarrow> u8 \<Rightarrow> decision_ref option" where
  "evaluate L pol profile ip port proto = (case find_profile pol profile of
     None \<Rightarrow> None
   | Some prof \<Rightarrow>
       let addr = normalize ip in
       Some (case best_rule L prof Deny addr port proto of
               Some r \<Rightarrow> \<lparr>dr_action = Deny, dr_rule_id = r_id r\<rparr>
             | None \<Rightarrow>
                (case best_rule L prof Allow addr port proto of
                   Some r \<Rightarrow> \<lparr>dr_action = Allow, dr_rule_id = r_id r\<rparr>
                 | None \<Rightarrow> \<lparr>dr_action = pf_net_default prof, dr_rule_id = 0\<rparr>)))"

subsection \<open>Compilation\<close>

record compiled_range =
  cr_rule_id :: u32
  cr_lo :: u16
  cr_hi :: u16
  cr_proto :: u8

definition covers :: "compiled_range \<Rightarrow> compiled_range \<Rightarrow> bool" where
  "covers k r \<longleftrightarrow> cr_proto k AND cr_proto r = cr_proto r \<and> cr_lo k \<le> cr_lo r \<and> cr_hi k \<ge> cr_hi r"

record entry =
  en_profile :: u32
  en_prefix_len :: nat
  en_addr :: bytes
  en_ranges :: "compiled_range list"

definition entry_contains :: "ipnet_lib \<Rightarrow> entry \<Rightarrow> 128 word \<Rightarrow> bool" where
  "entry_contains L e a \<longleftrightarrow>
     en_prefix_len e \<le> 128 \<and> contains_addr L \<lparr>net_addr = of_octets (en_addr e), net_len = en_prefix_len e\<rparr> a"

record compiled_profile =
  cp_id :: u32
  cp_mode :: mode
  cp_net_default :: action
  cp_flags :: u16

datatype file_target = TPath bool bool | TExec exec_path_kind

record compiled_file =
  cf_profile :: u32
  cf_rule_id :: u32
  cf_path :: string
  cf_target :: file_target
  cf_deny_mask :: u32

record compiled_exec =
  cx_profile :: u32
  cx_rule_id :: u32
  cx_path :: string
  cx_kind :: exec_path_kind

record compiled =
  c_generation :: u64
  c_profiles :: "compiled_profile list"
  c_deny :: "entry list"
  c_allow :: "entry list"
  c_exec :: "compiled_exec list"
  c_files :: "compiled_file list"

datatype policy_error =
    GenerationZero
  | TooManyRanges string ipv6net nat action

abbreviation (input) MAX_PROFILES :: u32 where "MAX_PROFILES \<equiv> 1024"
abbreviation (input) MAX_RANGES :: nat where "MAX_RANGES \<equiv> 8"
abbreviation (input) FLAG_DENY_RAW_SOCKETS :: u16 where "FLAG_DENY_RAW_SOCKETS \<equiv> 1"
abbreviation (input) FLAG_EXEC_DENY_DEFAULT :: u16 where "FLAG_EXEC_DENY_DEFAULT \<equiv> 2"
abbreviation (input) FLAG_EXEC_ALLOW_UNLINKED :: u16 where "FLAG_EXEC_ALLOW_UNLINKED \<equiv> 4"
abbreviation (input) PROTECT_EXEC_MASK :: u32 where "PROTECT_EXEC_MASK \<equiv> 2 OR 64 OR 16 OR 32 OR 128 OR 256"

definition profile_flags :: "profile \<Rightarrow> u16" where
  "profile_flags prof =
     (let flags = (if pf_deny_raw_sockets prof then FLAG_DENY_RAW_SOCKETS else 0)
      in case pf_exec prof of
           None \<Rightarrow> flags OR FLAG_EXEC_ALLOW_UNLINKED
         | Some exec \<Rightarrow>
             let flags = (if ep_default exec = Deny then flags OR FLAG_EXEC_DENY_DEFAULT else flags)
             in (if ep_allow_unlinked exec then flags OR FLAG_EXEC_ALLOW_UNLINKED else flags))"

text \<open>Rules grouped by prefix, prefixes in order of first appearance, rules in file order.\<close>

fun push_group :: "(ipv6net \<times> rule list) list \<Rightarrow> rule \<Rightarrow> (ipv6net \<times> rule list) list" where
  "push_group [] r = [(r_net r, [r])]"
| "push_group ((n, rs) # gs) r = (if n = r_net r then (n, rs @ [r]) # gs else (n, rs) # push_group gs r)"

definition groups :: "rule list \<Rightarrow> (ipv6net \<times> rule list) list" where
  "groups rules = foldl push_group [] rules"

text \<open>The rules that apply below a prefix: its own, then those of the covering prefixes, longest first.\<close>

definition ordered_rules :: "ipnet_lib \<Rightarrow> (ipv6net \<times> rule list) list \<Rightarrow> ipv6net \<times> rule list \<Rightarrow> rule list" where
  "ordered_rules L gs = (\<lambda>(n, own).
     own @ concat (map snd (sort_key (\<lambda>(m, _). - int (net_len m)) (filter (\<lambda>(m, _). m \<noteq> n \<and> contains_net L m n) gs))))"

definition rule_ranges :: "rule \<Rightarrow> compiled_range list" where
  "rule_ranges r = map (\<lambda>p. \<lparr>cr_rule_id = r_id r, cr_lo = pr_lo p, cr_hi = pr_hi p, cr_proto = r_proto r\<rparr>) (r_ports r)"

text \<open>A range that an earlier one covers can never match first.\<close>

definition push_range :: "compiled_range list \<Rightarrow> compiled_range \<Rightarrow> compiled_range list" where
  "push_range ranges r = (if list_ex (\<lambda>k. covers k r) ranges then ranges else ranges @ [r])"

fun compile_groups :: "ipnet_lib \<Rightarrow> profile \<Rightarrow> action \<Rightarrow> (ipv6net \<times> rule list) list \<Rightarrow> (ipv6net \<times> rule list) list \<Rightarrow>
    policy_error + entry list" where
  "compile_groups L prof action gs [] = Inr []"
| "compile_groups L prof action gs (g # rest) =
     (let ranges = foldl push_range [] (concat (map rule_ranges (ordered_rules L gs g)))
      in if length ranges > MAX_RANGES then Inl (TooManyRanges (pf_name prof) (fst g) (length ranges) action)
         else case compile_groups L prof action gs rest of
                Inl err \<Rightarrow> Inl err
              | Inr es \<Rightarrow>
                  Inr (\<lparr>en_profile = pf_id prof, en_prefix_len = net_len (fst g), en_addr = octets (network L (fst g)),
                        en_ranges = ranges\<rparr> # es))"

definition compile_trie :: "ipnet_lib \<Rightarrow> profile \<Rightarrow> action \<Rightarrow> policy_error + entry list" where
  "compile_trie L prof action =
     (let gs = groups (filter (\<lambda>r. r_action r = action) (pf_rules prof)) in compile_groups L prof action gs gs)"

definition compiled_files :: "profile \<Rightarrow> compiled_file list" where
  "compiled_files prof =
     map (\<lambda>r. \<lparr>cf_profile = pf_id prof, cf_rule_id = fl_id r, cf_path = fl_path r,
               cf_target = TPath (fl_subtree r) (fl_optional r), cf_deny_mask = fl_deny_mask r\<rparr>) (fp_rules (pf_files prof)) @
     (if fp_protect_exec_allowlist (pf_files prof) then
        (case pf_exec prof of
           None \<Rightarrow> []
         | Some exec \<Rightarrow> map (\<lambda>a. \<lparr>cf_profile = pf_id prof, cf_rule_id = xa_id a, cf_path = xa_path a,
               cf_target = TExec (xa_kind a), cf_deny_mask = PROTECT_EXEC_MASK\<rparr>) (ep_allow exec))
      else [])"

fun compile_profiles :: "ipnet_lib \<Rightarrow> profile list \<Rightarrow> compiled \<Rightarrow> policy_error + compiled" where
  "compile_profiles L [] out = Inr out"
| "compile_profiles L (prof # rest) out =
     (let out = out\<lparr>c_files := c_files out @ compiled_files prof\<rparr>;
          out = out\<lparr>c_profiles := c_profiles out @ [\<lparr>cp_id = pf_id prof, cp_mode = pf_mode prof,
                      cp_net_default = pf_net_default prof, cp_flags = profile_flags prof\<rparr>]\<rparr>;
          out = (case pf_exec prof of
                   None \<Rightarrow> out
                 | Some exec \<Rightarrow> out\<lparr>c_exec := c_exec out @
                     map (\<lambda>a. \<lparr>cx_profile = pf_id prof, cx_rule_id = xa_id a, cx_path = xa_path a, cx_kind = xa_kind a\<rparr>)
                       (ep_allow exec)\<rparr>)
      in case compile_trie L prof Deny of
           Inl err \<Rightarrow> Inl err
         | Inr deny \<Rightarrow>
            (case compile_trie L prof Allow of
               Inl err \<Rightarrow> Inl err
             | Inr allow \<Rightarrow> compile_profiles L rest (out\<lparr>c_deny := c_deny out @ deny, c_allow := c_allow out @ allow\<rparr>)))"

definition compile :: "ipnet_lib \<Rightarrow> policy \<Rightarrow> u64 \<Rightarrow> policy_error + compiled" where
  "compile L pol generation =
     (if generation = 0 then Inl GenerationZero
      else compile_profiles L (pol_profiles pol) \<lparr>c_generation = generation, c_profiles = [], c_deny = [], c_allow = [], c_exec = [], c_files = []\<rparr>)"

text \<open>\<open>Compiled::lookup\<close>, the kernel decision on the compiled entries.\<close>

definition range_hit :: "u16 \<Rightarrow> u8 \<Rightarrow> compiled_range \<Rightarrow> bool" where
  "range_hit port proto r \<longleftrightarrow> cr_proto r AND proto \<noteq> 0 \<and> cr_lo r \<le> port \<and> port \<le> cr_hi r"

definition longest_entry :: "ipnet_lib \<Rightarrow> entry list \<Rightarrow> u32 \<Rightarrow> 128 word \<Rightarrow> entry option" where
  "longest_entry L trie profile addr =
     max_by (\<lambda>a b. en_prefix_len a > en_prefix_len b) (filter (\<lambda>e. en_profile e = profile \<and> entry_contains L e addr) trie)"

definition trie_rule :: "ipnet_lib \<Rightarrow> entry list \<Rightarrow> u32 \<Rightarrow> 128 word \<Rightarrow> u16 \<Rightarrow> u8 \<Rightarrow> compiled_range option" where
  "trie_rule L trie profile addr port proto = (case longest_entry L trie profile addr of
     None \<Rightarrow> None
   | Some e \<Rightarrow> find (range_hit port proto) (en_ranges e))"

definition lookup :: "ipnet_lib \<Rightarrow> compiled \<Rightarrow> u32 \<Rightarrow> ip_addr \<Rightarrow> u16 \<Rightarrow> u8 \<Rightarrow> decision_ref option" where
  "lookup L c profile ip port proto = (case find (\<lambda>p. cp_id p = profile) (c_profiles c) of
     None \<Rightarrow> None
   | Some prof \<Rightarrow>
       let addr = normalize ip in
       Some (case trie_rule L (c_deny c) profile addr port proto of
               Some r \<Rightarrow> \<lparr>dr_action = Deny, dr_rule_id = cr_rule_id r\<rparr>
             | None \<Rightarrow>
                (case trie_rule L (c_allow c) profile addr port proto of
                   Some r \<Rightarrow> \<lparr>dr_action = Allow, dr_rule_id = cr_rule_id r\<rparr>
                 | None \<Rightarrow> \<lparr>dr_action = cp_net_default prof, dr_rule_id = 0\<rparr>)))"

subsection \<open>The reference choice as a sort\<close>

abbreviation specificity :: "rule \<Rightarrow> int" where
  "specificity r \<equiv> - int (net_len (r_net r))"

lemma preferred_later:
  assumes "sorted_wrt (\<lambda>a b. fst a < fst b) (x # xs)"
  shows "snd (foldl (\<lambda>b y. if preferred b y then b else y) x xs) =
    foldl (\<lambda>b y. if specificity b \<le> specificity y then b else y) (snd x) (map snd xs)"
  using assms
proof (induction xs arbitrary: x)
  case (Cons y ys)
  have "preferred x y \<longleftrightarrow> specificity (snd x) \<le> specificity (snd y)"
    using Cons.prems by (cases x; cases y) auto
  then show ?case using Cons.IH [of x] Cons.IH [of y] Cons.prems by simp
qed simp

lemma max_by_preferred:
  assumes "sorted_wrt (\<lambda>a b. fst a < fst b) xs"
  shows "map_option snd (max_by preferred xs) = max_by (\<lambda>a b. specificity a \<le> specificity b) (map snd xs)"
  using assms preferred_later by (cases xs) simp_all

definition rule_hits :: "u16 \<Rightarrow> u8 \<Rightarrow> rule \<Rightarrow> bool" where
  "rule_hits port proto r \<longleftrightarrow> r_proto r AND proto \<noteq> 0 \<and> list_ex (\<lambda>p. port_contains p port) (r_ports r)"

lemma best_rule_sort:
  "best_rule L prof action addr port proto =
     find (rule_hits port proto)
       (sort_key specificity (filter (\<lambda>r. r_action r = action \<and> contains_addr L (r_net r) addr) (pf_rules prof)))"
proof -
  let ?xs = "filter (\<lambda>(_, r). rule_matches L action addr port proto r) (enumerate 0 (pf_rules prof))"
  let ?rs = "filter (rule_matches L action addr port proto) (pf_rules prof)"
  have "map snd ?xs = filter (rule_matches L action addr port proto) (map snd (enumerate 0 (pf_rules prof)))"
    unfolding filter_map by (simp add: comp_def case_prod_unfold)
  then have "map snd ?xs = ?rs" by simp
  moreover have "sorted_wrt (\<lambda>a b. fst a < fst b) (enumerate 0 (pf_rules prof))"
    using sorted_wrt_map [of "(<)" fst "enumerate 0 (pf_rules prof)"] by (simp del: enumerate_eq_zip)
  ultimately have "best_rule L prof action addr port proto = max_by (\<lambda>a b. specificity a \<le> specificity b) ?rs"
    using max_by_preferred [of ?xs] unfolding best_rule_def by (simp add: sorted_wrt_filter)
  also have "\<dots> = (case sort_key specificity ?rs of [] \<Rightarrow> None | x # _ \<Rightarrow> Some x)"
  proof (cases ?rs)
    case (Cons x xs)
    then have "sort_key specificity ?rs \<noteq> []" by (simp only: Cons) (simp add: insort_not_Nil)
    then show ?thesis unfolding Cons max_by_first_least by (simp split: list.split)
  qed simp
  also have "?rs = filter (rule_hits port proto)
      (filter (\<lambda>r. r_action r = action \<and> contains_addr L (r_net r) addr) (pf_rules prof))"
    by (auto simp: rule_matches_def rule_hits_def intro!: filter_cong)
  finally show ?thesis by (simp only: find_first filter_sort)
qed

subsection \<open>Groups, ranges and entries\<close>

lemma push_group_map:
  assumes "distinct ns" "\<And>n. n \<in> set ns \<Longrightarrow> F' n = (if n = r_net r then F n @ [r] else F n)"
    and "r_net r \<notin> set ns \<Longrightarrow> F' (r_net r) = [r]"
  shows "push_group (map (\<lambda>n. (n, F n)) ns) r =
    map (\<lambda>n. (n, F' n)) (if r_net r \<in> set ns then ns else ns @ [r_net r])"
  using assms
proof (induction ns)
  case (Cons n ns)
  then show ?case by (auto intro: map_cong)
qed simp

lemma groups_by_net:
  "\<exists>ns. distinct ns \<and> set ns = r_net ` set R \<and> groups R = map (\<lambda>n. (n, filter (\<lambda>r. r_net r = n) R)) ns"
proof (induction R rule: rev_induct)
  case (snoc r R)
  then obtain ns where ns: "distinct ns" "set ns = r_net ` set R"
      "groups R = map (\<lambda>n. (n, filter (\<lambda>r. r_net r = n) R)) ns" by blast
  let ?ns = "if r_net r \<in> set ns then ns else ns @ [r_net r]"
  have "groups (R @ [r]) = push_group (groups R) r" by (simp add: groups_def)
  also have "\<dots> = map (\<lambda>n. (n, filter (\<lambda>r. r_net r = n) (R @ [r]))) ?ns"
    unfolding ns(3)
  proof (rule push_group_map [OF ns(1)])
    assume "r_net r \<notin> set ns"
    then have "filter (\<lambda>q. r_net q = r_net r) R = []" unfolding ns(2) filter_empty_conv by (metis imageI)
    then show "filter (\<lambda>q. r_net q = r_net r) (R @ [r]) = [r]" by simp
  qed auto
  finally have "groups (R @ [r]) = map (\<lambda>n. (n, filter (\<lambda>r. r_net r = n) (R @ [r]))) ?ns" .
  moreover have "distinct ?ns" "set ?ns = r_net ` set (R @ [r])" using ns by auto
  ultimately show ?case by blast
qed (simp add: groups_def)

lemma covers_hit:
  assumes "covers k r" "range_hit port proto r"
  shows "range_hit port proto k"
proof -
  have "cr_proto k AND proto \<noteq> 0"
  proof
    assume "cr_proto k AND proto = 0"
    moreover have "(cr_proto k AND cr_proto r) AND proto = (cr_proto k AND proto) AND cr_proto r" by (simp add: ac_simps)
    ultimately show False using assms by (simp add: covers_def range_hit_def)
  qed
  then show ?thesis using assms by (auto simp: covers_def range_hit_def)
qed

lemma find_push_ranges:
  "find (range_hit port proto) (foldl push_range acc rs) = find (range_hit port proto) (acc @ rs)"
proof (induction rs arbitrary: acc)
  case (Cons r rs)
  show ?case
  proof (cases "list_ex (\<lambda>k. covers k r) acc \<and> range_hit port proto r")
    case True
    then obtain k where "k \<in> set acc" "range_hit port proto k" using covers_hit by (auto simp: list_ex_iff)
    then have "find (range_hit port proto) acc \<noteq> None" by (auto simp: find_None_iff)
    then show ?thesis using True Cons.IH by (auto simp: push_range_def find_append)
  next
    case False
    then show ?thesis using Cons.IH by (auto simp: push_range_def find_append split: option.split)
  qed
qed simp

lemma find_rule_ranges:
  "map_option cr_rule_id (find (range_hit port proto) (concat (map rule_ranges rs))) =
   map_option r_id (find (rule_hits port proto) rs)"
proof (induction rs)
  case (Cons r rs)
  have hit: "find (range_hit port proto) (rule_ranges r) = None \<longleftrightarrow> \<not> rule_hits port proto r"
    by (auto simp: find_None_iff rule_ranges_def range_hit_def rule_hits_def list_ex_iff port_contains_def)
  have "cr_rule_id x = r_id r" if "find (range_hit port proto) (rule_ranges r) = Some x" for x
    using that by (auto simp: find_Some_iff rule_ranges_def)
  then show ?case using Cons hit by (auto simp: find_append split: option.split)
qed simp

definition entry_of :: "ipnet_lib \<Rightarrow> profile \<Rightarrow> (ipv6net \<times> rule list) list \<Rightarrow> ipv6net \<times> rule list \<Rightarrow> entry" where
  "entry_of L prof gs g =
     \<lparr>en_profile = pf_id prof, en_prefix_len = net_len (fst g), en_addr = octets (network L (fst g)),
      en_ranges = foldl push_range [] (concat (map rule_ranges (ordered_rules L gs g)))\<rparr>"

lemma compile_groups_entries:
  "compile_groups L prof action gs hs = Inr es \<Longrightarrow>
     es = map (entry_of L prof gs) hs \<and> (\<forall>e \<in> set es. length (en_ranges e) \<le> MAX_RANGES)"
  by (induction hs arbitrary: es) (auto simp: entry_of_def Let_def split: if_splits sum.splits)

lemma entry_range_hit:
  "map_option cr_rule_id (find (range_hit port proto) (en_ranges (entry_of L prof gs g))) =
   map_option r_id (find (rule_hits port proto) (ordered_rules L gs g))"
  by (simp add: entry_of_def find_push_ranges find_rule_ranges)

definition wf_prefix :: "ipnet_lib \<Rightarrow> ipv6net \<Rightarrow> bool" where
  "wf_prefix L n \<longleftrightarrow> net_len n \<le> 128 \<and> network L n = net_addr n"

lemma entry_of_contains:
  assumes "wf_prefix L (fst g)"
  shows "entry_contains L (entry_of L prof gs g) a \<longleftrightarrow> contains_addr L (fst g) a"
  using assms by (cases "fst g") (simp add: entry_contains_def entry_of_def wf_prefix_def)

subsection \<open>Flattening is right\<close>

context ipnet
begin

text \<open>The prefixes of an address, longest first, are strictly ordered by length.\<close>

lemma covering_sorted:
  assumes "distinct ms" "\<forall>m \<in> set ms. wf_prefix L m \<and> contains_addr L m a"
  shows "sorted_wrt (\<lambda>m m'. - int (net_len m) < - int (net_len m')) (sort_key (\<lambda>m. - int (net_len m)) ms)"
proof -
  let ?s = "sort_key (\<lambda>m. - int (net_len m)) ms"
  have "inj_on (\<lambda>m. - int (net_len m)) (set ms)"
    using assms(2) same_prefix [of _ _ a] by (auto simp: inj_on_def wf_prefix_def)
  then have "distinct (map (\<lambda>m. - int (net_len m)) ?s)" using assms(1) by (simp add: distinct_map)
  moreover have "sorted (map (\<lambda>m. - int (net_len m)) ?s)" by simp
  ultimately have "sorted_wrt (<) (map (\<lambda>m. - int (net_len m)) ?s)" by (simp only: strict_sorted_iff)
  then show ?thesis by (simp only: sorted_wrt_map)
qed

text \<open>Below the longest prefix of an address, the flattened rules are the rules for the address, most specific first.\<close>

lemma ordered_rules_sort:
  assumes wf: "\<forall>r \<in> set R. wf_prefix L (r_net r)"
    and gs: "distinct ns" "set ns = r_net ` set R" "gs = map (\<lambda>n. (n, filter (\<lambda>r. r_net r = n) R)) ns"
    and n: "n \<in> set ns" "contains_addr L n a" "\<forall>m \<in> set ns. contains_addr L m a \<longrightarrow> net_len m \<le> net_len n"
  shows "ordered_rules L gs (n, filter (\<lambda>r. r_net r = n) R) =
    sort_key specificity (filter (\<lambda>r. contains_addr L (r_net r) a) R)"
proof -
  let ?k = "\<lambda>m. - int (net_len m)" and ?R = "filter (\<lambda>r. contains_addr L (r_net r) a) R"
  let ?ms = "filter (\<lambda>m. m \<noteq> n \<and> contains_addr L m a) ns"
  have wfn: "wf_prefix L m" if "m \<in> set ns" for m using that wf gs(2) by auto
  have "contains_net L m n \<longleftrightarrow> contains_addr L m a" if "m \<in> set ns" for m
    using that n wfn [OF that] wfn [OF n(1)] contains_trans [of m n a] nested [of m n a] unfolding wf_prefix_def by metis
  then have anc: "filter (\<lambda>m. m \<noteq> n \<and> contains_net L m n) ns = ?ms" by (auto intro: filter_cong)
  have srt: "sorted_wrt (\<lambda>m m'. ?k m < ?k m') (n # sort_key ?k ?ms)"
  proof -
    have "net_len m < net_len n" if "m \<in> set ?ms" for m
      using that n wfn same_prefix [of m n a] by (auto simp: wf_prefix_def order_le_less)
    moreover have "sorted_wrt (\<lambda>m m'. ?k m < ?k m') (sort_key ?k ?ms)"
      by (rule covering_sorted [of _ a]) (use gs(1) wfn in auto)
    ultimately show ?thesis by (simp only: sorted_wrt.simps set_sort) simp
  qed
  have "ordered_rules L gs (n, filter (\<lambda>r. r_net r = n) R) =
      concat (map (\<lambda>m. filter (\<lambda>r. r_net r = m) R) (n # sort_key ?k ?ms))"
    unfolding ordered_rules_def gs(3) anc [symmetric] by (simp add: filter_map sort_key_of_map comp_def)
  also have "\<dots> = concat (map (\<lambda>m. filter (\<lambda>r. r_net r = m) ?R) (n # sort_key ?k ?ms))"
  proof (intro arg_cong [where f = concat] map_cong [OF refl])
    fix m
    assume "m \<in> set (n # sort_key ?k ?ms)"
    then have "contains_addr L m a" using n(2) by auto
    then show "filter (\<lambda>r. r_net r = m) R = filter (\<lambda>r. r_net r = m) ?R" by (auto intro: filter_cong)
  qed
  also have "\<dots> = sort_key specificity ?R"
    by (rule sort_groups [OF srt]) (use gs(2) in auto)
  finally show ?thesis .
qed

text \<open>Looking the address up in the entries of one profile gives the rule of the reference.\<close>

lemma trie_lookup:
  assumes wf: "\<forall>r \<in> set (pf_rules prof). wf_prefix L (r_net r)"
    and es: "compile_trie L prof action = Inr es"
  shows "map_option cr_rule_id (case max_by (\<lambda>a b. en_prefix_len a > en_prefix_len b) (filter (\<lambda>e. entry_contains L e a) es) of
      None \<Rightarrow> None | Some e \<Rightarrow> find (range_hit port proto) (en_ranges e)) =
    map_option r_id (best_rule L prof action a port proto)"
proof -
  define R where "R = filter (\<lambda>r. r_action r = action) (pf_rules prof)"
  obtain ns where ns: "distinct ns" "set ns = r_net ` set R"
      "groups R = map (\<lambda>n. (n, filter (\<lambda>r. r_net r = n) R)) ns" using groups_by_net by blast
  define own where "own = (\<lambda>n. (n, filter (\<lambda>r. r_net r = n) R))"
  define en where "en = (\<lambda>n. entry_of L prof (groups R) (own n))"
  define covering where "covering = filter (\<lambda>n. contains_addr L n a) ns"
  have wfR: "\<forall>r \<in> set R. wf_prefix L (r_net r)" using wf by (auto simp: R_def)
  then have wfn: "wf_prefix L n" if "n \<in> set ns" for n using that ns(2) by auto
  have "es = map (entry_of L prof (groups R)) (groups R)"
    using es compile_groups_entries unfolding compile_trie_def Let_def R_def by blast
  then have "es = map en ns" unfolding en_def own_def by (subst (asm) (2) ns(3)) simp
  moreover have "entry_contains L (en n) a \<longleftrightarrow> contains_addr L n a" if "n \<in> set ns" for n
    using entry_of_contains [of L "own n"] wfn [OF that] by (simp add: en_def own_def)
  ultimately have es': "filter (\<lambda>e. entry_contains L e a) es = map en covering"
    by (simp add: covering_def filter_map cong: filter_cong)
  have best: "best_rule L prof action a port proto =
      find (rule_hits port proto) (sort_key specificity (filter (\<lambda>r. contains_addr L (r_net r) a) R))"
    unfolding best_rule_sort R_def by (simp add: conj_commute)
  show ?thesis
  proof (cases "max_by (\<lambda>a b. en_prefix_len a > en_prefix_len b) (map en covering)")
    case None
    then have "filter (\<lambda>r. contains_addr L (r_net r) a) R = []"
      using ns(2) by (auto simp: covering_def filter_empty_conv)
    then show ?thesis using None best es' by simp
  next
    case (Some e)
    then obtain n where n: "n \<in> set covering" "e = en n" and longest: "\<forall>m \<in> set covering. en_prefix_len (en m) \<le> en_prefix_len e"
      using max_by_greatest by force
    have "\<forall>m \<in> set ns. contains_addr L m a \<longrightarrow> net_len m \<le> net_len n"
      using longest by (auto simp: n(2) covering_def en_def own_def entry_of_def)
    then have "ordered_rules L (groups R) (own n) =
        sort_key specificity (filter (\<lambda>r. contains_addr L (r_net r) a) R)"
      using ordered_rules_sort [OF wfR ns] n(1) unfolding own_def covering_def by simp
    then show ?thesis using Some best es' entry_range_hit [of port proto L prof "groups R" "own n"] n(2)
      by (simp add: en_def)
  qed
qed

end

subsection \<open>Compiled policies\<close>

definition wf_policy :: "ipnet_lib \<Rightarrow> policy \<Rightarrow> bool" where
  "wf_policy L pol \<longleftrightarrow> distinct (map pf_id (pol_profiles pol)) \<and>
     (\<forall>p \<in> set (pol_profiles pol). pf_id p < MAX_PROFILES \<and> (\<forall>r \<in> set (pf_rules p). wf_prefix L (r_net r)))"

definition trie_of :: "ipnet_lib \<Rightarrow> action \<Rightarrow> profile \<Rightarrow> entry list" where
  "trie_of L action prof = (case compile_trie L prof action of Inl _ \<Rightarrow> [] | Inr es \<Rightarrow> es)"

definition compiled_profile_of :: "profile \<Rightarrow> compiled_profile" where
  "compiled_profile_of prof =
     \<lparr>cp_id = pf_id prof, cp_mode = pf_mode prof, cp_net_default = pf_net_default prof, cp_flags = profile_flags prof\<rparr>"

lemma compile_trie_entries:
  assumes "compile_trie L prof action = Inr es" "e \<in> set es"
  shows "en_profile e = pf_id prof" "length (en_ranges e) \<le> MAX_RANGES" "length (en_addr e) = 16"
proof -
  obtain gs where "compile_groups L prof action gs gs = Inr es"
    using assms(1) unfolding compile_trie_def Let_def by blast
  note entries = compile_groups_entries [OF this]
  then obtain g where "e = entry_of L prof gs g" using assms(2) by auto
  then show "en_profile e = pf_id prof" "length (en_addr e) = 16" by (simp_all add: entry_of_def)
  show "length (en_ranges e) \<le> MAX_RANGES" using entries assms(2) by blast
qed

lemma compile_profiles_parts:
  "compile_profiles L ps out = Inr c \<Longrightarrow>
     c_generation c = c_generation out \<and>
     c_profiles c = c_profiles out @ map compiled_profile_of ps \<and>
     c_deny c = c_deny out @ concat (map (trie_of L Deny) ps) \<and>
     c_allow c = c_allow out @ concat (map (trie_of L Allow) ps) \<and>
     (\<forall>p \<in> set ps. compile_trie L p Deny = Inr (trie_of L Deny p) \<and> compile_trie L p Allow = Inr (trie_of L Allow p))"
proof (induction ps arbitrary: out)
  case (Cons p ps)
  obtain d where d: "compile_trie L p Deny = Inr d"
    using Cons.prems by (cases "compile_trie L p Deny") (auto simp: Let_def)
  obtain a where a: "compile_trie L p Allow = Inr a"
    using Cons.prems d by (cases "compile_trie L p Allow") (auto simp: Let_def)
  show ?case using Cons.prems Cons.IH d a
    by (auto simp: Let_def trie_of_def compiled_profile_of_def split: option.splits)
qed simp

lemma compile_parts:
  assumes "compile L pol generation = Inr c"
  shows "generation \<noteq> 0 \<and> c_generation c = generation \<and> c_profiles c = map compiled_profile_of (pol_profiles pol) \<and>
     c_deny c = concat (map (trie_of L Deny) (pol_profiles pol)) \<and> c_allow c = concat (map (trie_of L Allow) (pol_profiles pol)) \<and>
     (\<forall>p \<in> set (pol_profiles pol). \<forall>action. compile_trie L p action = Inr (trie_of L action p))"
proof -
  have "generation \<noteq> 0" using assms by (auto simp: compile_def)
  then have "compile_profiles L (pol_profiles pol)
      \<lparr>c_generation = generation, c_profiles = [], c_deny = [], c_allow = [], c_exec = [], c_files = []\<rparr> = Inr c"
    using assms by (simp add: compile_def)
  note parts = compile_profiles_parts [OF this]
  have "compile_trie L p action = Inr (trie_of L action p)" if "p \<in> set (pol_profiles pol)" for p action
    using parts that by (cases action) simp_all
  then show ?thesis using \<open>generation \<noteq> 0\<close> parts by simp
qed

lemma find_profile_compiled:
  "find (\<lambda>p. cp_id p = i) (map compiled_profile_of ps) = map_option compiled_profile_of (find (\<lambda>p. pf_id p = i) ps)"
  by (induction ps) (simp_all add: compiled_profile_of_def)

lemma own_entries:
  assumes "distinct (map pf_id ps)" "p \<in> set ps" "\<forall>p \<in> set ps. compile_trie L p action = Inr (trie_of L action p)"
  shows "filter (\<lambda>e. en_profile e = pf_id p) (concat (map (trie_of L action) ps)) = trie_of L action p"
  using assms
proof (induction ps)
  case (Cons q ps)
  have q: "\<forall>e \<in> set (trie_of L action q). en_profile e = pf_id q" using Cons.prems(3) compile_trie_entries(1) by simp blast
  show ?case
  proof (cases "p = q")
    case True
    then have "\<forall>p' \<in> set ps. \<forall>e \<in> set (trie_of L action p'). en_profile e \<noteq> pf_id q"
      using Cons.prems(1,3) compile_trie_entries(1) by (metis distinct.simps(2) image_eqI list.set_intros(2) list.set_map list.simps(9))
    then have "filter (\<lambda>e. en_profile e = pf_id q) (concat (map (trie_of L action) ps)) = []" by (auto simp: filter_empty_conv)
    then show ?thesis using True q by simp
  next
    case False
    then have "p \<in> set ps" "pf_id q \<noteq> pf_id p" using Cons.prems by auto
    then show ?thesis using Cons q by (auto simp: filter_empty_conv)
  qed
qed simp

context ipnet
begin

lemma compiled_trie_rule:
  assumes "wf_policy L pol" "find_profile pol i = Some p" "\<forall>p \<in> set (pol_profiles pol). compile_trie L p action = Inr (trie_of L action p)"
  shows "map_option cr_rule_id (trie_rule L (concat (map (trie_of L action) (pol_profiles pol))) i a port proto) =
    map_option r_id (best_rule L p action a port proto)"
proof -
  have p: "p \<in> set (pol_profiles pol)" "pf_id p = i"
    using assms(2) by (auto simp: find_profile_def find_Some_iff)
  then have "filter (\<lambda>e. en_profile e = i) (concat (map (trie_of L action) (pol_profiles pol))) = trie_of L action p"
    using own_entries assms(1,3) by (auto simp: wf_policy_def)
  then have "filter (\<lambda>e. en_profile e = i \<and> entry_contains L e a) (concat (map (trie_of L action) (pol_profiles pol))) =
      filter (\<lambda>e. entry_contains L e a) (trie_of L action p)"
    by (metis filter_filter)
  then show ?thesis
    using trie_lookup [of p action "trie_of L action p", where a = a and port = port and proto = proto] p assms(1,3)
    unfolding trie_rule_def longest_entry_def by (auto simp: wf_policy_def)
qed

lemma lookup_evaluate:
  assumes "wf_policy L pol" "compile L pol generation = Inr c"
  shows "lookup L c i ip port proto = evaluate L pol i ip port proto"
proof (cases "find_profile pol i")
  case None
  then show ?thesis using compile_parts [OF assms(2)]
    by (simp add: lookup_def evaluate_def find_profile_compiled find_profile_def)
next
  case (Some p)
  note rule = compiled_trie_rule [OF assms(1) Some, of _ "normalize ip" port proto]
  show ?thesis using compile_parts [OF assms(2)] Some rule [of Deny] rule [of Allow]
    by (auto simp: lookup_def evaluate_def find_profile_compiled find_profile_def compiled_profile_of_def Let_def
        map_option_case split: option.splits)
qed

end

text \<open>A policy with nested prefixes: a denied port inside an allowed network inside the default.\<close>

definition sample_policy :: policy where
  "sample_policy =
     \<lparr>pol_profiles =
        [\<lparr>pf_id = 0, pf_name = ''web'', pf_mode = Enforce, pf_net_default = Deny, pf_deny_raw_sockets = True,
          pf_rules =
            [\<lparr>r_id = 1, r_action = Deny, r_net = \<lparr>net_addr = 0xffff0a000000, net_len = 104\<rparr>,
              r_ports = [\<lparr>pr_lo = 22, pr_hi = 22\<rparr>], r_proto = 7\<rparr>,
             \<lparr>r_id = 2, r_action = Allow, r_net = \<lparr>net_addr = 0xffff0a000000, net_len = 104\<rparr>,
              r_ports = [\<lparr>pr_lo = 0, pr_hi = 0xffff\<rparr>], r_proto = 1\<rparr>,
             \<lparr>r_id = 3, r_action = Allow, r_net = \<lparr>net_addr = 0xffff0a010000, net_len = 112\<rparr>,
              r_ports = [\<lparr>pr_lo = 53, pr_hi = 53\<rparr>], r_proto = 3\<rparr>],
          pf_exec = Some \<lparr>ep_default = Deny, ep_allow_unlinked = False,
            ep_allow = [\<lparr>xa_id = 4, xa_path = ''/bin/ls'', xa_kind = KFile\<rparr>]\<rparr>,
          pf_files = \<lparr>fp_rules = [\<lparr>fl_id = 5, fl_path = ''/etc/shadow'', fl_subtree = False, fl_deny_mask = 1, fl_optional = True\<rparr>],
            fp_protect_exec_allowlist = True\<rparr>, pf_launchable_by = []\<rparr>],
      pol_bindings = [], pol_origins = [], pol_namespaces = Map.empty\<rparr>"

lemma sample_policy_wf: "wf_policy ipnet_std sample_policy"
  by (simp add: wf_policy_def wf_prefix_def sample_policy_def ipnet_std_def prefix_bits_def)

lemma sample_policy_compiles: "\<exists>c. compile ipnet_std sample_policy 1 = Inr c"
  by (simp add: compile_def sample_policy_def compile_trie_def groups_def ordered_rules_def push_range_def covers_def
      rule_ranges_def Let_def ipnet_std_def prefix_bits_def)

lemma sample_policy_decides:
  "evaluate ipnet_std sample_policy 0 (V4 0x0a010203) 53 1 = Some \<lparr>dr_action = Allow, dr_rule_id = 3\<rparr>"
  "evaluate ipnet_std sample_policy 0 (V4 0x0a010203) 22 1 = Some \<lparr>dr_action = Deny, dr_rule_id = 1\<rparr>"
  by (simp_all add: evaluate_def find_profile_def sample_policy_def best_rule_def rule_matches_def ipnet_std_def
      prefix_bits_def port_contains_def)

text \<open>
  C17: one lookup per action in the compiled entries reproduces the policy: for every profile, address, port
  and protocol, the compiled policy decides as the reference semantics does, with the same rule id, and
  knows the same profiles.  The prefix library keeps its documented laws and the policy is one that
  validation produces: distinct profile ids and prefixes without host bits.
\<close>

theorem compile_lookup_correct:
  assumes "ipnet L" "wf_policy L pol" "compile L pol generation = Inr c"
  shows "lookup L c profile ip port proto = evaluate L pol profile ip port proto"
  using assms by (rule ipnet.lookup_evaluate)

theorem compile_lookup_correct_witness:
  "case compile ipnet_std sample_policy 1 of
     Inl _ \<Rightarrow> False
   | Inr c \<Rightarrow> lookup ipnet_std c 0 (V4 0x0a010203) 53 1 = Some \<lparr>dr_action = Allow, dr_rule_id = 3\<rparr> \<and>
       lookup ipnet_std c 0 (V4 0x0a010203) 22 1 = Some \<lparr>dr_action = Deny, dr_rule_id = 1\<rparr>"
proof -
  obtain c where c: "compile ipnet_std sample_policy 1 = Inr c" using sample_policy_compiles by blast
  show ?thesis
    using c compile_lookup_correct [OF ipnet_std.ipnet_axioms sample_policy_wf c] sample_policy_decides by simp
qed

end
