(* ===== verification/Policy_Kernel.thy ===== *)
theory Policy_Kernel
  imports Rk_Object Policy_Net
begin

text \<open>
  The maps as the sensor writes them and as the programs read them.  Hash maps and arrays are partial
  functions.  A longest-prefix-match trie is kernel code: its operations are fields of the record
  \<open>bpf_kernel\<close>, over a type \<open>'t\<close> of tries, and the locale \<open>lpm_trie\<close> states what the kernel documents about
  them.  \<open>view\<close> is what the programs see.
\<close>

subsection \<open>Keys and map operations\<close>

record key_data =
  kd_scope :: u32
  kd_addr :: bytes

definition key_bytes :: "key_data \<Rightarrow> bytes" where
  "key_bytes d = le 4 (kd_scope d) @ kd_addr d"

text \<open>The bits of a trie key, most significant bit of the first byte first.\<close>

definition key_bits :: "bytes \<Rightarrow> bool list" where
  "key_bits bs = concat (map (\<lambda>b. map (bit b) (rev [0..<8])) bs)"

definition key_prefix :: "u32 \<Rightarrow> key_data \<Rightarrow> bool list" where
  "key_prefix n d = take (unat n) (key_bits (key_bytes d))"

text \<open>One update or removal of a map entry by the sensor.\<close>

datatype kop =
    FileInsert rk_file_key rk_file_rule
  | FileRemove rk_file_key
  | ExecInsert rk_exec_key rk_exec_rule
  | ExecRemove rk_exec_key
  | ProfileSet u32 rk_profile
  | DenyInsert u32 key_data rk_net_rule
  | DenyRemove u32 key_data
  | AllowInsert u32 key_data rk_net_rule
  | AllowRemove u32 key_data
  | ActiveSet u32

record 't kernel_maps =
  km :: rk_maps  \<comment> \<open>all maps but the two tries\<close>
  km_deny :: 't
  km_allow :: 't

record 't bpf_kernel =
  lpm_insert :: "'t \<Rightarrow> u32 \<Rightarrow> bytes \<Rightarrow> rk_net_rule \<Rightarrow> 't"
  lpm_remove :: "'t \<Rightarrow> u32 \<Rightarrow> bytes \<Rightarrow> 't"
  lpm_lookup :: "'t \<Rightarrow> u32 \<Rightarrow> bytes \<Rightarrow> rk_net_rule option"
  lpm_contents :: "'t \<Rightarrow> bool list \<rightharpoonup> rk_net_rule"
  accepts :: "'t kernel_maps \<Rightarrow> kop \<Rightarrow> bool"  \<comment> \<open>the update does not fail (memory, capacity)\<close>

fun kop_run :: "'t bpf_kernel \<Rightarrow> kop \<Rightarrow> 't kernel_maps \<Rightarrow> 't kernel_maps" where
  "kop_run K (FileInsert key v) k = k\<lparr>km := (km k)\<lparr>rk_file_protect := (rk_file_protect (km k))(key \<mapsto> v)\<rparr>\<rparr>"
| "kop_run K (FileRemove key) k = k\<lparr>km := (km k)\<lparr>rk_file_protect := (rk_file_protect (km k))(key := None)\<rparr>\<rparr>"
| "kop_run K (ExecInsert key v) k = k\<lparr>km := (km k)\<lparr>rk_exec_allow := (rk_exec_allow (km k))(key \<mapsto> v)\<rparr>\<rparr>"
| "kop_run K (ExecRemove key) k = k\<lparr>km := (km k)\<lparr>rk_exec_allow := (rk_exec_allow (km k))(key := None)\<rparr>\<rparr>"
| "kop_run K (ProfileSet i v) k = k\<lparr>km := (km k)\<lparr>rk_profiles := (rk_profiles (km k))(i \<mapsto> v)\<rparr>\<rparr>"
| "kop_run K (DenyInsert n d v) k = k\<lparr>km_deny := lpm_insert K (km_deny k) n (key_bytes d) v\<rparr>"
| "kop_run K (DenyRemove n d) k = k\<lparr>km_deny := lpm_remove K (km_deny k) n (key_bytes d)\<rparr>"
| "kop_run K (AllowInsert n d v) k = k\<lparr>km_allow := lpm_insert K (km_allow k) n (key_bytes d) v\<rparr>"
| "kop_run K (AllowRemove n d) k = k\<lparr>km_allow := lpm_remove K (km_allow k) n (key_bytes d)\<rparr>"
| "kop_run K (ActiveSet slot) k = k\<lparr>km := (km k)\<lparr>rk_active_slot := (rk_active_slot (km k))(0 \<mapsto> slot)\<rparr>\<rparr>"

definition trie_view :: "'t bpf_kernel \<Rightarrow> 't \<Rightarrow> rk_net_key \<rightharpoonup> rk_net_rule" where
  "trie_view K t key = lpm_lookup K t (nk_prefixlen key) (le 4 (nk_scope key) @ nk_addr key)"

definition view :: "'t bpf_kernel \<Rightarrow> 't kernel_maps \<Rightarrow> rk_maps" where
  "view K k = (km k)\<lparr>rk_net_deny := trie_view K (km_deny k), rk_net_allow := trie_view K (km_allow k)\<rparr>"

subsection \<open>Longest-prefix match\<close>

primrec longest_at :: "(bool list \<rightharpoonup> 'v) \<Rightarrow> bool list \<Rightarrow> nat \<Rightarrow> 'v option" where
  "longest_at T bs 0 = T []"
| "longest_at T bs (Suc n) = (case T (take (Suc n) bs) of Some v \<Rightarrow> Some v | None \<Rightarrow> longest_at T bs n)"

definition longest_match :: "(bool list \<rightharpoonup> 'v) \<Rightarrow> bool list \<Rightarrow> 'v option" where
  "longest_match T bs = longest_at T bs (length bs)"

lemma longest_match_cong:
  assumes "\<And>l. T (take l bs) = T' (take l bs)"
  shows "longest_match T bs = longest_match T' bs"
proof -
  have "longest_at T bs n = longest_at T' bs n" for n
    by (induction n) (use assms [of 0] assms in \<open>simp_all split: option.split\<close>)
  then show ?thesis by (simp add: longest_match_def)
qed

lemma longest_match_Some:
  assumes "T (take l bs) = Some v" "l \<le> length bs" "\<And>k. l < k \<Longrightarrow> k \<le> length bs \<Longrightarrow> T (take k bs) = None"
  shows "longest_match T bs = Some v"
proof -
  have "l \<le> n \<Longrightarrow> n \<le> length bs \<Longrightarrow> longest_at T bs n = Some v" for n
  proof (induction n)
    case (Suc n)
    then show ?case using assms by (cases "l = Suc n") (auto simp: le_Suc_eq)
  qed (use assms in simp)
  then show ?thesis using assms(2) by (simp add: longest_match_def)
qed

lemma longest_match_None:
  assumes "\<And>l. T (take l bs) = None"
  shows "longest_match T bs = None"
proof -
  have "longest_at T bs n = None" for n by (induction n) (use assms [of 0] assms in simp_all)
  then show ?thesis by (simp add: longest_match_def)
qed

locale lpm_trie =
  fixes K :: "'t bpf_kernel"
  assumes insert: "unat n \<le> 8 * length d \<Longrightarrow>
      lpm_contents K (lpm_insert K t n d v) = (lpm_contents K t)(take (unat n) (key_bits d) \<mapsto> v)"
    and remove: "unat n \<le> 8 * length d \<Longrightarrow>
      lpm_contents K (lpm_remove K t n d) = (lpm_contents K t)(take (unat n) (key_bits d) := None)"
    and lookup: "lpm_lookup K t n d = longest_match (lpm_contents K t) (take (unat n) (key_bits d))"
    and array: "i \<in> dom (rk_profiles (km k)) \<Longrightarrow> accepts K k (ProfileSet i p)"

text \<open>Tries as their contents; every update succeeds.\<close>

definition bpf_std :: "(bool list \<rightharpoonup> rk_net_rule) bpf_kernel" where
  "bpf_std = \<lparr>lpm_insert = (\<lambda>t n d v. t(take (unat n) (key_bits d) \<mapsto> v)), lpm_remove = (\<lambda>t n d. t(take (unat n) (key_bits d) := None)),
     lpm_lookup = (\<lambda>t n d. longest_match t (take (unat n) (key_bits d))), lpm_contents = (\<lambda>t. t), accepts = (\<lambda>_ _. True)\<rparr>"

interpretation bpf_std: lpm_trie bpf_std
  by unfold_locales (simp_all add: bpf_std_def)

subsection \<open>Key bits\<close>

lemma length_key_bits [simp]: "length (key_bits bs) = 8 * length bs"
  by (induction bs) (simp_all add: key_bits_def)

lemma key_bits_append [simp]: "key_bits (xs @ ys) = key_bits xs @ key_bits ys"
  by (simp add: key_bits_def)

lemma byte_bits_inj: "map (bit b) (rev [0..<8]) = map (bit c) (rev [0..<8]) \<longleftrightarrow> b = (c :: u8)"
proof
  assume "map (bit b) (rev [0..<8]) = map (bit c) (rev [0..<8])"
  then have "\<forall>i \<in> set (rev [0..<8]). bit b i = bit c i" by (simp only: map_eq_conv)
  then show "b = c" by (intro bit_word_eqI) simp
qed simp

lemma key_bits_inj: "length xs = length ys \<Longrightarrow> key_bits xs = key_bits ys \<longleftrightarrow> xs = ys"
proof (induction xs ys rule: list_induct2)
  case (Cons x xs y ys)
  have "key_bits (z # zs) = map (bit z) (rev [0..<8]) @ key_bits zs" for z zs by (simp add: key_bits_def)
  then show ?case using Cons byte_bits_inj by simp
qed simp

lemma le4_inj: "le 4 (a :: u32) = le 4 b \<longleftrightarrow> a = b"
  by (metis unle_le_full(3))

text \<open>The first 32 bits of a key are its scope.\<close>

lemma scope_bits:
  assumes "take l (key_bits (le 4 (s :: u32) @ as)) = take l' (key_bits (le 4 (s' :: u32) @ as'))" "32 \<le> l'" "l' \<le> 32 + 8 * length as'"
  shows "s = s'"
proof -
  have "length (take l (key_bits (le 4 s @ as))) = l'" unfolding assms(1) using assms(3) by simp
  then have "32 \<le> l" using assms(2) by simp
  then have "take 32 (key_bits (le 4 s @ as)) = take 32 (key_bits (le 4 s' @ as'))"
    using arg_cong [OF assms(1), of "take 32"] assms(2) by (simp add: min_def)
  then show ?thesis by (simp add: key_bits_inj le4_inj)
qed

text \<open>Sharing the first \<open>l\<close> bits is containment in a prefix of length \<open>l\<close>.\<close>

lemma key_bits_rev_le:
  "8 * n \<le> LENGTH('a) \<Longrightarrow> key_bits (rev (le n a)) = map (\<lambda>i. bit (a :: 'a::len word) (8 * n - 1 - i)) [0..<8 * n]"
proof (induction n arbitrary: a)
  case (Suc n)
  have last: "key_bits [ucast a] = map (\<lambda>i. bit a (8 * Suc n - 1 - i)) [8 * n..<8 * Suc n]"
    by (rule nth_equalityI) (auto simp: key_bits_def rev_nth bit_simps)
  have "key_bits (rev (le n (drop_bit 8 a))) = map (\<lambda>i. bit a (8 * Suc n - 1 - i)) [0..<8 * n]"
    using Suc by (auto simp: bit_drop_bit_eq)
  moreover have "[0..<8 * Suc n] = [0..<8 * n] @ [8 * n..<8 * Suc n]" using upt_add_eq_append [of 0 "8 * n" 8] by (simp add: add.commute)
  ultimately show ?case using last by simp
qed (simp add: key_bits_def)

lemma octet_bits: "key_bits (octets a) = map (\<lambda>i. bit a (127 - i)) [0..<128]"
  using key_bits_rev_le [of 16 a] by (simp add: octets_def)

lemma take_octet_bits:
  assumes "l \<le> 128"
  shows "take l (key_bits (octets a)) = take l (key_bits (octets b)) \<longleftrightarrow> prefix_bits l a = prefix_bits l b"
proof -
  have "take l (key_bits (octets a)) = take l (key_bits (octets b)) \<longleftrightarrow> (\<forall>i < l. bit a (127 - i) = bit b (127 - i))"
    unfolding octet_bits take_map using assms by (auto simp: take_upt)
  also have "\<dots> \<longleftrightarrow> drop_bit (128 - l) a = drop_bit (128 - l) b"
  proof
    assume eq: "\<forall>i < l. bit a (127 - i) = bit b (127 - i)"
    show "drop_bit (128 - l) a = drop_bit (128 - l) b"
    proof (rule bit_word_eqI)
      fix n
      show "bit (drop_bit (128 - l) a) n = bit (drop_bit (128 - l) b) n"
      proof (cases "n < l")
        case True
        then have "127 - (l - 1 - n) = 128 - l + n" "l - 1 - n < l" using assms by auto
        then show ?thesis using eq by (metis bit_drop_bit_eq comp_apply)
      next
        case False
        then have "\<not> bit x (128 - l + n)" for x :: "128 word" using assms by (auto dest: bit_imp_le_length)
        then show ?thesis by (simp add: bit_drop_bit_eq)
      qed
    qed
  next
    assume eq: "drop_bit (128 - l) a = drop_bit (128 - l) b"
    have "bit a (127 - i) = bit b (127 - i)" if "i < l" for i
    proof -
      have "bit (drop_bit (128 - l) a) (l - 1 - i) = bit (drop_bit (128 - l) b) (l - 1 - i)" by (simp add: eq)
      moreover have "128 - l + (l - 1 - i) = 127 - i" using that assms by simp
      ultimately show ?thesis by (simp add: bit_drop_bit_eq)
    qed
    then show "\<forall>i < l. bit a (127 - i) = bit b (127 - i)" by blast
  qed
  also have "\<dots> \<longleftrightarrow> prefix_bits l a = prefix_bits l b"
    by (simp only: prefix_bits_def word_unat_eq_iff unat_drop_bit_eq drop_bit_eq_div [where 'a = nat])
  finally show ?thesis .
qed

subsection \<open>Operations confined to one slot\<close>

definition slot_scope :: "u32 \<Rightarrow> u32 \<Rightarrow> bool" where
  "slot_scope slot s \<longleftrightarrow> (\<exists>p < RK_MAX_PROFILES. s = rk_scope slot p)"

definition slot_key :: "u32 \<Rightarrow> u32 \<Rightarrow> key_data \<Rightarrow> bool" where
  "slot_key slot n d \<longleftrightarrow> slot_scope slot (kd_scope d) \<and> length (kd_addr d) = 16 \<and> 32 \<le> unat n \<and> unat n \<le> 160"

fun in_slot :: "u32 \<Rightarrow> kop \<Rightarrow> bool" where
  "in_slot slot (FileInsert key v) = slot_scope slot (fk_scope key)"
| "in_slot slot (FileRemove key) = slot_scope slot (fk_scope key)"
| "in_slot slot (ExecInsert key v) = slot_scope slot (xk_scope key)"
| "in_slot slot (ExecRemove key) = slot_scope slot (xk_scope key)"
| "in_slot slot (ProfileSet i v) = (\<exists>p < RK_MAX_PROFILES. i = slot * RK_MAX_PROFILES + p)"
| "in_slot slot (DenyInsert n d v) = slot_key slot n d"
| "in_slot slot (DenyRemove n d) = slot_key slot n d"
| "in_slot slot (AllowInsert n d v) = slot_key slot n d"
| "in_slot slot (AllowRemove n d) = slot_key slot n d"
| "in_slot slot (ActiveSet a) = False"

lemma slot_scope_apart:
  assumes "slot < 2" "slot' < 2" "slot \<noteq> slot'" "slot_scope slot s"
  shows "\<not> slot_scope slot' s" "s \<noteq> 0xffffffff"
  using assms scope_identifies_profile [of slot slot'] scope_identifies_profile [of slot slot]
  by (auto simp: slot_scope_def gov_fail_closed_def)

lemma slot_index_apart:
  assumes "slot < 2" "slot' < 2" "p < RK_MAX_PROFILES" "p' < RK_MAX_PROFILES"
  shows "slot * RK_MAX_PROFILES + p = slot' * RK_MAX_PROFILES + p' \<longleftrightarrow> slot = slot' \<and> p = p'"
proof -
  have s: "slot = 0 \<or> slot = 1" "slot' = 0 \<or> slot' = 1" using assms by (auto simp: word_less_nat_alt word_unat_eq_iff)
  have "unat p < 1024" "unat p' < 1024" using assms by (simp_all add: word_less_nat_alt)
  then show ?thesis using s by (auto simp: word_unat_eq_iff unat_word_ariths)
qed

lemma same_active_trans:
  assumes "same_active m m'" "same_active m' m''"
  shows "same_active m m''"
proof -
  have "active_slot m = active_slot m'" using assms(1) by (simp add: active_slot_def same_active_def)
  then show ?thesis using assms unfolding same_active_def same_rules_def by simp
qed

lemma same_active_refl: "same_active m m"
  by (simp add: same_active_def same_rules_def)

context lpm_trie
begin

text \<open>A trie key of one scope is invisible to lookups in another.\<close>

lemma other_scope:
  assumes "slot_key slot n d" "nk_scope key \<noteq> kd_scope d"
  shows "trie_view K (lpm_insert K t n (key_bytes d) v) key = trie_view K t key"
    and "trie_view K (lpm_remove K t n (key_bytes d)) key = trie_view K t key"
proof -
  let ?bs = "take (unat (nk_prefixlen key)) (key_bits (le 4 (nk_scope key) @ nk_addr key))"
  have len: "unat n \<le> 8 * length (key_bytes d)" using assms(1) by (simp add: slot_key_def key_bytes_def)
  have "take l ?bs \<noteq> take (unat n) (key_bits (key_bytes d))" for l
    using scope_bits [of "min l (unat (nk_prefixlen key))" "nk_scope key" "nk_addr key" "unat n" "kd_scope d" "kd_addr d"] assms
    by (auto simp: slot_key_def key_bytes_def simp del: key_bits_append)
  then show "trie_view K (lpm_insert K t n (key_bytes d) v) key = trie_view K t key"
    "trie_view K (lpm_remove K t n (key_bytes d)) key = trie_view K t key"
    unfolding trie_view_def lookup insert [OF len] remove [OF len] by (auto intro: longest_match_cong)
qed

lemma kop_same_active:
  assumes "in_slot slot op" "slot < 2" "active_slot (view K k) \<noteq> slot"
  shows "same_active (view K k) (view K (kop_run K op k))"
proof -
  let ?a = "active_slot (view K k)"
  have a: "?a < 2"
  proof -
    have "?a = 0 \<or> ?a = 1" by (auto simp: active_slot_def and_one_eq mod_2_eq_odd split: option.split)
    then show ?thesis by auto
  qed
  have apart: "\<not> slot_scope slot (rk_scope ?a p)" if "p < RK_MAX_PROFILES" for p
    using slot_scope_apart(1) [OF a assms(2,3)] that by (auto simp: slot_scope_def)
  have resv: "\<not> slot_scope slot 0xffffffff" using slot_scope_apart(2) [OF assms(2) a] assms(3) by blast
  have rules: "same_rules sc (view K k) (view K (kop_run K op k))" if "\<not> slot_scope slot sc" for sc
  proof -
    have "trie_view K (lpm_insert K t n (key_bytes d) v) key = trie_view K t key"
      "trie_view K (lpm_remove K t n (key_bytes d)) key = trie_view K t key"
      if "slot_key slot n d" "nk_scope key = sc" for t n d v key
    proof -
      have "nk_scope key \<noteq> kd_scope d" using that \<open>\<not> slot_scope slot sc\<close> by (auto simp: slot_key_def)
      then show "trie_view K (lpm_insert K t n (key_bytes d) v) key = trie_view K t key"
        "trie_view K (lpm_remove K t n (key_bytes d)) key = trie_view K t key" by (rule other_scope [OF that(1)])+
    qed
    then show ?thesis using that assms(1) by (cases op) (auto simp: same_rules_def view_def)
  qed
  have "rk_profiles (view K k) (?a * RK_MAX_PROFILES + p) = rk_profiles (view K (kop_run K op k)) (?a * RK_MAX_PROFILES + p)"
    if "p < RK_MAX_PROFILES" for p
    using assms a that slot_index_apart [OF a assms(2) that] by (cases op) (auto simp: view_def)
  moreover have "rk_cgroup_profile (view K k) = rk_cgroup_profile (view K (kop_run K op k))"
    "rk_active_slot (view K k) = rk_active_slot (view K (kop_run K op k))"
    "rk_heartbeat (view K k) = rk_heartbeat (view K (kop_run K op k))"
    "rk_config_map (view K k) = rk_config_map (view K (kop_run K op k))"
    "rk_guard_map (view K k) = rk_guard_map (view K (kop_run K op k))"
    using assms(1) by (cases op; simp add: view_def)+
  ultimately show ?thesis
    unfolding same_active_def using rules [OF apart] rules [OF resv] by simp
qed

lemma kops_same_active:
  assumes "list_all (in_slot slot) ops" "slot < 2" "active_slot (view K k) \<noteq> slot"
  shows "same_active (view K k) (view K (fold (kop_run K) ops k))"
  using assms
proof (induction ops arbitrary: k)
  case (Cons op ops)
  have one: "same_active (view K k) (view K (kop_run K op k))" using Cons.prems by (auto intro: kop_same_active)
  then have "active_slot (view K (kop_run K op k)) = active_slot (view K k)" by (simp add: active_slot_def same_active_def)
  then show ?case using Cons one same_active_trans by simp
qed (simp add: same_active_refl)

end

end
