(* ===== verification/Policy_Apply.thy ===== *)
theory Policy_Apply
  imports Policy_Kernel
begin

text \<open>
  Applying a policy, \<open>PolicyEngine\<close> of \<open>rk-sensor/src/policy.rs\<close>: clear the inactive slot, write the
  compiled policy into it, flip the active slot.  The engine remembers the keys it wrote into each slot,
  because that is all \<open>clear_slot\<close> removes.  Any update may fail; the engine stops there.
\<close>

subsection \<open>Values written to the maps\<close>

definition profile_index :: "u32 \<Rightarrow> u32 \<Rightarrow> u32" where
  "profile_index slot profile = slot * RK_MAX_PROFILES + profile"

fun action_value :: "action \<Rightarrow> u8" where
  "action_value Allow = 0"
| "action_value Deny = 1"

definition trie_key :: "u32 \<Rightarrow> entry \<Rightarrow> u32 \<times> key_data" where
  "trie_key slot e = (32 + of_nat (en_prefix_len e), \<lparr>kd_scope = push_bit 31 slot OR en_profile e, kd_addr = en_addr e\<rparr>)"

definition trie_value :: "entry \<Rightarrow> rk_net_rule" where
  "trie_value e = \<lparr>nr_nranges = of_nat (length (en_ranges e)),
     nr_ranges =
       map (\<lambda>r. \<lparr>nr_rule_id = cr_rule_id r, nr_port_lo = cr_lo r, nr_port_hi = cr_hi r, nr_proto_mask = cr_proto r\<rparr>)
         (take 8 (en_ranges e)) @
       replicate (8 - length (en_ranges e)) \<lparr>nr_rule_id = 0, nr_port_lo = 0, nr_port_hi = 0, nr_proto_mask = 0\<rparr>\<rparr>"

definition profile_value :: "u64 \<Rightarrow> compiled_profile \<Rightarrow> rk_profile" where
  "profile_value generation p =
     \<lparr>p_mode = (case cp_mode p of Audit \<Rightarrow> 0 | Enforce \<Rightarrow> 1), p_net_default = action_value (cp_net_default p),
      p_flags = cp_flags p, p_policy_gen = generation\<rparr>"

definition profile_zeroed :: rk_profile where
  "profile_zeroed = \<lparr>p_mode = 0, p_net_default = 0, p_flags = 0, p_policy_gen = 0\<rparr>"

record resolved_exec =
  rx_profile :: u32
  rx_rule_id :: u32
  rx_dev :: u64
  rx_ino :: u64

record resolved_file =
  rf_profile :: u32
  rf_rule_id :: u32
  rf_dev :: u64
  rf_ino :: u64
  rf_deny_mask :: u32
  rf_subtree :: bool

definition exec_key :: "u32 \<Rightarrow> resolved_exec \<Rightarrow> rk_exec_key" where
  "exec_key slot r = \<lparr>xk_scope = push_bit 31 slot OR rx_profile r, xk_pad = 0, xk_dev = rx_dev r, xk_ino = rx_ino r\<rparr>"

definition exec_rule :: "resolved_exec \<Rightarrow> rk_exec_rule" where
  "exec_rule r = \<lparr>xr_rule_id = rx_rule_id r, xr_flags = 0\<rparr>"

definition file_key :: "u32 \<Rightarrow> resolved_file \<Rightarrow> rk_file_key" where
  "file_key slot r = \<lparr>fk_scope = push_bit 31 slot OR rf_profile r, fk_pad = 0, fk_dev = rf_dev r, fk_ino = rf_ino r\<rparr>"

definition file_rule_value :: "resolved_file \<Rightarrow> rk_file_rule" where
  "file_rule_value r = \<lparr>fr_rule_id = rf_rule_id r, fr_deny_mask = rf_deny_mask r, fr_flags = of_bool (rf_subtree r)\<rparr>"

subsection \<open>The engine\<close>

record slot_contents =
  sc_profiles :: "u32 list"
  sc_deny :: "(u32 \<times> key_data) list"
  sc_allow :: "(u32 \<times> key_data) list"
  sc_exec :: "rk_exec_key list"
  sc_files :: "rk_file_key list"

definition no_contents :: slot_contents where
  "no_contents = \<lparr>sc_profiles = [], sc_deny = [], sc_allow = [], sc_exec = [], sc_files = []\<rparr>"

record engine =
  eng_generation :: u64
  eng_active_slot :: u32
  eng_written :: "slot_contents list"

abbreviation (input) CAP_BINDINGS :: nat where "CAP_BINDINGS \<equiv> 4096"
abbreviation (input) CAP_NET :: nat where "CAP_NET \<equiv> 65536"
abbreviation (input) CAP_EXEC :: nat where "CAP_EXEC \<equiv> 65536"
abbreviation (input) CAP_FILE :: nat where "CAP_FILE \<equiv> 65536"

definition check_capacity :: "slot_contents \<Rightarrow> nat \<Rightarrow> nat \<Rightarrow> nat \<Rightarrow> nat \<Rightarrow> nat \<Rightarrow> bool" where
  "check_capacity live deny allow exec fls bindings \<longleftrightarrow>
     length (sc_deny live) + deny \<le> CAP_NET \<and> length (sc_allow live) + allow \<le> CAP_NET \<and>
     length (sc_exec live) + exec \<le> CAP_EXEC \<and> length (sc_files live) + fls \<le> CAP_FILE \<and>
     bindings \<le> CAP_BINDINGS"

text \<open>Updates in order until one fails.\<close>

fun run_checked :: "'t bpf_kernel \<Rightarrow> kop list \<Rightarrow> 't kernel_maps \<Rightarrow> bool \<times> 't kernel_maps" where
  "run_checked K [] k = (True, k)"
| "run_checked K (op # ops) k = (if accepts K k op then run_checked K ops (kop_run K op k) else (False, k))"

text \<open>What \<open>clear_slot\<close> removes, ignoring failures of removals, and then sets.\<close>

definition clear_removals :: "slot_contents \<Rightarrow> kop list" where
  "clear_removals contents =
     map (\<lambda>(n, d). DenyRemove n d) (sc_deny contents) @ map (\<lambda>(n, d). AllowRemove n d) (sc_allow contents) @
     map ExecRemove (sc_exec contents) @ map FileRemove (sc_files contents)"

definition clear_profiles :: "u32 \<Rightarrow> slot_contents \<Rightarrow> kop list" where
  "clear_profiles slot contents = map (\<lambda>i. ProfileSet (profile_index slot i) profile_zeroed) (sc_profiles contents)"

definition clear_slot :: "'t bpf_kernel \<Rightarrow> u32 \<Rightarrow> engine \<Rightarrow> 't kernel_maps \<Rightarrow> bool \<times> engine \<times> 't kernel_maps" where
  "clear_slot K slot eng k =
     (let contents = eng_written eng ! unat slot;
          eng = eng\<lparr>eng_written := (eng_written eng)[unat slot := no_contents]\<rparr>;
          k = fold (kop_run K) (clear_removals contents) k;
          (ok, k) = run_checked K (clear_profiles slot contents) k
      in (ok, eng, k))"

text \<open>One update of \<open>write_slot\<close>, with what the engine notes before it.\<close>

type_synonym write_step = "kop \<times> (slot_contents \<Rightarrow> slot_contents)"

definition file_step :: "u32 \<Rightarrow> resolved_file \<Rightarrow> write_step" where
  "file_step slot r = (FileInsert (file_key slot r) (file_rule_value r), \<lambda>c. c\<lparr>sc_files := sc_files c @ [file_key slot r]\<rparr>)"

definition exec_step :: "u32 \<Rightarrow> resolved_exec \<Rightarrow> write_step" where
  "exec_step slot r = (ExecInsert (exec_key slot r) (exec_rule r), \<lambda>c. c\<lparr>sc_exec := sc_exec c @ [exec_key slot r]\<rparr>)"

definition profile_step :: "u32 \<Rightarrow> u64 \<Rightarrow> compiled_profile \<Rightarrow> write_step" where
  "profile_step slot generation p =
     (ProfileSet (profile_index slot (cp_id p)) (profile_value generation p), \<lambda>c. c\<lparr>sc_profiles := sc_profiles c @ [cp_id p]\<rparr>)"

definition deny_step :: "u32 \<Rightarrow> entry \<Rightarrow> write_step" where
  "deny_step slot e = (case trie_key slot e of (n, d) \<Rightarrow>
     (DenyInsert n d (trie_value e), \<lambda>c. c\<lparr>sc_deny := sc_deny c @ [(n, d)]\<rparr>))"

definition allow_step :: "u32 \<Rightarrow> entry \<Rightarrow> write_step" where
  "allow_step slot e = (case trie_key slot e of (n, d) \<Rightarrow>
     (AllowInsert n d (trie_value e), \<lambda>c. c\<lparr>sc_allow := sc_allow c @ [(n, d)]\<rparr>))"

definition slot_steps :: "u32 \<Rightarrow> compiled \<Rightarrow> resolved_exec list \<Rightarrow> resolved_file list \<Rightarrow> write_step list" where
  "slot_steps slot compiled exec fls =
     map (file_step slot) fls @ map (exec_step slot) exec @
     map (profile_step slot (c_generation compiled)) (c_profiles compiled) @
     map (deny_step slot) (c_deny compiled) @ map (allow_step slot) (c_allow compiled)"

fun write_steps :: "'t bpf_kernel \<Rightarrow> u32 \<Rightarrow> write_step list \<Rightarrow> engine \<Rightarrow> 't kernel_maps \<Rightarrow> bool \<times> engine \<times> 't kernel_maps" where
  "write_steps K slot [] eng k = (True, eng, k)"
| "write_steps K slot ((op, nt) # steps) eng k =
     (let eng = eng\<lparr>eng_written := (eng_written eng)[unat slot := nt (eng_written eng ! unat slot)]\<rparr>
      in if accepts K k op then write_steps K slot steps eng (kop_run K op k) else (False, eng, k))"

definition write_slot ::
  "'t bpf_kernel \<Rightarrow> u32 \<Rightarrow> compiled \<Rightarrow> resolved_exec list \<Rightarrow> resolved_file list \<Rightarrow> engine \<Rightarrow> 't kernel_maps \<Rightarrow>
   bool \<times> engine \<times> 't kernel_maps" where
  "write_slot K slot compiled exec fls = write_steps K slot (slot_steps slot compiled exec fls)"

datatype apply_error = OverCapacity | ClearFailed | WriteFailed | FlipFailed

text \<open>
  \<open>apply_text\<close> once the text is parsed, compiled and resolved: from the capacity check to the commit point.
  \<open>bindings\<close> is the number of cgroup bindings wanted.
\<close>

definition apply_compiled ::
  "'t bpf_kernel \<Rightarrow> compiled \<Rightarrow> resolved_exec list \<Rightarrow> resolved_file list \<Rightarrow> nat \<Rightarrow> engine \<Rightarrow> 't kernel_maps \<Rightarrow>
   apply_error option \<times> engine \<times> 't kernel_maps" where
  "apply_compiled K compiled exec fls bindings eng k =
     (if \<not> check_capacity (eng_written eng ! unat (eng_active_slot eng)) (length (c_deny compiled)) (length (c_allow compiled))
            (length exec) (length fls) bindings
      then (Some OverCapacity, eng, k)
      else let slot = eng_active_slot eng XOR 1 in
        case clear_slot K slot eng k of (ok, eng, k) \<Rightarrow>
          if \<not> ok then (Some ClearFailed, eng, k)
          else case write_slot K slot compiled exec fls eng k of (ok, eng, k) \<Rightarrow>
            if \<not> ok then (Some WriteFailed, eng, k)
            else if \<not> accepts K k (ActiveSet slot) then (Some FlipFailed, eng, k)
            else (None, eng\<lparr>eng_active_slot := slot, eng_generation := c_generation compiled\<rparr>, kop_run K (ActiveSet slot) k))"

subsection \<open>The updates of an apply\<close>

text \<open>Every map update before the commit point, in order.\<close>

definition staging_ops :: "compiled \<Rightarrow> resolved_exec list \<Rightarrow> resolved_file list \<Rightarrow> engine \<Rightarrow> kop list" where
  "staging_ops compiled exec fls eng =
     (let slot = eng_active_slot eng XOR 1; contents = eng_written eng ! unat slot
      in clear_removals contents @ clear_profiles slot contents @ map fst (slot_steps slot compiled exec fls))"

lemma run_checked_prefix:
  "run_checked K ops k = (ok, k') \<Longrightarrow> \<exists>n. k' = fold (kop_run K) (take n ops) k \<and> n \<le> length ops \<and> (ok \<longrightarrow> n = length ops)"
proof (induction ops arbitrary: k)
  case (Cons op ops)
  show ?case
  proof (cases "accepts K k op")
    case True
    then obtain n where "k' = fold (kop_run K) (take n ops) (kop_run K op k) \<and> n \<le> length ops \<and> (ok \<longrightarrow> n = length ops)"
      using Cons by auto
    then show ?thesis by (intro exI [of _ "Suc n"]) simp
  next
    case False
    then show ?thesis using Cons.prems by (intro exI [of _ 0]) simp
  qed
qed simp

lemma write_steps_prefix:
  "write_steps K slot steps eng k = (ok, eng', k') \<Longrightarrow>
     \<exists>n. k' = fold (kop_run K) (map fst (take n steps)) k \<and> (ok \<longrightarrow> n = length steps)"
proof (induction steps arbitrary: eng k)
  case (Cons st steps)
  obtain op nt where st: "st = (op, nt)" by (cases st)
  show ?case
  proof (cases "accepts K k op")
    case True
    then obtain n where "k' = fold (kop_run K) (map fst (take n steps)) (kop_run K op k) \<and> (ok \<longrightarrow> n = length steps)"
      using Cons.IH Cons.prems unfolding st by (auto simp: Let_def)
    then show ?thesis unfolding st by (intro exI [of _ "Suc n"]) simp
  next
    case False
    then show ?thesis using Cons.prems unfolding st by (intro exI [of _ 0]) (simp add: Let_def)
  qed
qed simp

text \<open>However an apply ends, the kernel has seen a prefix of these updates, or all of them and the flip.\<close>

lemma apply_compiled_ops:
  assumes "apply_compiled K compiled exec fls bindings eng k = (res, eng', k')"
  shows "case res of
      None \<Rightarrow> k' = kop_run K (ActiveSet (eng_active_slot eng XOR 1)) (fold (kop_run K) (staging_ops compiled exec fls eng) k)
    | Some _ \<Rightarrow> \<exists>n. k' = fold (kop_run K) (take n (staging_ops compiled exec fls eng)) k"
proof -
  define slot where "slot = eng_active_slot eng XOR 1"
  define contents where "contents = eng_written eng ! unat slot"
  let ?rem = "clear_removals contents" and ?prof = "clear_profiles slot contents" and ?steps = "slot_steps slot compiled exec fls"
  have ops: "staging_ops compiled exec fls eng = ?rem @ ?prof @ map fst ?steps"
    by (simp add: staging_ops_def slot_def contents_def Let_def)
  have none: "\<exists>n. k = fold (kop_run K) (take n (staging_ops compiled exec fls eng)) k" by (rule exI [of _ 0]) simp
  obtain ok1 e1 k1 where clear: "clear_slot K slot eng k = (ok1, e1, k1)" by (cases "clear_slot K slot eng k")
  obtain ok2 e2 k2 where wrt: "write_slot K slot compiled exec fls e1 k1 = (ok2, e2, k2)"
    by (cases "write_slot K slot compiled exec fls e1 k1")
  obtain n where n: "k1 = fold (kop_run K) (take n ?prof) (fold (kop_run K) ?rem k)" "n \<le> length ?prof" "ok1 \<longrightarrow> n = length ?prof"
    using clear run_checked_prefix [of K ?prof "fold (kop_run K) ?rem k"]
    by (auto simp: clear_slot_def contents_def Let_def split: prod.splits)
  obtain i where i: "k2 = fold (kop_run K) (map fst (take i ?steps)) k1" "ok2 \<longrightarrow> i = length ?steps"
    using wrt write_steps_prefix unfolding write_slot_def by blast
  have k1: "k1 = fold (kop_run K) (take (length ?rem + n) (staging_ops compiled exec fls eng)) k"
    using n by (simp add: ops)
  have k2: "k2 = fold (kop_run K) (take (length ?rem + length ?prof + i) (staging_ops compiled exec fls eng)) k" if "ok1"
    using n i that by (simp add: ops take_map)
  have "k2 = fold (kop_run K) (staging_ops compiled exec fls eng) k" if "ok1" "ok2"
    using k2 i that by (simp add: ops)
  then show ?thesis using assms clear wrt k1 k2 none
    by (auto simp: apply_compiled_def slot_def [symmetric] Let_def split: if_splits)
qed

subsection \<open>What the engine keeps track of\<close>

definition contents_ok :: "u32 \<Rightarrow> slot_contents \<Rightarrow> bool" where
  "contents_ok slot c \<longleftrightarrow>
     (\<forall>(n, d) \<in> set (sc_deny c). slot_key slot n d) \<and> (\<forall>(n, d) \<in> set (sc_allow c). slot_key slot n d) \<and>
     (\<forall>key \<in> set (sc_exec c). slot_scope slot (xk_scope key)) \<and> (\<forall>key \<in> set (sc_files c). slot_scope slot (fk_scope key)) \<and>
     (\<forall>i \<in> set (sc_profiles c). i < RK_MAX_PROFILES)"

definition trie_keys :: "(u32 \<times> key_data) list \<Rightarrow> bool list set" where
  "trie_keys ks = (\<lambda>(n, d). key_prefix n d) ` set ks"

text \<open>Everything in the maps was noted: in one of the two slots, or, for profiles, in the slot of the index.\<close>

definition tracked :: "'t bpf_kernel \<Rightarrow> slot_contents list \<Rightarrow> 't kernel_maps \<Rightarrow> bool" where
  "tracked K ws k \<longleftrightarrow>
     dom (lpm_contents K (km_deny k)) \<subseteq> (\<Union>c \<in> set ws. trie_keys (sc_deny c)) \<and>
     dom (lpm_contents K (km_allow k)) \<subseteq> (\<Union>c \<in> set ws. trie_keys (sc_allow c)) \<and>
     dom (rk_exec_allow (km k)) \<subseteq> (\<Union>c \<in> set ws. set (sc_exec c)) \<and>
     dom (rk_file_protect (km k)) \<subseteq> (\<Union>c \<in> set ws. set (sc_files c)) \<and>
     (\<forall>s < 2. \<forall>i < RK_MAX_PROFILES. \<exists>p. rk_profiles (km k) (profile_index s i) = Some p \<and>
        (p_policy_gen p = 0 \<or> i \<in> set (sc_profiles (ws ! unat s))))"

definition engine_ok :: "'t bpf_kernel \<Rightarrow> engine \<Rightarrow> 't kernel_maps \<Rightarrow> bool" where
  "engine_ok K eng k \<longleftrightarrow>
     length (eng_written eng) = 2 \<and> eng_active_slot eng < 2 \<and> rk_active_slot (km k) 0 = Some (eng_active_slot eng) \<and>
     (\<forall>s < 2. contents_ok s (eng_written eng ! unat s)) \<and> tracked K (eng_written eng) k"

text \<open>A compiled policy with its resolved paths fits a slot.\<close>

definition compiled_ok :: "compiled \<Rightarrow> resolved_exec list \<Rightarrow> resolved_file list \<Rightarrow> bool" where
  "compiled_ok compiled exec fls \<longleftrightarrow>
     (\<forall>e \<in> set (c_deny compiled) \<union> set (c_allow compiled).
        en_profile e < RK_MAX_PROFILES \<and> en_prefix_len e \<le> 128 \<and> length (en_addr e) = 16) \<and>
     (\<forall>p \<in> set (c_profiles compiled). cp_id p < RK_MAX_PROFILES) \<and>
     (\<forall>r \<in> set exec. rx_profile r < RK_MAX_PROFILES) \<and> (\<forall>r \<in> set fls. rf_profile r < RK_MAX_PROFILES)"

lemma slot_scopeI: "p < RK_MAX_PROFILES \<Longrightarrow> slot_scope slot (push_bit 31 slot OR p)"
  by (auto simp: slot_scope_def rk_scope_def)

lemma trie_key_in_slot:
  assumes "en_profile e < RK_MAX_PROFILES" "en_prefix_len e \<le> 128" "length (en_addr e) = 16"
  shows "slot_key slot (fst (trie_key slot e)) (snd (trie_key slot e))"
proof -
  have "unat (32 + of_nat (en_prefix_len e) :: u32) = 32 + en_prefix_len e"
    using assms by (simp add: unat_word_ariths unat_of_nat)
  then show ?thesis using assms slot_scopeI by (simp add: trie_key_def slot_key_def)
qed

lemma slot_steps_in_slot:
  assumes "compiled_ok compiled exec fls"
  shows "list_all (in_slot slot) (map fst (slot_steps slot compiled exec fls))"
proof -
  have "in_slot slot (fst (deny_step slot e))" "in_slot slot (fst (allow_step slot e))"
    if "e \<in> set (c_deny compiled) \<union> set (c_allow compiled)" for e
    using assms that trie_key_in_slot [of e slot]
    by (auto simp: compiled_ok_def deny_step_def allow_step_def split: prod.split)
  moreover have "in_slot slot (fst (profile_step slot g p))" if "p \<in> set (c_profiles compiled)" for p g
    using assms that by (auto simp: compiled_ok_def profile_step_def profile_index_def)
  moreover have "in_slot slot (fst (exec_step slot r))" if "r \<in> set exec" for r
    using assms that slot_scopeI by (auto simp: compiled_ok_def exec_step_def exec_key_def)
  moreover have "in_slot slot (fst (file_step slot r))" if "r \<in> set fls" for r
    using assms that slot_scopeI by (auto simp: compiled_ok_def file_step_def file_key_def)
  ultimately show ?thesis by (auto simp: slot_steps_def list_all_iff)
qed

lemma clear_in_slot:
  assumes "contents_ok slot c"
  shows "list_all (in_slot slot) (clear_removals c @ clear_profiles slot c)"
  using assms by (auto simp: list_all_iff clear_removals_def clear_profiles_def contents_ok_def profile_index_def)

lemma other_slot:
  assumes "a < 2"
  shows "(a :: u32) XOR 1 < 2" "a XOR 1 \<noteq> a" "a = 0 \<and> a XOR 1 = 1 \<or> a = 1 \<and> a XOR 1 = 0"
proof -
  have "a = 0 \<or> a = 1" using assms by (auto simp: word_less_nat_alt word_unat_eq_iff)
  then show "a XOR 1 < 2" "a XOR 1 \<noteq> a" "a = 0 \<and> a XOR 1 = 1 \<or> a = 1 \<and> a XOR 1 = 0" by auto
qed

lemma engine_active:
  assumes "engine_ok K eng k"
  shows "active_slot (view K k) = eng_active_slot eng"
proof -
  have "eng_active_slot eng = 0 \<or> eng_active_slot eng = 1" "rk_active_slot (km k) 0 = Some (eng_active_slot eng)"
    using assms other_slot(3) by (auto simp: engine_ok_def)
  then show ?thesis by (auto simp: active_slot_def view_def)
qed

lemma staging_in_slot:
  assumes "engine_ok K eng k" "compiled_ok compiled exec fls"
  shows "list_all (in_slot (eng_active_slot eng XOR 1)) (staging_ops compiled exec fls eng)"
proof -
  let ?slot = "eng_active_slot eng XOR 1"
  have "contents_ok ?slot (eng_written eng ! unat ?slot)" using assms(1) other_slot(1) by (simp add: engine_ok_def)
  then show ?thesis using clear_in_slot slot_steps_in_slot [OF assms(2)] by (simp add: staging_ops_def Let_def)
qed

context lpm_trie
begin

text \<open>No update before the commit point is visible.\<close>

lemma staging_same_active:
  assumes "engine_ok K eng k" "compiled_ok compiled exec fls"
  shows "same_active (view K k) (view K (fold (kop_run K) (take n (staging_ops compiled exec fls eng)) k))"
proof (rule kops_same_active)
  show "list_all (in_slot (eng_active_slot eng XOR 1)) (take n (staging_ops compiled exec fls eng))"
    using staging_in_slot [OF assms] by (auto simp: list_all_iff dest: in_set_takeD)
  show "eng_active_slot eng XOR 1 < 2" "active_slot (view K k) \<noteq> eng_active_slot eng XOR 1"
    using assms(1) other_slot [of "eng_active_slot eng"] engine_active [OF assms(1)] by (auto simp: engine_ok_def)
qed

end

subsection \<open>The contents of each map\<close>

definition deny_upd :: "kop \<Rightarrow> (bool list \<rightharpoonup> rk_net_rule) \<Rightarrow> (bool list \<rightharpoonup> rk_net_rule)" where
  "deny_upd op T = (case op of DenyInsert n d v \<Rightarrow> T(key_prefix n d \<mapsto> v) | DenyRemove n d \<Rightarrow> T(key_prefix n d := None) | _ \<Rightarrow> T)"

definition allow_upd :: "kop \<Rightarrow> (bool list \<rightharpoonup> rk_net_rule) \<Rightarrow> (bool list \<rightharpoonup> rk_net_rule)" where
  "allow_upd op T = (case op of AllowInsert n d v \<Rightarrow> T(key_prefix n d \<mapsto> v) | AllowRemove n d \<Rightarrow> T(key_prefix n d := None) | _ \<Rightarrow> T)"

definition exec_upd :: "kop \<Rightarrow> (rk_exec_key \<rightharpoonup> rk_exec_rule) \<Rightarrow> (rk_exec_key \<rightharpoonup> rk_exec_rule)" where
  "exec_upd op T = (case op of ExecInsert key v \<Rightarrow> T(key \<mapsto> v) | ExecRemove key \<Rightarrow> T(key := None) | _ \<Rightarrow> T)"

definition file_upd :: "kop \<Rightarrow> (rk_file_key \<rightharpoonup> rk_file_rule) \<Rightarrow> (rk_file_key \<rightharpoonup> rk_file_rule)" where
  "file_upd op T = (case op of FileInsert key v \<Rightarrow> T(key \<mapsto> v) | FileRemove key \<Rightarrow> T(key := None) | _ \<Rightarrow> T)"

definition profile_upd :: "kop \<Rightarrow> (u32 \<rightharpoonup> rk_profile) \<Rightarrow> (u32 \<rightharpoonup> rk_profile)" where
  "profile_upd op T = (case op of ProfileSet i p \<Rightarrow> T(i \<mapsto> p) | _ \<Rightarrow> T)"

lemmas upd_defs = deny_upd_def allow_upd_def exec_upd_def file_upd_def profile_upd_def

context lpm_trie
begin

lemma kop_contents:
  assumes "in_slot slot op"
  shows "lpm_contents K (km_deny (kop_run K op k)) = deny_upd op (lpm_contents K (km_deny k))"
    and "lpm_contents K (km_allow (kop_run K op k)) = allow_upd op (lpm_contents K (km_allow k))"
    and "rk_exec_allow (km (kop_run K op k)) = exec_upd op (rk_exec_allow (km k))"
    and "rk_file_protect (km (kop_run K op k)) = file_upd op (rk_file_protect (km k))"
    and "rk_profiles (km (kop_run K op k)) = profile_upd op (rk_profiles (km k))"
    and "rk_active_slot (km (kop_run K op k)) = rk_active_slot (km k)"
    and "rk_cgroup_profile (km (kop_run K op k)) = rk_cgroup_profile (km k)"
proof -
  have len: "unat n \<le> 8 * length (key_bytes d)" if "slot_key slot n d" for n d
    using that by (simp add: slot_key_def key_bytes_def)
  show "lpm_contents K (km_deny (kop_run K op k)) = deny_upd op (lpm_contents K (km_deny k))"
    "lpm_contents K (km_allow (kop_run K op k)) = allow_upd op (lpm_contents K (km_allow k))"
    using assms len by (cases op; simp add: upd_defs insert remove key_prefix_def)+
  show "rk_exec_allow (km (kop_run K op k)) = exec_upd op (rk_exec_allow (km k))"
    "rk_file_protect (km (kop_run K op k)) = file_upd op (rk_file_protect (km k))"
    "rk_profiles (km (kop_run K op k)) = profile_upd op (rk_profiles (km k))"
    "rk_active_slot (km (kop_run K op k)) = rk_active_slot (km k)"
    "rk_cgroup_profile (km (kop_run K op k)) = rk_cgroup_profile (km k)"
    using assms by (cases op; simp add: upd_defs)+
qed

lemma kops_contents:
  assumes "list_all (in_slot slot) ops"
  shows "lpm_contents K (km_deny (fold (kop_run K) ops k)) = fold deny_upd ops (lpm_contents K (km_deny k))"
    and "lpm_contents K (km_allow (fold (kop_run K) ops k)) = fold allow_upd ops (lpm_contents K (km_allow k))"
    and "rk_exec_allow (km (fold (kop_run K) ops k)) = fold exec_upd ops (rk_exec_allow (km k))"
    and "rk_file_protect (km (fold (kop_run K) ops k)) = fold file_upd ops (rk_file_protect (km k))"
    and "rk_profiles (km (fold (kop_run K) ops k)) = fold profile_upd ops (rk_profiles (km k))"
    and "rk_active_slot (km (fold (kop_run K) ops k)) = rk_active_slot (km k)"
    and "rk_cgroup_profile (km (fold (kop_run K) ops k)) = rk_cgroup_profile (km k)"
  using assms by (induction ops arbitrary: k) (simp_all add: kop_contents [where slot = slot])

end

lemma fold_same: "(\<And>x. x \<in> set xs \<Longrightarrow> f x = (\<lambda>y. y)) \<Longrightarrow> fold f xs y = y"
  by (induction xs arbitrary: y) simp_all

text \<open>Clearing removes exactly what was noted.\<close>

lemma fold_clear:
  "fold deny_upd (clear_removals c @ clear_profiles slot c) T = (\<lambda>b. if b \<in> trie_keys (sc_deny c) then None else T b)"
  "fold allow_upd (clear_removals c @ clear_profiles slot c) T' = (\<lambda>b. if b \<in> trie_keys (sc_allow c) then None else T' b)"
  "fold exec_upd (clear_removals c @ clear_profiles slot c) X = (\<lambda>key. if key \<in> set (sc_exec c) then None else X key)"
  "fold file_upd (clear_removals c @ clear_profiles slot c) F = (\<lambda>key. if key \<in> set (sc_files c) then None else F key)"
  "fold profile_upd (clear_removals c @ clear_profiles slot c) P =
     (\<lambda>i. if i \<in> profile_index slot ` set (sc_profiles c) then Some profile_zeroed else P i)"
proof -
  have "fold deny_upd (map (\<lambda>(n, d). DenyRemove n d) ks) T = (\<lambda>b. if b \<in> trie_keys ks then None else T b)" for ks
    by (induction ks arbitrary: T) (auto simp: trie_keys_def deny_upd_def)
  then show "fold deny_upd (clear_removals c @ clear_profiles slot c) T = (\<lambda>b. if b \<in> trie_keys (sc_deny c) then None else T b)"
    by (simp add: clear_removals_def clear_profiles_def)
      (subst fold_same, auto simp: deny_upd_def)+
  have "fold allow_upd (map (\<lambda>(n, d). AllowRemove n d) ks) T' = (\<lambda>b. if b \<in> trie_keys ks then None else T' b)" for ks
    by (induction ks arbitrary: T') (auto simp: trie_keys_def allow_upd_def)
  then show "fold allow_upd (clear_removals c @ clear_profiles slot c) T' = (\<lambda>b. if b \<in> trie_keys (sc_allow c) then None else T' b)"
    by (simp add: clear_removals_def clear_profiles_def)
      (subst fold_same, auto simp: allow_upd_def)+
  have "fold exec_upd (map ExecRemove ks) X = (\<lambda>key. if key \<in> set ks then None else X key)" for ks
    by (induction ks arbitrary: X) (auto simp: exec_upd_def)
  then show "fold exec_upd (clear_removals c @ clear_profiles slot c) X = (\<lambda>key. if key \<in> set (sc_exec c) then None else X key)"
    by (simp add: clear_removals_def clear_profiles_def)
      (subst fold_same, auto simp: exec_upd_def)+
  have "fold file_upd (map FileRemove ks) F = (\<lambda>key. if key \<in> set ks then None else F key)" for ks
    by (induction ks arbitrary: F) (auto simp: file_upd_def)
  then show "fold file_upd (clear_removals c @ clear_profiles slot c) F = (\<lambda>key. if key \<in> set (sc_files c) then None else F key)"
    by (simp add: clear_removals_def clear_profiles_def)
      (subst fold_same, auto simp: file_upd_def)+
  have "fold profile_upd (map (\<lambda>i. ProfileSet (profile_index slot i) profile_zeroed) is) P =
      (\<lambda>i. if i \<in> profile_index slot ` set is then Some profile_zeroed else P i)" for "is"
    by (induction "is" arbitrary: P) (auto simp: profile_upd_def)
  then show "fold profile_upd (clear_removals c @ clear_profiles slot c) P =
     (\<lambda>i. if i \<in> profile_index slot ` set (sc_profiles c) then Some profile_zeroed else P i)"
    by (simp add: clear_removals_def clear_profiles_def)
      (subst fold_same, auto simp: profile_upd_def)+
qed

subsection \<open>The engine stays in step with the maps\<close>

lemma run_checked_accepted:
  assumes "\<And>k op. P k \<Longrightarrow> op \<in> set ops \<Longrightarrow> accepts K k op \<and> P (kop_run K op k)" "P k"
  shows "run_checked K ops k = (True, fold (kop_run K) ops k)"
  using assms by (induction ops arbitrary: k) auto

lemma Union_update:
  assumes "i < length ws" "f (ws ! i) \<subseteq> f c"
  shows "(\<Union>w \<in> set ws. f w) \<union> f c \<subseteq> (\<Union>w \<in> set (ws[i := c]). f w)"
proof -
  have new: "f c \<subseteq> (\<Union>w \<in> set (ws[i := c]). f w)" by (rule UN_upper [OF set_update_memI [OF assms(1)]])
  have "f w \<subseteq> (\<Union>w \<in> set (ws[i := c]). f w)" if "w \<in> set ws" for w
  proof -
    obtain j where j: "j < length ws" "ws ! j = w" using \<open>w \<in> set ws\<close> by (auto simp: in_set_conv_nth)
    show ?thesis
    proof (cases "i = j")
      case True
      then show ?thesis using j(2) assms(2) new by blast
    next
      case False
      then have "w \<in> set (ws[i := c])" using j by (metis length_list_update nth_list_update_neq nth_mem)
      then show ?thesis by (rule UN_upper)
    qed
  qed
  then show ?thesis using new by blast
qed

lemma slot_lists:
  assumes "length ws = 2" "(s :: u32) < 2"
  shows "unat s < length ws"
  using assms by (simp add: word_less_nat_alt)

text \<open>A step of \<open>write_slot\<close> notes the key it is about to write.\<close>

definition step_notes :: "u32 \<Rightarrow> write_step \<Rightarrow> bool" where
  "step_notes slot = (\<lambda>(op, nt). in_slot slot op \<and> (\<forall>c. contents_ok slot c \<longrightarrow> contents_ok slot (nt c)) \<and>
     (\<forall>c. dom (deny_upd op Map.empty) \<union> trie_keys (sc_deny c) \<subseteq> trie_keys (sc_deny (nt c)) \<and>
        dom (allow_upd op Map.empty) \<union> trie_keys (sc_allow c) \<subseteq> trie_keys (sc_allow (nt c)) \<and>
        dom (exec_upd op Map.empty) \<union> set (sc_exec c) \<subseteq> set (sc_exec (nt c)) \<and>
        dom (file_upd op Map.empty) \<union> set (sc_files c) \<subseteq> set (sc_files (nt c)) \<and>
        dom (profile_upd op Map.empty) \<subseteq> profile_index slot ` set (sc_profiles (nt c)) \<and>
        set (sc_profiles c) \<subseteq> set (sc_profiles (nt c))))"

lemma slot_steps_note:
  assumes "compiled_ok compiled exec fls" "st \<in> set (slot_steps slot compiled exec fls)"
  shows "step_notes slot st"
proof -
  have "in_slot slot (fst st)" using slot_steps_in_slot [OF assms(1), of slot] assms(2) by (auto simp: list_all_iff)
  note slot = this
  consider (fil) r where "st = file_step slot r" | (exe) r where "st = exec_step slot r"
    | (prof) p where "p \<in> set (c_profiles compiled)" "st = profile_step slot (c_generation compiled) p"
    | (deny) e where "st = deny_step slot e" | (allow) e where "st = allow_step slot e"
    using assms(2) by (auto simp: slot_steps_def)
  then show ?thesis
  proof cases
    case fil
    then show ?thesis using slot by (auto simp: step_notes_def upd_defs file_step_def contents_ok_def)
  next
    case exe
    then show ?thesis using slot by (auto simp: step_notes_def upd_defs exec_step_def contents_ok_def)
  next
    case prof
    then show ?thesis using slot assms(1)
      by (auto simp: step_notes_def upd_defs profile_step_def contents_ok_def compiled_ok_def)
  next
    case deny
    then show ?thesis using slot
      by (auto simp: step_notes_def upd_defs deny_step_def contents_ok_def trie_keys_def split: prod.splits)
  next
    case allow
    then show ?thesis using slot
      by (auto simp: step_notes_def upd_defs allow_step_def contents_ok_def trie_keys_def split: prod.splits)
  qed
qed

lemma dom_upd:
  "dom (deny_upd op T) \<subseteq> dom T \<union> dom (deny_upd op Map.empty)"
  "dom (allow_upd op T) \<subseteq> dom T \<union> dom (allow_upd op Map.empty)"
  "dom (exec_upd op X) \<subseteq> dom X \<union> dom (exec_upd op Map.empty)"
  "dom (file_upd op F) \<subseteq> dom F \<union> dom (file_upd op Map.empty)"
  "profile_upd op P i = P i \<or> i \<in> dom (profile_upd op Map.empty) \<and> profile_upd op P i = profile_upd op Map.empty i"
  by (cases op; auto simp: upd_defs split: if_splits)+

lemma covered_more:
  assumes "A \<subseteq> (\<Union>w \<in> set ws. f w)" "i < length ws" "f (ws ! i) \<subseteq> f c" "A' \<subseteq> A \<union> B" "B \<subseteq> f c"
  shows "A' \<subseteq> (\<Union>w \<in> set (ws[i := c]). f w)"
  using assms(1,4,5) Union_update [OF assms(2), of f, OF assms(3)] by (meson Un_least order_trans le_sup_iff)

lemma covered_less:
  assumes "A \<subseteq> (\<Union>w \<in> set ws. f w)"
  shows "A - f (ws ! i) \<subseteq> (\<Union>w \<in> set (ws[i := c]). f w)"
proof
  fix x
  assume x: "x \<in> A - f (ws ! i)"
  then obtain w where "w \<in> set ws" "x \<in> f w" using assms by blast
  then obtain j where j: "j < length ws" "x \<in> f (ws ! j)" by (auto simp: in_set_conv_nth)
  then have "j \<noteq> i" using x by auto
  then have "ws ! j \<in> set (ws[i := c])" using j(1) by (metis length_list_update nth_list_update_neq nth_mem)
  then show "x \<in> (\<Union>w \<in> set (ws[i := c]). f w)" using j(2) by blast
qed

lemma dom_cleared: "dom (\<lambda>x. if x \<in> B then None else m x) = dom m - B"
  by (auto split: if_splits)

lemma profiles_more:
  assumes "unat slot < length ws" "set (sc_profiles (ws ! unat slot)) \<subseteq> set (sc_profiles w)"
  shows "set (sc_profiles (ws ! unat s)) \<subseteq> set (sc_profiles (ws[unat slot := w] ! unat s))"
  using assms by (cases "unat slot = unat s") simp_all

lemma tracked_profile:
  assumes "tracked K ws k" "s < 2" "i < RK_MAX_PROFILES"
  shows "\<exists>p. rk_profiles (km k) (profile_index s i) = Some p \<and> (p_policy_gen p = 0 \<or> i \<in> set (sc_profiles (ws ! unat s)))"
  using assms by (simp add: tracked_def)

text \<open>Noting a key keeps the invariant, whether the update then happens or not.\<close>

lemma tracked_step:
  assumes old: "tracked K ws k" and ws: "length ws = 2" "slot < 2" "contents_ok slot (ws ! unat slot)" and nt: "step_notes slot (op, nt)"
    and D: "dom (lpm_contents K (km_deny k')) \<subseteq> dom (lpm_contents K (km_deny k)) \<union> dom (deny_upd op Map.empty)"
    and A: "dom (lpm_contents K (km_allow k')) \<subseteq> dom (lpm_contents K (km_allow k)) \<union> dom (allow_upd op Map.empty)"
    and X: "dom (rk_exec_allow (km k')) \<subseteq> dom (rk_exec_allow (km k)) \<union> dom (exec_upd op Map.empty)"
    and F: "dom (rk_file_protect (km k')) \<subseteq> dom (rk_file_protect (km k)) \<union> dom (file_upd op Map.empty)"
    and P: "\<And>i. rk_profiles (km k') i = rk_profiles (km k) i \<or>
        i \<in> dom (profile_upd op Map.empty) \<and> rk_profiles (km k') i = profile_upd op Map.empty i"
  shows "tracked K (ws[unat slot := nt (ws ! unat slot)]) k'"
proof -
  define w where "w = nt (ws ! unat slot)"
  have i: "unat slot < length ws" using ws slot_lists by blast
  have new: "dom (deny_upd op Map.empty) \<subseteq> trie_keys (sc_deny w)" "dom (allow_upd op Map.empty) \<subseteq> trie_keys (sc_allow w)"
    "dom (exec_upd op Map.empty) \<subseteq> set (sc_exec w)" "dom (file_upd op Map.empty) \<subseteq> set (sc_files w)"
    "dom (profile_upd op Map.empty) \<subseteq> profile_index slot ` set (sc_profiles w)"
    using nt by (simp_all add: step_notes_def w_def)
  have grow: "trie_keys (sc_deny (ws ! unat slot)) \<subseteq> trie_keys (sc_deny w)" "trie_keys (sc_allow (ws ! unat slot)) \<subseteq> trie_keys (sc_allow w)"
    "set (sc_exec (ws ! unat slot)) \<subseteq> set (sc_exec w)" "set (sc_files (ws ! unat slot)) \<subseteq> set (sc_files w)"
    "set (sc_profiles (ws ! unat slot)) \<subseteq> set (sc_profiles w)"
    using nt by (simp_all add: step_notes_def w_def)
  have "contents_ok slot w" using nt ws(3) by (simp add: step_notes_def w_def)
  then have wp: "\<forall>i \<in> set (sc_profiles w). i < RK_MAX_PROFILES" by (simp add: contents_ok_def)
  show ?thesis
    unfolding w_def [symmetric] tracked_def
  proof (intro conjI allI impI)
    show "dom (lpm_contents K (km_deny k')) \<subseteq> (\<Union>c \<in> set (ws[unat slot := w]). trie_keys (sc_deny c))"
      using old by (intro covered_more [OF _ i grow(1) D new(1)]) (simp add: tracked_def)
    show "dom (lpm_contents K (km_allow k')) \<subseteq> (\<Union>c \<in> set (ws[unat slot := w]). trie_keys (sc_allow c))"
      using old by (intro covered_more [OF _ i grow(2) A new(2)]) (simp add: tracked_def)
    show "dom (rk_exec_allow (km k')) \<subseteq> (\<Union>c \<in> set (ws[unat slot := w]). set (sc_exec c))"
      using old by (intro covered_more [OF _ i grow(3) X new(3)]) (simp add: tracked_def)
    show "dom (rk_file_protect (km k')) \<subseteq> (\<Union>c \<in> set (ws[unat slot := w]). set (sc_files c))"
      using old by (intro covered_more [OF _ i grow(4) F new(4)]) (simp add: tracked_def)
  next
    fix s j :: u32
    assume sj: "s < 2" "j < RK_MAX_PROFILES"
    obtain p where p: "rk_profiles (km k) (profile_index s j) = Some p" "p_policy_gen p = 0 \<or> j \<in> set (sc_profiles (ws ! unat s))"
      using tracked_profile [OF old sj] by blast
    show "\<exists>p. rk_profiles (km k') (profile_index s j) = Some p \<and>
        (p_policy_gen p = 0 \<or> j \<in> set (sc_profiles (ws[unat slot := w] ! unat s)))"
    proof (cases "profile_index s j \<in> dom (profile_upd op Map.empty) \<and>
        rk_profiles (km k') (profile_index s j) = profile_upd op Map.empty (profile_index s j)")
      case True
      then obtain j' where "j' \<in> set (sc_profiles w)" "profile_index s j = profile_index slot j'" using new(5) by blast
      then have "s = slot \<and> j = j'" using slot_index_apart [OF sj(1) ws(2) sj(2)] wp by (simp add: profile_index_def)
      then show ?thesis using True \<open>j' \<in> set (sc_profiles w)\<close> i by auto
    next
      case False
      then have "rk_profiles (km k') (profile_index s j) = Some p" using P p(1) by metis
      then show ?thesis using p(2) profiles_more [OF i grow(5)] by blast
    qed
  qed
qed

context lpm_trie
begin

lemma engine_step:
  assumes ok: "engine_ok K eng k" and slot: "slot < 2" and nt: "step_notes slot (op, nt)"
    and eng': "eng' = eng\<lparr>eng_written := (eng_written eng)[unat slot := nt (eng_written eng ! unat slot)]\<rparr>"
  shows "engine_ok K eng' k" "engine_ok K eng' (kop_run K op k)"
proof -
  let ?ws = "eng_written eng"
  have ws: "length ?ws = 2" "contents_ok slot (?ws ! unat slot)" "tracked K ?ws k" using ok slot by (simp_all add: engine_ok_def)
  have i: "unat slot < 2" using slot_lists [OF ws(1) slot] ws(1) by simp
  have "contents_ok s (?ws[unat slot := nt (?ws ! unat slot)] ! unat s)" if "s < 2" for s
  proof (cases "s = slot")
    case True
    then show ?thesis using nt ws(1,2) i by (simp add: step_notes_def)
  next
    case False
    then have "unat slot \<noteq> unat s" by (simp add: word_unat_eq_iff)
    then show ?thesis using ok that by (simp add: engine_ok_def)
  qed
  then have base: "engine_ok K eng' k''" if "tracked K (?ws[unat slot := nt (?ws ! unat slot)]) k''"
      "rk_active_slot (km k'') = rk_active_slot (km k)" for k''
    using ok that by (simp add: engine_ok_def eng')
  have op: "in_slot slot op" using nt by (simp add: step_notes_def)
  show "engine_ok K eng' k"
    by (rule base [OF tracked_step [OF ws(3,1) slot ws(2) nt]]) auto
  show "engine_ok K eng' (kop_run K op k)"
    by (rule base [OF tracked_step [OF ws(3,1) slot ws(2) nt]], unfold kop_contents [OF op]) (rule dom_upd refl)+
qed

lemma engine_write_steps:
  assumes "engine_ok K eng k" "slot < 2" "\<forall>st \<in> set steps. step_notes slot st" "write_steps K slot steps eng k = (ok, eng', k')"
  shows "engine_ok K eng' k' \<and> eng_active_slot eng' = eng_active_slot eng"
  using assms
proof (induction steps arbitrary: eng k)
  case (Cons st steps)
  obtain op nt where st: "st = (op, nt)" by (cases st)
  let ?eng = "eng\<lparr>eng_written := (eng_written eng)[unat slot := nt (eng_written eng ! unat slot)]\<rparr>"
  have nt: "step_notes slot (op, nt)" using Cons.prems(3) st by simp
  note step = engine_step [OF Cons.prems(1,2) nt refl]
  show ?case
  proof (cases "accepts K k op")
    case True
    then have "write_steps K slot steps ?eng (kop_run K op k) = (ok, eng', k')" using Cons.prems(4) st by (simp add: Let_def)
    then show ?thesis using Cons.IH [OF step(2) Cons.prems(2)] Cons.prems(3) by simp
  next
    case False
    then show ?thesis using Cons.prems(4) st step(1) by (auto simp: Let_def)
  qed
qed simp

text \<open>Clearing never fails and leaves the slot empty: all that is left was noted for the other slot.\<close>

lemma engine_clear:
  assumes ok: "engine_ok K eng k" and slot: "slot < 2"
  shows "\<exists>k'. clear_slot K slot eng k = (True, eng\<lparr>eng_written := (eng_written eng)[unat slot := no_contents]\<rparr>, k') \<and>
    engine_ok K (eng\<lparr>eng_written := (eng_written eng)[unat slot := no_contents]\<rparr>) k'"
proof -
  define c where "c = eng_written eng ! unat slot"
  have len: "length (eng_written eng) = 2" and c: "contents_ok slot c" and tr: "tracked K (eng_written eng) k"
    using ok slot by (simp_all add: engine_ok_def c_def)
  have i: "unat slot < 2" using slot_lists [OF len slot] len by simp
  note slot_ops = clear_in_slot [OF c]
  let ?k = "fold (kop_run K) (clear_removals c @ clear_profiles slot c) k"
  have run: "run_checked K (clear_profiles slot c) (fold (kop_run K) (clear_removals c) k) = (True, ?k)"
  proof -
    let ?P = "\<lambda>k. \<forall>i \<in> set (sc_profiles c). profile_index slot i \<in> dom (rk_profiles (km k))"
    have "fold profile_upd (clear_removals c) P = P" for P
      by (rule fold_same) (auto simp: clear_removals_def profile_upd_def)
    then have "rk_profiles (km (fold (kop_run K) (clear_removals c) k)) = rk_profiles (km k)"
      using kops_contents(5) [of slot "clear_removals c" k] slot_ops by simp
    moreover have "?P k" using c tracked_profile [OF tr slot] by (fastforce simp: contents_ok_def)
    ultimately have "?P (fold (kop_run K) (clear_removals c) k)" by simp
    then have "run_checked K (clear_profiles slot c) (fold (kop_run K) (clear_removals c) k) =
        (True, fold (kop_run K) (clear_profiles slot c) (fold (kop_run K) (clear_removals c) k))"
      by (rule run_checked_accepted [where P = ?P, rotated]) (auto simp: clear_profiles_def array)
    then show ?thesis by simp
  qed
  have tr': "tracked K ((eng_written eng)[unat slot := no_contents]) ?k"
    unfolding tracked_def kops_contents [OF slot_ops] fold_clear dom_cleared
  proof (intro conjI allI impI)
    show "dom (lpm_contents K (km_deny k)) - trie_keys (sc_deny c) \<subseteq> (\<Union>c \<in> set ((eng_written eng)[unat slot := no_contents]). trie_keys (sc_deny c))"
      unfolding c_def using tr by (intro covered_less) (simp add: tracked_def)
    show "dom (lpm_contents K (km_allow k)) - trie_keys (sc_allow c) \<subseteq> (\<Union>c \<in> set ((eng_written eng)[unat slot := no_contents]). trie_keys (sc_allow c))"
      unfolding c_def using tr by (intro covered_less) (simp add: tracked_def)
    show "dom (rk_exec_allow (km k)) - set (sc_exec c) \<subseteq> (\<Union>c \<in> set ((eng_written eng)[unat slot := no_contents]). set (sc_exec c))"
      unfolding c_def using tr by (intro covered_less) (simp add: tracked_def)
    show "dom (rk_file_protect (km k)) - set (sc_files c) \<subseteq> (\<Union>c \<in> set ((eng_written eng)[unat slot := no_contents]). set (sc_files c))"
      unfolding c_def using tr by (intro covered_less) (simp add: tracked_def)
  next
    fix s j :: u32
    assume "s < 2" "j < RK_MAX_PROFILES"
    then obtain p where p: "rk_profiles (km k) (profile_index s j) = Some p" "p_policy_gen p = 0 \<or> j \<in> set (sc_profiles (eng_written eng ! unat s))"
      using tracked_profile [OF tr] by blast
    show "\<exists>p. (if profile_index s j \<in> profile_index slot ` set (sc_profiles c) then Some profile_zeroed
          else rk_profiles (km k) (profile_index s j)) = Some p \<and>
        (p_policy_gen p = 0 \<or> j \<in> set (sc_profiles ((eng_written eng)[unat slot := no_contents] ! unat s)))"
    proof (cases "s = slot")
      case True
      then show ?thesis using p by (auto simp: profile_zeroed_def c_def)
    next
      case False
      then have "unat slot \<noteq> unat s" by (simp add: word_unat_eq_iff)
      then show ?thesis using p by (auto simp: profile_zeroed_def)
    qed
  qed
  have "contents_ok s ((eng_written eng)[unat slot := no_contents] ! unat s)" if "s < 2" for s
    using ok that len i by (cases "unat s = unat slot") (simp_all add: engine_ok_def contents_ok_def no_contents_def)
  then have "engine_ok K (eng\<lparr>eng_written := (eng_written eng)[unat slot := no_contents]\<rparr>) ?k"
    using ok tr' kops_contents(6) [OF slot_ops, of k] by (simp add: engine_ok_def)
  moreover have "clear_slot K slot eng k = (True, eng\<lparr>eng_written := (eng_written eng)[unat slot := no_contents]\<rparr>, ?k)"
    using run by (simp add: clear_slot_def c_def Let_def)
  ultimately show ?thesis by blast
qed

text \<open>The invariant survives every outcome of an apply.\<close>

lemma engine_apply:
  assumes ok: "engine_ok K eng k" and compiled: "compiled_ok compiled exec fls"
    and res: "apply_compiled K compiled exec fls bindings eng k = (res, eng', k')"
  shows "engine_ok K eng' k'" "eng_active_slot eng' = (if res = None then eng_active_slot eng XOR 1 else eng_active_slot eng)"
proof -
  define slot where "slot = eng_active_slot eng XOR 1"
  have slot2: "slot < 2" using ok other_slot(1) by (simp add: slot_def engine_ok_def)
  obtain k1 where clear: "clear_slot K slot eng k = (True, eng\<lparr>eng_written := (eng_written eng)[unat slot := no_contents]\<rparr>, k1)"
    and ok1: "engine_ok K (eng\<lparr>eng_written := (eng_written eng)[unat slot := no_contents]\<rparr>) k1"
    using engine_clear [OF ok slot2] by blast
  obtain b e2 k2 where wrt: "write_slot K slot compiled exec fls (eng\<lparr>eng_written := (eng_written eng)[unat slot := no_contents]\<rparr>) k1 = (b, e2, k2)"
    by (cases "write_slot K slot compiled exec fls (eng\<lparr>eng_written := (eng_written eng)[unat slot := no_contents]\<rparr>) k1")
  have ok2: "engine_ok K e2 k2 \<and> eng_active_slot e2 = eng_active_slot eng"
    using engine_write_steps [OF ok1 slot2 _ wrt [unfolded write_slot_def]] slot_steps_note [OF compiled] by simp
  have flip: "engine_ok K (e2\<lparr>eng_active_slot := slot, eng_generation := g\<rparr>) (kop_run K (ActiveSet slot) k2)" for g
    using ok2 slot2 by (simp add: engine_ok_def tracked_def)
  show "engine_ok K eng' k'" "eng_active_slot eng' = (if res = None then eng_active_slot eng XOR 1 else eng_active_slot eng)"
    using res clear wrt ok ok2 flip unfolding apply_compiled_def slot_def [symmetric] by (auto split: if_splits)
qed

end

end
