(* ===== verification/Policy_Enforce.thy ===== *)
theory Policy_Enforce
  imports Policy_Apply
begin

text \<open>
  From the policy to the programs: after an apply, the programs decide as the reference semantics of the
  policy does; before the commit point nothing they decide changes.
\<close>

subsection \<open>Entries of one profile\<close>

context ipnet
begin

lemma trie_entries:
  assumes wf: "\<forall>r \<in> set (pf_rules prof). wf_prefix L (r_net r)" and es: "compile_trie L prof action = Inr es" and e: "e \<in> set es"
  shows "\<exists>n. wf_prefix L n \<and> en_prefix_len e = net_len n \<and> en_addr e = octets (net_addr n) \<and>
    (\<forall>e' \<in> set es. en_prefix_len e' = net_len n \<and> en_addr e' = octets (net_addr n) \<longrightarrow> e' = e)"
proof -
  define R where "R = filter (\<lambda>r. r_action r = action) (pf_rules prof)"
  obtain ns where ns: "distinct ns" "set ns = r_net ` set R"
      "groups R = map (\<lambda>n. (n, filter (\<lambda>r. r_net r = n) R)) ns" using groups_by_net by blast
  define en where "en = (\<lambda>n. entry_of L prof (groups R) (n, filter (\<lambda>r. r_net r = n) R))"
  have "es = map (entry_of L prof (groups R)) (groups R)"
    using es compile_groups_entries unfolding compile_trie_def Let_def R_def by blast
  then have es': "es = map en ns" unfolding en_def by (subst (asm) (2) ns(3)) simp
  have wfn: "wf_prefix L n" if "n \<in> set ns" for n using that ns(2) wf by (auto simp: R_def)
  have en: "en_prefix_len (en n) = net_len n" "en_addr (en n) = octets (net_addr n)" if "n \<in> set ns" for n
    using wfn [OF that] by (simp_all add: en_def entry_of_def wf_prefix_def)
  obtain n where n: "n \<in> set ns" "e = en n" using e es' by auto
  have "e' = e" if e': "e' \<in> set es" "en_prefix_len e' = net_len n" "en_addr e' = octets (net_addr n)" for e'
  proof -
    obtain m where m: "m \<in> set ns" "e' = en m" using e'(1) es' by auto
    have "net_addr m = net_addr n" using arg_cong [OF e'(3), of of_octets] en(2) [OF m(1)] m(2) by simp
    then have "m = n" using e'(2) en(1) [OF m(1)] m(2) by simp
    then show ?thesis using m n by simp
  qed
  then show ?thesis using wfn n en by blast
qed

text \<open>Two entries of a profile with the same length that contain one address are the same entry.\<close>

lemma same_entry:
  assumes wf: "\<forall>r \<in> set (pf_rules prof). wf_prefix L (r_net r)" and es: "compile_trie L prof action = Inr es"
    and "e \<in> set es" "e' \<in> set es" "en_prefix_len e = en_prefix_len e'" "entry_contains L e a" "entry_contains L e' a"
  shows "e = e'"
proof -
  obtain n where n: "wf_prefix L n" "en_prefix_len e = net_len n" "en_addr e = octets (net_addr n)"
      "\<And>e'. e' \<in> set es \<Longrightarrow> en_prefix_len e' = net_len n \<Longrightarrow> en_addr e' = octets (net_addr n) \<Longrightarrow> e' = e"
    using trie_entries [OF wf es assms(3)] by blast
  obtain m where m: "wf_prefix L m" "en_prefix_len e' = net_len m" "en_addr e' = octets (net_addr m)"
    using trie_entries [OF wf es assms(4)] by blast
  have "contains_addr L n a" "contains_addr L m a"
    using assms(6,7) n m by (cases n, simp add: entry_contains_def, cases m, simp add: entry_contains_def)
  then have "n = m" using same_prefix [of n m a] assms(5) n m by (simp add: wf_prefix_def)
  then show ?thesis using n(4) [OF assms(4)] m by simp
qed

end

subsection \<open>Entries in the trie\<close>

lemma find_SomeD: "find P xs = Some x \<Longrightarrow> x \<in> set xs \<and> P x"
  by (induction xs) (auto split: if_splits)

definition entry_prefix :: "u32 \<Rightarrow> entry \<Rightarrow> bool list" where
  "entry_prefix slot e = (case trie_key slot e of (n, d) \<Rightarrow> key_prefix n d)"

lemma entry_prefix_bits:
  assumes "en_prefix_len e \<le> 128"
  shows "entry_prefix slot e = take (32 + en_prefix_len e) (key_bits (le 4 (rk_scope slot (en_profile e)) @ en_addr e))"
proof -
  have "unat (32 + of_nat (en_prefix_len e) :: u32) = 32 + en_prefix_len e"
    using assms by (simp add: unat_word_ariths unat_of_nat)
  then show ?thesis by (simp add: entry_prefix_def trie_key_def key_prefix_def key_bytes_def rk_scope_def del: key_bits_append)
qed

lemma fold_deny_insert:
  "fold deny_upd (map (\<lambda>e. fst (deny_step slot e)) es) T b =
     (case find (\<lambda>e. entry_prefix slot e = b) (rev es) of Some e \<Rightarrow> Some (trie_value e) | None \<Rightarrow> T b)"
  by (induction es rule: rev_induct)
    (auto simp: deny_step_def deny_upd_def entry_prefix_def split: prod.split)

lemma fold_allow_insert:
  "fold allow_upd (map (\<lambda>e. fst (allow_step slot e)) es) T b =
     (case find (\<lambda>e. entry_prefix slot e = b) (rev es) of Some e \<Rightarrow> Some (trie_value e) | None \<Rightarrow> T b)"
  by (induction es rule: rev_induct)
    (auto simp: allow_step_def allow_upd_def entry_prefix_def split: prod.split)

lemma fold_profile_set:
  "fold profile_upd (map (\<lambda>p. fst (profile_step slot g p)) ps) P i =
     (case find (\<lambda>p. profile_index slot (cp_id p) = i) (rev ps) of Some p \<Rightarrow> Some (profile_value g p) | None \<Rightarrow> P i)"
  by (induction ps rule: rev_induct) (auto simp: profile_step_def profile_upd_def)

lemma fold_exec_insert:
  "fold exec_upd (map (\<lambda>r. fst (exec_step slot r)) rs) X key =
     (case find (\<lambda>r. exec_key slot r = key) (rev rs) of Some r \<Rightarrow> Some (exec_rule r) | None \<Rightarrow> X key)"
  by (induction rs rule: rev_induct) (auto simp: exec_step_def exec_upd_def)

lemma fold_file_insert:
  "fold file_upd (map (\<lambda>r. fst (file_step slot r)) rs) F key =
     (case find (\<lambda>r. file_key slot r = key) (rev rs) of Some r \<Rightarrow> Some (file_rule_value r) | None \<Rightarrow> F key)"
  by (induction rs rule: rev_induct) (auto simp: file_step_def file_upd_def)

lemma scan_trie_value:
  assumes "length (en_ranges e) \<le> MAX_RANGES"
  shows "rk_net_scan (trie_value e) port proto 0 = map_option cr_rule_id (find (range_hit port proto) (en_ranges e))"
proof -
  let ?conv = "\<lambda>r. \<lparr>nr_rule_id = cr_rule_id r, nr_port_lo = cr_lo r, nr_port_hi = cr_hi r, nr_proto_mask = cr_proto r\<rparr>"
  have "unat (of_nat (length (en_ranges e)) :: u32) = length (en_ranges e)" using assms by (simp add: unat_of_nat)
  then have "take (unat (nr_nranges (trie_value e))) (nr_ranges (trie_value e)) = map ?conv (en_ranges e)"
    using assms by (simp add: trie_value_def)
  moreover have "map_option nr_rule_id (find (range_matches port proto) (map ?conv rs)) =
      map_option cr_rule_id (find (range_hit port proto) rs)" for rs
    by (induction rs) (auto simp: range_matches_def range_hit_def)
  ultimately show ?thesis using rk_net_scan_find [of "trie_value e" 0 port proto] assms by (simp add: trie_value_def)
qed

text \<open>Each map is written by its own steps.\<close>

lemma fold_slot_steps:
  "fold deny_upd (map fst (slot_steps slot compiled exec fls)) T = fold deny_upd (map (\<lambda>e. fst (deny_step slot e)) (c_deny compiled)) T"
  "fold allow_upd (map fst (slot_steps slot compiled exec fls)) T' = fold allow_upd (map (\<lambda>e. fst (allow_step slot e)) (c_allow compiled)) T'"
  "fold exec_upd (map fst (slot_steps slot compiled exec fls)) X = fold exec_upd (map (\<lambda>r. fst (exec_step slot r)) exec) X"
  "fold file_upd (map fst (slot_steps slot compiled exec fls)) F = fold file_upd (map (\<lambda>r. fst (file_step slot r)) fls) F"
  "fold profile_upd (map fst (slot_steps slot compiled exec fls)) P =
     fold profile_upd (map (\<lambda>p. fst (profile_step slot (c_generation compiled) p)) (c_profiles compiled)) P"
proof -
  have skip: "fold deny_upd (map (\<lambda>r. fst (file_step slot r)) fls) T = T" "fold deny_upd (map (\<lambda>r. fst (exec_step slot r)) exec) T = T"
    "fold deny_upd (map (\<lambda>p. fst (profile_step slot g p)) ps) T = T" "fold deny_upd (map (\<lambda>e. fst (allow_step slot e)) es) T = T"
    "fold allow_upd (map (\<lambda>r. fst (file_step slot r)) fls) T = T" "fold allow_upd (map (\<lambda>r. fst (exec_step slot r)) exec) T = T"
    "fold allow_upd (map (\<lambda>p. fst (profile_step slot g p)) ps) T = T" "fold allow_upd (map (\<lambda>e. fst (deny_step slot e)) es) T = T"
    "fold exec_upd (map (\<lambda>r. fst (file_step slot r)) fls) X = X" "fold exec_upd (map (\<lambda>p. fst (profile_step slot g p)) ps) X = X"
    "fold exec_upd (map (\<lambda>e. fst (deny_step slot e)) es) X = X" "fold exec_upd (map (\<lambda>e. fst (allow_step slot e)) es) X = X"
    "fold file_upd (map (\<lambda>r. fst (exec_step slot r)) exec) F = F" "fold file_upd (map (\<lambda>p. fst (profile_step slot g p)) ps) F = F"
    "fold file_upd (map (\<lambda>e. fst (deny_step slot e)) es) F = F" "fold file_upd (map (\<lambda>e. fst (allow_step slot e)) es) F = F"
    "fold profile_upd (map (\<lambda>r. fst (file_step slot r)) fls) P = P" "fold profile_upd (map (\<lambda>r. fst (exec_step slot r)) exec) P = P"
    "fold profile_upd (map (\<lambda>e. fst (deny_step slot e)) es) P = P" "fold profile_upd (map (\<lambda>e. fst (allow_step slot e)) es) P = P"
    for T X F P g ps es
    by (rule fold_same;
        fastforce simp: upd_defs file_step_def exec_step_def profile_step_def deny_step_def allow_step_def split: prod.splits)+
  show "fold deny_upd (map fst (slot_steps slot compiled exec fls)) T = fold deny_upd (map (\<lambda>e. fst (deny_step slot e)) (c_deny compiled)) T"
    "fold allow_upd (map fst (slot_steps slot compiled exec fls)) T' = fold allow_upd (map (\<lambda>e. fst (allow_step slot e)) (c_allow compiled)) T'"
    "fold exec_upd (map fst (slot_steps slot compiled exec fls)) X = fold exec_upd (map (\<lambda>r. fst (exec_step slot r)) exec) X"
    "fold file_upd (map fst (slot_steps slot compiled exec fls)) F = fold file_upd (map (\<lambda>r. fst (file_step slot r)) fls) F"
    "fold profile_upd (map fst (slot_steps slot compiled exec fls)) P =
       fold profile_upd (map (\<lambda>p. fst (profile_step slot (c_generation compiled) p)) (c_profiles compiled)) P"
    by (simp_all add: slot_steps_def skip comp_def)
qed

subsection \<open>Lookups after an apply\<close>

lemma fold_staging:
  assumes "slot = eng_active_slot eng XOR 1"
  shows "fold f (staging_ops compiled exec fls eng) T = fold f (map fst (slot_steps slot compiled exec fls))
    (fold f (clear_removals (eng_written eng ! unat slot) @ clear_profiles slot (eng_written eng ! unat slot)) T)"
  by (simp add: staging_ops_def assms Let_def)

context lpm_trie
begin

text \<open>The maps after a successful apply.\<close>

lemma applied_contents:
  assumes ok: "engine_ok K eng k" and compiled: "compiled_ok compiled exec fls"
    and res: "apply_compiled K compiled exec fls bindings eng k = (None, eng', k')"
    and slot: "slot = eng_active_slot eng XOR 1"
  shows "lpm_contents K (km_deny k') = fold deny_upd (map (\<lambda>e. fst (deny_step slot e)) (c_deny compiled))
      (\<lambda>b. if b \<in> trie_keys (sc_deny (eng_written eng ! unat slot)) then None else lpm_contents K (km_deny k) b)"
    and "lpm_contents K (km_allow k') = fold allow_upd (map (\<lambda>e. fst (allow_step slot e)) (c_allow compiled))
      (\<lambda>b. if b \<in> trie_keys (sc_allow (eng_written eng ! unat slot)) then None else lpm_contents K (km_allow k) b)"
    and "rk_exec_allow (km k') = fold exec_upd (map (\<lambda>r. fst (exec_step slot r)) exec)
      (\<lambda>key. if key \<in> set (sc_exec (eng_written eng ! unat slot)) then None else rk_exec_allow (km k) key)"
    and "rk_file_protect (km k') = fold file_upd (map (\<lambda>r. fst (file_step slot r)) fls)
      (\<lambda>key. if key \<in> set (sc_files (eng_written eng ! unat slot)) then None else rk_file_protect (km k) key)"
    and "rk_profiles (km k') = fold profile_upd (map (\<lambda>p. fst (profile_step slot (c_generation compiled) p)) (c_profiles compiled))
      (\<lambda>i. if i \<in> profile_index slot ` set (sc_profiles (eng_written eng ! unat slot)) then Some profile_zeroed else rk_profiles (km k) i)"
    and "rk_cgroup_profile (km k') = rk_cgroup_profile (km k)"
proof -
  have k': "k' = kop_run K (ActiveSet slot) (fold (kop_run K) (staging_ops compiled exec fls eng) k)"
    using apply_compiled_ops [OF res] by (simp add: slot)
  note contents = kops_contents [OF staging_in_slot [OF ok compiled], of k, unfolded fold_staging [OF slot] fold_clear fold_slot_steps]
  show "lpm_contents K (km_deny k') = fold deny_upd (map (\<lambda>e. fst (deny_step slot e)) (c_deny compiled))
      (\<lambda>b. if b \<in> trie_keys (sc_deny (eng_written eng ! unat slot)) then None else lpm_contents K (km_deny k) b)"
    "lpm_contents K (km_allow k') = fold allow_upd (map (\<lambda>e. fst (allow_step slot e)) (c_allow compiled))
      (\<lambda>b. if b \<in> trie_keys (sc_allow (eng_written eng ! unat slot)) then None else lpm_contents K (km_allow k) b)"
    "rk_exec_allow (km k') = fold exec_upd (map (\<lambda>r. fst (exec_step slot r)) exec)
      (\<lambda>key. if key \<in> set (sc_exec (eng_written eng ! unat slot)) then None else rk_exec_allow (km k) key)"
    "rk_file_protect (km k') = fold file_upd (map (\<lambda>r. fst (file_step slot r)) fls)
      (\<lambda>key. if key \<in> set (sc_files (eng_written eng ! unat slot)) then None else rk_file_protect (km k) key)"
    "rk_profiles (km k') = fold profile_upd (map (\<lambda>p. fst (profile_step slot (c_generation compiled) p)) (c_profiles compiled))
      (\<lambda>i. if i \<in> profile_index slot ` set (sc_profiles (eng_written eng ! unat slot)) then Some profile_zeroed else rk_profiles (km k) i)"
    "rk_cgroup_profile (km k') = rk_cgroup_profile (km k)"
    unfolding k' using contents by (simp_all add: fold_staging [OF slot] del: fold_append)
qed

end

lemma cleared_keys:
  assumes dom: "dom X \<subseteq> (\<Union>c \<in> set ws. set (f c))" and ws: "length ws = 2"
    and keys: "\<And>s. s < 2 \<Longrightarrow> \<forall>key \<in> set (f (ws ! unat s)). slot_scope s (scope key)"
    and slot: "slot < 2" "slot_scope slot (scope key)"
  shows "(if key \<in> set (f (ws ! unat slot)) then None else X key) = None"
proof (rule ccontr)
  assume "\<not> ?thesis"
  then have b: "key \<notin> set (f (ws ! unat slot))" "key \<in> dom X" by (auto split: if_splits)
  then obtain c where "c \<in> set ws" "key \<in> set (f c)" using dom by blast
  then obtain j where j: "j < 2" "key \<in> set (f (ws ! j))" using ws by (auto simp: in_set_conv_nth)
  define s :: u32 where "s = of_nat j"
  have s: "unat s = j" "s < 2" using j(1) by (auto simp: s_def unat_of_nat word_less_nat_alt)
  have "slot_scope s (scope key)" using keys [OF s(2)] j(2) s(1) by blast
  then have "s = slot" using slot_scope_apart(1) [OF s(2) slot(1)] slot(2) by blast
  then show False using b(1) j(2) s(1) by simp
qed

context lpm_trie
begin

text \<open>In the slot of an apply, the exec and file maps hold exactly the resolved entries.\<close>

lemma applied_paths:
  assumes ok: "engine_ok K eng k" and compiled: "compiled_ok compiled exec fls"
    and res: "apply_compiled K compiled exec fls bindings eng k = (None, eng', k')"
    and slot: "slot = eng_active_slot eng XOR 1"
  shows "slot_scope slot (xk_scope xkey) \<Longrightarrow>
      rk_exec_allow (km k') xkey = map_option exec_rule (find (\<lambda>r. exec_key slot r = xkey) (rev exec))"
    and "slot_scope slot (fk_scope fkey) \<Longrightarrow>
      rk_file_protect (km k') fkey = map_option file_rule_value (find (\<lambda>r. file_key slot r = fkey) (rev fls))"
proof -
  have slot2: "slot < 2" using ok other_slot(1) by (simp add: slot engine_ok_def)
  have ws: "length (eng_written eng) = 2" and tr: "tracked K (eng_written eng) k" using ok by (simp_all add: engine_ok_def)
  have keys: "\<forall>key \<in> set (sc_exec (eng_written eng ! unat s)). slot_scope s (xk_scope key)"
    "\<forall>key \<in> set (sc_files (eng_written eng ! unat s)). slot_scope s (fk_scope key)" if "s < 2" for s
    using ok that by (simp_all add: engine_ok_def contents_ok_def)
  have dom: "dom (rk_exec_allow (km k)) \<subseteq> (\<Union>c \<in> set (eng_written eng). set (sc_exec c))"
    "dom (rk_file_protect (km k)) \<subseteq> (\<Union>c \<in> set (eng_written eng). set (sc_files c))"
    using tr by (simp_all add: tracked_def)
  show "rk_exec_allow (km k') xkey = map_option exec_rule (find (\<lambda>r. exec_key slot r = xkey) (rev exec))"
    if "slot_scope slot (xk_scope xkey)"
    unfolding applied_contents(3) [OF ok compiled res slot] fold_exec_insert
    using cleared_keys [where f = sc_exec and scope = xk_scope, OF dom(1) ws keys(1) slot2 that] by (auto split: option.split)
  show "rk_file_protect (km k') fkey = map_option file_rule_value (find (\<lambda>r. file_key slot r = fkey) (rev fls))"
    if "slot_scope slot (fk_scope fkey)"
    unfolding applied_contents(4) [OF ok compiled res slot] fold_file_insert
    using cleared_keys [where f = sc_files and scope = fk_scope, OF dom(2) ws keys(2) slot2 that] by (auto split: option.split)
qed

end

lemma view_maps:
  "rk_profiles (view K k) = rk_profiles (km k)"
  "rk_exec_allow (view K k) = rk_exec_allow (km k)"
  "rk_file_protect (view K k) = rk_file_protect (km k)"
  "rk_cgroup_profile (view K k) = rk_cgroup_profile (km k)"
  by (simp_all add: view_def)

locale policy_stack = ipnet L + lpm_trie K for L :: ipnet_lib and K :: "'t bpf_kernel"

context policy_stack
begin

lemma entry_prefix_at:
  assumes n: "wf_prefix L n" "en_prefix_len e = net_len n" "en_addr e = octets (net_addr n)"
    and p: "slot < 2" "en_profile e < RK_MAX_PROFILES" "p < RK_MAX_PROFILES" and l: "l \<le> 160"
  shows "entry_prefix slot e = take l (key_bits (le 4 (rk_scope slot p) @ octets a)) \<longleftrightarrow>
    en_profile e = p \<and> l = 32 + en_prefix_len e \<and> entry_contains L e a"
proof -
  let ?X = "key_bits (le 4 (rk_scope slot p) @ octets a)" and ?E = "key_bits (le 4 (rk_scope slot (en_profile e)) @ en_addr e)"
  have len: "en_prefix_len e \<le> 128" using n by (simp add: wf_prefix_def)
  have contains: "entry_contains L e a \<longleftrightarrow> take (en_prefix_len e) (key_bits (octets (net_addr n))) = take (en_prefix_len e) (key_bits (octets a))"
  proof -
    have "entry_contains L e a \<longleftrightarrow> contains_addr L n a" using n by (cases n) (simp add: entry_contains_def wf_prefix_def)
    then show ?thesis using n len take_octet_bits [of "net_len n" a "net_addr n"] by (auto simp: contains_addr)
  qed
  have "en_profile e = p \<and> l = 32 + en_prefix_len e" if eq: "take (32 + en_prefix_len e) ?E = take l ?X"
  proof -
    have "length (take (32 + en_prefix_len e) ?E) = length (take l ?X)" using eq by (rule arg_cong)
    then have l': "l = 32 + en_prefix_len e" using l len n(3) by simp
    have "rk_scope slot (en_profile e) = rk_scope slot p"
      by (rule scope_bits [OF eq]) (use l' len in simp_all)
    then show ?thesis using l' scope_identifies_profile [OF p(1,1,2,3)] by blast
  qed
  moreover have "take (32 + en_prefix_len e) ?E = take (32 + en_prefix_len e) ?X \<longleftrightarrow> entry_contains L e a" if "en_profile e = p"
    using that contains n(3) by simp
  ultimately show ?thesis unfolding entry_prefix_bits [OF len] by blast
qed

text \<open>The trie holds the entries of a policy, and nothing else for the slot: lookups are \<open>longest_entry\<close>.\<close>

lemma trie_longest:
  assumes pol: "wf_policy L pol" "find_profile pol p = Some prof"
      "\<forall>q \<in> set (pol_profiles pol). compile_trie L q action = Inr (trie_of L action q)"
    and slot: "slot < 2"
    and es: "es = concat (map (trie_of L action) (pol_profiles pol))"
    and X: "X = key_bits (le 4 (rk_scope slot p) @ octets a)"
    and T: "\<And>l. T (take l X) = map_option trie_value (find (\<lambda>e. entry_prefix slot e = take l X) (rev es))"
  shows "longest_match T X = map_option trie_value (longest_entry L es p a)"
proof -
  have lenX: "length X = 160" by (simp add: X)
  let ?E = "filter (\<lambda>e. en_profile e = p \<and> entry_contains L e a) es"
  have prof: "prof \<in> set (pol_profiles pol)" "pf_id prof = p" using pol(2) by (auto simp: find_profile_def find_Some_iff)
  have p: "p < RK_MAX_PROFILES" using pol(1) prof by (auto simp: wf_policy_def)
  have own: "filter (\<lambda>e. en_profile e = p) es = trie_of L action prof"
    using own_entries [OF _ prof(1), of L action] pol(1,3) prof(2) es by (simp add: wf_policy_def)
  have rules: "\<forall>r \<in> set (pf_rules q). wf_prefix L (r_net r)" if "q \<in> set (pol_profiles pol)" for q
    using pol(1) that by (simp add: wf_policy_def)
  have at: "entry_prefix slot e = take l X \<longleftrightarrow> en_profile e = p \<and> l = 32 + en_prefix_len e \<and> entry_contains L e a"
    if e: "e \<in> set es" and l: "l \<le> 160" for e l
  proof -
    obtain q where q: "q \<in> set (pol_profiles pol)" "e \<in> set (trie_of L action q)" using e es by auto
    have "compile_trie L q action = Inr (trie_of L action q)" using q(1) pol(3) by blast
    note comp = this
    obtain n where n: "wf_prefix L n" "en_prefix_len e = net_len n" "en_addr e = octets (net_addr n)"
      using trie_entries [OF rules [OF q(1)] comp q(2)] by blast
    have "en_profile e < RK_MAX_PROFILES"
      using compile_trie_entries(1) [OF comp q(2)] pol(1) q(1) by (simp add: wf_policy_def)
    then show ?thesis unfolding X by (rule entry_prefix_at [OF n slot _ p l])
  qed
  have unique: "e = e'" if "e \<in> set ?E" "e' \<in> set ?E" "en_prefix_len e = en_prefix_len e'" for e e'
  proof -
    have "e \<in> set (trie_of L action prof)" "e' \<in> set (trie_of L action prof)"
      using that unfolding own [symmetric] by auto
    then show ?thesis using same_entry [OF rules [OF prof(1)]] pol(3) prof(1) that by auto
  qed
  show ?thesis
  proof (cases "longest_entry L es p a")
    case None
    then have "?E = []" by (simp add: longest_entry_def)
    then have none: "entry_prefix slot e \<noteq> take l X" if "e \<in> set es" "l \<le> 160" for e l
      using at [OF that] that by (auto simp: filter_empty_conv)
    have "entry_prefix slot e \<noteq> take l X" if "e \<in> set es" for e l
    proof (cases "l \<le> 160")
      case False
      then have "take l X = take 160 X" using lenX by simp
      then show ?thesis using none [OF that, of 160] by simp
    qed (rule none [OF that])
    then have "T (take l X) = None" for l unfolding T by (auto simp: find_None_iff)
    then have "longest_match T X = None" by (rule longest_match_None)
    then show ?thesis using None by simp
  next
    case (Some e)
    then have e: "e \<in> set ?E" "\<forall>y \<in> set ?E. en_prefix_len y \<le> en_prefix_len e"
      using max_by_greatest [of en_prefix_len ?E e] unfolding longest_entry_def by simp_all
    have e160: "32 + en_prefix_len e \<le> 160" using e(1) by (simp add: entry_contains_def)
    have "T (take (32 + en_prefix_len e) X) = Some (trie_value e)"
    proof -
      let ?P = "\<lambda>x. entry_prefix slot x = take (32 + en_prefix_len e) X"
      have "?P e" using at [OF _ e160] e(1) by simp
      then have "find ?P (rev es) \<noteq> None" using e(1) by (auto simp: find_None_iff)
      then obtain e' where e': "find ?P (rev es) = Some e'" by blast
      have mem: "e' \<in> set es" and "?P e'" using find_SomeD [OF e'] by simp_all
      then have "e' \<in> set ?E" "en_prefix_len e = en_prefix_len e'" using at [OF mem e160] by simp_all
      then have "e' = e" using unique [OF e(1)] by blast
      then show ?thesis unfolding T using e' by simp
    qed
    moreover have "T (take k X) = None" if k: "32 + en_prefix_len e < k" "k \<le> length X" for k
    proof -
      have "entry_prefix slot x \<noteq> take k X" if x: "x \<in> set es" for x
        using at [OF x, of k] e(2) k x lenX by (auto simp: not_less [symmetric])
      then show ?thesis unfolding T by (auto simp: find_None_iff)
    qed
    ultimately show ?thesis using longest_match_Some [of T "32 + en_prefix_len e" X "trie_value e"] Some e160 lenX by simp
  qed
qed

text \<open>In the slot of an apply, the tries hold exactly the compiled entries.\<close>

lemma cleared_scope:
  assumes dom: "dom T \<subseteq> (\<Union>c \<in> set ws. trie_keys (f c))" and ws: "length ws = 2"
    and keys: "\<And>s. s < 2 \<Longrightarrow> \<forall>(n, d) \<in> set (f (ws ! unat s)). slot_key s n d"
    and slot: "slot < 2" "p < RK_MAX_PROFILES"
  shows "(if take l (key_bits (le 4 (rk_scope slot p) @ as)) \<in> trie_keys (f (ws ! unat slot)) then None
    else T (take l (key_bits (le 4 (rk_scope slot p) @ as)))) = None"
proof (rule ccontr)
  let ?b = "take l (key_bits (le 4 (rk_scope slot p) @ as))"
  assume "\<not> ?thesis"
  then have b: "?b \<notin> trie_keys (f (ws ! unat slot))" "?b \<in> dom T" by (auto split: if_splits)
  then obtain c where "c \<in> set ws" "?b \<in> trie_keys (f c)" using dom by blast
  then obtain j where j: "j < 2" "?b \<in> trie_keys (f (ws ! j))" using ws by (auto simp: in_set_conv_nth)
  define s :: u32 where "s = of_nat j"
  have s: "unat s = j" "s < 2" using j(1) by (auto simp: s_def unat_of_nat word_less_nat_alt)
  obtain n d where nd: "(n, d) \<in> set (f (ws ! unat s))" "?b = key_prefix n d" using j(2) s(1) by (auto simp: trie_keys_def)
  have key: "slot_key s n d" using keys [OF s(2)] nd(1) by blast
  have "rk_scope slot p = kd_scope d"
    by (rule scope_bits [OF nd(2) [unfolded key_prefix_def key_bytes_def]]) (use key in \<open>simp_all add: slot_key_def\<close>)
  then have "slot_scope s (rk_scope slot p)" using key by (simp add: slot_key_def)
  moreover have "slot_scope slot (rk_scope slot p)" using slot(2) by (auto simp: slot_scope_def)
  ultimately have "s = slot" using slot_scope_apart(1) [OF s(2) slot(1)] by blast
  then show False using b(1) j(2) s(1) by simp
qed

lemma applied_tries:
  assumes ok: "engine_ok K eng k" and compiled: "compiled_ok compiled exec fls"
    and res: "apply_compiled K compiled exec fls bindings eng k = (None, eng', k')"
    and slot: "slot = eng_active_slot eng XOR 1" and p: "p < RK_MAX_PROFILES"
  shows "lpm_contents K (km_deny k') (take l (key_bits (le 4 (rk_scope slot p) @ as))) =
      map_option trie_value (find (\<lambda>e. entry_prefix slot e = take l (key_bits (le 4 (rk_scope slot p) @ as))) (rev (c_deny compiled)))"
    and "lpm_contents K (km_allow k') (take l (key_bits (le 4 (rk_scope slot p) @ as))) =
      map_option trie_value (find (\<lambda>e. entry_prefix slot e = take l (key_bits (le 4 (rk_scope slot p) @ as))) (rev (c_allow compiled)))"
proof -
  have slot2: "slot < 2" using ok other_slot(1) by (simp add: slot engine_ok_def)
  have ws: "length (eng_written eng) = 2" and tr: "tracked K (eng_written eng) k" using ok by (simp_all add: engine_ok_def)
  have keys: "\<forall>(n, d) \<in> set (sc_deny (eng_written eng ! unat s)). slot_key s n d"
    "\<forall>(n, d) \<in> set (sc_allow (eng_written eng ! unat s)). slot_key s n d" if "s < 2" for s
    using ok that by (simp_all add: engine_ok_def contents_ok_def)
  have dom: "dom (lpm_contents K (km_deny k)) \<subseteq> (\<Union>c \<in> set (eng_written eng). trie_keys (sc_deny c))"
    "dom (lpm_contents K (km_allow k)) \<subseteq> (\<Union>c \<in> set (eng_written eng). trie_keys (sc_allow c))"
    using tr by (simp_all add: tracked_def)
  show "lpm_contents K (km_deny k') (take l (key_bits (le 4 (rk_scope slot p) @ as))) =
      map_option trie_value (find (\<lambda>e. entry_prefix slot e = take l (key_bits (le 4 (rk_scope slot p) @ as))) (rev (c_deny compiled)))"
    unfolding applied_contents(1) [OF ok compiled res slot] fold_deny_insert
    using cleared_scope [where f = sc_deny, OF dom(1) ws keys(1) slot2 p, of l as]
    by (auto split: option.split simp del: key_bits_append)
  show "lpm_contents K (km_allow k') (take l (key_bits (le 4 (rk_scope slot p) @ as))) =
      map_option trie_value (find (\<lambda>e. entry_prefix slot e = take l (key_bits (le 4 (rk_scope slot p) @ as))) (rev (c_allow compiled)))"
    unfolding applied_contents(2) [OF ok compiled res slot] fold_allow_insert
    using cleared_scope [where f = sc_allow, OF dom(2) ws keys(2) slot2 p, of l as]
    by (auto split: option.split simp del: key_bits_append)
qed

text \<open>What the compiler produces fits a slot.\<close>

lemma compile_compiled_ok:
  assumes pol: "wf_policy L pol" "compile L pol generation = Inr compiled"
    and "\<forall>r \<in> set exec. rx_profile r < RK_MAX_PROFILES" "\<forall>r \<in> set fls. rf_profile r < RK_MAX_PROFILES"
  shows "compiled_ok compiled exec fls"
proof -
  have "en_profile e < RK_MAX_PROFILES \<and> en_prefix_len e \<le> 128 \<and> length (en_addr e) = 16"
    if q: "q \<in> set (pol_profiles pol)" and e: "e \<in> set (trie_of L action q)" for q e action
  proof -
    have comp: "compile_trie L q action = Inr (trie_of L action q)" using compile_parts [OF pol(2)] q by blast
    have wf: "\<forall>r \<in> set (pf_rules q). wf_prefix L (r_net r)" "pf_id q < RK_MAX_PROFILES" using pol(1) q by (simp_all add: wf_policy_def)
    obtain n where "wf_prefix L n" "en_prefix_len e = net_len n" using trie_entries [OF wf(1) comp e] by blast
    then show ?thesis using compile_trie_entries [OF comp e] wf(2) by (simp add: wf_prefix_def)
  qed
  then show ?thesis
    using compile_parts [OF pol(2)] pol(1) assms(3,4)
    by (auto simp: compiled_ok_def wf_policy_def compiled_profile_of_def)
qed

lemma applied_match:
  assumes ok: "engine_ok K eng k" and compiled: "compiled_ok compiled exec fls"
    and res: "apply_compiled K compiled exec fls bindings eng k = (None, eng', k')"
    and pol: "wf_policy L pol" "compile L pol generation = Inr compiled" "find_profile pol p = Some prof"
    and scope: "g_scope g = rk_scope (eng_active_slot eng XOR 1) p"
  shows "rk_net_match (trie_view K (km_deny k')) (net_key g (octets a)) port proto = map_option r_id (best_rule L prof Deny a port proto)"
    and "rk_net_match (trie_view K (km_allow k')) (net_key g (octets a)) port proto = map_option r_id (best_rule L prof Allow a port proto)"
proof -
  define slot where "slot = eng_active_slot eng XOR 1"
  define X where "X = key_bits (le 4 (rk_scope slot p) @ octets a)"
  have slot2: "slot < 2" using ok other_slot(1) by (simp add: slot_def engine_ok_def)
  have prof: "prof \<in> set (pol_profiles pol)" "pf_id prof = p" using pol(3) by (auto simp: find_profile_def find_Some_iff)
  have p: "p < RK_MAX_PROFILES" using pol(1) prof by (auto simp: wf_policy_def)
  have parts: "c_deny compiled = concat (map (trie_of L Deny) (pol_profiles pol))"
    "c_allow compiled = concat (map (trie_of L Allow) (pol_profiles pol))"
    "\<forall>q \<in> set (pol_profiles pol). compile_trie L q action = Inr (trie_of L action q)" for action
    using compile_parts [OF pol(2)] by blast+
  have view: "trie_view K t (net_key g (octets a)) = longest_match (lpm_contents K t) X" for t
    using scope by (simp add: trie_view_def net_key_def lookup X_def slot_def)
  have match: "rk_net_match (trie_view K t) (net_key g (octets a)) port proto = map_option r_id (best_rule L prof action a port proto)"
    if es: "es = concat (map (trie_of L action) (pol_profiles pol))"
      and T: "\<And>l. lpm_contents K t (take l X) = map_option trie_value (find (\<lambda>e. entry_prefix slot e = take l X) (rev es))"
    for t action es
  proof -
    have "longest_match (lpm_contents K t) X = map_option trie_value (longest_entry L es p a)"
      by (rule trie_longest [OF pol(1,3) parts(3) slot2 es X_def T])
    moreover have "length (en_ranges e) \<le> MAX_RANGES" if "longest_entry L es p a = Some e" for e
    proof -
      have "e \<in> set es" using max_by_greatest [OF that [unfolded longest_entry_def]] by simp
      then obtain q where q: "q \<in> set (pol_profiles pol)" "e \<in> set (trie_of L action q)" using es by auto
      show ?thesis by (rule compile_trie_entries(2) [OF bspec [OF parts(3) q(1)] q(2)])
    qed
    ultimately have "rk_net_match (trie_view K t) (net_key g (octets a)) port proto = map_option cr_rule_id (trie_rule L es p a port proto)"
      unfolding rk_net_match_def view trie_rule_def by (auto simp: scan_trie_value split: option.split)
    then show ?thesis using compiled_trie_rule [OF pol(1,3) parts(3)] es by simp
  qed
  show "rk_net_match (trie_view K (km_deny k')) (net_key g (octets a)) port proto = map_option r_id (best_rule L prof Deny a port proto)"
    by (rule match [OF parts(1)]) (unfold X_def, rule applied_tries(1) [OF ok compiled res slot_def p])
  show "rk_net_match (trie_view K (km_allow k')) (net_key g (octets a)) port proto = map_option r_id (best_rule L prof Allow a port proto)"
    by (rule match [OF parts(2)]) (unfold X_def, rule applied_tries(2) [OF ok compiled res slot_def p])
qed

lemma applied_verdict:
  assumes ok: "engine_ok K eng k" and compiled: "compiled_ok compiled exec fls"
    and res: "apply_compiled K compiled exec fls bindings eng k = (None, eng', k')"
    and pol: "wf_policy L pol" "compile L pol generation = Inr compiled" "find_profile pol p = Some prof"
    and g: "g_scope g = rk_scope (eng_active_slot eng XOR 1) p" "g_net_default g = action_value (pf_net_default prof)"
    and d: "evaluate L pol p ip port proto = Some d"
  shows "rk_net_verdict (view K k') g (octets (normalize ip)) port proto = (action_value (dr_action d), dr_rule_id d)"
  using applied_match [OF ok compiled res pol g(1), of "normalize ip" port proto] g(2) d pol(3)
  by (cases "pf_net_default prof") (auto simp: rk_net_verdict_def view_def evaluate_def Let_def split: option.splits)

text \<open>The profile of the new generation governs.\<close>


lemma applied_profile:
  assumes ok: "engine_ok K eng k" and compiled: "compiled_ok compiled exec fls"
    and res: "apply_compiled K compiled exec fls bindings eng k = (None, eng', k')"
    and pol: "wf_policy L pol" "compile L pol generation = Inr compiled" "find_profile pol p = Some prof"
  shows "rk_profiles (km k') (profile_index (eng_active_slot eng XOR 1) p) = Some (profile_value generation (compiled_profile_of prof))"
proof -
  define slot where "slot = eng_active_slot eng XOR 1"
  have slot2: "slot < 2" using ok other_slot(1) by (simp add: slot_def engine_ok_def)
  have prof: "prof \<in> set (pol_profiles pol)" "pf_id prof = p" using pol(3) by (auto simp: find_profile_def find_Some_iff)
  have parts: "c_profiles compiled = map compiled_profile_of (pol_profiles pol)" "c_generation compiled = generation"
    using compile_parts [OF pol(2)] by auto
  let ?P = "\<lambda>q. profile_index slot (cp_id q) = profile_index slot p"
  have inj: "q = prof" if "q \<in> set (pol_profiles pol)" "profile_index slot (pf_id q) = profile_index slot p" for q
  proof -
    have "pf_id q < RK_MAX_PROFILES" "p < RK_MAX_PROFILES" "inj_on pf_id (set (pol_profiles pol))"
      using pol(1) that(1) prof by (auto simp: wf_policy_def distinct_map)
    then show ?thesis
      using slot_index_apart [OF slot2 slot2, of "pf_id q" p] that prof by (auto simp: profile_index_def dest: inj_onD)
  qed
  have "find ?P (rev (c_profiles compiled)) \<noteq> None"
    using prof by (auto simp: parts(1) find_None_iff compiled_profile_of_def)
  then obtain q where q: "find ?P (rev (c_profiles compiled)) = Some q" by blast
  have "q = compiled_profile_of prof" using find_SomeD [OF q] inj by (auto simp: parts(1) compiled_profile_of_def)
  then show ?thesis
    unfolding applied_contents(5) [OF ok compiled res refl] slot_def [symmetric] fold_profile_set parts(2) [symmetric] by (simp add: q)
qed

lemma applied_governance:
  assumes ok: "engine_ok K eng k" and compiled: "compiled_ok compiled exec fls"
    and res: "apply_compiled K compiled exec fls bindings eng k = (None, eng', k')"
    and pol: "wf_policy L pol" "compile L pol generation = Inr compiled"
    and b: "rk_governed_binding e (view K k') (current_cgroup_id e) = Some (c, b)" "find_profile pol (b_profile b) = Some prof"
  shows "rk_governance e (view K k') =
    Some (gov_of_profile e (view K k') c (eng_active_slot eng XOR 1) (b_profile b) (profile_value generation (compiled_profile_of prof)))"
proof -
  have slot: "active_slot (view K k') = eng_active_slot eng XOR 1"
    using engine_active [OF engine_apply(1) [OF ok compiled res]] engine_apply(2) [OF ok compiled res] by simp
  have p: "b_profile b < RK_MAX_PROFILES" using pol(1) b(2) find_SomeD by (fastforce simp: find_profile_def wf_policy_def)
  have "generation \<noteq> 0" using compile_parts [OF pol(2)] by blast
  then have "active_profile (view K k') b = Some (profile_value generation (compiled_profile_of prof))"
    using applied_profile [OF ok compiled res pol b(2)] p unfolding active_profile_def slot view_maps
    by (simp add: profile_index_def profile_value_def not_le)
  then show ?thesis unfolding rk_governance_bound [OF b(1)] slot by simp
qed

end

interpretation stack_std: policy_stack ipnet_std bpf_std
  by unfold_locales

subsection \<open>Addresses\<close>

text \<open>The address a \<open>sock_addr\<close> hook is called for; the context holds it in network byte order.\<close>

definition ctx_ip :: "bpf_sock_addr \<Rightarrow> bool \<Rightarrow> ip_addr" where
  "ctx_ip ctx v6 = (if v6 then V6 (of_octets (sock_addr_bytes ctx True)) else V4 (unle (rev (le 4 (user_ip4 ctx)))))"

lemma octets_of: "length bs = 16 \<Longrightarrow> octets (of_octets bs) = bs"
  using le_unle [of "rev bs", where 'a = 128] by (simp add: octets_def of_octets_def)

lemma unle_append: "(unle (xs @ ys) :: 'a::len word) = unle xs OR push_bit (8 * length xs) (unle ys)"
  by (induction xs) (simp_all add: push_bit_or or.assoc ac_simps)

lemma unle_ucast:
  assumes "8 * length xs \<le> LENGTH('b)" "LENGTH('b) \<le> LENGTH('a)"
  shows "(unle xs :: 'a::len word) = ucast (unle xs :: 'b::len word)"
  using assms(1)
proof (induction xs)
  case (Cons x xs)
  then have IH: "(unle xs :: 'a word) = ucast (unle xs :: 'b word)" by simp
  have small: "i < 8 * length xs" if "bit (unle xs :: 'b word) i" for i using that by (rule bit_unle)
  show ?case
    unfolding unle.simps IH using Cons.prems assms(2)
    by (intro bit_word_eqI) (auto simp: bit_simps dest: bit_imp_le_length small)
qed simp

lemma mapped_bytes: "unle ([0xff, 0xff] @ replicate 10 0) = (0xffff :: 128 word)"
  by code_simp

lemma ctx_octets: "octets (normalize (ctx_ip ctx v6)) = sock_addr_bytes ctx v6"
proof (cases v6)
  case False
  have "rev (sock_addr_bytes ctx v6) = rev (le 4 (user_ip4 ctx)) @ [0xff, 0xff] @ replicate 10 0"
    using False by (simp add: sock_addr_bytes_def splice_at_def numeral_eq_Suc)
  then have "of_octets (sock_addr_bytes ctx v6) = unle (rev (le 4 (user_ip4 ctx))) OR push_bit 32 0xffff"
    unfolding of_octets_def by (simp only: unle_append [of "rev (le 4 (user_ip4 ctx))"] mapped_bytes) simp
  moreover have "(unle (rev (le 4 (user_ip4 ctx))) :: 128 word) = ucast (unle (rev (le 4 (user_ip4 ctx))) :: u32)"
    by (rule unle_ucast) simp_all
  ultimately have "normalize (ctx_ip ctx v6) = of_octets (sock_addr_bytes ctx v6)"
    using False by (simp add: ctx_ip_def or.commute)
  then show ?thesis by (simp add: octets_of)
qed (simp add: ctx_ip_def octets_of)

subsection \<open>A concrete engine\<close>

text \<open>
  The sample host with empty policy maps, before its first apply, and the sample policy compiled; updates
  always succeed.
\<close>

definition sample_kernel :: "(bool list \<rightharpoonup> rk_net_rule) kernel_maps" where
  "sample_kernel = \<lparr>km = (sample_maps 1 900)\<lparr>rk_profiles := (\<lambda>i. if i < 2048 then Some profile_zeroed else None), rk_file_protect := Map.empty\<rparr>,
     km_deny = Map.empty, km_allow = Map.empty\<rparr>"

definition sample_engine :: engine where
  "sample_engine = \<lparr>eng_generation = 0, eng_active_slot = 0, eng_written = [no_contents, no_contents]\<rparr>"

lemma sample_engine_ok: "engine_ok bpf_std sample_engine sample_kernel"
proof -
  have "profile_index s i < 2048" if "s < 2" "i < RK_MAX_PROFILES" for s i
  proof -
    have "s = 0 \<or> s = 1" using that(1) by (auto simp: word_less_nat_alt word_unat_eq_iff)
    then show ?thesis using that(2) by (auto simp: profile_index_def word_less_nat_alt unat_word_ariths)
  qed
  moreover have "contents_ok s ([no_contents, no_contents] ! unat s)" if "s < 2" for s :: u32
    using that by (cases "unat s") (auto simp: contents_ok_def no_contents_def word_less_nat_alt)
  ultimately show ?thesis
    by (simp add: engine_ok_def tracked_def sample_engine_def sample_kernel_def sample_maps_def bpf_std_def profile_zeroed_def)
qed

lemma std_accepts: "accepts bpf_std k op"
  by (simp add: bpf_std_def)

lemma std_write: "\<exists>eng' k'. write_steps bpf_std slot steps eng k = (True, eng', k')"
  by (induction bpf_std slot steps eng k rule: write_steps.induct) (simp_all add: std_accepts Let_def)

lemma std_apply:
  assumes "engine_ok bpf_std eng k" "check_capacity (eng_written eng ! unat (eng_active_slot eng)) (length (c_deny compiled))
     (length (c_allow compiled)) (length exec) (length fls) bindings"
  shows "fst (apply_compiled bpf_std compiled exec fls bindings eng k) = None"
proof -
  have "eng_active_slot eng XOR 1 < 2" using assms(1) other_slot(1) by (simp add: engine_ok_def)
  then obtain k1 where "clear_slot bpf_std (eng_active_slot eng XOR 1) eng k =
      (True, eng\<lparr>eng_written := (eng_written eng)[unat (eng_active_slot eng XOR 1) := no_contents]\<rparr>, k1)"
    using bpf_std.engine_clear [OF assms(1)] by blast
  moreover obtain eng2 k2 where "write_slot bpf_std (eng_active_slot eng XOR 1) compiled exec fls
      (eng\<lparr>eng_written := (eng_written eng)[unat (eng_active_slot eng XOR 1) := no_contents]\<rparr>) k1 = (True, eng2, k2)"
    using std_write unfolding write_slot_def by blast
  ultimately show ?thesis using assms(2) by (simp add: apply_compiled_def std_accepts Let_def)
qed

lemma sample_apply:
  assumes "compile ipnet_std sample_policy 1 = Inr compiled" "length exec \<le> 1" "length fls \<le> 1"
  shows "\<exists>eng' k'. apply_compiled bpf_std compiled exec fls 1 sample_engine sample_kernel = (None, eng', k')"
proof -
  have "compile ipnet_std sample_policy 1 = Inr c \<Longrightarrow> length (c_deny c) \<le> 3 \<and> length (c_allow c) \<le> 3" for c
    by (auto simp: compile_def sample_policy_def compile_trie_def groups_def ordered_rules_def push_range_def covers_def
        rule_ranges_def Let_def ipnet_std_def prefix_bits_def)
  then have "check_capacity (eng_written sample_engine ! unat (eng_active_slot sample_engine)) (length (c_deny compiled))
      (length (c_allow compiled)) (length exec) (length fls) 1"
    using assms by (simp add: check_capacity_def sample_engine_def no_contents_def)
  then show ?thesis using std_apply [OF sample_engine_ok] by (metis prod.collapse)
qed

text \<open>An apply of the sample policy, and the cgroup it governs.\<close>

lemma sample_applied:
  assumes "length exec \<le> 1" "length fls \<le> 1" "\<forall>r \<in> set exec. rx_profile r < RK_MAX_PROFILES" "\<forall>r \<in> set fls. rf_profile r < RK_MAX_PROFILES"
  shows "\<exists>compiled eng' k'. compile ipnet_std sample_policy 1 = Inr compiled \<and>
    apply_compiled bpf_std compiled exec fls 1 sample_engine sample_kernel = (None, eng', k') \<and>
    compiled_ok compiled exec fls \<and>
    rk_governed_binding sample_env (view bpf_std k') (current_cgroup_id sample_env) = Some (7, \<lparr>b_profile = 0\<rparr>)"
proof -
  obtain compiled where compiled: "compile ipnet_std sample_policy 1 = Inr compiled" using sample_policy_compiles by blast
  obtain eng' k' where res: "apply_compiled bpf_std compiled exec fls 1 sample_engine sample_kernel = (None, eng', k')"
    using sample_apply [OF compiled assms(1,2)] by blast
  have ok: "compiled_ok compiled exec fls" by (rule stack_std.compile_compiled_ok [OF sample_policy_wf compiled assms(3,4)])
  have "rk_cgroup_profile (view bpf_std k') = rk_cgroup_profile (km sample_kernel)"
    using bpf_std.applied_contents(6) [OF sample_engine_ok ok res refl] by (simp add: view_maps)
  then have "rk_governed_binding sample_env (view bpf_std k') (current_cgroup_id sample_env) = Some (7, \<lparr>b_profile = 0\<rparr>)"
    by (simp add: rk_governed_binding_def sample_kernel_def sample_maps_def sample_env_def)
  then show ?thesis using compiled res ok by blast
qed

lemma sample_profile_found: "find_profile sample_policy (b_profile \<lparr>b_profile = 0\<rparr>) = Some (hd (pol_profiles sample_policy))"
  by (simp add: find_profile_def sample_policy_def)

text \<open>A TCP connection to 10.1.2.3, port 22.\<close>

definition sample_ctx :: bpf_sock_addr where
  "sample_ctx = \<lparr>user_ip4 = 0x0302010a, user_ip6_0 = 0, user_ip6_1 = 0, user_ip6_2 = 0, user_ip6_3 = 0, user_port = 0x1600, protocol = 6\<rparr>"

subsection \<open>Properties\<close>

lemma sock_addr_result:
  assumes "rk_governance e m = Some g"
  shows "fst (rk_net_sock_addr e m ctx v6 ty s) =
    (if rk_enforced_deny g (fst (rk_net_verdict m g (sock_addr_bytes ctx v6) (bpf_ntohs (ucast (user_port ctx))) (rk_proto_bit (protocol ctx))))
     then 0 else 1)"
  using assms by (simp add: rk_net_sock_addr_def Let_def split: prod.split)

lemma applied_enforcement:
  assumes "ipnet L" "lpm_trie K" and ok: "engine_ok K eng k"
    and pol: "wf_policy L pol" "compile L pol generation = Inr compiled"
    and paths: "\<forall>r \<in> set exec. rx_profile r < RK_MAX_PROFILES" "\<forall>r \<in> set fls. rf_profile r < RK_MAX_PROFILES"
    and res: "apply_compiled K compiled exec fls bindings eng k = (None, eng', k')"
    and b: "rk_governed_binding e (view K k') (current_cgroup_id e) = Some (c, b)" "find_profile pol (b_profile b) = Some prof"
    and d: "evaluate L pol (b_profile b) (ctx_ip ctx v6) (bpf_ntohs (ucast (user_port ctx))) (rk_proto_bit (protocol ctx)) = Some d"
  shows "\<exists>g. rk_governance e (view K k') = Some g \<and>
      rk_net_verdict (view K k') g (sock_addr_bytes ctx v6) (bpf_ntohs (ucast (user_port ctx))) (rk_proto_bit (protocol ctx)) =
        (action_value (dr_action d), dr_rule_id d) \<and>
      fst (rk_net_sock_addr e (view K k') ctx v6 ty s) =
        (if pf_mode prof = Enforce \<and> (dr_action d = Deny \<or> rk_heartbeat_stale e (view K k')) then 0 else 1)"
proof -
  have "policy_stack L K" using assms(1,2) by (rule policy_stack.intro)
  then have stack: "policy_stack L K" .
  note compiled = policy_stack.compile_compiled_ok [OF stack pol paths]
  let ?g = "gov_of_profile e (view K k') c (eng_active_slot eng XOR 1) (b_profile b) (profile_value generation (compiled_profile_of prof))"
  have gov: "rk_governance e (view K k') = Some ?g"
    by (rule policy_stack.applied_governance [OF stack ok compiled res pol b])
  have verdict: "rk_net_verdict (view K k') ?g (sock_addr_bytes ctx v6) (bpf_ntohs (ucast (user_port ctx))) (rk_proto_bit (protocol ctx)) =
      (action_value (dr_action d), dr_rule_id d)"
    unfolding ctx_octets [symmetric]
    by (rule policy_stack.applied_verdict [OF stack ok compiled res pol b(2) _ _ d])
      (simp_all add: gov_of_profile_def profile_value_def compiled_profile_of_def)
  have "rk_enforced_deny ?g (action_value (dr_action d)) \<longleftrightarrow> pf_mode prof = Enforce \<and> (dr_action d = Deny \<or> rk_heartbeat_stale e (view K k'))"
    by (cases "pf_mode prof"; cases "dr_action d")
      (simp_all add: rk_enforced_deny_def rk_effective_deny_def gov_of_profile_def profile_value_def compiled_profile_of_def)
  then show ?thesis using gov verdict sock_addr_result [OF gov, of ctx v6 ty s] by simp
qed

text \<open>
  C2: after a successful apply the programs enforce the policy: for a task bound to a profile of the policy,
  the connect and sendmsg hooks refuse exactly the addresses, ports and protocols that the policy's
  reference semantics denies (and everything while the heartbeat is stale), if the profile is in
  ENFORCE mode; in AUDIT mode they refuse nothing.  The rule they report is the reference's.
\<close>

theorem policy_enforced:
  assumes "ipnet L" "lpm_trie K" and ok: "engine_ok K eng k"
    and pol: "wf_policy L pol" "compile L pol generation = Inr compiled"
    and paths: "\<forall>r \<in> set exec. rx_profile r < RK_MAX_PROFILES" "\<forall>r \<in> set fls. rf_profile r < RK_MAX_PROFILES"
    and res: "apply_compiled K compiled exec fls bindings eng k = (None, eng', k')"
    and b: "rk_governed_binding e (view K k') (current_cgroup_id e) = Some (c, b)" "find_profile pol (b_profile b) = Some prof"
    and d: "evaluate L pol (b_profile b) (ctx_ip ctx v6) (bpf_ntohs (ucast (user_port ctx))) (rk_proto_bit (protocol ctx)) = Some d"
  shows "\<exists>g. rk_governance e (view K k') = Some g \<and>
      rk_net_verdict (view K k') g (sock_addr_bytes ctx v6) (bpf_ntohs (ucast (user_port ctx))) (rk_proto_bit (protocol ctx)) =
        (action_value (dr_action d), dr_rule_id d) \<and>
      fst (rk_net_sock_addr e (view K k') ctx v6 ty s) =
        (if pf_mode prof = Enforce \<and> (dr_action d = Deny \<or> rk_heartbeat_stale e (view K k')) then 0 else 1)"
  by (rule applied_enforcement [OF assms])

theorem policy_enforced_witness:
  "\<exists>compiled eng' k'. compile ipnet_std sample_policy 1 = Inr compiled \<and>
     apply_compiled bpf_std compiled [] [] 1 sample_engine sample_kernel = (None, eng', k') \<and>
     fst (rk_net_sock_addr sample_env (view bpf_std k') sample_ctx False 3 sample_cpu) = 0"
proof -
  obtain compiled eng' k' where s: "compile ipnet_std sample_policy 1 = Inr compiled"
      "apply_compiled bpf_std compiled [] [] 1 sample_engine sample_kernel = (None, eng', k')"
      "rk_governed_binding sample_env (view bpf_std k') (current_cgroup_id sample_env) = Some (7, \<lparr>b_profile = 0\<rparr>)"
    using sample_applied [of "[]" "[]"] by force
  have "(unle (rev (le 4 (0x0302010a :: u32))) :: u32) = 0x0a010203" "bpf_ntohs (ucast (0x1600 :: u32)) = 22" "rk_proto_bit 6 = 1"
    by code_simp+
  then have d: "evaluate ipnet_std sample_policy (b_profile \<lparr>b_profile = 0\<rparr>) (ctx_ip sample_ctx False)
      (bpf_ntohs (ucast (user_port sample_ctx))) (rk_proto_bit (protocol sample_ctx)) = Some \<lparr>dr_action = Deny, dr_rule_id = 1\<rparr>"
    using sample_policy_decides(2) by (simp add: ctx_ip_def sample_ctx_def)
  have "fst (rk_net_sock_addr sample_env (view bpf_std k') sample_ctx False 3 sample_cpu) = 0"
    using policy_enforced [OF ipnet_std.ipnet_axioms bpf_std.lpm_trie_axioms sample_engine_ok sample_policy_wf s(1) _ _ s(2,3) sample_profile_found d, of 3 sample_cpu]
    by (auto simp: sample_policy_def)
  then show ?thesis using s by blast
qed





lemma profile_flags_bits:
  "profile_flags prof AND RK_PROFILE_EXEC_DENY_DEFAULT \<noteq> 0 \<longleftrightarrow> (\<exists>x. pf_exec prof = Some x \<and> ep_default x = Deny)"
  "profile_flags prof AND RK_PROFILE_EXEC_ALLOW_UNLINKED = 0 \<longleftrightarrow> (\<exists>x. pf_exec prof = Some x \<and> \<not> ep_allow_unlinked x)"
  "profile_flags prof AND RK_PROFILE_DENY_RAW_SOCKETS \<noteq> 0 \<longleftrightarrow> pf_deny_raw_sockets prof"
  by (auto simp: profile_flags_def Let_def split: option.splits)

text \<open>The device and inode of a file as the hooks compare them.\<close>

definition file_dev :: "kheap \<Rightarrow> u64 \<Rightarrow> u64" where
  "file_dev h inode = ucast (s_dev (rd_super_block h (i_sb (rd_inode h inode))))"

text \<open>
  C13: after a successful apply the exec program enforces the policy: for a task bound to a profile of the
  policy in ENFORCE mode, an exec is blocked exactly while the heartbeat is stale or the profile has an
  exec section and either the file has no link left and unlinked files are not allowed, or the default
  is deny and no resolved allowlist entry of the profile names the file's device and inode.
\<close>

theorem exec_policy_enforced:
  assumes "ipnet L" "lpm_trie K" and ok: "engine_ok K eng k"
    and pol: "wf_policy L pol" "compile L pol generation = Inr compiled"
    and paths: "\<forall>r \<in> set exec. rx_profile r < RK_MAX_PROFILES" "\<forall>r \<in> set fls. rf_profile r < RK_MAX_PROFILES"
    and res: "apply_compiled K compiled exec fls bindings eng k = (None, eng', k')"
    and b: "rk_governed_binding e (view K k') (current_cgroup_id e) = Some (c, b)" "find_profile pol (b_profile b) = Some prof"
    and inode: "inode = bprm_inode (heap e) bprm"
  shows "fst (rk_exec_check e (view K k') bprm 0 s) = - 1 \<longleftrightarrow>
    pf_mode prof = Enforce \<and>
    (rk_heartbeat_stale e (view K k') \<or>
     (\<exists>x. pf_exec prof = Some x \<and>
       (i_nlink (rd_inode (heap e) inode) = 0 \<and> \<not> ep_allow_unlinked x \<or>
        ep_default x = Deny \<and>
        (\<forall>r \<in> set exec. \<not> (rx_profile r = b_profile b \<and> rx_dev r = file_dev (heap e) inode \<and> rx_ino r = i_ino (rd_inode (heap e) inode))))))"
proof -
  have stack: "policy_stack L K" using assms(1,2) by (rule policy_stack.intro)
  note compiled = policy_stack.compile_compiled_ok [OF stack pol paths]
  define slot where "slot = eng_active_slot eng XOR 1"
  let ?g = "gov_of_profile e (view K k') c slot (b_profile b) (profile_value generation (compiled_profile_of prof))"
  have gov: "rk_governance e (view K k') = Some ?g"
    unfolding slot_def by (rule policy_stack.applied_governance [OF stack ok compiled res pol b])
  have slot2: "slot < 2" using ok other_slot(1) by (simp add: slot_def engine_ok_def)
  have p: "b_profile b < RK_MAX_PROFILES" using pol(1) b(2) find_SomeD by (fastforce simp: find_profile_def wf_policy_def)
  let ?key = "rk_exec_key_of (heap e) ?g inode"
  have "slot_scope slot (xk_scope ?key)" using p by (auto simp: rk_exec_key_of_def gov_of_profile_def slot_scope_def)
  then have allow: "rk_exec_allow (view K k') ?key = None \<longleftrightarrow> (\<forall>r \<in> set exec. exec_key slot r \<noteq> ?key)"
    using lpm_trie.applied_paths(1) [OF assms(2) ok compiled res slot_def] by (auto simp: view_maps find_None_iff)
  have "exec_key slot r = ?key \<longleftrightarrow>
      rx_profile r = b_profile b \<and> rx_dev r = file_dev (heap e) inode \<and> rx_ino r = i_ino (rd_inode (heap e) inode)" if "r \<in> set exec" for r
  proof -
    have "rk_scope slot (rx_profile r) = rk_scope slot (b_profile b) \<longleftrightarrow> rx_profile r = b_profile b"
      using scope_identifies_profile [OF slot2 slot2, of "rx_profile r" "b_profile b"] paths(1) that p by blast
    then show ?thesis by (simp add: exec_key_def rk_exec_key_of_def gov_of_profile_def file_dev_def rk_scope_def)
  qed
  then have "rk_exec_allow (view K k') ?key = None \<longleftrightarrow>
      (\<forall>r \<in> set exec. \<not> (rx_profile r = b_profile b \<and> rx_dev r = file_dev (heap e) inode \<and> rx_ino r = i_ino (rd_inode (heap e) inode)))"
    unfolding allow by blast
  moreover have "g_flags ?g = profile_flags prof" "g_mode ?g = RK_MODE_ENFORCE \<longleftrightarrow> pf_mode prof = Enforce"
    "pf_mode prof = Enforce \<Longrightarrow> g_stale ?g \<longleftrightarrow> rk_heartbeat_stale e (view K k')"
    by (cases "pf_mode prof"; simp add: gov_of_profile_def profile_value_def compiled_profile_of_def)+
  ultimately show ?thesis
    unfolding exec_denied_cases gov Let_def inode [symmetric] using profile_flags_bits(1,2) [of prof] by auto
qed

theorem exec_policy_enforced_witness:
  "\<exists>compiled eng' k'. apply_compiled bpf_std compiled [] [] 1 sample_engine sample_kernel = (None, eng', k') \<and>
     fst (rk_exec_check sample_env (view bpf_std k') 0x60 0 sample_cpu) = - 1"
proof -
  obtain compiled eng' k' where s: "compile ipnet_std sample_policy 1 = Inr compiled"
      "apply_compiled bpf_std compiled [] [] 1 sample_engine sample_kernel = (None, eng', k')"
      "rk_governed_binding sample_env (view bpf_std k') (current_cgroup_id sample_env) = Some (7, \<lparr>b_profile = 0\<rparr>)"
    using sample_applied [of "[]" "[]"] by force
  show ?thesis
    using s(2) exec_policy_enforced [OF ipnet_std.ipnet_axioms bpf_std.lpm_trie_axioms sample_engine_ok sample_policy_wf s(1) _ _ s(2,3) sample_profile_found refl, where bprm = "0x60" and s = sample_cpu]
    by (auto simp: sample_policy_def)
qed

text \<open>
  C16: after a successful apply the file programs see exactly the resolved file rules: for a task bound to a
  profile of the policy, the protection entry of an inode is the entry resolved for that profile, device
  and inode, with its mask, rule id and subtree flag, and there is none if none was resolved.
\<close>

theorem file_rules_applied:
  assumes "ipnet L" "lpm_trie K" and ok: "engine_ok K eng k"
    and pol: "wf_policy L pol" "compile L pol generation = Inr compiled"
    and paths: "\<forall>r \<in> set exec. rx_profile r < RK_MAX_PROFILES" "\<forall>r \<in> set fls. rf_profile r < RK_MAX_PROFILES"
    and res: "apply_compiled K compiled exec fls bindings eng k = (None, eng', k')"
    and b: "rk_governed_binding e (view K k') (current_cgroup_id e) = Some (c, b)" "find_profile pol (b_profile b) = Some prof"
    and g: "rk_governance e (view K k') = Some g"
  shows "rk_file_protect (view K k') (rk_file_key_of h g inode) =
    map_option file_rule_value
      (find (\<lambda>r. rf_profile r = b_profile b \<and> rf_dev r = file_dev h inode \<and> rf_ino r = i_ino (rd_inode h inode)) (rev fls))"
proof -
  have stack: "policy_stack L K" using assms(1,2) by (rule policy_stack.intro)
  note compiled = policy_stack.compile_compiled_ok [OF stack pol paths]
  define slot where "slot = eng_active_slot eng XOR 1"
  have scope: "g_scope g = rk_scope slot (b_profile b)"
    using g policy_stack.applied_governance [OF stack ok compiled res pol b] by (auto simp: gov_of_profile_def slot_def)
  have slot2: "slot < 2" using ok other_slot(1) by (simp add: slot_def engine_ok_def)
  have p: "b_profile b < RK_MAX_PROFILES" using pol(1) b(2) find_SomeD by (fastforce simp: find_profile_def wf_policy_def)
  let ?key = "rk_file_key_of h g inode"
  have "slot_scope slot (fk_scope ?key)" using p by (auto simp: rk_file_key_of_def scope slot_scope_def)
  then have "rk_file_protect (view K k') ?key = map_option file_rule_value (find (\<lambda>r. file_key slot r = ?key) (rev fls))"
    using lpm_trie.applied_paths(2) [OF assms(2) ok compiled res slot_def] by (simp add: view_maps)
  moreover have key: "file_key slot r = ?key \<longleftrightarrow>
      rf_profile r = b_profile b \<and> rf_dev r = file_dev h inode \<and> rf_ino r = i_ino (rd_inode h inode)" if "r \<in> set (rev fls)" for r
  proof -
    have "rk_scope slot (rf_profile r) = rk_scope slot (b_profile b) \<longleftrightarrow> rf_profile r = b_profile b"
      using scope_identifies_profile [OF slot2 slot2, of "rf_profile r" "b_profile b"] paths(2) that p by auto
    then show ?thesis by (simp add: file_key_def rk_file_key_of_def file_dev_def scope rk_scope_def)
  qed
  ultimately show ?thesis using find_cong [OF refl key, of "rev fls"] by simp
qed

theorem file_rules_applied_witness:
  "\<exists>compiled eng' k' g. apply_compiled bpf_std compiled [] [\<lparr>rf_profile = 0, rf_rule_id = 5, rf_dev = 8, rf_ino = 100, rf_deny_mask = 1, rf_subtree = False\<rparr>]
       1 sample_engine sample_kernel = (None, eng', k') \<and> rk_governance sample_env (view bpf_std k') = Some g \<and>
     rk_file_protect (view bpf_std k') (rk_file_key_of sample_heap g 0x10) = Some \<lparr>fr_rule_id = 5, fr_deny_mask = 1, fr_flags = 0\<rparr>"
proof -
  let ?fls = "[\<lparr>rf_profile = 0, rf_rule_id = 5, rf_dev = 8, rf_ino = 100, rf_deny_mask = 1, rf_subtree = False\<rparr>]"
  obtain compiled eng' k' where s: "compile ipnet_std sample_policy 1 = Inr compiled"
      "apply_compiled bpf_std compiled [] ?fls 1 sample_engine sample_kernel = (None, eng', k')"
      "rk_governed_binding sample_env (view bpf_std k') (current_cgroup_id sample_env) = Some (7, \<lparr>b_profile = 0\<rparr>)"
    using sample_applied [of "[]" ?fls] by force
  obtain g where g: "rk_governance sample_env (view bpf_std k') = Some g" using rk_governance_bound [OF s(3)] by blast
  have "rk_file_protect (view bpf_std k') (rk_file_key_of sample_heap g 0x10) = Some \<lparr>fr_rule_id = 5, fr_deny_mask = 1, fr_flags = 0\<rparr>"
    using file_rules_applied [OF ipnet_std.ipnet_axioms bpf_std.lpm_trie_axioms sample_engine_ok sample_policy_wf s(1) _ _ s(2,3) sample_profile_found g, where h = sample_heap and inode = "0x10"]
    by (simp add: file_rule_value_def file_dev_def sample_heap_def rd_inode_def rd_super_block_def)
  then show ?thesis using s(2) g by blast
qed

text \<open>
  C15: a profile that the new policy no longer has fails closed: a task still bound to it gets the
  fail-closed context (deny by default, ENFORCE, no rules), whatever the slot held two generations ago.
\<close>

theorem retired_profile_fails_closed:
  assumes "lpm_trie K" and ok: "engine_ok K eng k" and compiled: "compiled_ok compiled exec fls"
    and res: "apply_compiled K compiled exec fls bindings eng k = (None, eng', k')"
    and b: "rk_governed_binding e (view K k') (current_cgroup_id e) = Some (c, b)"
    and gone: "b_profile b \<notin> cp_id ` set (c_profiles compiled)"
  shows "rk_governance e (view K k') = Some (gov_fail_closed e (view K k') c)"
proof -
  define slot where "slot = eng_active_slot eng XOR 1"
  have slot2: "slot < 2" using ok other_slot(1) by (simp add: slot_def engine_ok_def)
  have act: "active_slot (view K k') = slot"
    using engine_active [OF lpm_trie.engine_apply(1) [OF assms(1) ok compiled res]] lpm_trie.engine_apply(2) [OF assms(1) ok compiled res]
    by (simp add: slot_def)
  have "active_profile (view K k') b = None"
  proof (cases "b_profile b < RK_MAX_PROFILES")
    case True
    have "profile_index slot (cp_id q) \<noteq> profile_index slot (b_profile b)" if "q \<in> set (c_profiles compiled)" for q
    proof -
      have "cp_id q < RK_MAX_PROFILES" using compiled that by (simp add: compiled_ok_def)
      moreover have "cp_id q \<noteq> b_profile b" using gone that by (metis imageI)
      ultimately show ?thesis using slot_index_apart [OF slot2 slot2 _ True] by (simp add: profile_index_def)
    qed
    then have "find (\<lambda>q. profile_index slot (cp_id q) = profile_index slot (b_profile b)) (rev (c_profiles compiled)) = None"
      by (auto simp: find_None_iff)
    then have "rk_profiles (km k') (profile_index slot (b_profile b)) =
        (if profile_index slot (b_profile b) \<in> profile_index slot ` set (sc_profiles (eng_written eng ! unat slot)) then Some profile_zeroed
         else rk_profiles (km k) (profile_index slot (b_profile b)))"
      unfolding lpm_trie.applied_contents(5) [OF assms(1) ok compiled res slot_def] fold_profile_set by simp
    moreover obtain p where "rk_profiles (km k) (profile_index slot (b_profile b)) = Some p"
        "p_policy_gen p = 0 \<or> b_profile b \<in> set (sc_profiles (eng_written eng ! unat slot))"
      using tracked_profile [of K "eng_written eng" k, OF _ slot2 True] ok by (auto simp: engine_ok_def)
    ultimately show ?thesis
      unfolding active_profile_def act view_maps profile_index_def [symmetric] by (auto simp: profile_zeroed_def)
  qed (simp add: active_profile_def not_less)
  then show ?thesis unfolding rk_governance_bound [OF b] by simp
qed

theorem retired_profile_fails_closed_witness:
  "\<exists>eng' k'. apply_compiled bpf_std \<lparr>c_generation = 1, c_profiles = [], c_deny = [], c_allow = [], c_exec = [], c_files = []\<rparr> [] [] 1
       sample_engine sample_kernel = (None, eng', k') \<and>
     rk_governance sample_env (view bpf_std k') = Some (gov_fail_closed sample_env (view bpf_std k') 7)"
proof -
  let ?c = "\<lparr>c_generation = 1, c_profiles = [], c_deny = [], c_allow = [], c_exec = [], c_files = []\<rparr>"
  have "check_capacity (eng_written sample_engine ! unat (eng_active_slot sample_engine)) (length (c_deny ?c)) (length (c_allow ?c)) (length []) (length []) 1"
    by (simp add: check_capacity_def sample_engine_def no_contents_def)
  then obtain eng' k' where res: "apply_compiled bpf_std ?c [] [] 1 sample_engine sample_kernel = (None, eng', k')"
    using std_apply [OF sample_engine_ok, of ?c "[]" "[]" 1] by (metis list.size(3) prod.collapse)
  have ok: "compiled_ok ?c [] []" by (simp add: compiled_ok_def)
  have "rk_governed_binding sample_env (view bpf_std k') (current_cgroup_id sample_env) = Some (7, \<lparr>b_profile = 0\<rparr>)"
    using bpf_std.applied_contents(6) [OF sample_engine_ok ok res refl]
    by (simp add: view_maps rk_governed_binding_def sample_kernel_def sample_maps_def sample_env_def)
  from retired_profile_fails_closed [OF bpf_std.lpm_trie_axioms sample_engine_ok ok res this] res show ?thesis by simp
qed

end
