(* ===== verification/Spec2Isabelle.thy ===== *)
theory Spec2Isabelle
  imports Rk_Object Rk_Selftest Kernel_Mem Policy_Enforce
begin

text \<open>
  \<^bold>\<open>A verification library for the Reality Kernel enforcement programs.\<close>

  \<^bold>\<open>The program.\<close>  Reality Kernel confines agent workloads with eBPF programs.  The sensor daemon writes
  policy into BPF maps; the programs, attached to cgroup socket-address hooks, LSM hooks and one
  tracepoint, decide each network, exec, file and tampering action of a governed task from those maps
  alone, count the decision, and report it on a ring buffer that the sensor decodes.

  \<^bold>\<open>Theories, in the order of the code.\<close>
  \<^item> \<open>Rk_Prelude\<close>: little-endian bytes, byte areas, word facts; the collections \<open>byte_simps\<close> and \<open>pod_simps\<close>.
  \<^item> \<open>C_Layout\<close>: the C layout rules of the two 64-bit targets as functions on a datatype of C types.
  \<^item> \<open>Rk_Abi\<close> (\<open>rk-bpf/include/rk_abi.h\<close>): constants, structs as records, layouts, static assertions, and the
    byte encodings of the wire structs, each an interpretation of the locale \<open>pod\<close>.
  \<^item> \<open>Kernel_X86\<close>, \<open>Kernel_Arm64\<close> (the two \<open>vmlinux.h\<close>): every kernel struct a program dereferences with all it
    contains, and its size and alignment.
  \<^item> \<open>Kernel_Env\<close>: the kernel objects a program reads and the helpers it calls, as parameters of one run.
    \<open>Kernel_Mem\<close> builds those objects from raw memory by the layouts of either target.
  \<^item> \<open>Rk_Common\<close> (\<open>common.bpf.h\<close>): maps and CPU state as records; governance, heartbeat, verdicts, counters,
    scratch buffer, appends and \<open>rk_emit\<close>, one definition per C function.
  \<^item> \<open>Rk_Contract\<close>: what a program promises.  \<open>decision\<close> is one decision with its event, \<open>settle\<close> its effect
    on an abstract CPU that forgets the scratch bytes; the locales \<open>rk_emitter\<close>, \<open>decision_hook\<close> and
    \<open>quiet_hook\<close> are the contracts, with the lemmas every program inherits.
  \<^item> \<open>Rk_Net\<close>, \<open>Rk_Exec\<close>, \<open>Rk_File\<close>, \<open>Rk_Guard\<close> (\<open>net.bpf.c\<close>, \<open>exec.bpf.c\<close>, \<open>file.bpf.c\<close>, \<open>guard.bpf.c\<close>): the 28 programs,
    each with its specification and an interpretation of the contract; \<open>Rk_Selftest\<close> (\<open>rk_selftest.bpf.c\<close>,
    \<open>rk_probes.bpf.c\<close>) the test programs.
  \<^item> \<open>Rk_Governance\<close>: which cgroup and profile govern a task.  \<open>Decoder\<close> (\<open>rk-sensor/src/decoder.rs\<close>): the
    sensor's record decoder, string iterator and statistics.
  \<^item> \<open>Rk_Object\<close> (\<open>rk.bpf.c\<close>): all programs behind one dispatcher \<open>run_hook\<close>, the contract interpreted for every
    call at once, policies that agree on the active slot, and the step relation \<open>rk_step\<close>.
  \<^item> \<open>Rk_Sample\<close>: a small concrete kernel, policy and CPU state for the witnesses.

  \<^bold>\<open>State and operations.\<close>  A run is a function of the environment \<open>kenv\<close>, the policy maps \<open>rk_maps\<close> and the CPU
  state \<open>rk_cpu\<close>, and returns the C return value and the new CPU state.  C integers are words of their
  width, \<open>int\<close> a 32-bit word, pointers 64-bit words.  Helper results that the code can observe are members
  of \<open>kenv\<close>; \<open>probe_ok\<close> states the documented bounds of the two copying helpers.  Preprocessor variants are
  members too (\<open>force_emit_fail\<close>).

  \<^bold>\<open>What is shown.\<close>  This theory holds the properties of every program: the verdict is the specified one, never
  depends on telemetry, fails closed on a stale heartbeat and on an unwritten profile, never blocks in
  AUDIT or outside governance; decisions are counted exactly and events are delivered or counted as lost;
  delivered records decode to the decisions, from any interleaving; a policy staged in the inactive slot is
  invisible; appends stay inside the message; and the kernel members are read at the right bytes on both
  targets.  The component theories characterise each domain: the network verdict, the exec and file
  checks, the rename rule, the depth limit, the guard, governance by the nearest bound ancestor, the
  overflow-free heartbeat, and the decoder as the exact inverse of the encoding.

  \<^bold>\<open>Bounds.\<close>  The loops of the code are bounded by constants (16 cgroup levels, 8 ranges, 32 ancestors), and
  recurse structurally on the iterations left; no fuel is needed.

  \<^bold>\<open>Not modelled.\<close>  Kernel code: longest-prefix lookup is a function from the full key to a rule, LRU eviction and
  ring-buffer acceptance are parameters, and concurrent runs on other CPUs appear only through arbitrary
  policy updates between steps.  Of \<open>vmlinux.h\<close> only the types that are read through.  The policy compiler,
  the rest of the sensor, the agent daemon, the CLI, the audit log and the NRI plugin are userspace code
  outside the decision path.
\<close>

section \<open>Properties of every program\<close>

text \<open>
  C6: programs never touch what is not governed: for a task whose cgroup and bound ancestors give no
  binding, every decision program allows and leaves counters, buffers, ring and pending decisions as
  they were.
\<close>

theorem ungoverned_untouched:
  assumes "rk_governance e m = None"
  shows "run_hook c 0 e m s = (allowed c, s)"
  using assms by (rule hook.ungoverned)

theorem ungoverned_untouched_witness:
  "run_hook (FileOpen 0x40) 0 (sample_env\<lparr>current_cgroup_id := 8\<rparr>) (sample_maps 1 900) sample_cpu = (0, sample_cpu)"
  using ungoverned_untouched [of "sample_env\<lparr>current_cgroup_id := 8\<rparr>" "sample_maps 1 900" "FileOpen 0x40" sample_cpu]
  by (simp add: allowed_def rk_governance_def rk_governed_binding_def sample_maps_def)

text \<open>
  C4: telemetry never changes a verdict: two runs of a program on the same policy maps, the same kernel
  objects, cgroup and clock return the same value, whatever the CPU's counters, scratch buffer and ring
  hold, whether string copies fault, the ring buffer is full, or every emission is made to fail.
\<close>

theorem verdict_ignores_telemetry:
  assumes "same_inputs e e'"
  shows "fst (run_hook c 0 e m s) = fst (run_hook c 0 e' m s')"
  using assms by (rule hook.independent)

theorem verdict_ignores_telemetry_witness:
  "fst (run_hook (ExecCheck 0x60) 0 sample_env (sample_maps 1 900) sample_cpu) =
   fst (run_hook (ExecCheck 0x60) 0 (sample_env\<lparr>force_emit_fail := True, ringbuf_accepts := \<lambda>_ _. False\<rparr>) (sample_maps 1 900)
     (sample_cpu\<lparr>scratch_map := None\<rparr>))"
  by (rule verdict_ignores_telemetry) (simp add: same_inputs_def)

text \<open>
  C5: a dead sensor fails closed: when the heartbeat is stale, every program that has a decision to take
  for a task governed in ENFORCE mode denies, whatever the rules say.
\<close>

theorem stale_heartbeat_denies:
  assumes "rk_governance e m = Some g" "g_mode g = RK_MODE_ENFORCE" "rk_heartbeat_stale e m" "hook_decisions c e m g \<noteq> []"
  shows "fst (run_hook c 0 e m s) = denied c"
  using assms(1,2) _ assms(4) by (rule hook.stale) (simp add: governance_stale [OF assms(1,2)] assms(3))

theorem stale_heartbeat_denies_witness:
  "fst (run_hook (FileOpen 0x40) 0 sample_env (sample_maps 1 100) sample_cpu) = - 1"
proof -
  have h: "rk_heartbeat_stale sample_env (sample_maps 1 100)"
    by (simp add: rk_heartbeat_stale_def sample_maps_def sample_env_def Let_def)
  show ?thesis
    using stale_heartbeat_denies [OF sample_governance(2) _ h, of "FileOpen 0x40" sample_cpu]
    by (simp add: denied_def sample_gov_def open_req_def open_access_def sample_env_def sample_heap_def rd_file_def Let_def)
qed

text \<open>C7: AUDIT never blocks: outside ENFORCE mode every program allows.\<close>

theorem audit_never_blocks:
  assumes "rk_governance e m = Some g" "g_mode g \<noteq> RK_MODE_ENFORCE"
  shows "fst (run_hook c 0 e m s) = allowed c"
  using assms by (rule hook.audit)

theorem audit_never_blocks_witness:
  "fst (run_hook (GuardBpf 5) 0 sample_env (sample_maps 0 100) sample_cpu) = 0"
proof -
  have "\<exists>g. rk_governance sample_env (sample_maps 0 100) = Some g \<and> g_mode g = 0"
    by (simp add: rk_governance_def rk_governed_binding_def sample_env_def sample_maps_def active_slot_def sample_profile_def
        gov_of_profile_def Let_def)
  then show ?thesis using audit_never_blocks [of sample_env "sample_maps 0 100" _ "GuardBpf 5" sample_cpu] by (auto simp: allowed_def)
qed


text \<open>
  C9: decisions are counted exactly: a run for a governed task adds to each decision counter the number
  of decisions it took with that hook class and reported verdict, whether or not their events got out.
\<close>

theorem decisions_counted:
  assumes "rk_governance e m = Some g" "wf_cpu s" "probe_ok e"
    and "RK_CNT_DECISION_BASE \<le> i" "i < RK_CNT_MAX"
  shows "the (rk_counters (snd (run_hook c 0 e m s)) i) =
    the (rk_counters s i) + of_nat (length (filter (\<lambda>d. decision_index g d = i) (executed g (hook_decisions c e m g))))"
  using hook.counts(1) [OF assms(1-3)] assms(4,5) .

theorem decisions_counted_witness:
  "the (rk_counters (snd (run_hook TunOpen 0 sample_env (sample_maps 1 900) sample_cpu)) 27) = 1"
proof -
  have i: "(27 :: u32) \<ge> 2" "(27 :: u32) < 29" by simp_all
  have "executed (sample_gov 1 False) (hook_decisions TunOpen sample_env (sample_maps 1 900) (sample_gov 1 False)) = [tun_decision 2 (sample_gov 1 False)]"
    by simp
  moreover have "decision_index (sample_gov 1 False) (tun_decision 2 (sample_gov 1 False)) = 27"
    by (simp add: decision_index_def tun_decision_def raw_action_def sample_gov_def rk_reported_verdict_def rk_effective_deny_def)
  moreover have "the (rk_counters sample_cpu 27) = 0" by (simp add: sample_cpu_def)
  ultimately show ?thesis
    using decisions_counted [OF sample_governance(1) sample_wf_cpu sample_probe_ok i, of TunOpen] by simp
qed

text \<open>
  C8: nothing is lost silently: over a run for a governed task, the records in the ring buffer plus the
  two loss counters grow by exactly the number of decisions that are reported.
\<close>

theorem events_accounted:
  assumes "rk_governance e m = Some g" "wf_cpu s" "probe_ok e"
  shows "of_nat (length (events_ringbuf (snd (run_hook c 0 e m s)))) + lost (snd (run_hook c 0 e m s))
    = of_nat (length (events_ringbuf s)) + lost s + of_nat (reported g (hook_decisions c e m g))"
  using assms by (rule hook.counts)

theorem events_accounted_witness:
  "of_nat (length (events_ringbuf (snd (run_hook TunOpen 0 (sample_env\<lparr>ringbuf_accepts := \<lambda>_ _. False\<rparr>) (sample_maps 1 900) sample_cpu))))
    + lost (snd (run_hook TunOpen 0 (sample_env\<lparr>ringbuf_accepts := \<lambda>_ _. False\<rparr>) (sample_maps 1 900) sample_cpu)) = 1"
proof -
  let ?e = "sample_env\<lparr>ringbuf_accepts := \<lambda>_ _. False\<rparr>"
  have s: "same_inputs ?e sample_env" by (simp add: same_inputs_def)
  have g: "rk_governance ?e (sample_maps 1 900) = Some (sample_gov 1 False)"
    unfolding same_inputs_governance [OF s] by (rule sample_governance)
  have p: "probe_ok ?e" using sample_probe_ok by (simp add: probe_ok_def)
  have "reported (sample_gov 1 False) (hook_decisions TunOpen ?e (sample_maps 1 900) (sample_gov 1 False)) = 1"
    by (simp add: reported_def tun_decision_def)
  moreover have "lost sample_cpu = 0" "events_ringbuf sample_cpu = []" by (simp_all add: lost_def sample_cpu_def)
  ultimately show ?thesis using events_accounted [OF g sample_wf_cpu p, of TunOpen] by simp
qed



section \<open>What a program depends on\<close>

text \<open>
  C18: staging is invisible: policies that agree on the bindings, the configuration and the active slot's
  profiles and rules make every program behave identically, state included, whatever the inactive slot
  holds.  A new generation written there has no effect until the slot is flipped.
\<close>

theorem staging_invisible:
  assumes "same_active m m'"
  shows "run_hook c ret e m s = run_hook c ret e m' s \<and> rk_exec_record e m p old_pid bprm s = rk_exec_record e m' p old_pid bprm s"
  using assms by (rule same_active_runs)

theorem staging_invisible_witness:
  "let m = sample_maps 1 900;
       m' = m\<lparr>rk_profiles := (rk_profiles m)(1024 \<mapsto> sample_profile 0),
              rk_file_protect := (rk_file_protect m)
                (\<lparr>fk_scope = 0x80000000, fk_pad = 0, fk_dev = 8, fk_ino = 100\<rparr> \<mapsto> \<lparr>fr_rule_id = 9, fr_deny_mask = 511, fr_flags = 1\<rparr>)\<rparr>
   in run_hook (FileOpen 0x40) 0 sample_env m sample_cpu = run_hook (FileOpen 0x40) 0 sample_env m' sample_cpu"
proof -
  let ?m = "sample_maps 1 900"
  let ?m' = "?m\<lparr>rk_profiles := (rk_profiles ?m)(1024 \<mapsto> sample_profile 0), rk_file_protect := (rk_file_protect ?m)
      (\<lparr>fk_scope = 0x80000000, fk_pad = 0, fk_dev = 8, fk_ino = 100\<rparr> \<mapsto> \<lparr>fr_rule_id = 9, fr_deny_mask = 511, fr_flags = 1\<rparr>)\<rparr>"
  have slot: "active_slot ?m = 0" by (simp add: active_slot_def sample_maps_def)
  have "same_rules sc ?m ?m'" if "sc \<noteq> 0x80000000" for sc
    using that by (auto simp: same_rules_def)
  then have "same_active ?m ?m'"
    by (auto simp: same_active_def slot rk_scope_def word_less_nat_alt word_unat_eq_iff)
  from staging_invisible [OF this, of "FileOpen 0x40" 0 sample_env sample_cpu] show ?thesis by (simp add: Let_def)
qed

text \<open>
  An earlier refusal stands: an LSM program called with another module's error returns that error
  unchanged and does nothing.
\<close>

theorem earlier_error_kept:
  assumes "sees_ret c" "ret \<noteq> 0"
  shows "run_hook c ret e m s = (ret, s)"
  using assms by (subst run_hook_ret) simp

theorem earlier_error_kept_witness:
  "run_hook (FileUnlink 1 2) (- 13) sample_env (sample_maps 1 100) sample_cpu = (- 13, sample_cpu)"
  by (rule earlier_error_kept) simp_all

text \<open>
  C28: the exec decision of a thread stays pending across everything other threads do: no program run by
  another thread changes it, unless the kernel's LRU map evicts the entry.
\<close>

theorem pending_decision_kept:
  assumes "lru_keeps e k" "k \<noteq> ucast (current_pid_tgid e)" "k \<noteq> old_pid"
  shows "rk_exec_decided (snd (run_hook c 0 e m s)) k = rk_exec_decided s k \<and>
    rk_exec_decided (snd (rk_exec_record e m p old_pid bprm s)) k = rk_exec_decided s k"
proof -
  have "rk_exec_decided (snd (run_hook c 0 e m s)) k = rk_exec_decided s k"
    using assms by (cases c) (simp_all only: run_hook.simps hook_frames exec_check_other [OF assms(1,2)])
  moreover have "rk_exec_decided (snd (rk_exec_record e m p old_pid bprm s)) k = rk_exec_decided s k"
    using assms(3) by (rule exec_record_other)
  ultimately show ?thesis by blast
qed

theorem pending_decision_kept_witness:
  "rk_exec_decided (snd (run_hook (ExecCheck 0x60) 0 sample_env (sample_maps 1 900)
     (sample_cpu\<lparr>rk_exec_decided := [77 \<mapsto> \<lparr>xd_policy_gen = 3, xd_rule_id = 4\<rparr>]\<rparr>))) 77 = Some \<lparr>xd_policy_gen = 3, xd_rule_id = 4\<rparr>"
  using pending_decision_kept [of sample_env 77 0 "ExecCheck 0x60" "sample_maps 1 900"
      "sample_cpu\<lparr>rk_exec_decided := [77 \<mapsto> \<lparr>xd_policy_gen = 3, xd_rule_id = 4\<rparr>]\<rparr>"]
  by (simp add: sample_env_def)



section \<open>From the kernel to the sensor\<close>

text \<open>
  An append never leaves the message: from any payload length up to the maximum, appending a kernel
  string or a block of user memory writes only inside the payload, keeps the slack bytes and the
  declared length within bounds, and adds exactly one length-prefixed string, cut to the room left,
  or nothing when there is no room for one.
\<close>

theorem appends_bounded:
  assumes "wf_scratch b" "msg_payload_len b \<le> RK_SCRATCH_PAYLOAD_MAX" "probe_ok e"
  shows "let k = rk_append_kstr e src n b; u = snd (rk_append_ublob e src want b) in
    wf_scratch k \<and> msg_slack k = msg_slack b \<and> msg_payload_len k \<le> RK_SCRATCH_PAYLOAD_MAX \<and>
    msg_content k = msg_content b @ (if msg_payload_len b \<le> 2045
      then wire_str (kstr_text e src (str_cap (msg_payload_len b) n)) else []) \<and>
    wf_scratch u \<and> msg_slack u = msg_slack b \<and> msg_payload_len u \<le> RK_SCRATCH_PAYLOAD_MAX \<and>
    msg_content u = msg_content b @ (if msg_payload_len b \<le> 2045
      then wire_str (ublob_text e src (blob_cap (msg_payload_len b) want)) else [])"
proof (cases "msg_payload_len b \<le> 2045")
  case True
  then have f: "fits b" using assms(1) by (simp add: fits_def)
  show ?thesis
    unfolding Let_def word_le_nat_alt
    using True rk_append_kstr_content [OF f assms(3), of src n] rk_append_ublob_content [OF f assms(3), of src want]
    by (simp add: word_le_nat_alt)
next
  case False
  then have "rk_append_kstr e src n b = b" "snd (rk_append_ublob e src want b) = b"
    by (simp_all add: rk_append_kstr_def rk_append_ublob_def Let_def)
  then show ?thesis using False assms(1,2) by simp
qed

theorem appends_bounded_witness:
  "wf_scratch (rk_append_kstr sample_env 9 256 (sample_buf\<lparr>msg_payload_len := 2044\<rparr>)) \<and>
   msg_payload_len (snd (rk_append_ublob sample_env 9 4096 (sample_buf\<lparr>msg_payload_len := 2047\<rparr>))) \<le> 2048"
proof
  have wf: "wf_scratch (sample_buf\<lparr>msg_payload_len := x\<rparr>)" for x by (simp add: wf_scratch_def sample_buf_def)
  show "wf_scratch (rk_append_kstr sample_env 9 256 (sample_buf\<lparr>msg_payload_len := 2044\<rparr>))"
    using appends_bounded [OF wf _ sample_probe_ok, of 2044 9 256] unfolding Let_def by simp
  show "msg_payload_len (snd (rk_append_ublob sample_env 9 4096 (sample_buf\<lparr>msg_payload_len := 2047\<rparr>))) \<le> 2048"
    using appends_bounded [OF wf _ sample_probe_ok, of 2047 9 _ 4096] unfolding Let_def by simp
qed

text \<open>
  C11: every record in the ring buffer decodes: starting from an empty ring, after any interleaving of
  program runs, policy updates and consumption, the sensor's decoder accepts each record that is there.
\<close>

theorem reachable_records_decode:
  assumes "rk_step\<^sup>*\<^sup>* (m0, s0) (m, s)" "wf_cpu s0" "events_ringbuf s0 = []"
  shows "list_all (\<lambda>r. \<exists>ev. decode (fst r) = Inr ev) (events_ringbuf s)"
proof -
  have "cpu_inv (snd (m0, s0))" using assms(2,3) by (simp add: cpu_inv_def)
  with assms(1) have "cpu_inv (snd (m, s))" by (induction rule: rtranclp_induct) (auto dest: rk_step_inv)
  then show ?thesis using record_ok_decodes by (auto simp: cpu_inv_def list_all_iff)
qed

theorem reachable_records_decode_witness:
  "let s = snd (run_hook TunOpen 0 sample_env (sample_maps 1 900) sample_cpu)
   in rk_step\<^sup>*\<^sup>* (sample_maps 1 900, sample_cpu) (sample_maps 1 900, s) \<and>
      list_all (\<lambda>r. \<exists>ev. decode (fst r) = Inr ev) (events_ringbuf s)"
proof -
  have st: "rk_step\<^sup>*\<^sup>* (sample_maps 1 900, sample_cpu) (sample_maps 1 900, snd (run_hook TunOpen 0 sample_env (sample_maps 1 900) sample_cpu))"
    by (rule r_into_rtranclp, rule step_hook) simp
  show ?thesis using st reachable_records_decode [OF st] by (simp add: Let_def) (simp add: sample_cpu_def)
qed

text \<open>
  C10: what the kernel decided is what the sensor reads: when nothing is lost, the records a run appends
  decode, one by one and in order, to the reported decisions: their cgroup, policy generation, verdict
  and rule in the header, and the address, file, program or target in the payload.
\<close>

theorem decoder_sees_decisions:
  assumes "rk_governance e m = Some g" "wf_cpu s" "probe_ok e" "delivers e s"
  shows "\<exists>rs. events_ringbuf (snd (run_hook c 0 e m s)) = events_ringbuf s @ rs \<and>
    list_all2 (\<lambda>r d. \<exists>n. decode (fst r) = Inr \<lparr>ev_hdr = decision_hdr e g d n, ev_payload = payload_of (the (d_event d))\<rparr>)
      rs (filter (\<lambda>d. d_event d \<noteq> None) (executed g (hook_decisions c e m g)))"
proof -
  obtain rs where rs: "events_ringbuf (snd (run_hook c 0 e m s)) = events_ringbuf s @ rs"
    "list_all2 (record_of e g) rs (filter (\<lambda>d. d_event d \<noteq> None) (executed g (hook_decisions c e m g)))"
    using hook.delivered [OF assms] by blast
  have "\<exists>n. decode (fst r) = Inr \<lparr>ev_hdr = decision_hdr e g d n, ev_payload = payload_of (the (d_event d))\<rparr>"
    if rec: "record_of e g r d" and mem: "d \<in> set (filter (\<lambda>d. d_event d \<noteq> None) (executed g (hook_decisions c e m g)))" for r d
  proof -
    obtain ev where ev: "d_event d = Some ev" using mem by auto
    obtain n where n: "fst r = wire_record (decision_hdr e g d n) (enc_event ev)"
      using rec unfolding record_of_def ev option.sel by blast
    have "wf_decision d"
      using mem hook.wf_decisions [OF assms(3), of c m g] executed_sub [of g] unfolding list_all_iff by auto
    then show ?thesis unfolding n ev option.sel using decode_event [OF wf_decision_event [OF _ ev]] by blast
  qed
  then have "list_all2 (\<lambda>r d. \<exists>n. decode (fst r) = Inr \<lparr>ev_hdr = decision_hdr e g d n, ev_payload = payload_of (the (d_event d))\<rparr>)
      rs (filter (\<lambda>d. d_event d \<noteq> None) (executed g (hook_decisions c e m g)))"
    by (rule list.rel_mono_strong [OF rs(2)])
  then show ?thesis using rs(1) by blast
qed

theorem decoder_sees_decisions_witness:
  "\<exists>n. map (decode \<circ> fst) (events_ringbuf (snd (run_hook TunOpen 0 sample_env (sample_maps 1 900) sample_cpu))) =
     [Inr \<lparr>ev_hdr = decision_hdr sample_env (sample_gov 1 False) (tun_decision 2 (sample_gov 1 False)) n,
           ev_payload = Tun \<lparr>pt_op = 2, pt_pad = 0\<rparr>\<rparr>]"
proof -
  have d: "delivers sample_env sample_cpu" by (simp add: delivers_def sample_env_def sample_cpu_def)
  have r: "events_ringbuf sample_cpu = []" by (simp add: sample_cpu_def)
  have ev: "d_event (tun_decision 2 (sample_gov 1 False)) = Some (TunEvent \<lparr>pt_op = 2, pt_pad = 0\<rparr>)"
    by (simp add: tun_decision_def)
  have ds: "filter (\<lambda>d. d_event d \<noteq> None) (executed (sample_gov 1 False)
      (hook_decisions TunOpen sample_env (sample_maps 1 900) (sample_gov 1 False))) = [tun_decision 2 (sample_gov 1 False)]"
    by (simp add: ev)
  obtain rs where rs: "events_ringbuf (snd (run_hook TunOpen 0 sample_env (sample_maps 1 900) sample_cpu)) = rs"
    "list_all2 (\<lambda>r d. \<exists>n. decode (fst r) = Inr \<lparr>ev_hdr = decision_hdr sample_env (sample_gov 1 False) d n,
        ev_payload = payload_of (the (d_event d))\<rparr>) rs [tun_decision 2 (sample_gov 1 False)]"
    using decoder_sees_decisions [OF sample_governance(1) sample_wf_cpu sample_probe_ok d, of TunOpen, unfolded ds]
    unfolding r append_Nil by blast
  then show ?thesis by (auto simp only: list_all2_Cons2 ev list.rel_distinct list_all2_Nil2 list.map o_apply option.sel payload_of.simps)
qed

section \<open>Raw kernel memory\<close>


text \<open>
  The programs behave identically on both targets: if an x86-64 and an arm64 memory hold live
  objects with the same member values, each at its target's own offsets, every program returns the
  same value and leaves the same state.
\<close>

theorem targets_agree:
  assumes "\<forall>(s', path, w) \<in> set core_fields. \<forall>p. objs s' p \<longrightarrow>
    core_read x86_types mem s' path p = core_read a64_types mem' s' path p"
  shows "run_hook c ret (e\<lparr>heap := kernel_heap x86_types objs mem\<rparr>) m s =
         run_hook c ret (e\<lparr>heap := kernel_heap a64_types objs mem'\<rparr>) m s \<and>
         rk_exec_record (e\<lparr>heap := kernel_heap x86_types objs mem\<rparr>) m p old_pid bprm s =
         rk_exec_record (e\<lparr>heap := kernel_heap a64_types objs mem'\<rparr>) m p old_pid bprm s"
proof -
  have "kernel_heap x86_types objs mem = kernel_heap a64_types objs mem'"
    using assms by (intro kernel_heap_eqI) blast
  then show ?thesis by simp
qed

theorem targets_agree_witness:
  "run_hook (GuardTaskKill 4096 9) 0 (sample_env\<lparr>heap := kernel_heap x86_types sample_task (sample_mem 1028)\<rparr>) (sample_maps 1 900) sample_cpu
   = run_hook (GuardTaskKill 4096 9) 0 (sample_env\<lparr>heap := kernel_heap a64_types sample_task (sample_mem 1084)\<rparr>) (sample_maps 1 900) sample_cpu"
  by (rule conjunct1 [OF targets_agree])
    (simp add: sample_task_def core_fields_def core_read_def core_offset_def x86_types_def a64_types_def
      x86_field_offsets a64_field_offsets probe_read_def sample_mem_def Let_def upt_4_8)



text \<open>
  The guard recognises the sensor by the right bytes: with live task objects, a task is taken for
  the sensor exactly when the configured target is set, the four bytes of its \<open>tgid\<close> match and its
  group leader's start time, in clock ticks, matches, each read at the target's own offset.
\<close>

theorem sensor_bytes:
  assumes "objs ''task_struct'' p" "objs ''task_struct'' (probe_read mem (p + 1080) 8)"
    and "objs ''task_struct'' (probe_read mem (p + 1136) 8)"
  shows "(rk_is_sensor (kernel_heap x86_types objs mem) m p \<longleftrightarrow>
      (\<exists>t. rk_guard_map m 0 = Some t \<and> gt_tgid t \<noteq> 0 \<and> ucast (probe_read mem (p + 1028) 4) = gt_tgid t \<and>
           probe_read mem (probe_read mem (p + 1080) 8 + 1312) 8 div 10000000 = gt_start_ticks t)) \<and>
     (rk_is_sensor (kernel_heap a64_types objs mem) m p \<longleftrightarrow>
      (\<exists>t. rk_guard_map m 0 = Some t \<and> gt_tgid t \<noteq> 0 \<and> ucast (probe_read mem (p + 1084) 4) = gt_tgid t \<and>
           probe_read mem (probe_read mem (p + 1136) 8 + 1368) 8 div 10000000 = gt_start_ticks t))"
proof
  show "rk_is_sensor (kernel_heap x86_types objs mem) m p \<longleftrightarrow>
      (\<exists>t. rk_guard_map m 0 = Some t \<and> gt_tgid t \<noteq> 0 \<and> ucast (probe_read mem (p + 1028) 4) = gt_tgid t \<and>
           probe_read mem (probe_read mem (p + 1080) 8 + 1312) 8 div 10000000 = gt_start_ticks t)"
    using assms by (cases "rk_guard_map m 0") (simp_all add: rk_is_sensor_def rd_task_x86)
  show "rk_is_sensor (kernel_heap a64_types objs mem) m p \<longleftrightarrow>
      (\<exists>t. rk_guard_map m 0 = Some t \<and> gt_tgid t \<noteq> 0 \<and> ucast (probe_read mem (p + 1084) 4) = gt_tgid t \<and>
           probe_read mem (probe_read mem (p + 1136) 8 + 1368) 8 div 10000000 = gt_start_ticks t)"
    using assms by (cases "rk_guard_map m 0") (simp_all add: rk_is_sensor_def rd_task_a64)
qed

theorem sensor_bytes_witness:
  "let m = (sample_maps 1 900)\<lparr>rk_guard_map := [0 \<mapsto> \<lparr>gt_tgid = 7, gt_start_ticks = 0\<rparr>]\<rparr>
   in rk_is_sensor (kernel_heap x86_types (\<lambda>_ _. True) (sample_mem 1028)) m 4096 \<and>
      \<not> rk_is_sensor (kernel_heap a64_types (\<lambda>_ _. True) (sample_mem 1028)) m 4096"
  using sensor_bytes [of "\<lambda>_ _. True" 4096 "sample_mem 1028"
      "(sample_maps 1 900)\<lparr>rk_guard_map := [0 \<mapsto> \<lparr>gt_tgid = 7, gt_start_ticks = 0\<rparr>]\<rparr>"]
  by (simp add: sample_mem_reads Let_def)

end
